(* ===== verification/Prelude.thy ===== *)
theory Prelude
  imports Main "HOL-Library.Char_ord" "HOL-Library.List_Lexorder" "HOL-Library.Product_Lexorder"
begin

text \<open>
  Shared vocabulary of the development: Python exceptions as values, Python strings, Python
  dictionaries (insertion-ordered association lists) and the lemma collections the component
  theories use.  Text is modelled as \<^typ>\<open>string\<close>, the UTF-8 bytes of the Python string; case
  folding and trimming act on the ASCII range, which is where every literal of the modelled code
  lies.
\<close>

named_theorems py_string \<open>facts about the Python string operations\<close>
named_theorems py_dict \<open>facts about the Python dictionary operations\<close>

section \<open>Exceptions as values\<close>

datatype pyexc =
    ZeroDivisionError
  | OverflowError
  | TypeError
  | KeyError string
  | ValueError string
  | ContractError string
  | AttributeError string
  | RuntimeError string
  | IndexError

type_synonym 'a result = "pyexc + 'a"

fun bindE :: "'a result \<Rightarrow> ('a \<Rightarrow> 'b result) \<Rightarrow> 'b result" where
  "bindE (Inl e) f = Inl e"
| "bindE (Inr x) f = f x"

lemma bindE_Inr_iff: "bindE m f = Inr y \<longleftrightarrow> (\<exists>x. m = Inr x \<and> f x = Inr y)"
  by (cases m) auto

lemma bindE_Inl_iff: "bindE m f = Inl e \<longleftrightarrow> m = Inl e \<or> (\<exists>x. m = Inr x \<and> f x = Inl e)"
  by (cases m) auto

lemma bindE_cong [fundef_cong]:
  "m = m' \<Longrightarrow> (\<And>x. m' = Inr x \<Longrightarrow> f x = f' x) \<Longrightarrow> bindE m f = bindE m' f'"
  by (cases m') auto

text \<open>List comprehensions and loops whose body may raise, with and without a threaded state.\<close>

fun mapE :: "('a \<Rightarrow> 'b result) \<Rightarrow> 'a list \<Rightarrow> 'b list result" where
  "mapE f [] = Inr []"
| "mapE f (x # xs) = bindE (f x) (\<lambda>y. bindE (mapE f xs) (\<lambda>ys. Inr (y # ys)))"

fun foldE :: "('a \<Rightarrow> 's \<Rightarrow> 's result) \<Rightarrow> 'a list \<Rightarrow> 's \<Rightarrow> 's result" where
  "foldE f [] s = Inr s"
| "foldE f (x # xs) s = bindE (f x s) (foldE f xs)"

lemma mapE_Inr_iff: "mapE f xs = Inr ys \<longleftrightarrow> list_all2 (\<lambda>x y. f x = Inr y) xs ys"
proof (induction xs arbitrary: ys)
  case Nil
  then show ?case by (cases ys) auto
next
  case (Cons x xs)
  then show ?case by (cases ys) (auto simp: bindE_Inr_iff)
qed

lemma mapE_total:
  assumes "\<And>x. \<exists>y. f x = Inr y"
  shows "\<exists>ys. mapE f xs = Inr ys"
proof (induction xs)
  case (Cons x xs)
  then show ?case using assms[of x] by auto
qed simp

lemma foldE_invariant:
  assumes "foldE f xs s = Inr s'" and "P s"
    and "\<And>x a b. x \<in> set xs \<Longrightarrow> P a \<Longrightarrow> f x a = Inr b \<Longrightarrow> P b"
  shows "P s'"
  using assms
proof (induction xs arbitrary: s)
  case (Cons x xs)
  obtain t where t: "f x s = Inr t" "foldE f xs t = Inr s'"
    using Cons.prems(1) by (auto simp: bindE_Inr_iff)
  show ?case
    by (rule Cons.IH[OF t(2) Cons.prems(3)[OF _ Cons.prems(2) t(1)]]) (use Cons.prems(3) in auto)
qed simp

section \<open>Strings\<close>

definition lower_char :: "char \<Rightarrow> char" where
  "lower_char c = (let n = (of_char c :: int) in if 65 \<le> n \<and> n \<le> 90 then char_of (n + 32) else c)"

definition upper_char :: "char \<Rightarrow> char" where
  "upper_char c = (let n = (of_char c :: int) in if 97 \<le> n \<and> n \<le> 122 then char_of (n - 32) else c)"

definition lower :: "string \<Rightarrow> string" where
  "lower s = map lower_char s"

definition upper :: "string \<Rightarrow> string" where
  "upper s = map upper_char s"

definition is_space :: "char \<Rightarrow> bool" where
  "is_space c = (let n = (of_char c :: int) in (9 \<le> n \<and> n \<le> 13) \<or> (28 \<le> n \<and> n \<le> 32))"

definition lstrip :: "string \<Rightarrow> string" where
  "lstrip s = dropWhile is_space s"

definition strip :: "string \<Rightarrow> string" where
  "strip s = rev (dropWhile is_space (rev (lstrip s)))"

fun startswith :: "string \<Rightarrow> string \<Rightarrow> bool" where
  "startswith s [] = True"
| "startswith [] (p # ps) = False"
| "startswith (c # s) (p # ps) = (c = p \<and> startswith s ps)"

definition endswith :: "string \<Rightarrow> string \<Rightarrow> bool" where
  "endswith s p = startswith (rev s) (rev p)"

fun contains :: "string \<Rightarrow> string \<Rightarrow> bool" where
  "contains [] p = (p = [])"
| "contains (c # s) p = (startswith (c # s) p \<or> contains s p)"

fun join :: "string \<Rightarrow> string list \<Rightarrow> string" where
  "join sep [] = []"
| "join sep [s] = s"
| "join sep (s # ss) = s @ sep @ join sep ss"

text \<open>\<open>s.split(c)\<close> for a one-character separator: always at least one part.\<close>

fun split_char :: "char \<Rightarrow> string \<Rightarrow> string list" where
  "split_char c [] = [[]]"
| "split_char c (x # s) =
     (if x = c then [] # split_char c s
      else (case split_char c s of p # ps \<Rightarrow> (x # p) # ps | [] \<Rightarrow> [[x]]))"

text \<open>\<open>s.replace(a, b)\<close> for one character replaced by one character.\<close>

definition replace_char :: "char \<Rightarrow> char \<Rightarrow> string \<Rightarrow> string" where
  "replace_char a b s = map (\<lambda>c. if c = a then b else c) s"

text \<open>\<open>s.split(c, 1)\<close> and \<open>s.rsplit(c, 1)\<close> for a text that holds the separator.\<close>

definition split_once :: "char \<Rightarrow> string \<Rightarrow> string \<times> string" where
  "split_once c s = (takeWhile (\<lambda>x. x \<noteq> c) s, drop 1 (dropWhile (\<lambda>x. x \<noteq> c) s))"

definition rsplit_once :: "char \<Rightarrow> string \<Rightarrow> string \<times> string" where
  "rsplit_once c s =
     (case split_once c (rev s) of (b, a) \<Rightarrow> (rev a, rev b))"

text \<open>\<open>s.replace(old, new)\<close>: non-overlapping occurrences from the left; \<open>old\<close> is not empty.
  The fuel is the length of the text, which every step shortens.\<close>

fun replace_fuel :: "nat \<Rightarrow> string \<Rightarrow> string \<Rightarrow> string \<Rightarrow> string" where
  "replace_fuel 0 old new s = s"
| "replace_fuel (Suc n) old new s =
     (case s of
        [] \<Rightarrow> []
      | c # r \<Rightarrow>
          if startswith s old then new @ replace_fuel n old new (drop (length old) s)
          else c # replace_fuel n old new r)"

definition replace_all :: "string \<Rightarrow> string \<Rightarrow> string \<Rightarrow> string" where
  "replace_all old new s = replace_fuel (length s) old new s"

text \<open>\<open>s[:-len(suffix)]\<close>.\<close>

definition drop_suffix :: "string \<Rightarrow> string \<Rightarrow> string" where
  "drop_suffix s suf = take (length s - length suf) s"

definition str_default :: "string \<Rightarrow> string \<Rightarrow> string" where
  "str_default s d = (if s = [] then d else s)"

lemma split_once_append [simp, py_string]: "c \<notin> set a \<Longrightarrow> split_once c (a @ c # b) = (a, b)"
  by (simp add: split_once_def takeWhile_append dropWhile_append)

lemma rsplit_once_append [simp, py_string]: "c \<notin> set b \<Longrightarrow> rsplit_once c (a @ c # b) = (a, b)"
  by (simp add: rsplit_once_def)

lemma replace_char_id [py_string]: "a \<notin> set s \<Longrightarrow> replace_char a b s = s"
  by (induction s) (auto simp: replace_char_def)

lemma startswith_append_iff: "startswith s p \<longleftrightarrow> (\<exists>r. s = p @ r)"
  by (induction s p rule: startswith.induct) auto

lemma endswith_append_iff: "endswith s p \<longleftrightarrow> (\<exists>r. s = r @ p)"
proof
  assume "endswith s p"
  then obtain r where "rev s = rev p @ r"
    unfolding endswith_def startswith_append_iff by blast
  then have "s = rev r @ p"
    by (metis rev_append rev_rev_ident)
  then show "\<exists>r. s = r @ p" by blast
next
  assume "\<exists>r. s = r @ p"
  then show "endswith s p"
    unfolding endswith_def startswith_append_iff by auto
qed

lemma lower_char_idem [simp]: "lower_char (lower_char c) = lower_char c"
  by (simp add: lower_char_def Let_def)

lemma lower_idem [simp, py_string]: "lower (lower s) = lower s"
  by (simp add: lower_def)

lemma is_space_lower_char [simp]: "is_space (lower_char c) = is_space c"
  by (auto simp: is_space_def lower_char_def Let_def)

lemma dropWhile_space_lower: "dropWhile is_space (map lower_char s) = map lower_char (dropWhile is_space s)"
  by (induction s) auto

lemma strip_lower [py_string]: "strip (lower s) = lower (strip s)"
  by (simp add: strip_def lstrip_def lower_def dropWhile_space_lower rev_map)

lemma dropWhile_idem_list: "dropWhile P (dropWhile P xs) = dropWhile P xs"
  by (induction xs) auto

lemma strip_idem [simp, py_string]: "strip (strip s) = strip s"
proof -
  define t where "t = dropWhile is_space s"
  define u where "u = rev (dropWhile is_space (rev t))"
  have "dropWhile is_space u = u"
  proof (cases u)
    case (Cons c u')
    have "\<exists>w. t = u @ w"
      unfolding u_def by (metis rev_append rev_rev_ident takeWhile_dropWhile_id)
    with Cons have "t \<noteq> []" "hd t = c" by auto
    moreover have "t \<noteq> [] \<Longrightarrow> \<not> is_space (hd t)"
      unfolding t_def by (rule hd_dropWhile)
    ultimately show ?thesis using Cons by simp
  qed simp
  then have "strip u = u"
    by (simp add: strip_def lstrip_def u_def dropWhile_idem_list)
  then show ?thesis
    by (simp add: strip_def lstrip_def u_def t_def)
qed

section \<open>Dictionaries\<close>

text \<open>
  A Python \<open>dict\<close> iterates in insertion order; storing at an existing key keeps its place.
\<close>

type_synonym ('k, 'v) dict = "('k \<times> 'v) list"

definition dget :: "('k, 'v) dict \<Rightarrow> 'k \<Rightarrow> 'v option" where
  "dget d k = map_of d k"

fun dset :: "('k, 'v) dict \<Rightarrow> 'k \<Rightarrow> 'v \<Rightarrow> ('k, 'v) dict" where
  "dset [] k v = [(k, v)]"
| "dset ((k', v') # d) k v = (if k' = k then (k, v) # d else (k', v') # dset d k v)"

definition dpop :: "('k, 'v) dict \<Rightarrow> 'k \<Rightarrow> ('k, 'v) dict" where
  "dpop d k = filter (\<lambda>p. fst p \<noteq> k) d"

definition dkeys :: "('k, 'v) dict \<Rightarrow> 'k list" where
  "dkeys d = map fst d"

definition dvals :: "('k, 'v) dict \<Rightarrow> 'v list" where
  "dvals d = map snd d"

definition dget_or :: "('k, 'v) dict \<Rightarrow> 'k \<Rightarrow> 'v \<Rightarrow> 'v" where
  "dget_or d k v = (case dget d k of None \<Rightarrow> v | Some x \<Rightarrow> x)"

text \<open>\<open>d.setdefault(k, v)\<close>.\<close>

definition dsetdefault :: "('k, 'v) dict \<Rightarrow> 'k \<Rightarrow> 'v \<Rightarrow> ('k, 'v) dict" where
  "dsetdefault d k v = (case dget d k of None \<Rightarrow> dset d k v | Some _ \<Rightarrow> d)"

text \<open>\<open>d.update(e)\<close>.\<close>

definition dupdate :: "('k, 'v) dict \<Rightarrow> ('k, 'v) dict \<Rightarrow> ('k, 'v) dict" where
  "dupdate d e = foldl (\<lambda>a p. dset a (fst p) (snd p)) d e"

abbreviation wf_dict :: "('k, 'v) dict \<Rightarrow> bool" where
  "wf_dict d \<equiv> distinct (dkeys d)"

lemma dget_Nil [simp, py_dict]: "dget [] k = None"
  by (simp add: dget_def)

lemma dget_Cons [py_dict]: "dget ((k, v) # d) k' = (if k' = k then Some v else dget d k')"
  by (simp add: dget_def)

lemma dget_dset [simp, py_dict]: "dget (dset d k v) = (dget d)(k \<mapsto> v)"
  by (induction d k v rule: dset.induct) (auto simp: dget_def fun_eq_iff)

lemma dget_dpop [simp, py_dict]: "dget (dpop d k) = (dget d)(k := None)"
  by (induction d) (auto simp: dget_def dpop_def fun_eq_iff)

lemma dkeys_dset [simp, py_dict]:
  "dkeys (dset d k v) = (if k \<in> set (dkeys d) then dkeys d else dkeys d @ [k])"
  by (induction d k v rule: dset.induct) (auto simp: dkeys_def)

lemma dkeys_dpop [simp, py_dict]: "dkeys (dpop d k) = filter (\<lambda>k'. k' \<noteq> k) (dkeys d)"
  by (induction d) (auto simp: dkeys_def dpop_def)

lemma dget_None_iff [py_dict]: "dget d k = None \<longleftrightarrow> k \<notin> set (dkeys d)"
  by (simp add: dget_def dkeys_def map_of_eq_None_iff)

lemma dget_Some_in: "dget d k = Some v \<Longrightarrow> (k, v) \<in> set d"
  by (simp add: dget_def map_of_SomeD)

lemma dget_Some_key: "dget d k = Some v \<Longrightarrow> k \<in> set (dkeys d)"
  by (metis dget_None_iff option.simps(3))

lemma wf_dict_dset [simp, py_dict]: "wf_dict d \<Longrightarrow> wf_dict (dset d k v)"
  by simp

lemma wf_dict_dpop [simp, py_dict]: "wf_dict d \<Longrightarrow> wf_dict (dpop d k)"
  by simp

lemma in_dict_dget: "wf_dict d \<Longrightarrow> (k, v) \<in> set d \<longleftrightarrow> dget d k = Some v"
  by (auto simp: dget_def dkeys_def dest: map_of_SomeD)

text \<open>
  The laws clients of a keyed store use, stated once: a store and a removal act on their own key
  only.  Bulk operations follow for every store with these laws.
\<close>

locale keyed_store =
  fixes look :: "'s \<Rightarrow> 'k \<Rightarrow> 'v option"
    and put :: "'s \<Rightarrow> 'k \<Rightarrow> 'v \<Rightarrow> 's"
    and remove :: "'s \<Rightarrow> 'k \<Rightarrow> 's"
  assumes look_put: "look (put s k v) = (look s)(k \<mapsto> v)"
    and look_remove: "look (remove s k) = (look s)(k := None)"
begin

lemma look_remove_all: "look (foldl remove s ks) k = (if k \<in> set ks then None else look s k)"
  by (induction ks arbitrary: s) (auto simp: look_remove)

lemma look_put_all:
  "look (foldl (\<lambda>a p. put a (fst p) (snd p)) s ps) k =
     (case map_of (rev ps) k of None \<Rightarrow> look s k | Some v \<Rightarrow> Some v)"
  by (induction ps arbitrary: s rule: rev_induct) (auto simp: look_put)

lemma look_put_keep: "look s k = None \<Longrightarrow> look (put s k' v) k = (if k = k' then Some v else None)"
  by (simp add: look_put)

end

interpretation dict: keyed_store "dget" "dset" "dpop"
  by unfold_locales simp_all

lemma dget_dupdate: "dget (dupdate d e) k = (case map_of (rev e) k of None \<Rightarrow> dget d k | Some v \<Rightarrow> Some v)"
  unfolding dupdate_def by (rule dict.look_put_all)

end
