(* ===== verification/PyFloat.thy ===== *)
theory PyFloat
  imports Complex_Main "HOL-Library.Log_Nat" Prelude
begin

section \<open>Powers of two\<close>

definition pow2 :: "int \<Rightarrow> rat" where
  "pow2 e = (if 0 \<le> e then 2 ^ nat e else 1 / 2 ^ nat (- e))"

lemma pow2_powi: "pow2 e = 2 powi e"
  by (simp add: pow2_def power_int_def inverse_eq_divide power_one_over)

lemma pow2_pos [simp]: "0 < pow2 e"
  by (simp add: pow2_def)

lemma pow2_nonneg [simp]: "0 \<le> pow2 e"
  by (simp add: pow2_def)

lemma pow2_nonzero [simp]: "pow2 e \<noteq> 0"
  by (simp add: pow2_def)

lemma pow2_0 [simp]: "pow2 0 = 1"
  by (simp add: pow2_def)

lemma pow2_add: "pow2 (a + b) = pow2 a * pow2 b"
  by (simp add: pow2_powi power_int_add)

lemma pow2_diff: "pow2 (a - b) = pow2 a / pow2 b"
  by (simp add: pow2_powi power_int_diff)

lemma pow2_mono: "a \<le> b \<Longrightarrow> pow2 a \<le> pow2 b"
  by (simp add: pow2_powi power_int_increasing)

lemma pow2_strict_mono: "a < b \<Longrightarrow> pow2 a < pow2 b"
  by (simp add: pow2_powi power_int_strict_increasing)

lemma pow2_le_iff [simp]: "pow2 a \<le> pow2 b \<longleftrightarrow> a \<le> b"
  by (metis linorder_not_le pow2_mono pow2_strict_mono)

lemma pow2_less_iff [simp]: "pow2 a < pow2 b \<longleftrightarrow> a < b"
  by (metis linorder_not_le pow2_le_iff)

lemma pow2_int: "0 \<le> e \<Longrightarrow> pow2 e = of_int (2 ^ nat e)"
  by (simp add: pow2_def)

definition ilog2 :: "rat \<Rightarrow> int" where
  "ilog2 x =
     (case quotient_of x of (p, q) \<Rightarrow>
        let k = bitlen p - bitlen q in if pow2 k \<le> x then k else k - 1)"

lemma pow2_nat_bitlen:
  assumes "0 < p"
  shows "pow2 (bitlen p - 1) \<le> of_int p" and "of_int p < pow2 (bitlen p)"
proof -
  have b: "2 ^ nat (bitlen p - 1) \<le> p" "p < 2 ^ nat (bitlen p)"
    using bitlen_bounds [OF assms] by auto
  have l: "0 < bitlen p"
    using assms by (metis bitlen_eq_zero_iff bitlen_nonneg linorder_not_less order_le_less)
  have "of_int (2 ^ nat (bitlen p - 1)) \<le> (of_int p :: rat)"
    using b(1) of_int_le_iff by blast
  then show "pow2 (bitlen p - 1) \<le> of_int p"
    using l by (simp add: pow2_int)
  have "(of_int p :: rat) < of_int (2 ^ nat (bitlen p))"
    using b(2) of_int_less_iff by blast
  then show "of_int p < pow2 (bitlen p)"
    using l by (simp add: pow2_int)
qed

lemma ilog2_bounds:
  assumes "0 < x"
  shows "pow2 (ilog2 x) \<le> x \<and> x < pow2 (ilog2 x + 1)"
proof -
  obtain p q where pq: "quotient_of x = (p, q)" by (cases "quotient_of x")
  have q: "0 < q" using quotient_of_denom_pos [OF pq] .
  have x: "x = of_int p / of_int q" using quotient_of_div [OF pq] .
  have p: "0 < p" using assms x q by (simp add: zero_less_divide_iff)
  define k where "k = bitlen p - bitlen q"
  note bp = pow2_nat_bitlen [OF p] and bq = pow2_nat_bitlen [OF q]
  have "x < pow2 (bitlen p) / pow2 (bitlen q - 1)"
    unfolding x using p q bp bq by (intro frac_less) auto
  then have up: "x < pow2 (k + 1)"
    by (simp add: k_def pow2_diff [symmetric] algebra_simps)
  have "pow2 (bitlen p - 1) / pow2 (bitlen q) < x"
    unfolding x using p q bp bq by (intro frac_less2) auto
  then have low: "pow2 (k - 1) < x"
    by (simp add: k_def pow2_diff [symmetric] algebra_simps)
  show ?thesis
    using up low by (auto simp: ilog2_def pq Let_def k_def [symmetric])
qed

lemma ilog2_unique:
  assumes "pow2 k \<le> x" and "x < pow2 (k + 1)"
  shows "ilog2 x = k"
proof -
  have "0 < x" using assms(1) pow2_pos [of k] by linarith
  from ilog2_bounds [OF this] have "pow2 (ilog2 x) < pow2 (k + 1)" "pow2 k < pow2 (ilog2 x + 1)"
    using assms by linarith+
  then show ?thesis by simp
qed

lemma ilog2_mono: "0 < x \<Longrightarrow> x \<le> y \<Longrightarrow> ilog2 x \<le> ilog2 y"
proof -
  assume a: "0 < x" "x \<le> y"
  then have "pow2 (ilog2 x) < pow2 (ilog2 y + 1)"
    using ilog2_bounds [of x] ilog2_bounds [of y] by linarith
  then show ?thesis by simp
qed

section \<open>Rounding to the nearest integer, ties to even\<close>

definition rne :: "rat \<Rightarrow> int" where
  "rne x =
     (let f = \<lfloor>x\<rfloor>; d = x - of_int f
      in if d < 1 / 2 then f else if 1 / 2 < d then f + 1 else if even f then f else f + 1)"

lemma rne_of_int [simp]: "rne (of_int n) = n"
  by (simp add: rne_def)

lemma rne_bounds:
  "2 * of_int (rne x) - 1 \<le> 2 * x" "2 * x \<le> 2 * of_int (rne x) + 1"
  "2 * of_int (rne x) - 1 = 2 * x \<or> 2 * x = 2 * of_int (rne x) + 1 \<Longrightarrow> even (rne x)"
proof -
  define f where "f = \<lfloor>x\<rfloor>"
  have f: "of_int f \<le> x" "x < of_int f + 1"
    unfolding f_def by linarith+
  have r: "rne x = (if 2 * x < 2 * of_int f + 1 then f else if 2 * of_int f + 1 < 2 * x then f + 1
      else if even f then f else f + 1)"
    by (simp add: rne_def Let_def f_def [symmetric] field_simps)
  have c: "2 * x < 2 * of_int f + 1 \<and> rne x = f \<or> 2 * of_int f + 1 < 2 * x \<and> rne x = f + 1 \<or>
    2 * x = 2 * of_int f + 1 \<and> even f \<and> rne x = f \<or> 2 * x = 2 * of_int f + 1 \<and> odd f \<and> rne x = f + 1"
    using r by (cases "2 * x < 2 * of_int f + 1"; cases "2 * of_int f + 1 < 2 * x"; cases "even f") auto
  show "2 * of_int (rne x) - 1 \<le> 2 * x" using c f by auto
  show "2 * x \<le> 2 * of_int (rne x) + 1" using c f by auto
  show "2 * of_int (rne x) - 1 = 2 * x \<or> 2 * x = 2 * of_int (rne x) + 1 \<Longrightarrow> even (rne x)"
    using c f by auto
qed

lemma int_within_one:
  assumes "(of_int a :: rat) \<le> of_int b + 1" and "(of_int b :: rat) \<le> of_int a + 1"
  shows "a = b \<or> a = b + 1 \<or> b = a + 1"
proof -
  have "a \<le> b + 1" "b \<le> a + 1"
    using assms by (metis of_int_1 of_int_add of_int_le_iff)+
  then show ?thesis by linarith
qed

lemma rne_unique:
  assumes "2 * of_int n - 1 \<le> 2 * x" and "2 * x \<le> 2 * of_int n + 1"
    and "2 * of_int n - 1 = 2 * x \<or> 2 * x = 2 * of_int n + 1 \<Longrightarrow> even n"
  shows "rne x = n"
proof -
  note b = rne_bounds [of x]
  have "(of_int n :: rat) \<le> of_int (rne x) + 1" "(of_int (rne x) :: rat) \<le> of_int n + 1"
    using assms(1,2) b(1,2) by linarith+
  from int_within_one [OF this]
  consider "n = rne x" | "n = rne x + 1" | "rne x = n + 1" by blast
  then show ?thesis
  proof cases
    case 2
    then have "(of_int n :: rat) = of_int (rne x) + 1" by simp
    then have "2 * of_int n - 1 = 2 * x" "2 * x = 2 * of_int (rne x) + 1"
      using assms(1) b(2) by linarith+
    then have "even n" "even (rne x)" using assms(3) b(3) by blast+
    with 2 show ?thesis by presburger
  next
    case 3
    then have "(of_int (rne x) :: rat) = of_int n + 1" by simp
    then have "2 * of_int (rne x) - 1 = 2 * x" "2 * x = 2 * of_int n + 1"
      using assms(2) b(1) by linarith+
    then have "even n" "even (rne x)" using assms(3) b(3) by blast+
    with 3 show ?thesis by presburger
  qed simp
qed

lemma rne_minus [simp]: "rne (- x) = - rne x"
proof (rule rne_unique)
  note b = rne_bounds [of x]
  show "2 * of_int (- rne x) - 1 \<le> 2 * - x" using b(2) by simp
  show "2 * - x \<le> 2 * of_int (- rne x) + 1" using b(1) by simp
  assume "2 * of_int (- rne x) - 1 = 2 * - x \<or> 2 * - x = 2 * of_int (- rne x) + 1"
  then have "2 * of_int (rne x) - 1 = 2 * x \<or> 2 * x = 2 * of_int (rne x) + 1"
    by auto
  then show "even (- rne x)" using b(3) by simp
qed

lemma rne_mono:
  assumes xy: "x \<le> y"
  shows "rne x \<le> rne y"
proof (rule ccontr)
  note bx = rne_bounds [of x] and bd = rne_bounds [of y]
  assume "\<not> rne x \<le> rne y"
  then have "rne y + 1 \<le> rne x" by simp
  then have d: "(of_int (rne y) + 1 :: rat) \<le> of_int (rne x)"
    by (metis of_int_1 of_int_add of_int_le_iff)
  have "2 * of_int (rne x) - 1 = 2 * x" "2 * y = 2 * of_int (rne y) + 1"
    and eq: "(of_int (rne y) + 1 :: rat) = of_int (rne x)"
    using d bx(1) bd(2) xy by linarith+
  then have "even (rne x)" "even (rne y)" using bx(3) bd(3) by blast+
  moreover have "rne y + 1 = rne x"
    using eq by (metis of_int_1 of_int_add of_int_eq_iff)
  ultimately show False by presburger
qed

lemma rne_le_of_int: "x \<le> of_int n \<Longrightarrow> rne x \<le> n"
  using rne_mono [of x "of_int n"] by simp

lemma rne_ge_of_int: "of_int n \<le> x \<Longrightarrow> n \<le> rne x"
  using rne_mono [of "of_int n" x] by simp

section \<open>Rounding to binary64\<close>

definition uexp :: "rat \<Rightarrow> int" where
  "uexp x = (if x = 0 then - 1074 else max (ilog2 \<bar>x\<bar> - 52) (- 1074))"

definition rnd :: "rat \<Rightarrow> rat" where
  "rnd x = of_int (rne (x / pow2 (uexp x))) * pow2 (uexp x)"

lemma rnd_0 [simp]: "rnd 0 = 0"
  using rne_of_int [of 0] by (simp add: rnd_def)

lemma uexp_minus [simp]: "uexp (- x) = uexp x"
  by (simp add: uexp_def)

lemma rnd_minus [simp]: "rnd (- x) = - rnd x"
  by (simp add: rnd_def)

lemma rnd_nonneg: "0 \<le> x \<Longrightarrow> 0 \<le> rnd x"
  using rne_ge_of_int [of 0 "x / pow2 (uexp x)"] by (simp add: rnd_def)

lemma grid_fixed:
  assumes "x = of_int n * pow2 (uexp x)"
  shows "rnd x = x"
proof -
  have "x / pow2 (uexp x) = of_int n"
    using assms by (metis nonzero_mult_div_cancel_right pow2_nonzero)
  then show ?thesis using assms by (simp add: rnd_def)
qed

lemma pow2_int_exists: "0 \<le> e \<Longrightarrow> \<exists>n. pow2 e = of_int n"
  using pow2_int by blast

lemma uexp_le:
  assumes "\<bar>x\<bar> < pow2 (53 + e)" and "- 1074 \<le> e"
  shows "uexp x \<le> e"
proof (cases "x = 0")
  case False
  then have "pow2 (ilog2 \<bar>x\<bar>) < pow2 (53 + e)"
    using ilog2_bounds [of "\<bar>x\<bar>"] assms(1) by linarith
  then show ?thesis using False assms(2) by (simp add: uexp_def)
qed (simp add: uexp_def assms)

lemma rnd_fixed:
  assumes "\<bar>n\<bar> < 2 ^ 53" and "- 1074 \<le> e"
  shows "rnd (of_int n * pow2 e) = of_int n * pow2 e"
proof -
  define x :: rat where "x = of_int n * pow2 e"
  have "\<bar>x\<bar> = of_int \<bar>n\<bar> * pow2 e"
    by (simp add: x_def abs_mult)
  moreover have "of_int \<bar>n\<bar> < (of_int (2 ^ 53) :: rat)"
    using assms(1) of_int_less_iff by blast
  ultimately have "\<bar>x\<bar> < of_int (2 ^ 53) * pow2 e"
    by (metis mult_strict_right_mono pow2_pos)
  then have "\<bar>x\<bar> < pow2 (53 + e)"
    by (simp add: pow2_add) (simp add: pow2_def)
  from uexp_le [OF this assms(2)] have u: "uexp x \<le> e" .
  then obtain m where "pow2 (e - uexp x) = of_int m"
    using pow2_int_exists [of "e - uexp x"] by auto
  then have "x = of_int (n * m) * pow2 (uexp x)"
    by (simp add: x_def pow2_diff field_simps)
  then show ?thesis using grid_fixed unfolding x_def [symmetric] by blast
qed

lemma rnd_of_int: "\<bar>n\<bar> < 2 ^ 53 \<Longrightarrow> rnd (of_int n) = of_int n"
  using rnd_fixed [of n 0] by simp

lemma rnd_pow2: "- 1074 \<le> e \<Longrightarrow> rnd (pow2 e) = pow2 e"
  using rnd_fixed [of 1 e] by simp

lemma rnd_mono_pos:
  assumes "0 < x" and "x \<le> y"
  shows "rnd x \<le> rnd y"
proof (cases "uexp x = uexp y")
  case True
  have "rne (x / pow2 (uexp y)) \<le> rne (y / pow2 (uexp y))"
    using assms(2) by (intro rne_mono divide_right_mono) auto
  then show ?thesis
    by (simp add: rnd_def True)
next
  case False
  have y: "0 < y" using assms by simp
  have lt: "uexp x < uexp y"
    using False ilog2_mono [OF assms] assms y by (auto simp: uexp_def)
  define k where "k = ilog2 y"
  have ky: "uexp y = k - 52" and kx: "ilog2 x + 1 \<le> k" "uexp x \<le> k - 53"
    using lt assms y by (auto simp: uexp_def k_def max_def split: if_splits)
  have "x \<le> pow2 k"
    using ilog2_bounds [OF assms(1)] pow2_mono [OF kx(1)] by linarith
  then have "x / pow2 (uexp x) \<le> pow2 (k - uexp x)"
    by (simp add: pow2_diff divide_right_mono)
  then have "x / pow2 (uexp x) \<le> of_int (2 ^ nat (k - uexp x))"
    using kx(2) pow2_int [of "k - uexp x"] by simp
  then have "rne (x / pow2 (uexp x)) \<le> 2 ^ nat (k - uexp x)"
    by (rule rne_le_of_int)
  then have "of_int (rne (x / pow2 (uexp x))) \<le> (of_int (2 ^ nat (k - uexp x)) :: rat)"
    using of_int_le_iff by blast
  then have "of_int (rne (x / pow2 (uexp x))) \<le> pow2 (k - uexp x)"
    using kx(2) by (simp add: pow2_int)
  then have "rnd x \<le> pow2 (k - uexp x) * pow2 (uexp x)"
    unfolding rnd_def by (rule mult_right_mono) simp
  then have a: "rnd x \<le> pow2 k" by (simp add: pow2_diff)
  have "pow2 52 \<le> y / pow2 (uexp y)"
    using ilog2_bounds [OF y] by (simp add: ky k_def pow2_diff field_simps)
  then have "2 ^ 52 \<le> rne (y / pow2 (uexp y))"
    using rne_ge_of_int [of "2 ^ 52" "y / pow2 (uexp y)"] by (simp add: pow2_def)
  then have "of_int (2 ^ 52) \<le> (of_int (rne (y / pow2 (uexp y))) :: rat)"
    using of_int_le_iff by blast
  then have "pow2 52 * pow2 (uexp y) \<le> rnd y"
    unfolding rnd_def by (intro mult_right_mono) (simp_all add: pow2_def)
  then have "pow2 k \<le> rnd y"
    by (simp add: ky pow2_add [symmetric])
  with a show ?thesis by linarith
qed

lemma rnd_mono:
  assumes "x \<le> y"
  shows "rnd x \<le> rnd y"
proof -
  consider "0 < x" | "x \<le> 0" "0 \<le> y" | "y < 0" by linarith
  then show ?thesis
  proof cases
    case 1
    then show ?thesis using assms by (rule rnd_mono_pos)
  next
    case 2
    then have "0 \<le> rnd (- x)" "0 \<le> rnd y" by (simp_all add: rnd_nonneg del: rnd_minus)
    then show ?thesis by simp
  next
    case 3
    then have "rnd (- y) \<le> rnd (- x)" using assms by (intro rnd_mono_pos) auto
    then show ?thesis by simp
  qed
qed

lemma rnd_rnd [simp]: "rnd (rnd x) = rnd x"
proof (cases "x = 0")
  case False
  define e where "e = uexp x"
  define n where "n = rne (x / pow2 e)"
  have e: "- 1074 \<le> e" "ilog2 \<bar>x\<bar> \<le> e + 52" using False by (auto simp: e_def uexp_def)
  have "\<bar>x\<bar> < pow2 (ilog2 \<bar>x\<bar> + 1)" using False ilog2_bounds [of "\<bar>x\<bar>"] by simp
  also have "\<dots> \<le> pow2 (e + 53)" using e(2) by simp
  finally have "\<bar>x\<bar> < pow2 53 * pow2 e" by (simp add: pow2_add mult.commute)
  then have "\<bar>x / pow2 e\<bar> < of_int (2 ^ 53)"
    by (simp add: abs_divide field_simps) (simp add: pow2_def)
  then have b: "x / pow2 e \<le> of_int (2 ^ 53)" "of_int (- (2 ^ 53)) \<le> x / pow2 e"
    by (simp_all add: abs_if split: if_splits)
  have n: "n \<le> 2 ^ 53" "- (2 ^ 53) \<le> n"
    unfolding n_def using rne_le_of_int [OF b(1)] rne_ge_of_int [OF b(2)] by auto
  have r: "rnd x = of_int n * pow2 e" by (simp add: rnd_def n_def e_def)
  show ?thesis
  proof (cases "\<bar>n\<bar> < 2 ^ 53")
    case True
    then show ?thesis using rnd_fixed e(1) r by simp
  next
    case False
    then have "n = 2 ^ 53 \<or> n = - (2 ^ 53)" using n by linarith
    then have "rnd x = pow2 (53 + e) \<or> rnd x = - pow2 (53 + e)"
      unfolding r by (auto simp: pow2_add) (auto simp: pow2_def)
    moreover have "rnd (pow2 (53 + e)) = pow2 (53 + e)" using e(1) by (intro rnd_pow2) simp
    ultimately show ?thesis by auto
  qed
qed simp

section \<open>Rounding as an interface\<close>

text \<open>
  What the proofs about float arithmetic rely on: a rounding is monotone, idempotent and symmetric,
  and keeps zero.  The client lemmas are proved once here and used through the interpretation on
  \<^const>\<open>rnd\<close>.
\<close>

locale rounding =
  fixes r :: "rat \<Rightarrow> rat"
  assumes r_mono: "x \<le> y \<Longrightarrow> r x \<le> r y"
    and r_idem: "r (r x) = r x"
    and r_neg: "r (- x) = - r x"
    and r_zero: "r 0 = 0"
begin

lemma round_le: "r y = y \<Longrightarrow> x \<le> y \<Longrightarrow> r x \<le> y"
  using r_mono [of x y] by simp

lemma round_ge: "r y = y \<Longrightarrow> y \<le> x \<Longrightarrow> y \<le> r x"
  using r_mono [of y x] by simp

lemma round_nonneg: "0 \<le> x \<Longrightarrow> 0 \<le> r x"
  using r_mono [of 0 x] by (simp add: r_zero)

lemma round_nonpos: "x \<le> 0 \<Longrightarrow> r x \<le> 0"
  using r_mono [of x 0] by (simp add: r_zero)

lemma round_pos_imp: "0 < r x \<Longrightarrow> 0 < x"
  using round_nonpos [of x] by linarith

lemma round_neg_imp: "r x < 0 \<Longrightarrow> x < 0"
  using round_nonneg [of x] by linarith

lemma round_abs: "r \<bar>x\<bar> = \<bar>r x\<bar>"
  using round_nonneg [of x] round_nonpos [of x] by (auto simp: abs_if r_neg)

end

interpretation b64: rounding rnd
  by unfold_locales (auto intro: rnd_mono)

section \<open>Python floats\<close>

text \<open>
  A Python float: a finite binary64 value (kept as the rational it denotes; the two zeros are one
  value), an infinity or a NaN.  Every operation rounds the exact result once.
\<close>

datatype pyfloat = Fin rat | PInf | NInf | NaN

definition fl :: "rat \<Rightarrow> pyfloat" where
  "fl x = (let y = rnd x in
     if y = 0 \<or> ilog2 \<bar>y\<bar> < 1024 then Fin y else if 0 < y then PInf else NInf)"

lemma ilog2_less_iff: "0 < x \<Longrightarrow> ilog2 x < k \<longleftrightarrow> x < pow2 k"
proof
  assume "0 < x" "ilog2 x < k"
  then have "pow2 (ilog2 x + 1) \<le> pow2 k" by (intro pow2_mono) simp
  then show "x < pow2 k" using ilog2_bounds [OF \<open>0 < x\<close>] by linarith
next
  assume "0 < x" "x < pow2 k"
  then have "pow2 (ilog2 x) < pow2 k" using ilog2_bounds [of x] by linarith
  then show "ilog2 x < k" by simp
qed

lemma fl_cases:
  obtains "fl x = Fin (rnd x)" "\<bar>rnd x\<bar> < pow2 1024"
  | "fl x = PInf" "pow2 1024 \<le> rnd x"
  | "fl x = NInf" "rnd x \<le> - pow2 1024"
proof -
  define y where "y = rnd x"
  have f: "fl x = (if y = 0 \<or> ilog2 \<bar>y\<bar> < 1024 then Fin y else if 0 < y then PInf else NInf)"
    by (simp add: fl_def y_def Let_def)
  have l: "y = 0 \<or> ilog2 \<bar>y\<bar> < 1024 \<longleftrightarrow> \<bar>y\<bar> < pow2 1024"
    using ilog2_less_iff [of "\<bar>y\<bar>" 1024] by (cases "y = 0") simp_all
  show thesis
  proof (cases "\<bar>y\<bar> < pow2 1024")
    case True
    then show ?thesis using f l that(1) by (simp add: y_def)
  next
    case False
    then have "y \<noteq> 0" "pow2 1024 \<le> \<bar>y\<bar>" by auto
    then show ?thesis using f l False that(2,3)
      by (cases "0 < y") (simp_all add: y_def [symmetric])
  qed
qed

lemma fl_not_NaN [simp]: "fl x \<noteq> NaN" "NaN \<noteq> fl x"
  by (cases rule: fl_cases [of x]; simp)+

fun fneg :: "pyfloat \<Rightarrow> pyfloat" where
  "fneg (Fin x) = Fin (- x)"
| "fneg PInf = NInf"
| "fneg NInf = PInf"
| "fneg NaN = NaN"

fun fabs :: "pyfloat \<Rightarrow> pyfloat" where
  "fabs (Fin x) = Fin \<bar>x\<bar>"
| "fabs PInf = PInf"
| "fabs NInf = PInf"
| "fabs NaN = NaN"

fun fadd :: "pyfloat \<Rightarrow> pyfloat \<Rightarrow> pyfloat" where
  "fadd (Fin x) (Fin y) = fl (x + y)"
| "fadd NaN _ = NaN"
| "fadd _ NaN = NaN"
| "fadd PInf NInf = NaN"
| "fadd NInf PInf = NaN"
| "fadd PInf _ = PInf"
| "fadd _ PInf = PInf"
| "fadd NInf _ = NInf"
| "fadd _ NInf = NInf"

definition fsub :: "pyfloat \<Rightarrow> pyfloat \<Rightarrow> pyfloat" where
  "fsub a b = fadd a (fneg b)"

definition inf_of_sign :: "rat \<Rightarrow> pyfloat" where
  "inf_of_sign x = (if 0 < x then PInf else if x < 0 then NInf else NaN)"

fun fmul :: "pyfloat \<Rightarrow> pyfloat \<Rightarrow> pyfloat" where
  "fmul (Fin x) (Fin y) = fl (x * y)"
| "fmul NaN _ = NaN"
| "fmul _ NaN = NaN"
| "fmul PInf PInf = PInf"
| "fmul NInf NInf = PInf"
| "fmul PInf NInf = NInf"
| "fmul NInf PInf = NInf"
| "fmul PInf (Fin x) = inf_of_sign x"
| "fmul (Fin x) PInf = inf_of_sign x"
| "fmul NInf (Fin x) = inf_of_sign (- x)"
| "fmul (Fin x) NInf = inf_of_sign (- x)"

text \<open>
  The quotient for a divisor different from zero; the value at a zero divisor is never used,
  since Python's \<open>/\<close> raises there (\<open>fdiv\<close> below).
\<close>

fun fquot :: "pyfloat \<Rightarrow> pyfloat \<Rightarrow> pyfloat" where
  "fquot (Fin x) (Fin y) = fl (x / y)"
| "fquot NaN _ = NaN"
| "fquot _ NaN = NaN"
| "fquot (Fin x) _ = Fin 0"
| "fquot PInf (Fin y) = (if y < 0 then NInf else PInf)"
| "fquot NInf (Fin y) = (if y < 0 then PInf else NInf)"
| "fquot _ _ = NaN"

definition fdiv :: "pyfloat \<Rightarrow> pyfloat \<Rightarrow> pyfloat result" where
  "fdiv a b = (if b = Fin 0 then Inl ZeroDivisionError else Inr (fquot a b))"

fun flt :: "pyfloat \<Rightarrow> pyfloat \<Rightarrow> bool" where
  "flt (Fin x) (Fin y) = (x < y)"
| "flt NInf (Fin _) = True"
| "flt NInf PInf = True"
| "flt (Fin _) PInf = True"
| "flt _ _ = False"

fun fle :: "pyfloat \<Rightarrow> pyfloat \<Rightarrow> bool" where
  "fle (Fin x) (Fin y) = (x \<le> y)"
| "fle NaN _ = False"
| "fle _ NaN = False"
| "fle NInf _ = True"
| "fle _ PInf = True"
| "fle _ _ = False"

definition feq :: "pyfloat \<Rightarrow> pyfloat \<Rightarrow> bool" where
  "feq a b \<longleftrightarrow> a = b \<and> a \<noteq> NaN"

text \<open>Python's two-argument \<open>max\<close> and \<open>min\<close> keep the first argument unless the second one
  compares strictly beyond it, so the result with a NaN depends on the order of the arguments.\<close>

definition pymax :: "pyfloat \<Rightarrow> pyfloat \<Rightarrow> pyfloat" where
  "pymax a b = (if flt a b then b else a)"

definition pymin :: "pyfloat \<Rightarrow> pyfloat \<Rightarrow> pyfloat" where
  "pymin a b = (if flt b a then b else a)"

definition is_nan :: "pyfloat \<Rightarrow> bool" where
  "is_nan a \<longleftrightarrow> a = NaN"

fun isfinite :: "pyfloat \<Rightarrow> bool" where
  "isfinite (Fin _) = True"
| "isfinite _ = False"

text \<open>Truth value of a float: everything except zero, NaN included.\<close>

definition ftruthy :: "pyfloat \<Rightarrow> bool" where
  "ftruthy a \<longleftrightarrow> a \<noteq> Fin 0"

text \<open>\<open>x or y\<close> on floats.\<close>

definition f_or :: "pyfloat \<Rightarrow> pyfloat \<Rightarrow> pyfloat" where
  "f_or a b = (if ftruthy a then a else b)"

fun fround :: "pyfloat \<Rightarrow> int result" where
  "fround (Fin x) = Inr (rne x)"
| "fround NaN = Inl (ValueError ''cannot convert float NaN to integer'')"
| "fround _ = Inl OverflowError"

text \<open>\<open>round(x, n)\<close>: the nearest decimal with \<open>n\<close> places, ties to even, as a float.\<close>

fun fround_to :: "nat \<Rightarrow> pyfloat \<Rightarrow> pyfloat" where
  "fround_to n (Fin x) = fl (of_int (rne (x * 10 ^ n)) / 10 ^ n)"
| "fround_to n a = a"

fun ffloor :: "pyfloat \<Rightarrow> int result" where
  "ffloor (Fin x) = Inr \<lfloor>x\<rfloor>"
| "ffloor NaN = Inl (ValueError ''cannot convert float NaN to integer'')"
| "ffloor _ = Inl OverflowError"

fun fulp :: "pyfloat \<Rightarrow> pyfloat" where
  "fulp (Fin x) = Fin (pow2 (uexp x))"
| "fulp NaN = NaN"
| "fulp _ = PInf"

text \<open>\<open>math.copysign\<close>; the sign bits of zero and NaN are not tracked, both count as positive.\<close>

fun fneg_sign :: "pyfloat \<Rightarrow> bool" where
  "fneg_sign (Fin x) = (x < 0)"
| "fneg_sign NInf = True"
| "fneg_sign _ = False"

definition fcopysign :: "pyfloat \<Rightarrow> pyfloat \<Rightarrow> pyfloat" where
  "fcopysign a b = (if fneg_sign b then fneg (fabs a) else fabs a)"

text \<open>Conversion of an \<open>int\<close>, as in mixed arithmetic and \<open>float(n)\<close>.\<close>

definition float_of_int :: "int \<Rightarrow> pyfloat result" where
  "float_of_int n = (case fl (of_int n) of Fin x \<Rightarrow> Inr (Fin x) | _ \<Rightarrow> Inl OverflowError)"

text \<open>
  The builtin \<open>sum\<close> over floats: since Python 3.12 (the version the project runs on) it adds with
  Neumaier's compensation.  The empty sum is the integer zero.
\<close>

fun fsum_loop :: "pyfloat \<Rightarrow> pyfloat \<Rightarrow> pyfloat list \<Rightarrow> pyfloat" where
  "fsum_loop acc c [] = (if ftruthy c \<and> isfinite c then fadd acc c else acc)"
| "fsum_loop acc c (x # xs) =
     (let t = fadd acc x;
          c' = (if fle (fabs x) (fabs acc) then fadd c (fadd (fsub acc t) x)
                else fadd c (fadd (fsub x t) acc))
      in fsum_loop t c' xs)"

fun fsum :: "pyfloat list \<Rightarrow> pyfloat" where
  "fsum [] = Fin 0"
| "fsum (x # xs) = fsum_loop x (Fin 0) xs"

section \<open>Order facts\<close>

named_theorems py_float \<open>facts about float comparison and arithmetic\<close>

lemma flt_imp_fle: "flt a b \<Longrightarrow> fle a b"
  by (cases a; cases b) auto

lemma fle_refl_iff [py_float]: "fle a a \<longleftrightarrow> a \<noteq> NaN"
  by (cases a) auto

lemma fle_trans: "fle a b \<Longrightarrow> fle b c \<Longrightarrow> fle a c"
  by (cases a; cases b; cases c) auto

lemma fle_flt_trans: "fle a b \<Longrightarrow> flt b c \<Longrightarrow> flt a c"
  by (cases a; cases b; cases c) auto

lemma flt_fle_trans: "flt a b \<Longrightarrow> fle b c \<Longrightarrow> flt a c"
  by (cases a; cases b; cases c) auto

lemma fle_antisym: "fle a b \<Longrightarrow> fle b a \<Longrightarrow> a = b"
  by (cases a; cases b) auto

lemma not_flt_iff: "\<not> flt a b \<longleftrightarrow> a = NaN \<or> b = NaN \<or> fle b a"
  by (cases a; cases b) auto

lemma not_fle_iff: "\<not> fle a b \<longleftrightarrow> a = NaN \<or> b = NaN \<or> flt b a"
  by (cases a; cases b) auto

lemma fle_iff_flt_or_eq: "fle a b \<longleftrightarrow> flt a b \<or> (a = b \<and> a \<noteq> NaN)"
  by (cases a; cases b) auto

lemma flt_irrefl [simp]: "\<not> flt a a"
  by (cases a) auto

lemma flt_asym: "flt a b \<Longrightarrow> \<not> fle b a"
  by (cases a; cases b) auto

lemma NaN_cmp [simp]: "\<not> flt NaN a" "\<not> flt a NaN" "\<not> fle NaN a" "\<not> fle a NaN"
  by (cases a; simp)+

lemma fle_not_NaN: "fle a b \<Longrightarrow> a \<noteq> NaN \<and> b \<noteq> NaN"
  by (cases a; cases b) auto

lemma flt_not_NaN: "flt a b \<Longrightarrow> a \<noteq> NaN \<and> b \<noteq> NaN"
  by (cases a; cases b) auto

lemma fle_Fin_iff: "fle (Fin x) a \<longleftrightarrow> a = PInf \<or> (\<exists>y. a = Fin y \<and> x \<le> y)"
  by (cases a) auto

lemma flt_Fin_iff: "flt (Fin x) a \<longleftrightarrow> a = PInf \<or> (\<exists>y. a = Fin y \<and> x < y)"
  by (cases a) auto

lemma fle_PInf_iff [simp]: "fle a PInf \<longleftrightarrow> a \<noteq> NaN"
  by (cases a) auto

lemma fle_NInf_iff [simp]: "fle NInf a \<longleftrightarrow> a \<noteq> NaN"
  by (cases a) auto

lemma pymax_ge_left: "a \<noteq> NaN \<Longrightarrow> fle a (pymax a b)"
  by (auto simp: pymax_def fle_refl_iff flt_imp_fle)

lemma pymax_ge_right: "a \<noteq> NaN \<Longrightarrow> b \<noteq> NaN \<Longrightarrow> fle b (pymax a b)"
  by (auto simp: pymax_def fle_refl_iff not_flt_iff)

lemma pymin_le_left: "a \<noteq> NaN \<Longrightarrow> fle (pymin a b) a"
  by (auto simp: pymin_def fle_refl_iff flt_imp_fle)

lemma pymin_le_right: "a \<noteq> NaN \<Longrightarrow> b \<noteq> NaN \<Longrightarrow> fle (pymin a b) b"
  by (auto simp: pymin_def fle_refl_iff not_flt_iff)

lemma pymax_not_NaN [simp]: "a \<noteq> NaN \<Longrightarrow> pymax a b \<noteq> NaN"
  by (auto simp: pymax_def dest: flt_not_NaN)

lemma pymin_not_NaN [simp]: "a \<noteq> NaN \<Longrightarrow> pymin a b \<noteq> NaN"
  by (auto simp: pymin_def dest: flt_not_NaN)

lemma pymax_cases: "pymax a b = a \<or> pymax a b = b"
  by (simp add: pymax_def)

lemma pymin_cases: "pymin a b = a \<or> pymin a b = b"
  by (simp add: pymin_def)

lemma fabs_nonneg: "a \<noteq> NaN \<Longrightarrow> fle (Fin 0) (fabs a)"
  by (cases a) auto

lemma fabs_fabs [simp]: "fabs (fabs a) = fabs a"
  by (cases a) auto

lemma fabs_fneg [simp]: "fabs (fneg a) = fabs a"
  by (cases a) auto

lemma fneg_fneg [simp]: "fneg (fneg a) = a"
  by (cases a) auto

lemma fl_mono: "x \<le> y \<Longrightarrow> fle (fl x) (fl y)"
proof -
  assume "x \<le> y"
  then have m: "rnd x \<le> rnd y" by (rule rnd_mono)
  have p: "0 < pow2 1024" by simp
  show ?thesis
    by (cases rule: fl_cases [of x]; cases rule: fl_cases [of y]) (use m p in auto)
qed

lemma fl_0 [simp]: "fl 0 = Fin 0"
  by (simp add: fl_def)

lemma fl_nonneg: "0 \<le> x \<Longrightarrow> fle (Fin 0) (fl x)"
  using fl_mono [of 0 x] by simp

lemma fl_nonpos: "x \<le> 0 \<Longrightarrow> fle (fl x) (Fin 0)"
  using fl_mono [of x 0] by simp

lemma fl_small_int: "\<bar>n\<bar> < 2 ^ 53 \<Longrightarrow> fl (of_int n) = Fin (of_int n)"
proof -
  assume n: "\<bar>n\<bar> < 2 ^ 53"
  then have r: "rnd (of_int n) = of_int n" by (rule rnd_of_int)
  have "of_int \<bar>n\<bar> < (of_int (2 ^ 53) :: rat)" using n of_int_less_iff by blast
  then have "\<bar>of_int n :: rat\<bar> < pow2 53" by (simp add: pow2_def)
  also have "\<dots> < pow2 1024" by simp
  finally have "\<bar>rnd (of_int n)\<bar> < pow2 1024" by (simp add: r)
  then show ?thesis
    by (cases rule: fl_cases [of "of_int n"]) (simp_all add: r abs_if split: if_splits)
qed

lemma fl_numeral [simp]:
  "numeral n < (2 :: int) ^ 53 \<Longrightarrow> fl (numeral n) = Fin (numeral n)"
  "numeral n < (2 :: int) ^ 53 \<Longrightarrow> fl (- numeral n) = Fin (- numeral n)"
  "fl 1 = Fin 1" "fl (- 1) = Fin (- 1)"
  using fl_small_int [of "numeral n"] fl_small_int [of "- numeral n"]
    fl_small_int [of 1] fl_small_int [of "- 1"] by simp_all

text \<open>
  Multiplication by a factor that is not negative is monotone: the exact products compare, and
  rounding keeps the comparison.
\<close>

lemma fmul_mono_left:
  assumes "fle a b" and "0 \<le> k"
    and "fmul a (Fin k) \<noteq> NaN" and "fmul b (Fin k) \<noteq> NaN"
  shows "fle (fmul a (Fin k)) (fmul b (Fin k))"
proof (cases "k = 0")
  case True
  with assms show ?thesis by (cases a; cases b) (auto simp: inf_of_sign_def)
next
  case False
  with assms(2) have k: "0 < k" by simp
  show ?thesis
  proof (cases a; cases b)
    fix x y assume "a = Fin x" "b = Fin y"
    with assms(1) k show ?thesis by (simp add: fl_mono mult_right_mono)
  qed (use assms(1) k in \<open>auto simp: inf_of_sign_def\<close>)
qed

lemma fsub_one_nonneg: "fle a (Fin 1) \<Longrightarrow> fle (Fin 0) a \<Longrightarrow> \<exists>k. fsub (Fin 1) a = Fin k \<and> 0 \<le> k \<and> k \<le> 1"
proof -
  assume "fle a (Fin 1)" "fle (Fin 0) a"
  then obtain x where x: "a = Fin x" "0 \<le> x" "x \<le> 1" by (cases a) auto
  then have "fle (fl 0) (fl (1 - x))" "fle (fl (1 - x)) (fl 1)" by (intro fl_mono; simp)+
  then show ?thesis using x by (cases "fl (1 - x)") (auto simp: fsub_def)
qed

section \<open>Representable values\<close>

text \<open>The values a Python float can hold: every operation above returns one.\<close>

definition is_b64 :: "pyfloat \<Rightarrow> bool" where
  "is_b64 a \<longleftrightarrow> (case a of Fin x \<Rightarrow> fl x = Fin x | _ \<Rightarrow> True)"

lemma is_b64_simps [simp]:
  "is_b64 (Fin x) \<longleftrightarrow> fl x = Fin x" "is_b64 PInf" "is_b64 NInf" "is_b64 NaN"
  by (simp_all add: is_b64_def)

lemma fl_fl: "fl x = Fin y \<Longrightarrow> fl y = Fin y"
  by (auto simp: fl_def Let_def split: if_splits)

lemma is_b64_fl [simp]: "is_b64 (fl x)"
  by (cases "fl x") (auto simp: is_b64_def fl_fl)

lemma fl_minus: "fl (- x) = fneg (fl x)"
  by (auto simp: fl_def Let_def)

lemma fabs_fl: "fabs (fl x) = fl \<bar>x\<bar>"
proof (cases "0 \<le> x")
  case True
  then have "fle (Fin 0) (fl x)" by (rule fl_nonneg)
  then show ?thesis using True by (cases "fl x") auto
next
  case False
  then have "fle (Fin 0) (fl (- x))" by (intro fl_nonneg) simp
  then have "fabs (fl (- x)) = fl (- x)" by (cases "fl (- x)") auto
  then show ?thesis using False by (simp add: fl_minus)
qed

lemma is_b64_fneg [simp]: "is_b64 (fneg a) = is_b64 a"
proof (cases a)
  case (Fin x)
  have "fneg (fl x) = Fin (- x) \<longleftrightarrow> fl x = Fin x" by (cases "fl x") auto
  then show ?thesis using Fin by (simp add: fl_minus)
qed (auto simp: is_b64_def)

lemma is_b64_fabs [simp]: "is_b64 (fabs a) = is_b64 a"
proof (cases a)
  case (Fin x)
  then show ?thesis using is_b64_fneg[of a] by (cases "0 \<le> x") auto
qed (auto simp: is_b64_def)

lemma is_b64_fadd [simp]: "is_b64 (fadd a b)"
  by (cases a; cases b) auto

lemma is_b64_fsub [simp]: "is_b64 (fsub a b)"
  by (simp add: fsub_def)

lemma fmul_one [simp]: "is_b64 a \<Longrightarrow> fmul a (Fin 1) = a" "is_b64 a \<Longrightarrow> fmul a (Fin (- 1)) = fneg a"
  by (cases a; simp add: inf_of_sign_def fl_minus)+

lemma fsub_Fin: "fsub (Fin x) (Fin y) = fl (x - y)"
  by (simp add: fsub_def)

lemma fsub_zero [simp]: "is_b64 a \<Longrightarrow> fsub a (Fin 0) = a"
  by (cases a) (auto simp: fsub_def)

lemma fadd_zero_left [simp]: "is_b64 a \<Longrightarrow> fadd (Fin 0) a = a"
  by (cases a) auto

lemma fl_le_b64: "fl y = Fin y \<Longrightarrow> x \<le> y \<Longrightarrow> fle (fl x) (Fin y)"
  using fl_mono[of x y] by simp

lemma fl_ge_b64: "fl y = Fin y \<Longrightarrow> y \<le> x \<Longrightarrow> fle (Fin y) (fl x)"
  using fl_mono[of y x] by simp

end
