(* ===== verification/PyVal.thy ===== *)
theory PyVal
  imports PyFloat
begin

text \<open>
  Dynamically typed Python values, with the conversions the code applies to them:
  truth value, \<open>float(x)\<close>, \<open>int(x)\<close>, \<open>str(x)\<close> and \<open>x or y\<close>.
\<close>

section \<open>Decimal digits\<close>

definition digit_char :: "int \<Rightarrow> char" where
  "digit_char d = char_of (48 + d)"

definition digit_val :: "char \<Rightarrow> int option" where
  "digit_val c = (let n = (of_char c :: int) in if 48 \<le> n \<and> n \<le> 57 then Some (n - 48) else None)"

function show_digits :: "int \<Rightarrow> string" where
  "show_digits n =
     (if n < 10 then [digit_char n] else show_digits (n div 10) @ [digit_char (n mod 10)])"
  by pat_completeness auto
termination
  by (relation "measure nat") auto

declare show_digits.simps [simp del]

definition show_int :: "int \<Rightarrow> string" where
  "show_int n = (if n < 0 then CHR ''-'' # show_digits (- n) else show_digits n)"

text \<open>
  Python's digit groups: digits, single underscores allowed between two digits.  The scan returns
  the digits and the rest of the text.
\<close>

fun scan_digits :: "string \<Rightarrow> int list \<times> string" where
  "scan_digits [] = ([], [])"
| "scan_digits (c # s) =
     (case digit_val c of
        None \<Rightarrow> ([], c # s)
      | Some d \<Rightarrow>
          (case s of
             u # c' # s' \<Rightarrow>
               if u = CHR ''_'' \<and> digit_val c' \<noteq> None
               then (case scan_digits (c' # s') of (ds, r) \<Rightarrow> (d # ds, r))
               else (case scan_digits s of (ds, r) \<Rightarrow> (d # ds, r))
           | _ \<Rightarrow> (case scan_digits s of (ds, r) \<Rightarrow> (d # ds, r))))"

definition int_of_digits :: "int list \<Rightarrow> int" where
  "int_of_digits ds = foldl (\<lambda>a d. a * 10 + d) 0 ds"

fun take_sign :: "string \<Rightarrow> bool \<times> string" where
  "take_sign [] = (False, [])"
| "take_sign (c # s) =
     (if c = CHR ''-'' then (True, s) else if c = CHR ''+'' then (False, s) else (False, c # s))"

text \<open>\<open>int(text)\<close> in base ten.\<close>

definition parse_int :: "string \<Rightarrow> int option" where
  "parse_int s =
     (case take_sign (strip s) of (neg, body) \<Rightarrow>
        (case scan_digits body of (ds, rest) \<Rightarrow>
           if ds = [] \<or> rest \<noteq> [] then None
           else Some (if neg then - int_of_digits ds else int_of_digits ds)))"

text \<open>Printing an integer and reading it back.\<close>

lemma of_char_digit: "0 \<le> d \<Longrightarrow> d < 10 \<Longrightarrow> (of_char (digit_char d) :: int) = 48 + d"
  by (simp add: digit_char_def)

lemma digit_val_digit_char [simp]: "0 \<le> d \<Longrightarrow> d < 10 \<Longrightarrow> digit_val (digit_char d) = Some d"
  by (simp add: digit_val_def of_char_digit Let_def)

lemma digit_char_neq:
  assumes "0 \<le> d" and "d < 10"
  shows "digit_char d \<noteq> CHR ''_''" "digit_char d \<noteq> CHR ''-''" "digit_char d \<noteq> CHR ''+''"
  using of_char_digit [OF assms] assms by auto

lemma digit_char_not_space: "0 \<le> d \<Longrightarrow> d < 10 \<Longrightarrow> \<not> is_space (digit_char d)"
  by (simp add: is_space_def of_char_digit Let_def)

lemma scan_digits_map:
  "\<forall>d \<in> set ds. 0 \<le> d \<and> d < 10 \<Longrightarrow> scan_digits (map digit_char ds) = (ds, [])"
proof (induction ds)
  case (Cons d ds)
  then show ?case by (cases ds rule: remdups_adj.cases) (auto simp: digit_char_neq split: list.splits)
qed simp

lemma show_digits_map:
  assumes "0 \<le> n"
  shows "\<exists>ds. show_digits n = map digit_char ds \<and> (\<forall>d \<in> set ds. 0 \<le> d \<and> d < 10) \<and> ds \<noteq> [] \<and> int_of_digits ds = n"
  using assms
proof (induction n rule: show_digits.induct)
  case (1 n)
  show ?case
  proof (cases "n < 10")
    case True
    then show ?thesis using "1.prems"
      by (intro exI [of _ "[n]"]) (simp add: show_digits.simps [of n] int_of_digits_def)
  next
    case False
    then obtain ds where ds: "show_digits (n div 10) = map digit_char ds" "\<forall>d \<in> set ds. 0 \<le> d \<and> d < 10"
      "ds \<noteq> []" "int_of_digits ds = n div 10"
      using "1.IH" [OF False] pos_imp_zdiv_nonneg_iff [of 10 n] "1.prems" by auto
    then show ?thesis using False
      by (intro exI [of _ "ds @ [n mod 10]"]) (simp add: show_digits.simps [of n] int_of_digits_def)
  qed
qed

lemma dropWhile_none: "\<forall>c \<in> set s. \<not> P c \<Longrightarrow> dropWhile P s = s"
  by (cases s) auto

lemma strip_no_space: "\<forall>c \<in> set s. \<not> is_space c \<Longrightarrow> strip s = s"
  by (simp add: strip_def lstrip_def dropWhile_none)

lemma parse_int_show_int [simp]: "parse_int (show_int n) = Some n"
proof -
  obtain ds where ds: "show_digits \<bar>n\<bar> = map digit_char ds" "\<forall>d \<in> set ds. 0 \<le> d \<and> d < 10" "ds \<noteq> []"
    "int_of_digits ds = \<bar>n\<bar>"
    using show_digits_map [of "\<bar>n\<bar>"] by auto
  have ns: "\<forall>c \<in> set (map digit_char ds). \<not> is_space c" using ds(2) digit_char_not_space by auto
  have st: "strip (show_int n) = show_int n"
    by (rule strip_no_space) (use ns ds(1) in \<open>auto simp: show_int_def is_space_def\<close>)
  have pos: "take_sign (map digit_char ds) = (False, map digit_char ds)"
    using ds(2,3) by (cases ds) (auto simp: digit_char_neq)
  show ?thesis
    unfolding parse_int_def st
    using ds pos scan_digits_map [OF ds(2)] by (auto simp: show_int_def abs_if split: if_splits)
qed

lemma show_int_not_Nil [simp]: "show_int n \<noteq> []"
  using parse_int_show_int [of n] by (auto simp: parse_int_def strip_def lstrip_def)

text \<open>\<open>float(text)\<close>: an optional sign, then \<open>inf\<close>, \<open>infinity\<close>, \<open>nan\<close> or a decimal literal.\<close>

definition parse_exponent :: "string \<Rightarrow> int option" where
  "parse_exponent s =
     (case s of
        [] \<Rightarrow> Some 0
      | c # r \<Rightarrow>
          if c = CHR ''e'' \<or> c = CHR ''E'' then
            (case take_sign r of (neg, body) \<Rightarrow>
               (case scan_digits body of (ds, rest) \<Rightarrow>
                  if ds = [] \<or> rest \<noteq> [] then None
                  else Some (if neg then - int_of_digits ds else int_of_digits ds)))
          else None)"

definition pow10 :: "int \<Rightarrow> rat" where
  "pow10 e = (if 0 \<le> e then 10 ^ nat e else 1 / 10 ^ nat (- e))"

definition parse_decimal :: "string \<Rightarrow> rat option" where
  "parse_decimal s =
     (case scan_digits s of (ip, r) \<Rightarrow>
        (case (case r of
                 c # r' \<Rightarrow> if c = CHR ''.'' then scan_digits r' else ([], r)
               | [] \<Rightarrow> ([], [])) of (fp, r2) \<Rightarrow>
           if ip = [] \<and> fp = [] then None
           else (case parse_exponent r2 of
                   None \<Rightarrow> None
                 | Some e \<Rightarrow>
                     Some (of_int (int_of_digits (ip @ fp)) * pow10 (e - int (length fp))))))"

definition parse_float :: "string \<Rightarrow> pyfloat option" where
  "parse_float s =
     (case take_sign (strip s) of (neg, body) \<Rightarrow>
        if lower body = ''inf'' \<or> lower body = ''infinity'' then Some (if neg then NInf else PInf)
        else if lower body = ''nan'' then Some NaN
        else (case parse_decimal body of
                None \<Rightarrow> None
              | Some x \<Rightarrow> Some (fl (if neg then - x else x))))"

section \<open>repr of a float\<close>

text \<open>
  \<open>repr\<close> (and \<open>str\<close>) print the shortest decimal that reads back as the same float:
  the value is rounded to one, two, \<dots>, seventeen significant digits until it does.
\<close>

fun ilog10_up :: "nat \<Rightarrow> rat \<Rightarrow> int \<Rightarrow> int" where
  "ilog10_up 0 x e = e"
| "ilog10_up (Suc n) x e =
     (if pow10 (e + 1) \<le> x then ilog10_up n x (e + 1)
      else if x < pow10 e then ilog10_up n x (e - 1) else e)"

definition dec_exp :: "rat \<Rightarrow> int" where
  "dec_exp x = ilog10_up 5 x (ilog2 x * 30103 div 100000)"

definition dec_digits :: "nat \<Rightarrow> rat \<Rightarrow> int \<times> int" where
  "dec_digits n x =
     (let e = dec_exp x - int n + 1; m = rne (x / pow10 e)
      in if m = 10 ^ n then (m div 10, e + 1) else (m, e))"

fun shortest :: "nat \<Rightarrow> nat \<Rightarrow> rat \<Rightarrow> int \<times> int" where
  "shortest 0 n x = dec_digits n x"
| "shortest (Suc k) n x =
     (case dec_digits n x of (m, e) \<Rightarrow>
        if rnd (of_int m * pow10 e) = x then (m, e) else shortest k (Suc n) x)"

definition strip_zeros :: "string \<Rightarrow> string" where
  "strip_zeros s = rev (dropWhile (\<lambda>c. c = CHR ''0'') (rev s))"

definition fixed_repr :: "string \<Rightarrow> int \<Rightarrow> string" where
  "fixed_repr ds e10 =
     (if e10 < 0 then ''0.'' @ replicate (nat (- e10 - 1)) (CHR ''0'') @ ds
      else if int (length ds) \<le> e10 + 1
           then ds @ replicate (nat (e10 + 1 - int (length ds))) (CHR ''0'') @ ''.0''
           else take (nat (e10 + 1)) ds @ ''.'' @ drop (nat (e10 + 1)) ds)"

definition sci_repr :: "string \<Rightarrow> int \<Rightarrow> string" where
  "sci_repr ds e10 =
     take 1 ds @ (if length ds > 1 then ''.'' @ drop 1 ds else []) @ ''e'' @
     (if e10 < 0 then ''-'' else ''+'') @
     (if \<bar>e10\<bar> < 10 then ''0'' else []) @ show_digits \<bar>e10\<bar>"

definition pos_repr :: "rat \<Rightarrow> string" where
  "pos_repr x =
     (case shortest 16 1 x of (m, e) \<Rightarrow>
        let full = show_int m; e10 = e + int (length full) - 1; ds = strip_zeros full
        in if - 4 \<le> e10 \<and> e10 < 16 then fixed_repr ds e10 else sci_repr ds e10)"

fun float_repr :: "pyfloat \<Rightarrow> string" where
  "float_repr (Fin x) =
     (if x = 0 then ''0.0'' else if x < 0 then ''-'' @ pos_repr (- x) else pos_repr x)"
| "float_repr PInf = ''inf''"
| "float_repr NInf = ''-inf''"
| "float_repr NaN = ''nan''"

section \<open>Values\<close>

text \<open>pandas timestamps, in nanoseconds.\<close>

type_synonym timestamp = int

datatype pyval =
    PNone
  | PBool bool
  | PInt int
  | PFloat pyfloat
  | PStr string
  | PList "pyval list"
  | PDict "(string \<times> pyval) list"

fun truthy :: "pyval \<Rightarrow> bool" where
  "truthy PNone = False"
| "truthy (PBool b) = b"
| "truthy (PInt n) = (n \<noteq> 0)"
| "truthy (PFloat f) = ftruthy f"
| "truthy (PStr s) = (s \<noteq> [])"
| "truthy (PList xs) = (xs \<noteq> [])"
| "truthy (PDict d) = (d \<noteq> [])"

definition p_or :: "pyval \<Rightarrow> pyval \<Rightarrow> pyval" where
  "p_or a b = (if truthy a then a else b)"

text \<open>\<open>repr\<close> of a text: single quotes unless the text holds a single quote and no double one.\<close>

definition hex_digit :: "int \<Rightarrow> char" where
  "hex_digit d = char_of (if d < 10 then 48 + d else 87 + d)"

definition repr_char :: "char \<Rightarrow> char \<Rightarrow> string" where
  "repr_char q c =
     (let n = (of_char c :: int) in
      if c = q \<or> n = 92 then [char_of (92 :: int), c]
      else if n = 10 then [char_of (92 :: int), CHR ''n'']
      else if n = 13 then [char_of (92 :: int), CHR ''r'']
      else if n = 9 then [char_of (92 :: int), CHR ''t'']
      else if n < 32 \<or> n = 127 then [char_of (92 :: int), CHR ''x'', hex_digit (n div 16), hex_digit (n mod 16)]
      else [c])"

definition repr_str :: "string \<Rightarrow> string" where
  "repr_str s =
     (let q = (if char_of (39 :: int) \<in> set s \<and> char_of (34 :: int) \<notin> set s
               then char_of (34 :: int) else char_of (39 :: int))
      in q # concat (map (repr_char q) s) @ [q])"

fun py_repr :: "pyval \<Rightarrow> string" where
  "py_repr PNone = ''None''"
| "py_repr (PBool b) = (if b then ''True'' else ''False'')"
| "py_repr (PInt n) = show_int n"
| "py_repr (PFloat f) = float_repr f"
| "py_repr (PStr s) = repr_str s"
| "py_repr (PList xs) = ''['' @ join '', '' (map py_repr xs) @ '']''"
| "py_repr (PDict d) = ''{'' @ join '', '' (map (\<lambda>(k, v). repr_str k @ '': '' @ py_repr v) d) @ ''}''"

fun to_str :: "pyval \<Rightarrow> string" where
  "to_str (PStr s) = s"
| "to_str v = py_repr v"

text \<open>\<open>str(x or dflt)\<close>, the idiom the code normalises its inputs with.\<close>

definition str_or :: "pyval \<Rightarrow> string \<Rightarrow> string" where
  "str_or v dflt = to_str (p_or v (PStr dflt))"

lemma str_or_PStr [simp]: "str_or (PStr s) d = (if s = [] then d else s)"
  by (simp add: str_or_def p_or_def)

lemma str_or_PNone [simp]: "str_or PNone d = d"
  by (simp add: str_or_def p_or_def)

fun to_float :: "pyval \<Rightarrow> pyfloat result" where
  "to_float (PBool b) = Inr (Fin (if b then 1 else 0))"
| "to_float (PInt n) = float_of_int n"
| "to_float (PFloat f) = Inr f"
| "to_float (PStr s) =
     (case parse_float s of None \<Rightarrow> Inl (ValueError ''could not convert string to float'') | Some f \<Rightarrow> Inr f)"
| "to_float _ = Inl TypeError"

text \<open>\<open>int(x)\<close> truncates a float towards zero.\<close>

fun trunc_float :: "pyfloat \<Rightarrow> int result" where
  "trunc_float (Fin x) = Inr (if x < 0 then - \<lfloor>- x\<rfloor> else \<lfloor>x\<rfloor>)"
| "trunc_float NaN = Inl (ValueError ''cannot convert float NaN to integer'')"
| "trunc_float _ = Inl OverflowError"

fun to_int :: "pyval \<Rightarrow> int result" where
  "to_int (PBool b) = Inr (if b then 1 else 0)"
| "to_int (PInt n) = Inr n"
| "to_int (PFloat f) = trunc_float f"
| "to_int (PStr s) =
     (case parse_int s of None \<Rightarrow> Inl (ValueError ''invalid literal for int()'') | Some n \<Rightarrow> Inr n)"
| "to_int _ = Inl TypeError"

section \<open>Reading dictionaries of values\<close>

type_synonym pydict = "(string, pyval) dict"

text \<open>\<open>d.get(k)\<close>, and \<open>d.get(k) if isinstance(d.get(k), dict) else {}\<close>.\<close>

definition pget :: "pydict \<Rightarrow> string \<Rightarrow> pyval" where
  "pget d k = dget_or d k PNone"

definition mapping_of :: "pyval \<Rightarrow> pydict" where
  "mapping_of v = (case v of PDict d \<Rightarrow> d | _ \<Rightarrow> [])"

text \<open>\<open>a or b or ...\<close>, and its conversion to an integer, a float or a lower-case word.\<close>

fun first_of :: "pyval list \<Rightarrow> pyval" where
  "first_of [] = PNone"
| "first_of [v] = v"
| "first_of (v # vs) = p_or v (first_of vs)"

definition int_of :: "pyval list \<Rightarrow> int result" where
  "int_of vs = to_int (first_of (vs @ [PInt 0]))"

definition float_of :: "pyval list \<Rightarrow> pyfloat result" where
  "float_of vs = to_float (first_of (vs @ [PFloat (Fin 0)]))"

definition word_of :: "pyval list \<Rightarrow> string \<Rightarrow> string" where
  "word_of vs dflt = lower (strip (to_str (first_of (vs @ [PStr dflt]))))"

end
