(* ===== verification/Protection.thy ===== *)
theory Protection
  imports PyVal
begin

text \<open>
  Position protection (\<open>app/services/strategy_v2/protection.py\<close>): the stop-loss, take-profit,
  trailing-stop and time-limit rules the backtest and the live session share.

  \<^item> \<open>protection_spec\<close>, \<open>protection_state\<close> and \<open>protection_decision\<close> are the three dataclasses.
  \<^item> \<open>mk_spec\<close> is the constructor with \<open>__post_init__\<close>, \<open>from_value\<close> the factory.
  \<^item> \<open>evaluate_bar\<close> and \<open>evaluate_price\<close> return the decision and the mutated state.

  pandas timestamps are integers; \<open>elapsed a b\<close> stands for \<open>(a - b).total_seconds()\<close>,
  \<open>ts_iso\<close> for \<open>Timestamp.isoformat\<close> and \<open>ts_of\<close> for \<open>pd.Timestamp(x)\<close>, all of them parameters.
\<close>

section \<open>Specification\<close>

record protection_spec =
  stop_loss_pct :: pyfloat
  take_profit_pct :: pyfloat
  trailing_stop_pct :: pyfloat
  trailing_activation_pct :: pyfloat
  time_limit_seconds :: int
  trailing_rebase_on_scale_in :: bool

text \<open>\<open>_number\<close>: only \<open>TypeError\<close> and \<open>ValueError\<close> are caught.\<close>

definition p_number :: "pyval \<Rightarrow> pyfloat \<Rightarrow> pyfloat result" where
  "p_number v dflt =
     (case to_float (if v = PNone then PFloat dflt else v) of
        Inl TypeError \<Rightarrow> Inr dflt
      | Inl (ValueError _) \<Rightarrow> Inr dflt
      | Inl e \<Rightarrow> Inl e
      | Inr x \<Rightarrow> Inr (if is_nan x then dflt else x))"

text \<open>\<open>_number\<close> on a value that already is a float.\<close>

definition f_number :: "pyfloat \<Rightarrow> pyfloat \<Rightarrow> pyfloat" where
  "f_number x dflt = (if is_nan x then dflt else x)"

lemma p_number_float [simp]: "p_number (PFloat x) d = Inr (f_number x d)"
  by (simp add: p_number_def f_number_def)

definition p_ratio :: "pyval \<Rightarrow> pyfloat \<Rightarrow> pyfloat result" where
  "p_ratio v maximum = bindE (p_number v (Fin 0)) (\<lambda>x. Inr (pymin maximum (pymax (Fin 0) x)))"

definition p_boolean :: "pyval \<Rightarrow> bool \<Rightarrow> bool" where
  "p_boolean v dflt =
     (case v of
        PNone \<Rightarrow> dflt
      | PStr s \<Rightarrow>
          let n = lower (strip s) in
          if n \<in> {''1'', ''true'', ''yes'', ''on''} then True
          else if n \<in> {''0'', ''false'', ''no'', ''off'', []} then False
          else truthy v
      | _ \<Rightarrow> truthy v)"

definition mk_spec ::
  "pyval \<Rightarrow> pyval \<Rightarrow> pyval \<Rightarrow> pyval \<Rightarrow> pyval \<Rightarrow> pyval \<Rightarrow> protection_spec result" where
  "mk_spec sl tp ts ta tsec rb =
     bindE (p_ratio sl (Fin 1)) (\<lambda>sl'.
     bindE (p_ratio tp (Fin 5)) (\<lambda>tp'.
     bindE (p_ratio ts (Fin 1)) (\<lambda>ts'.
     bindE (p_ratio ta (Fin 5)) (\<lambda>ta'.
     bindE (to_int (p_or tsec (PInt 0))) (\<lambda>tsec'.
       Inr \<lparr>stop_loss_pct = sl', take_profit_pct = tp', trailing_stop_pct = ts',
            trailing_activation_pct = ta', time_limit_seconds = max 0 tsec',
            trailing_rebase_on_scale_in = p_boolean rb True\<rparr>)))))"

definition enabled :: "protection_spec \<Rightarrow> bool" where
  "enabled sp \<longleftrightarrow>
     flt (Fin 0) (stop_loss_pct sp) \<or> flt (Fin 0) (take_profit_pct sp) \<or>
     flt (Fin 0) (trailing_stop_pct sp) \<or> 0 < time_limit_seconds sp"

definition spec_metadata :: "protection_spec \<Rightarrow> (string, pyval) dict" where
  "spec_metadata sp =
     [(''stop_loss_pct'', PFloat (stop_loss_pct sp)),
      (''take_profit_pct'', PFloat (take_profit_pct sp)),
      (''trailing_stop_pct'', PFloat (trailing_stop_pct sp)),
      (''trailing_activation_pct'', PFloat (trailing_activation_pct sp)),
      (''time_limit_seconds'', PInt (time_limit_seconds sp)),
      (''trailing_rebase_on_scale_in'', PBool (trailing_rebase_on_scale_in sp))]"

text \<open>What \<open>from_value\<close> accepts: a spec, a mapping, or anything else (ignored).\<close>

datatype spec_source = SrcSpec protection_spec | SrcMap "(string, pyval) dict" | SrcOther

fun source_dict :: "spec_source \<Rightarrow> (string, pyval) dict" where
  "source_dict (SrcSpec sp) = dupdate [] (spec_metadata sp)"
| "source_dict (SrcMap m) = dupdate [] m"
| "source_dict SrcOther = []"

definition merge_trailing :: "(string, pyval) dict \<Rightarrow> (string, pyval) dict" where
  "merge_trailing src =
     (case dget src ''trailing'' of
        Some (PDict t) \<Rightarrow>
          dsetdefault (dsetdefault src ''trailing_stop_pct'' (dget_or t ''pct'' PNone))
            ''trailing_activation_pct'' (dget_or t ''activation_pct'' PNone)
      | _ \<Rightarrow> src)"

definition from_value :: "spec_source \<Rightarrow> (string, pyval) dict \<Rightarrow> protection_spec option result" where
  "from_value value overrides =
     (let src = merge_trailing
                  (dupdate (source_dict value) (filter (\<lambda>p. snd p \<noteq> PNone) overrides));
          g = (\<lambda>k. dget_or src k PNone)
      in bindE (mk_spec (g ''stop_loss_pct'') (g ''take_profit_pct'') (g ''trailing_stop_pct'')
                  (g ''trailing_activation_pct'') (g ''time_limit_seconds'')
                  (dget_or src ''trailing_rebase_on_scale_in'' (PBool True)))
           (\<lambda>sp. Inr (if enabled sp then Some sp else None)))"

section \<open>State\<close>

record protection_state =
  pst_symbol :: string
  pst_side :: string
  pst_entry_price :: pyfloat
  pst_spec :: protection_spec
  pst_opened_at :: timestamp
  pst_highest_price :: pyfloat
  pst_lowest_price :: pyfloat
  pst_trailing_active :: bool

definition state_open ::
  "string \<Rightarrow> string \<Rightarrow> pyfloat \<Rightarrow> protection_spec \<Rightarrow> timestamp \<Rightarrow> protection_state" where
  "state_open symb sd entry sp when =
     (let price = f_or entry (Fin 0) in
      \<lparr>pst_symbol = symb, pst_side = lower sd, pst_entry_price = price, pst_spec = sp,
       pst_opened_at = when, pst_highest_price = price, pst_lowest_price = price,
       pst_trailing_active = False\<rparr>)"

definition apply_scale_in ::
  "pyfloat \<Rightarrow> pyfloat \<Rightarrow> protection_spec option \<Rightarrow> timestamp option \<Rightarrow> protection_state \<Rightarrow> protection_state"
where
  "apply_scale_in entry fill sp when st =
     (let entry' = f_or entry (pst_entry_price st);
          sp' = (case sp of None \<Rightarrow> pst_spec st | Some x \<Rightarrow> x);
          st1 = st\<lparr>pst_entry_price := entry', pst_spec := sp'\<rparr>;
          ref0 = f_or fill entry';
          ref = (if fle ref0 (Fin 0) then entry' else ref0);
          fresh = st1\<lparr>pst_highest_price := pymax entry' ref, pst_lowest_price := pymin entry' ref\<rparr>
      in if trailing_rebase_on_scale_in sp' then
           (case when of
              None \<Rightarrow> fresh\<lparr>pst_trailing_active := False\<rparr>
            | Some t \<Rightarrow> fresh\<lparr>pst_trailing_active := False, pst_opened_at := t\<rparr>)
         else if pst_trailing_active st then st1
         else fresh)"

definition state_metadata :: "(timestamp \<Rightarrow> string) \<Rightarrow> protection_state \<Rightarrow> (string, pyval) dict" where
  "state_metadata ts_iso st =
     [(''symbol'', PStr (pst_symbol st)),
      (''side'', PStr (pst_side st)),
      (''entry_price'', PFloat (pst_entry_price st)),
      (''spec'', PDict (spec_metadata (pst_spec st))),
      (''opened_at'', PStr (ts_iso (pst_opened_at st))),
      (''highest_price'', PFloat (pst_highest_price st)),
      (''lowest_price'', PFloat (pst_lowest_price st)),
      (''trailing_active'', PBool (pst_trailing_active st))]"

definition spec_source_of :: "pyval \<Rightarrow> spec_source" where
  "spec_source_of v = (case v of PDict d \<Rightarrow> SrcMap d | _ \<Rightarrow> SrcOther)"

definition from_metadata ::
  "(pyval \<Rightarrow> timestamp result) \<Rightarrow> timestamp \<Rightarrow> (string, pyval) dict \<Rightarrow> protection_state option result"
where
  "from_metadata ts_of utcnow value =
     (let g = (\<lambda>k. dget_or value k PNone) in
      bindE (from_value (spec_source_of (g ''spec'')) []) (\<lambda>spec.
      bindE (p_number (g ''entry_price'') (Fin 0)) (\<lambda>entry.
        case spec of
          None \<Rightarrow> Inr None
        | Some sp \<Rightarrow>
            if fle entry (Fin 0) then Inr None
            else
              bindE (if truthy (g ''opened_at'') then ts_of (g ''opened_at'') else Inr utcnow) (\<lambda>when.
              bindE (p_number (g ''highest_price'') entry) (\<lambda>hi.
              bindE (p_number (g ''lowest_price'') entry) (\<lambda>lo.
                Inr (Some ((state_open (str_or (g ''symbol'') []) (str_or (g ''side'') ''long'') entry sp when)
                  \<lparr>pst_highest_price := pymax entry hi,
                   pst_lowest_price := pymin entry (if flt (Fin 0) lo then lo else entry),
                   pst_trailing_active := truthy (g ''trailing_active'')\<rparr>))))))))"

section \<open>Decisions\<close>

record protection_decision =
  pd_symbol :: string
  pd_side :: string
  pd_reason :: string
  pd_price :: pyfloat
  pd_trigger_price :: pyfloat
  pd_timestamp :: timestamp

definition decision ::
  "protection_state \<Rightarrow> string \<Rightarrow> pyfloat \<Rightarrow> pyfloat \<Rightarrow> timestamp \<Rightarrow> protection_decision" where
  "decision st reason price trigger ts =
     \<lparr>pd_symbol = pst_symbol st, pd_side = pst_side st, pd_reason = reason, pd_price = price,
      pd_trigger_price = trigger, pd_timestamp = ts\<rparr>"

abbreviation is_long :: "protection_state \<Rightarrow> bool" where
  "is_long st \<equiv> pst_side st = ''long''"

text \<open>\<open>_trailing_trigger\<close> also arms the trailing stop, so it returns the state.\<close>

definition trailing_activated :: "protection_state \<Rightarrow> bool" where
  "trailing_activated st \<longleftrightarrow>
     pst_trailing_active st \<or>
     (if is_long st
      then fle (fmul (pst_entry_price st) (fadd (Fin 1) (trailing_activation_pct (pst_spec st))))
             (pst_highest_price st)
      else fle (pst_lowest_price st)
             (fmul (pst_entry_price st) (fsub (Fin 1) (trailing_activation_pct (pst_spec st)))))"

definition trailing_trigger :: "protection_state \<Rightarrow> pyfloat option \<times> protection_state" where
  "trailing_trigger st =
     (if fle (trailing_stop_pct (pst_spec st)) (Fin 0) then (None, st)
      else let st' = st\<lparr>pst_trailing_active := trailing_activated st\<rparr> in
        if \<not> pst_trailing_active st' then (None, st')
        else if is_long st
        then (Some (fmul (pst_highest_price st) (fsub (Fin 1) (trailing_stop_pct (pst_spec st)))), st')
        else (Some (fmul (pst_lowest_price st) (fadd (Fin 1) (trailing_stop_pct (pst_spec st)))), st'))"

definition time_limit_reached ::
  "(timestamp \<Rightarrow> timestamp \<Rightarrow> pyfloat) \<Rightarrow> protection_state \<Rightarrow> timestamp \<Rightarrow> bool" where
  "time_limit_reached elapsed st ts =
     (let limit = time_limit_seconds (pst_spec st) in
      0 < limit \<and> fle (Fin (of_int limit)) (elapsed ts (pst_opened_at st)))"

definition stop_trigger :: "protection_state \<Rightarrow> pyfloat" where
  "stop_trigger st =
     fmul (pst_entry_price st)
       (if is_long st then fsub (Fin 1) (stop_loss_pct (pst_spec st))
        else fadd (Fin 1) (stop_loss_pct (pst_spec st)))"

definition profit_trigger :: "protection_state \<Rightarrow> pyfloat" where
  "profit_trigger st =
     fmul (pst_entry_price st)
       (if is_long st then fadd (Fin 1) (take_profit_pct (pst_spec st))
        else fsub (Fin 1) (take_profit_pct (pst_spec st)))"

text \<open>One exit rule of \<open>_bar_candidates\<close>: it fires when the bar touches the trigger on its side
  (below for a falling rule, above for a rising one) and fills at the open when the bar gapped.\<close>

definition bar_rule ::
  "protection_state \<Rightarrow> string \<Rightarrow> bool \<Rightarrow> pyfloat \<Rightarrow> timestamp \<Rightarrow> pyfloat \<Rightarrow> pyfloat \<Rightarrow> pyfloat \<Rightarrow> protection_decision list"
where
  "bar_rule st reason below trigger ts opn high low =
     (let touched = (if below then fle low trigger else fle trigger high);
          gapped = (if below then fle opn trigger else fle trigger opn)
      in if touched then [decision st reason (if gapped then opn else trigger) trigger ts] else [])"

definition bar_candidates ::
  "(timestamp \<Rightarrow> timestamp \<Rightarrow> pyfloat) \<Rightarrow> protection_state \<Rightarrow> timestamp \<Rightarrow> pyfloat \<Rightarrow> pyfloat \<Rightarrow> pyfloat \<Rightarrow>
    protection_decision list \<times> protection_state" where
  "bar_candidates elapsed st ts opn high low =
     (let sp = pst_spec st;
          c1 = (if flt (Fin 0) (stop_loss_pct sp)
                then bar_rule st ''stop_loss'' (is_long st) (stop_trigger st) ts opn high low else []);
          (trailing, st') = trailing_trigger st;
          c2 = (case trailing of None \<Rightarrow> []
                | Some t \<Rightarrow> bar_rule st ''trailing_stop'' (is_long st) t ts opn high low);
          c3 = (if flt (Fin 0) (take_profit_pct sp)
                then bar_rule st ''take_profit'' (\<not> is_long st) (profit_trigger st) ts opn high low else []);
          c4 = (if time_limit_reached elapsed st ts then [decision st ''time_limit'' opn opn ts] else [])
      in (c1 @ c2 @ c3 @ c4, st'))"

definition price_rule ::
  "protection_state \<Rightarrow> string \<Rightarrow> bool \<Rightarrow> pyfloat \<Rightarrow> timestamp \<Rightarrow> pyfloat \<Rightarrow> protection_decision list" where
  "price_rule st reason below trigger ts price =
     (if (if below then fle price trigger else fle trigger price)
      then [decision st reason price trigger ts] else [])"

definition price_candidates ::
  "(timestamp \<Rightarrow> timestamp \<Rightarrow> pyfloat) \<Rightarrow> protection_state \<Rightarrow> timestamp \<Rightarrow> pyfloat \<Rightarrow>
    protection_decision list \<times> protection_state" where
  "price_candidates elapsed st ts price =
     (let sp = pst_spec st;
          c1 = (if flt (Fin 0) (stop_loss_pct sp)
                then price_rule st ''stop_loss'' (is_long st) (stop_trigger st) ts price else []);
          (trailing, st') = trailing_trigger st;
          c2 = (case trailing of None \<Rightarrow> []
                | Some t \<Rightarrow> price_rule st ''trailing_stop'' (is_long st) t ts price);
          c3 = (if flt (Fin 0) (take_profit_pct sp)
                then price_rule st ''take_profit'' (\<not> is_long st) (profit_trigger st) ts price else []);
          c4 = (if time_limit_reached elapsed st ts then [decision st ''time_limit'' price price ts] else [])
      in (c1 @ c2 @ c3 @ c4, st'))"

text \<open>\<open>min(xs, key=f)\<close>: the first element no later one is strictly below.\<close>

fun min_by :: "('b \<Rightarrow> 'b \<Rightarrow> bool) \<Rightarrow> ('a \<Rightarrow> 'b) \<Rightarrow> 'a \<Rightarrow> 'a list \<Rightarrow> 'a" where
  "min_by lt f best [] = best"
| "min_by lt f best (x # xs) = min_by lt f (if lt (f x) (f best) then x else best) xs"

definition intrabar_mode :: "string \<Rightarrow> string" where
  "intrabar_mode raw =
     (let mode = lower (strip (if raw = [] then ''conservative'' else raw)) in
      if mode \<in> {''conservative'', ''balanced'', ''aggressive''} then mode else ''conservative'')"

definition aggressive_priority :: "string \<Rightarrow> nat" where
  "aggressive_priority r =
     dget_or [(''take_profit'', 0), (''trailing_stop'', 1), (''time_limit'', 2), (''stop_loss'', 3)] r 9"

definition conservative_priority :: "string \<Rightarrow> nat" where
  "conservative_priority r =
     dget_or [(''stop_loss'', 0), (''trailing_stop'', 1), (''time_limit'', 2), (''take_profit'', 3)] r 9"

definition choose_candidate :: "string \<Rightarrow> protection_decision list \<Rightarrow> pyfloat \<Rightarrow> protection_decision option" where
  "choose_candidate mode cs reference =
     (case cs of
        [] \<Rightarrow> None
      | [c] \<Rightarrow> Some c
      | c # rest \<Rightarrow>
          if mode = ''aggressive''
          then Some (min_by (<) (\<lambda>d. aggressive_priority (pd_reason d)) c rest)
          else if mode = ''balanced''
          then Some (min_by flt (\<lambda>d. fabs (fsub (pd_trigger_price d) reference)) c rest)
          else Some (min_by (<) (\<lambda>d. conservative_priority (pd_reason d)) c rest))"

definition evaluate_bar ::
  "(timestamp \<Rightarrow> timestamp \<Rightarrow> pyfloat) \<Rightarrow> string \<Rightarrow> protection_state \<Rightarrow> timestamp \<Rightarrow>
    pyfloat \<Rightarrow> pyfloat \<Rightarrow> pyfloat \<Rightarrow> protection_decision option \<times> protection_state" where
  "evaluate_bar elapsed mode st ts open_price high_price low_price =
     (let opn = f_number open_price (Fin 0);
          high = pymax opn (f_number high_price opn);
          low = pymin opn (f_number low_price opn);
          (cs, st') = bar_candidates elapsed st ts opn high low
      in case choose_candidate mode cs opn of
           None \<Rightarrow> (None, st'\<lparr>pst_highest_price := pymax (pst_highest_price st') high,
                             pst_lowest_price := pymin (pst_lowest_price st') low\<rparr>)
         | Some d \<Rightarrow> (Some d, st'))"

definition evaluate_price ::
  "(timestamp \<Rightarrow> timestamp \<Rightarrow> pyfloat) \<Rightarrow> string \<Rightarrow> protection_state \<Rightarrow> timestamp \<Rightarrow> pyfloat \<Rightarrow>
    protection_decision option \<times> protection_state" where
  "evaluate_price elapsed mode st ts price =
     (let current = f_number price (Fin 0) in
      if fle current (Fin 0) then (None, st)
      else
        let st1 = st\<lparr>pst_highest_price := pymax (pst_highest_price st) current,
                     pst_lowest_price := pymin (pst_lowest_price st) current\<rparr>;
            (cs, st') = price_candidates elapsed st1 ts current
        in (choose_candidate mode cs current, st'))"

section \<open>Specification lemmas\<close>

lemma f_number_not_NaN [simp]: "d \<noteq> NaN \<Longrightarrow> f_number x d \<noteq> NaN"
  by (simp add: f_number_def is_nan_def)

lemma p_number_not_NaN: "p_number v d = Inr x \<Longrightarrow> d \<noteq> NaN \<Longrightarrow> x \<noteq> NaN"
  by (auto simp: p_number_def is_nan_def split: sum.splits pyexc.splits if_splits)

lemma p_ratio_bounds:
  assumes "p_ratio v (Fin m) = Inr x" and "0 \<le> m"
  shows "fle (Fin 0) x \<and> fle x (Fin m)"
proof -
  obtain y where y: "p_number v (Fin 0) = Inr y" "x = pymin (Fin m) (pymax (Fin 0) y)"
    using assms(1) by (auto simp: p_ratio_def bindE_Inr_iff)
  then have "fle (Fin 0) (pymax (Fin 0) y)" by (intro pymax_ge_left) simp
  then have "fle (Fin 0) x"
    using assms(2) y(2) by (auto simp: pymin_def)
  moreover have "fle x (Fin m)"
    unfolding y(2) by (rule pymin_le_left) simp
  ultimately show ?thesis by simp
qed

definition wf_spec :: "protection_spec \<Rightarrow> bool" where
  "wf_spec sp \<longleftrightarrow>
     fle (Fin 0) (stop_loss_pct sp) \<and> fle (stop_loss_pct sp) (Fin 1) \<and>
     fle (Fin 0) (take_profit_pct sp) \<and> fle (take_profit_pct sp) (Fin 5) \<and>
     fle (Fin 0) (trailing_stop_pct sp) \<and> fle (trailing_stop_pct sp) (Fin 1) \<and>
     fle (Fin 0) (trailing_activation_pct sp) \<and> fle (trailing_activation_pct sp) (Fin 5) \<and>
     0 \<le> time_limit_seconds sp"

lemma mk_spec_wf: "mk_spec sl tp ts ta tsec rb = Inr sp \<Longrightarrow> wf_spec sp"
  unfolding mk_spec_def bindE_Inr_iff wf_spec_def
  by (elim exE conjE) (auto dest: p_ratio_bounds)

lemma clamp_id: "fle (Fin 0) x \<Longrightarrow> fle x (Fin m) \<Longrightarrow> p_ratio (PFloat x) (Fin m) = Inr x"
  by (cases x) (auto simp: p_ratio_def f_number_def is_nan_def pymin_def pymax_def)

lemma mk_spec_metadata:
  "wf_spec sp \<Longrightarrow>
     mk_spec (PFloat (stop_loss_pct sp)) (PFloat (take_profit_pct sp)) (PFloat (trailing_stop_pct sp))
       (PFloat (trailing_activation_pct sp)) (PInt (time_limit_seconds sp))
       (PBool (trailing_rebase_on_scale_in sp)) = Inr sp"
  by (simp add: mk_spec_def wf_spec_def clamp_id p_or_def p_boolean_def)

lemma source_spec_metadata: "source_dict (SrcSpec sp) = spec_metadata sp"
  by (simp add: spec_metadata_def dupdate_def)

lemma source_map_metadata: "source_dict (SrcMap (spec_metadata sp)) = spec_metadata sp"
  by (simp add: spec_metadata_def dupdate_def)

lemma from_value_spec_metadata:
  assumes "wf_spec sp" and "source_dict v = spec_metadata sp"
  shows "from_value v [] = Inr (if enabled sp then Some sp else None)"
  using mk_spec_metadata [OF assms(1)] assms(2)
  by (simp add: from_value_def dupdate_def merge_trailing_def spec_metadata_def dget_or_def dget_def)

section \<open>Evaluation lemmas\<close>

lemma min_by_in: "min_by lt f b xs \<in> insert b (set xs)"
  by (induction lt f b xs rule: min_by.induct) (auto split: if_splits)

lemma min_by_least:
  fixes f :: "'a \<Rightarrow> nat"
  shows "x \<in> insert b (set xs) \<Longrightarrow> f (min_by (<) f b xs) \<le> f x"
proof (induction xs arbitrary: b x)
  case (Cons y ys)
  show ?case
  proof (cases "x = b \<or> x = y")
    case True
    have "f (min_by (<) f (if f y < f b then y else b) ys) \<le> f (if f y < f b then y else b)"
      by (rule Cons.IH) simp
    with True show ?thesis by (auto split: if_splits)
  next
    case False
    with Cons show ?thesis by simp
  qed
qed simp

lemma choose_candidate_in:
  assumes "choose_candidate mode cs r = Some d"
  shows "d \<in> set cs"
proof (cases cs rule: remdups_adj.cases)
  case (3 x y xs)
  note m = min_by_in [of _ _ x "y # xs"]
  show ?thesis
    using assms m [of "(<)" "\<lambda>d. aggressive_priority (pd_reason d)"]
      m [of flt "\<lambda>d. fabs (fsub (pd_trigger_price d) r)"]
      m [of "(<)" "\<lambda>d. conservative_priority (pd_reason d)"]
    by (simp add: choose_candidate_def 3 del: min_by.simps split: if_splits)
qed (use assms in \<open>auto simp: choose_candidate_def\<close>)

lemma choose_candidate_None_iff: "choose_candidate mode cs r = None \<longleftrightarrow> cs = []"
  by (cases cs rule: remdups_adj.cases) (auto simp: choose_candidate_def)

lemma choose_candidate_conservative:
  assumes "choose_candidate ''conservative'' cs r = Some d" and "c \<in> set cs"
  shows "conservative_priority (pd_reason d) \<le> conservative_priority (pd_reason c)"
proof (cases cs rule: remdups_adj.cases)
  case (3 x y xs)
  then show ?thesis using assms min_by_least [of c x "y # xs" "\<lambda>d. conservative_priority (pd_reason d)"]
    by (auto simp: choose_candidate_def simp del: min_by.simps)
qed (use assms in \<open>auto simp: choose_candidate_def\<close>)

lemma bar_rule_price:
  assumes "d \<in> set (bar_rule st reason below trigger ts opn high low)"
    and "fle low opn" and "fle opn high"
  shows "fle low (pd_price d) \<and> fle (pd_price d) high \<and> pd_reason d = reason \<and>
    (if below then fle (pd_price d) trigger else fle trigger (pd_price d))"
proof -
  have nn: "opn \<noteq> NaN" using assms(2) fle_not_NaN by blast
  show ?thesis
  proof (cases below)
    case True
    then have t: "fle low trigger" and d: "d = decision st reason (if fle opn trigger then opn else trigger) trigger ts"
      using assms(1) by (auto simp: bar_rule_def Let_def split: if_splits)
    have "\<not> fle opn trigger \<Longrightarrow> fle trigger high"
      using nn t assms(3) by (metis fle_not_NaN flt_imp_fle fle_trans not_fle_iff)
    then show ?thesis
      using True t d assms(2,3) fle_not_NaN [OF t] by (auto simp: decision_def fle_refl_iff)
  next
    case False
    then have t: "fle trigger high" and d: "d = decision st reason (if fle trigger opn then opn else trigger) trigger ts"
      using assms(1) by (auto simp: bar_rule_def Let_def split: if_splits)
    have "\<not> fle trigger opn \<Longrightarrow> fle low trigger"
      using nn t assms(2) by (metis fle_not_NaN flt_imp_fle fle_trans not_fle_iff)
    then show ?thesis
      using False t d assms(2,3) fle_not_NaN [OF t] by (auto simp: decision_def fle_refl_iff)
  qed
qed

lemma trailing_trigger_frame:
  assumes "trailing_trigger st = (t, st')"
  shows "st' = st\<lparr>pst_trailing_active := pst_trailing_active st'\<rparr>"
    and "pst_trailing_active st \<Longrightarrow> pst_trailing_active st'"
  using assms by (auto simp: trailing_trigger_def trailing_activated_def Let_def split: if_splits)

lemma bar_candidates_state:
  "bar_candidates elapsed st ts opn high low = (cs, st') \<Longrightarrow> trailing_trigger st = (fst (trailing_trigger st), st')"
  by (auto simp: bar_candidates_def Let_def split: prod.splits)

lemma price_candidates_state:
  "price_candidates elapsed st ts p = (cs, st') \<Longrightarrow> trailing_trigger st = (fst (trailing_trigger st), st')"
  by (auto simp: price_candidates_def Let_def split: prod.splits)

lemma bar_candidates_set:
  assumes "bar_candidates elapsed st ts opn high low = (cs, st')" and "d \<in> set cs"
  shows "d \<in> set (bar_rule st ''stop_loss'' (is_long st) (stop_trigger st) ts opn high low) \<or>
    (\<exists>t. d \<in> set (bar_rule st ''trailing_stop'' (is_long st) t ts opn high low)) \<or>
    d \<in> set (bar_rule st ''take_profit'' (\<not> is_long st) (profit_trigger st) ts opn high low) \<or>
    d = decision st ''time_limit'' opn opn ts"
  using assms unfolding bar_candidates_def Let_def
  by (auto split: prod.splits if_splits option.splits)

lemma bar_rule_reason: "d \<in> set (bar_rule st r below t ts opn high low) \<Longrightarrow> pd_reason d = r"
  by (auto simp: bar_rule_def decision_def Let_def split: if_splits)

lemma bar_candidates_price:
  assumes "bar_candidates elapsed st ts opn high low = (cs, st')" and "d \<in> set cs"
    and "fle low opn" and "fle opn high"
  shows "fle low (pd_price d) \<and> fle (pd_price d) high"
proof -
  have "d = decision st ''time_limit'' opn opn ts \<Longrightarrow> ?thesis"
    using assms(3,4) by (simp add: decision_def)
  then show ?thesis
    using bar_candidates_set [OF assms(1,2)] bar_rule_price [OF _ assms(3,4)] by blast
qed

lemma bar_window:
  fixes o0 h0 l0 :: pyfloat
  defines "opn \<equiv> f_number o0 (Fin 0)"
  shows "opn \<noteq> NaN" "fle (pymin opn (f_number l0 opn)) opn" "fle opn (pymax opn (f_number h0 opn))"
proof -
  show n: "opn \<noteq> NaN" unfolding opn_def by simp
  show "fle (pymin opn (f_number l0 opn)) opn" using n by (rule pymin_le_left)
  show "fle opn (pymax opn (f_number h0 opn))" using n by (rule pymax_ge_left)
qed

lemma evaluate_bar_cases:
  fixes o0 h0 l0 :: pyfloat
  assumes "evaluate_bar elapsed mode st ts o0 h0 l0 = (res, st')"
  defines "opn \<equiv> f_number o0 (Fin 0)"
  defines "high \<equiv> pymax opn (f_number h0 opn)" and "low \<equiv> pymin opn (f_number l0 opn)"
  obtains cs st1 where "bar_candidates elapsed st ts opn high low = (cs, st1)"
    "res = choose_candidate mode cs opn"
    "st' = (if res = None then st1\<lparr>pst_highest_price := pymax (pst_highest_price st1) high,
                                  pst_lowest_price := pymin (pst_lowest_price st1) low\<rparr> else st1)"
  using assms by (auto simp: evaluate_bar_def Let_def split: prod.splits option.splits)

text \<open>
  An exit that a bar triggers is filled at a price inside that bar:
  whatever rule fires and whichever candidate is chosen, the decision's price lies between the
  bar's low and its high (after the code's own normalisation of the three prices).
\<close>

theorem evaluate_bar_price_in_range:
  assumes "evaluate_bar elapsed mode st ts open_price high_price low_price = (Some d, st')"
  shows "fle (pymin (f_number open_price (Fin 0)) (f_number low_price (f_number open_price (Fin 0)))) (pd_price d)
    \<and> fle (pd_price d) (pymax (f_number open_price (Fin 0)) (f_number high_price (f_number open_price (Fin 0))))"
proof (rule evaluate_bar_cases [OF assms])
  fix cs st1
  assume b: "bar_candidates elapsed st ts (f_number open_price (Fin 0))
      (pymax (f_number open_price (Fin 0)) (f_number high_price (f_number open_price (Fin 0))))
      (pymin (f_number open_price (Fin 0)) (f_number low_price (f_number open_price (Fin 0)))) = (cs, st1)"
    and c: "Some d = choose_candidate mode cs (f_number open_price (Fin 0))"
  have "d \<in> set cs" using c by (metis choose_candidate_in)
  from bar_candidates_price [OF b this bar_window(2,3)] show ?thesis .
qed

lemma evaluate_bar_frame:
  assumes "evaluate_bar elapsed mode st ts o0 h0 l0 = (res, st')" and "pst_highest_price st \<noteq> NaN"
    and "pst_lowest_price st \<noteq> NaN"
  shows "pst_entry_price st' = pst_entry_price st \<and> pst_spec st' = pst_spec st \<and> pst_side st' = pst_side st
    \<and> (pst_trailing_active st \<longrightarrow> pst_trailing_active st')
    \<and> fle (pst_highest_price st) (pst_highest_price st') \<and> fle (pst_lowest_price st') (pst_lowest_price st)"
proof (rule evaluate_bar_cases [OF assms(1)])
  fix cs st1
  assume b: "bar_candidates elapsed st ts (f_number o0 (Fin 0))
      (pymax (f_number o0 (Fin 0)) (f_number h0 (f_number o0 (Fin 0))))
      (pymin (f_number o0 (Fin 0)) (f_number l0 (f_number o0 (Fin 0)))) = (cs, st1)"
    and s: "st' = (if res = None then st1\<lparr>pst_highest_price := pymax (pst_highest_price st1)
        (pymax (f_number o0 (Fin 0)) (f_number h0 (f_number o0 (Fin 0)))),
        pst_lowest_price := pymin (pst_lowest_price st1)
        (pymin (f_number o0 (Fin 0)) (f_number l0 (f_number o0 (Fin 0))))\<rparr> else st1)"
  have t: "trailing_trigger st = (fst (trailing_trigger st), st1)" using b by (rule bar_candidates_state)
  have e: "st1 = st\<lparr>pst_trailing_active := pst_trailing_active st1\<rparr>"
    using t by (rule trailing_trigger_frame(1))
  have f: "pst_highest_price st1 = pst_highest_price st" "pst_lowest_price st1 = pst_lowest_price st"
    "pst_entry_price st1 = pst_entry_price st" "pst_spec st1 = pst_spec st" "pst_side st1 = pst_side st"
    by (subst e, simp)+
  show ?thesis
    using trailing_trigger_frame(2) [OF t] assms(2,3)
    by (auto simp: s f fle_refl_iff intro: pymax_ge_left pymin_le_left)
qed

text \<open>A concrete long position at 100 with a stop at 93.75 and a trailing stop of one eighth.\<close>

definition example_spec :: protection_spec where
  "example_spec = \<lparr>stop_loss_pct = Fin (1 / 16), take_profit_pct = Fin 0, trailing_stop_pct = Fin (1 / 8),
     trailing_activation_pct = Fin 0, time_limit_seconds = 0, trailing_rebase_on_scale_in = False\<rparr>"

definition example_state :: protection_state where
  "example_state = state_open ''Crypto:BTC/USDT'' ''LONG'' (Fin 100) example_spec 0"

theorem evaluate_bar_price_in_range_witness:
  "evaluate_bar (\<lambda>_ _. Fin 0) ''conservative'' example_state 60 (Fin 96) (Fin 97) (Fin 90) =
     (Some \<lparr>pd_symbol = ''Crypto:BTC/USDT'', pd_side = ''long'', pd_reason = ''stop_loss'',
        pd_price = Fin (375 / 4), pd_trigger_price = Fin (375 / 4), pd_timestamp = 60\<rparr>,
      example_state\<lparr>pst_trailing_active := True\<rparr>)
   \<and> fle (pymin (f_number (Fin 96) (Fin 0)) (f_number (Fin 90) (f_number (Fin 96) (Fin 0)))) (Fin (375 / 4))
   \<and> fle (Fin (375 / 4)) (pymax (f_number (Fin 96) (Fin 0)) (f_number (Fin 97) (f_number (Fin 96) (Fin 0))))"
proof -
  have e: "evaluate_bar (\<lambda>_ _. Fin 0) ''conservative'' example_state 60 (Fin 96) (Fin 97) (Fin 90) =
     (Some \<lparr>pd_symbol = ''Crypto:BTC/USDT'', pd_side = ''long'', pd_reason = ''stop_loss'',
        pd_price = Fin (375 / 4), pd_trigger_price = Fin (375 / 4), pd_timestamp = 60\<rparr>,
      example_state\<lparr>pst_trailing_active := True\<rparr>)"
    by code_simp
  from evaluate_bar_price_in_range [OF e] e show ?thesis by simp
qed

lemma bar_candidates_stop_loss:
  assumes "bar_candidates elapsed st ts opn high low = (cs, st')"
    and "flt (Fin 0) (stop_loss_pct (pst_spec st))"
    and "if is_long st then fle low (stop_trigger st) else fle (stop_trigger st) high"
  shows "\<exists>d \<in> set cs. pd_reason d = ''stop_loss''"
proof -
  have "\<exists>d \<in> set (bar_rule st ''stop_loss'' (is_long st) (stop_trigger st) ts opn high low). pd_reason d = ''stop_loss''"
    using assms(3) by (auto simp: bar_rule_def Let_def decision_def)
  then show ?thesis
    using assms(1,2) by (auto simp: bar_candidates_def Let_def split: prod.splits)
qed

lemma conservative_priority_0: "conservative_priority r = 0 \<longleftrightarrow> r = ''stop_loss''"
  by (simp add: conservative_priority_def dget_or_def dget_def)

lemma bar_candidates_stop_reason:
  assumes "bar_candidates elapsed st ts opn high low = (cs, st')" and "d \<in> set cs"
    and "pd_reason d = ''stop_loss''"
  shows "d \<in> set (bar_rule st ''stop_loss'' (is_long st) (stop_trigger st) ts opn high low)"
proof -
  have "d \<noteq> decision st ''time_limit'' opn opn ts" using assms(3) by (auto simp: decision_def)
  then show ?thesis
    using bar_candidates_set [OF assms(1,2)] bar_rule_reason [of d st] assms(3) by fastforce
qed

text \<open>
  C13. A configured stop-loss is never missed and never outranked in the
  default conservative mode: a bar that reaches the stop price closes the position by the
  stop-loss rule, at the stop price or on its losing side.
\<close>

theorem stop_loss_not_missed:
  fixes open_price high_price low_price :: pyfloat
  defines "opn \<equiv> f_number open_price (Fin 0)"
  assumes "flt (Fin 0) (stop_loss_pct (pst_spec st))"
    and "if is_long st then fle (pymin opn (f_number low_price opn)) (stop_trigger st)
         else fle (stop_trigger st) (pymax opn (f_number high_price opn))"
  shows "\<exists>d st'. evaluate_bar elapsed ''conservative'' st ts open_price high_price low_price = (Some d, st')
    \<and> pd_reason d = ''stop_loss''
    \<and> (if is_long st then fle (pd_price d) (stop_trigger st) else fle (stop_trigger st) (pd_price d))"
proof -
  obtain res st' where r: "evaluate_bar elapsed ''conservative'' st ts open_price high_price low_price = (res, st')"
    by (cases "evaluate_bar elapsed ''conservative'' st ts open_price high_price low_price")
  show ?thesis
  proof (rule evaluate_bar_cases [OF r])
    fix cs st1
    assume b: "bar_candidates elapsed st ts (f_number open_price (Fin 0))
        (pymax (f_number open_price (Fin 0)) (f_number high_price (f_number open_price (Fin 0))))
        (pymin (f_number open_price (Fin 0)) (f_number low_price (f_number open_price (Fin 0)))) = (cs, st1)"
      and c: "res = choose_candidate ''conservative'' cs (f_number open_price (Fin 0))"
    obtain s where s: "s \<in> set cs" "pd_reason s = ''stop_loss''"
      using bar_candidates_stop_loss [OF b assms(2)] assms(3) unfolding opn_def by blast
    then have "res \<noteq> None" using c by (auto simp: choose_candidate_None_iff)
    then obtain d where d: "res = Some d" by blast
    then have "conservative_priority (pd_reason d) \<le> conservative_priority (pd_reason s)"
      using choose_candidate_conservative c s(1) by metis
    then have dr: "pd_reason d = ''stop_loss''"
      using s(2) conservative_priority_0 by (metis le_zero_eq)
    have "d \<in> set cs" using c d by (metis choose_candidate_in)
    from bar_rule_price [OF bar_candidates_stop_reason [OF b this dr] bar_window(2,3)]
    have "if is_long st then fle (pd_price d) (stop_trigger st) else fle (stop_trigger st) (pd_price d)"
      by simp
    with r d dr show ?thesis by blast
  qed
qed

theorem stop_loss_not_missed_witness:
  "\<exists>d st'. evaluate_bar (\<lambda>_ _. Fin 0) ''conservative'' example_state 60 (Fin 96) (Fin 97) (Fin 90) = (Some d, st')
    \<and> pd_reason d = ''stop_loss''
    \<and> (if is_long example_state then fle (pd_price d) (stop_trigger example_state)
        else fle (stop_trigger example_state) (pd_price d))"
proof (rule stop_loss_not_missed)
  show "flt (Fin 0) (stop_loss_pct (pst_spec example_state))"
    by code_simp
  show "if is_long example_state
      then fle (pymin (f_number (Fin 96) (Fin 0)) (f_number (Fin 90) (f_number (Fin 96) (Fin 0)))) (stop_trigger example_state)
      else fle (stop_trigger example_state) (pymax (f_number (Fin 96) (Fin 0)) (f_number (Fin 97) (f_number (Fin 96) (Fin 0))))"
    by code_simp
qed

section \<open>The trailing stop only tightens\<close>

text \<open>A run of bars \<open>(timestamp, open, high, low)\<close> without an exit.\<close>

fun survive_bars ::
  "(timestamp \<Rightarrow> timestamp \<Rightarrow> pyfloat) \<Rightarrow> string \<Rightarrow> protection_state \<Rightarrow>
    (timestamp \<times> pyfloat \<times> pyfloat \<times> pyfloat) list \<Rightarrow> protection_state option" where
  "survive_bars elapsed mode st [] = Some st"
| "survive_bars elapsed mode st ((ts, o0, h0, l0) # bars) =
     (case evaluate_bar elapsed mode st ts o0 h0 l0 of
        (Some d, _) \<Rightarrow> None
      | (None, st') \<Rightarrow> survive_bars elapsed mode st' bars)"

lemma survive_bars_frame:
  assumes "survive_bars elapsed mode st bars = Some st'"
    and "pst_highest_price st \<noteq> NaN" and "pst_lowest_price st \<noteq> NaN"
  shows "pst_entry_price st' = pst_entry_price st \<and> pst_spec st' = pst_spec st \<and> pst_side st' = pst_side st
    \<and> (pst_trailing_active st \<longrightarrow> pst_trailing_active st')
    \<and> fle (pst_highest_price st) (pst_highest_price st') \<and> fle (pst_lowest_price st') (pst_lowest_price st)"
  using assms
proof (induction elapsed mode st bars rule: survive_bars.induct)
  case (1 elapsed mode st)
  then show ?case by (auto simp: fle_refl_iff)
next
  case (2 elapsed mode st ts o0 h0 l0 bars)
  obtain st1 where e: "evaluate_bar elapsed mode st ts o0 h0 l0 = (None, st1)"
    and r: "survive_bars elapsed mode st1 bars = Some st'"
    using "2.prems"(1) by (auto split: prod.splits option.splits)
  note f = evaluate_bar_frame [OF e "2.prems"(2,3)]
  have n: "pst_highest_price st1 \<noteq> NaN" "pst_lowest_price st1 \<noteq> NaN" using f fle_not_NaN by blast+
  from "2.IH" [OF e [symmetric] refl r n] f show ?case by (auto intro: fle_trans)
qed

lemma trailing_trigger_active:
  assumes "fst (trailing_trigger st) = Some t"
  shows "\<not> fle (trailing_stop_pct (pst_spec st)) (Fin 0)"
    "t = (if is_long st then fmul (pst_highest_price st) (fsub (Fin 1) (trailing_stop_pct (pst_spec st)))
          else fmul (pst_lowest_price st) (fadd (Fin 1) (trailing_stop_pct (pst_spec st))))"
  using assms by (auto simp: trailing_trigger_def Let_def split: if_splits)

lemma fadd_one_nonneg: "fle a (Fin 5) \<Longrightarrow> fle (Fin 0) a \<Longrightarrow> \<exists>k. fadd (Fin 1) a = Fin k \<and> 0 \<le> k"
proof -
  assume "fle a (Fin 5)" "fle (Fin 0) a"
  then obtain x where x: "a = Fin x" "0 \<le> x" "x \<le> 5" by (cases a) auto
  then have "fle (fl 0) (fl (1 + x))" "fle (fl (1 + x)) (fl 6)" by (intro fl_mono; simp)+
  then show ?thesis using x by (cases "fl (1 + x)") auto
qed



section \<open>Construction and persistence\<close>

text \<open>
  Whatever a strategy passes as protection (a spec, a nested mapping, inline
  overrides), a spec that is accepted is within bounds: every ratio is a number between zero and its
  maximum (1 for the stops, 5 for the targets), the time limit is not negative, and at least one rule
  is enabled.
\<close>

theorem from_value_wf:
  assumes "from_value value overrides = Inr (Some sp)"
  shows "wf_spec sp \<and> enabled sp"
  using assms by (auto simp: from_value_def Let_def bindE_Inr_iff mk_spec_wf split: if_splits)

theorem from_value_wf_witness:
  "from_value (SrcMap [(''stop_loss_pct'', PInt 7), (''trailing'', PDict [(''pct'', PStr '' 0.125'')])]) [] =
     Inr (Some \<lparr>stop_loss_pct = Fin 1, take_profit_pct = Fin 0, trailing_stop_pct = Fin (1 / 8),
       trailing_activation_pct = Fin 0, time_limit_seconds = 0, trailing_rebase_on_scale_in = True\<rparr>)
   \<and> wf_spec \<lparr>stop_loss_pct = Fin 1, take_profit_pct = Fin 0, trailing_stop_pct = Fin (1 / 8),
       trailing_activation_pct = Fin 0, time_limit_seconds = 0, trailing_rebase_on_scale_in = True\<rparr>"
proof -
  have e: "from_value (SrcMap [(''stop_loss_pct'', PInt 7), (''trailing'', PDict [(''pct'', PStr '' 0.125'')])]) [] =
     Inr (Some \<lparr>stop_loss_pct = Fin 1, take_profit_pct = Fin 0, trailing_stop_pct = Fin (1 / 8),
       trailing_activation_pct = Fin 0, time_limit_seconds = 0, trailing_rebase_on_scale_in = True\<rparr>)"
    by code_simp
  from from_value_wf [OF e] e show ?thesis by simp
qed

definition wf_state :: "protection_state \<Rightarrow> bool" where
  "wf_state st \<longleftrightarrow>
     wf_spec (pst_spec st) \<and> enabled (pst_spec st) \<and> flt (Fin 0) (pst_entry_price st) \<and>
     fle (pst_entry_price st) (pst_highest_price st) \<and>
     flt (Fin 0) (pst_lowest_price st) \<and> fle (pst_lowest_price st) (pst_entry_price st) \<and>
     lower (pst_side st) = pst_side st \<and> pst_side st \<noteq> []"

lemma pymax_eq_right: "fle a b \<Longrightarrow> pymax a b = b"
  by (auto simp: pymax_def fle_iff_flt_or_eq)

lemma pymin_eq_right: "fle b a \<Longrightarrow> pymin a b = b"
  by (auto simp: pymin_def fle_iff_flt_or_eq)

lemma f_number_id: "x \<noteq> NaN \<Longrightarrow> f_number x d = x"
  by (simp add: f_number_def is_nan_def)

lemma state_metadata_restores:
  assumes "wf_state st"
    and "\<And>t. ts_of (PStr (ts_iso t)) = Inr t" and "\<And>t. ts_iso t \<noteq> []"
  shows "from_metadata ts_of utcnow (state_metadata ts_iso st) = Inr (Some st)"
proof -
  have w: "wf_spec (pst_spec st)" "enabled (pst_spec st)" using assms(1) by (auto simp: wf_state_def)
  have sp: "from_value (SrcMap (spec_metadata (pst_spec st))) [] = Inr (Some (pst_spec st))"
    using from_value_spec_metadata [OF w(1) source_map_metadata] w(2) by simp
  have e: "flt (Fin 0) (pst_entry_price st)" "fle (pst_entry_price st) (pst_highest_price st)"
    "flt (Fin 0) (pst_lowest_price st)" "fle (pst_lowest_price st) (pst_entry_price st)"
    and sd: "lower (pst_side st) = pst_side st" "pst_side st \<noteq> []"
    using assms(1) by (auto simp: wf_state_def)
  have nn: "pst_entry_price st \<noteq> NaN" "pst_highest_price st \<noteq> NaN" "pst_lowest_price st \<noteq> NaN"
    using e fle_not_NaN by blast+
  have pos: "\<not> fle (pst_entry_price st) (Fin 0)" using flt_asym [OF e(1)] .
  then have t: "f_or (pst_entry_price st) (Fin 0) = pst_entry_price st" by (auto simp: f_or_def ftruthy_def)
  show ?thesis
    using sp sd pos assms(2,3)
    by (simp add: from_metadata_def state_metadata_def Let_def dget_or_def dget_def spec_source_of_def
        f_number_id nn state_open_def t pymax_eq_right [OF e(2)] pymin_eq_right [OF e(4)] e(3))
qed

text \<open>
  Persisting a protection state and restoring it gives the state
  back, for every state whose extremes enclose the entry price and for any timestamp rendering that
  parses back.
\<close>

theorem protection_metadata_roundtrip:
  assumes "wf_state st"
    and "\<And>t. ts_of (PStr (ts_iso t)) = Inr t" and "\<And>t. ts_iso t \<noteq> []"
  shows "from_metadata ts_of utcnow (state_metadata ts_iso st) = Inr (Some st)"
  using assms by (rule state_metadata_restores)

theorem protection_metadata_roundtrip_witness:
  "from_metadata to_int 0 (state_metadata show_int example_state) = Inr (Some example_state)"
proof (rule protection_metadata_roundtrip)
  show "wf_state example_state" by code_simp
qed simp_all

text \<open>
  The hypothesis is needed: adding to a position without rebasing an armed trailing stop can leave the
  recorded peak below the new entry price, and restoring such a state raises the peak to the entry.
\<close>

definition scaled_state :: protection_state where
  "scaled_state = apply_scale_in (Fin 120) (Fin 140) None None (example_state\<lparr>pst_trailing_active := True\<rparr>)"

text \<open>
  A protection state the engine itself produces need not survive a
  restart: after a scale-in that keeps the armed trailing stop (entry 100 to 120, peak 100), the
  restored state has peak 120, so the trailing trigger moves up from 87.5 to 105.
\<close>

theorem restore_raises_peak:
  "pst_highest_price scaled_state = Fin 100 \<and>
   from_metadata to_int 0 (state_metadata show_int scaled_state) =
     Inr (Some (scaled_state\<lparr>pst_highest_price := Fin 120\<rparr>)) \<and>
   fst (trailing_trigger scaled_state) = Some (Fin (175 / 2)) \<and>
   fst (trailing_trigger (scaled_state\<lparr>pst_highest_price := Fin 120\<rparr>)) = Some (Fin 105)"
  by (intro conjI; code_simp)

end
