(* ===== verification/Instruments.thy ===== *)
theory Instruments
  imports PyVal
begin

text \<open>
  Market identities: frequencies (\<open>services/strategy_v2/frequencies.py\<close>), instrument keys
  (\<open>services/strategy_v2/instruments.py\<close>, \<open>models.py\<close>) and the crypto identifier grammar
  (\<open>services/market_context.py\<close>).  Arguments annotated \<open>object\<close> or \<open>Any\<close> in the source are
  \<^typ>\<open>pyval\<close>, those annotated \<open>str\<close> are \<^typ>\<open>string\<close>.
\<close>

section \<open>Frequencies\<close>

definition FREQUENCY_SECONDS :: "(string, int) dict" where
  "FREQUENCY_SECONDS =
     [(''1m'', 60), (''3m'', 180), (''5m'', 300), (''15m'', 900), (''30m'', 1800), (''1h'', 3600),
      (''4h'', 14400), (''1d'', 86400), (''1w'', 604800), (''1mo'', 2592000)]"

definition SUPPORTED_SUBSCRIPTION_FREQUENCIES :: "string list" where
  "SUPPORTED_SUBSCRIPTION_FREQUENCIES =
     [''1m'', ''3m'', ''5m'', ''15m'', ''30m'', ''1h'', ''4h'', ''1d'', ''1w'']"

definition frequency_aliases :: "(string, string) dict" where
  "frequency_aliases =
     [(''daily'', ''1d''), (''day'', ''1d''), (''d'', ''1d''), (''1day'', ''1d''),
      (''weekly'', ''1w''), (''week'', ''1w''), (''w'', ''1w''), (''1week'', ''1w''), (''1wk'', ''1w''),
      (''monthly'', ''1mo''), (''month'', ''1mo''), (''1month'', ''1mo''),
      (''m1'', ''1m''), (''h1'', ''1h''), (''d1'', ''1d''), (''w1'', ''1w'')]"

text \<open>The Chinese words for minute and hour, as UTF-8 bytes.\<close>

definition zh_minute :: string where
  "zh_minute = map char_of [229 :: int, 136, 134, 233, 146, 159]"

definition zh_hour :: string where
  "zh_hour = map char_of [229 :: int, 176, 143, 230, 151, 182]"

definition normalize_frequency :: "pyval \<Rightarrow> string \<Rightarrow> string" where
  "normalize_frequency value dflt =
     (let raw = replace_all zh_hour ''h'' (replace_all zh_minute ''m'' (lower (strip (str_or value dflt))))
      in dget_or frequency_aliases raw (str_default raw dflt))"

definition frequency_seconds :: "pyval \<Rightarrow> int" where
  "frequency_seconds value = dget_or FREQUENCY_SECONDS (normalize_frequency value ''1d'') 86400"

text \<open>\<open>dict.fromkeys\<close> keeps the first occurrence of every value.\<close>

fun fromkeys :: "'a list \<Rightarrow> 'a list" where
  "fromkeys [] = []"
| "fromkeys (x # xs) = x # filter (\<lambda>y. y \<noteq> x) (fromkeys xs)"

definition unique_frequencies :: "pyval list \<Rightarrow> string \<Rightarrow> string list" where
  "unique_frequencies values dflt =
     (let normalized = fromkeys (map (\<lambda>v. normalize_frequency v dflt) values)
      in if normalized = [] then [normalize_frequency (PStr dflt) ''1d''] else normalized)"

text \<open>\<open>min(frequencies, key=(seconds, index))\<close>: the first frequency with the fewest seconds.\<close>

fun first_min :: "('a \<Rightarrow> int) \<Rightarrow> 'a \<Rightarrow> 'a list \<Rightarrow> 'a" where
  "first_min f best [] = best"
| "first_min f best (x # xs) = first_min f (if f x < f best then x else best) xs"

definition driving_frequency :: "pyval list \<Rightarrow> string \<Rightarrow> string" where
  "driving_frequency values dflt =
     (case unique_frequencies values dflt of
        [] \<Rightarrow> dflt
      | x # xs \<Rightarrow> first_min (\<lambda>s. frequency_seconds (PStr s)) x xs)"

definition leading_count :: "string \<Rightarrow> int result" where
  "leading_count s = (case parse_int (str_default s ''1'') of
      None \<Rightarrow> Inl (ValueError ''invalid literal for int()'') | Some n \<Rightarrow> Inr (max 1 n))"

definition periods_per_year :: "pyval \<Rightarrow> string list \<Rightarrow> pyfloat result" where
  "periods_per_year frequency markets =
     (let normalized = normalize_frequency frequency ''1d'';
          is_crypto = (set (filter (\<lambda>s. s \<noteq> []) markets) = {''Crypto''});
          trading_days = (if is_crypto then fl (36525 / 100) else Fin 252)
      in if normalized \<in> {''1mo'', ''1month''} then Inr (Fin 12)
         else if endswith normalized ''m'' then
           bindE (leading_count (drop_suffix normalized ''m'')) (\<lambda>minutes.
           bindE (float_of_int minutes) (\<lambda>d.
             fdiv (fmul trading_days (if is_crypto then Fin 1440 else Fin 390)) d))
         else if endswith normalized ''h'' then
           bindE (leading_count (drop_suffix normalized ''h'')) (\<lambda>hours.
           bindE (float_of_int hours) (\<lambda>d.
             fdiv (fmul trading_days (if is_crypto then Fin 24 else fl (13 / 2))) d))
         else if endswith normalized ''w'' then Inr (Fin 52)
         else Inr trading_days)"

section \<open>Crypto identifiers\<close>

definition CRYPTO_MARKET_TYPES :: "string list" where
  "CRYPTO_MARKET_TYPES = [''spot'', ''swap'']"

definition SUPPORTED_CRYPTO_EXCHANGE_IDS :: "string list" where
  "SUPPORTED_CRYPTO_EXCHANGE_IDS = [''binance'', ''bitget'', ''bybit'', ''okx'', ''gate'', ''htx'']"

definition normalize_exchange_id :: "pyval \<Rightarrow> string" where
  "normalize_exchange_id value =
     (let e = lower (strip (str_or value []))
      in dget_or [(''okex'', ''okx''), (''gateio'', ''gate''), (''huobi'', ''htx''), (''binanceusdm'', ''binance'')] e e)"

text \<open>\<open>CryptoPublicConfig.DEFAULT_EXCHANGE\<close> is deployment configuration, a parameter.\<close>

definition default_crypto_exchange_id :: "string \<Rightarrow> string" where
  "default_crypto_exchange_id configured =
     (let e = str_default (normalize_exchange_id (PStr (str_default configured ''binance''))) ''binance''
      in if e \<in> set SUPPORTED_CRYPTO_EXCHANGE_IDS then e else ''binance'')"

definition product_words :: "string list" where
  "product_words = [''spot'', ''swap'', ''future'', ''futures'', ''perp'', ''perpetual'']"

definition normalize_market_type :: "pyval \<Rightarrow> string \<Rightarrow> string" where
  "normalize_market_type value market =
     (let raw = lower (strip (str_or value []));
          mt = (if raw \<in> {''future'', ''futures'', ''perp'', ''perpetual''} then ''swap'' else raw)
      in if strip market \<noteq> ''Crypto'' then ''spot''
         else if mt \<in> set CRYPTO_MARKET_TYPES then mt else ''spot'')"

text \<open>The qualifier after \<open>@\<close>: the venue and product it names.\<close>

definition parse_qualifier :: "string \<Rightarrow> (string \<times> string) result" where
  "parse_qualifier qualifier =
     (if CHR '':'' \<in> set qualifier then
        (case rsplit_once (CHR '':'') qualifier of (exchange_value, market_type_value) \<Rightarrow>
           let exchange_id = normalize_exchange_id (PStr exchange_value) in
           if exchange_id = [] then Inl (ValueError ''marketData.invalidCryptoExchange'')
           else if lower (strip market_type_value) \<notin> set product_words
                then Inl (ValueError ''marketData.invalidCryptoProduct'')
           else Inr (exchange_id, normalize_market_type (PStr market_type_value) ''Crypto''))
      else if lower (strip qualifier) \<in> set product_words
           then Inr ([], normalize_market_type (PStr qualifier) ''Crypto'')
      else Inr (normalize_exchange_id (PStr qualifier), []))"

definition split_identifier :: "string \<Rightarrow> (string \<times> string \<times> string) result" where
  "split_identifier identifier =
     (if CHR ''@'' \<in> set identifier then
        if count_list identifier (CHR ''@'') \<noteq> 1 then Inl (ValueError ''marketData.invalidCryptoIdentifier'')
        else (case rsplit_once (CHR ''@'') identifier of (body, qualifier0) \<Rightarrow>
          let qualifier = strip qualifier0 in
          if strip body = [] \<or> qualifier = [] then Inl (ValueError ''marketData.invalidCryptoIdentifier'')
          else bindE (parse_qualifier qualifier) (\<lambda>(exchange_id, market_type).
                 Inr (body, exchange_id, market_type)))
      else Inr (identifier, [], []))"

definition check_settlement :: "string \<Rightarrow> string result" where
  "check_settlement symbol =
     (if CHR '':'' \<in> set symbol then
        (case rsplit_once (CHR '':'') symbol of (pair, settle_currency) \<Rightarrow>
           if CHR ''/'' \<notin> set pair then Inl (ValueError ''marketData.invalidCryptoSettlement'')
           else if settle_currency \<noteq> snd (rsplit_once (CHR ''/'') pair)
                then Inl (ValueError ''marketData.cryptoSettlementMismatch'')
           else Inr pair)
      else Inr symbol)"

fun insert_quote :: "string list \<Rightarrow> string \<Rightarrow> string" where
  "insert_quote [] symbol = symbol"
| "insert_quote (q # qs) symbol =
     (if endswith symbol q \<and> length q < length symbol then drop_suffix symbol q @ ''/'' @ q
      else insert_quote qs symbol)"

definition slash_quote :: "string \<Rightarrow> string" where
  "slash_quote symbol =
     (if CHR ''/'' \<in> set symbol then symbol
      else insert_quote [''USDT'', ''USDC'', ''USD'', ''BTC'', ''ETH''] symbol)"

definition parse_crypto_identifier :: "pyval \<Rightarrow> (string \<times> string \<times> string) result" where
  "parse_crypto_identifier value =
     (let raw = strip (str_or value []);
          identifier = (if startswith (lower raw) ''crypto:'' then snd (split_once (CHR '':'') raw) else raw)
      in bindE (split_identifier identifier) (\<lambda>(body, exchange_id, market_type).
           let symbol = replace_char (CHR ''_'') (CHR ''/'') (replace_char (CHR ''-'') (CHR ''/'') (upper (strip body)))
           in bindE (check_settlement symbol) (\<lambda>symbol1.
                let symbol2 = slash_quote symbol1 in
                if symbol2 = [] then Inl (ValueError ''marketData.cryptoSymbolRequired'')
                else Inr (symbol2, market_type, exchange_id))))"

section \<open>Market context\<close>

record market_context =
  mc_market :: string
  mc_symbol :: string
  mc_exchange_id :: string
  mc_market_type :: string
  mc_instrument_id :: string
  mc_settle_currency :: string
  mc_timeframe :: string

definition get2 :: "(string, pyval) dict \<Rightarrow> string \<Rightarrow> string \<Rightarrow> pyval" where
  "get2 d a b = p_or (dget_or d a PNone) (dget_or d b PNone)"

definition context_from_mapping ::
  "string \<Rightarrow> (string, pyval) dict \<Rightarrow> bool \<Rightarrow> market_context result" where
  "context_from_mapping configured data apply_crypto_defaults =
     (let market = strip (str_or (p_or (dget_or data ''market'' PNone) (get2 data ''market_category'' ''marketCategory'')) [])
      in bindE (if market = ''Crypto'' then parse_crypto_identifier (dget_or data ''symbol'' PNone)
                else Inr (upper (strip (str_or (dget_or data ''symbol'' PNone) [])), [], []))
        (\<lambda>(symbol, suffix_market_type, suffix_exchange_id).
        let explicit_exchange_id = normalize_exchange_id (p_or (get2 data ''exchange_id'' ''exchangeId'') (dget_or data ''exchange'' PNone));
            exchange_id = str_default explicit_exchange_id suffix_exchange_id;
            explicit_market_type = get2 data ''market_type'' ''marketType'';
            normalized_market_type = normalize_market_type explicit_market_type market;
            market_type = str_default suffix_market_type normalized_market_type
        in if suffix_exchange_id \<noteq> [] \<and> explicit_exchange_id \<noteq> [] \<and> suffix_exchange_id \<noteq> explicit_exchange_id
           then Inl (ValueError ''marketData.cryptoExchangeConflict'')
           else if market = ''Crypto'' \<and> truthy explicit_market_type
                  \<and> lower (strip (to_str explicit_market_type)) \<notin> set product_words
           then Inl (ValueError ''marketData.invalidCryptoProduct'')
           else if suffix_market_type \<noteq> [] \<and> truthy explicit_market_type \<and> suffix_market_type \<noteq> normalized_market_type
           then Inl (ValueError ''marketData.cryptoProductConflict'')
           else if market = ''Crypto'' \<and> exchange_id \<noteq> [] \<and> exchange_id \<notin> set SUPPORTED_CRYPTO_EXCHANGE_IDS
           then Inl (ValueError ''marketData.unsupportedCryptoExchange'')
           else Inr \<lparr>mc_market = market, mc_symbol = symbol,
             mc_exchange_id = (if market \<noteq> ''Crypto'' then []
                               else if apply_crypto_defaults \<and> exchange_id = [] then default_crypto_exchange_id configured
                               else exchange_id),
             mc_market_type = market_type,
             mc_instrument_id = strip (str_or (get2 data ''instrument_id'' ''instrumentId'') []),
             mc_settle_currency = upper (strip (str_or (get2 data ''settle_currency'' ''settleCurrency'') [])),
             mc_timeframe = strip (str_or (dget_or data ''timeframe'' PNone) [])\<rparr>))"

definition identity_key :: "market_context \<Rightarrow> string \<times> string \<times> string \<times> string \<times> string" where
  "identity_key c = (mc_market c, mc_symbol c, mc_exchange_id c, mc_market_type c, mc_instrument_id c)"

section \<open>Instruments\<close>

record instrument_spec =
  is_market :: string
  is_symbol :: string
  is_exchange_id :: string
  is_market_type :: string
  is_instrument_id :: string

definition spec_key :: "instrument_spec \<Rightarrow> string" where
  "spec_key sp =
     (if lower (strip (is_market sp)) \<noteq> ''crypto'' then is_market sp @ '':'' @ is_symbol sp
      else is_market sp @ '':'' @ is_symbol sp @
        (if is_exchange_id sp \<noteq> []
         then ''@'' @ is_exchange_id sp @ (if is_market_type sp \<noteq> [] then '':'' @ is_market_type sp else [])
         else if is_market_type sp \<noteq> [] then ''@'' @ is_market_type sp else []))"

definition market_names :: "(string, string) dict" where
  "market_names =
     [(''cnstock'', ''CNStock''), (''usstock'', ''USStock''), (''hkstock'', ''HKStock''),
      (''crypto'', ''Crypto''), (''forex'', ''Forex''), (''futures'', ''Futures''), (''moex'', ''MOEX'')]"

definition normalize_market :: "pyval \<Rightarrow> string" where
  "normalize_market value =
     (let raw = strip (str_or value []) in
      if raw = [] then []
      else dget_or market_names (lower raw) (if raw \<in> set (dvals market_names) then raw else []))"

fun replace_suffix :: "(string \<times> string) list \<Rightarrow> string \<Rightarrow> string" where
  "replace_suffix [] raw = raw"
| "replace_suffix ((old, new) # rs) raw =
     (if endswith raw old then drop_suffix raw old @ new else replace_suffix rs raw)"

definition normalize_symbol :: "string \<Rightarrow> string" where
  "normalize_symbol value =
     replace_suffix [(''.XSHG'', ''.SH''), (''.XSHE'', ''.SZ''), (''.XBJS'', ''.BJ''), (''.XHKG'', ''.HK'')]
       (upper (strip value))"

definition is_digit :: "char \<Rightarrow> bool" where
  "is_digit c \<longleftrightarrow> digit_val c \<noteq> None"

definition is_upper :: "char \<Rightarrow> bool" where
  "is_upper c = (let n = (of_char c :: int) in 65 \<le> n \<and> n \<le> 90)"

definition infer_market :: "string \<Rightarrow> string" where
  "infer_market symbol =
     (let value = upper (strip symbol) in
      if value = [] then []
      else if CHR ''/'' \<in> set value \<or> endswith value ''USDT'' \<or> endswith value ''USDC'' then ''Crypto''
      else if endswith value ''.HK'' \<or> endswith value ''.XHKG'' then ''HKStock''
      else if list_ex (endswith value) [''.SH'', ''.SZ'', ''.BJ'', ''.XSHG'', ''.XSHE'', ''.XBJS''] then ''CNStock''
      else if length value = 6 \<and> list_all is_digit value then ''CNStock''
      else if is_upper (hd value) \<and> length value \<le> 15
           \<and> list_all (\<lambda>c. is_upper c \<or> is_digit c \<or> c = CHR ''.'' \<or> c = CHR ''-'') (tl value) then ''USStock''
      else [])"

definition split_market :: "string \<Rightarrow> string \<Rightarrow> string \<times> string" where
  "split_market raw default_market =
     (let market = normalize_market (PStr default_market) in
      if CHR '':'' \<in> set raw then
        (case split_once (CHR '':'') raw of (prefix, candidate) \<Rightarrow>
           let normalized = normalize_market (PStr prefix) in
           if normalized \<noteq> [] then (normalized, candidate) else (market, raw))
      else (market, raw))"

definition parse_instrument :: "pyval \<Rightarrow> string \<Rightarrow> instrument_spec result" where
  "parse_instrument value default_market =
     (let raw = strip (str_or value []) in
      if raw = [] then Inl (ValueError ''strategyV2.instrumentRequired'')
      else (case split_market raw default_market of (market0, body) \<Rightarrow>
        let raw_symbol = (if CHR ''@'' \<in> set body then fst (rsplit_once (CHR ''@'') body) else body);
            symbol = normalize_symbol raw_symbol;
            market = (if market0 = [] then infer_market symbol else market0)
        in if market = [] then Inl (ValueError (''strategyV2.marketUnknown:'' @ raw))
           else if market = ''Crypto'' then
             bindE (parse_crypto_identifier (PStr body)) (\<lambda>(csymbol, mtype, exchange_id).
               Inr \<lparr>is_market = market, is_symbol = csymbol, is_exchange_id = exchange_id,
                 is_market_type = (if mtype \<in> {''spot'', ''swap''} then mtype else ''spot''),
                 is_instrument_id = raw\<rparr>)
           else Inr \<lparr>is_market = market, is_symbol = symbol, is_exchange_id = [], is_market_type = [],
                 is_instrument_id = raw\<rparr>))"

definition instrument_key_from_metadata :: "(string, pyval) dict \<Rightarrow> string result" where
  "instrument_key_from_metadata item =
     (let g = (\<lambda>k. dget_or item k PNone);
          market = strip (str_or (g ''market'') []);
          symbol = strip (str_or (g ''symbol'') [])
      in if market \<noteq> [] \<and> symbol \<noteq> [] then
           let exchange_id = strip (str_or (g ''exchange_id'') []);
               market_type = strip (str_or (g ''market_type'') []);
               raw = market @ '':'' @ symbol @
                 (if normalize_market (PStr market) = ''Crypto''
                  then (if exchange_id \<noteq> []
                        then ''@'' @ exchange_id @ (if market_type \<noteq> [] then '':'' @ market_type else [])
                        else if market_type \<noteq> [] then ''@'' @ market_type else [])
                  else [])
           in bindE (parse_instrument (PStr raw) []) (\<lambda>sp. Inr (spec_key sp))
         else
           let fallback = p_or (g ''key'') (g ''instrument_id'') in
           if truthy fallback then bindE (parse_instrument fallback market) (\<lambda>sp. Inr (spec_key sp)) else Inr [])"

definition is_index_reference :: "pyval \<Rightarrow> bool" where
  "is_index_reference value =
     (let raw = upper (strip (str_or value [])) in
      startswith raw ''INDEX:'' \<or> endswith raw ''.XBHS'' \<or> endswith raw ''.XSHG_INDEX'')"

definition normalize_index_reference :: "pyval \<Rightarrow> string" where
  "normalize_index_reference value =
     (let raw = strip (str_or value []) in
      if startswith (upper raw) ''INDEX:'' then raw
      else if endswith (upper raw) ''.XBHS'' then ''CNStock:'' @ drop_suffix (upper raw) ''.XBHS'' @ ''.SH''
      else raw)"

definition normalize_pool_reference :: "pyval \<Rightarrow> string result" where
  "normalize_pool_reference value =
     (let raw = strip (str_or value []) in
      if raw = [] then Inl (ValueError ''strategyV2.universeRequired'')
      else let body = (if startswith (upper raw) ''POOL:'' then snd (split_once (CHR '':'') raw) else raw)
           in Inr (''POOL:'' @ lower body))"

definition normalize_crypto_symbol :: "pyval \<Rightarrow> string" where
  "normalize_crypto_symbol value =
     slash_quote (replace_char (CHR ''_'') (CHR ''/'') (replace_char (CHR ''-'') (CHR ''/'') (upper (strip (str_or value [])))))"

section \<open>Driving frequency\<close>

lemma set_fromkeys [simp]: "set (fromkeys xs) = set xs"
  by (induction xs rule: fromkeys.induct) auto

lemma distinct_fromkeys: "distinct (fromkeys xs)"
  by (induction xs rule: fromkeys.induct) auto

lemma first_min_spec:
  "first_min f best xs \<in> insert best (set xs) \<and> (\<forall>y \<in> insert best (set xs). f (first_min f best xs) \<le> f y)"
  by (induction f best xs rule: first_min.induct) force+

lemma unique_frequencies_not_Nil: "unique_frequencies values dflt \<noteq> []"
  by (simp add: unique_frequencies_def Let_def)

text \<open>The driving frequency of a strategy is one of its normalised subscribed
  frequencies, none of them is listed twice, and no subscribed frequency has a shorter bar: the
  event loop never skips a bar of any subscription.\<close>

theorem driving_frequency_fastest:
  assumes "frequency \<in> set (unique_frequencies values dflt)"
  shows "driving_frequency values dflt \<in> set (unique_frequencies values dflt) \<and>
    distinct (unique_frequencies values dflt) \<and>
    frequency_seconds (PStr (driving_frequency values dflt)) \<le> frequency_seconds (PStr frequency)"
proof (intro conjI)
  obtain x xs where u: "unique_frequencies values dflt = x # xs"
    using unique_frequencies_not_Nil by (metis neq_Nil_conv)
  have d: "driving_frequency values dflt = first_min (\<lambda>s. frequency_seconds (PStr s)) x xs"
    by (simp add: driving_frequency_def u)
  show "driving_frequency values dflt \<in> set (unique_frequencies values dflt)"
    using first_min_spec by (metis d u list.simps(15))
  show "distinct (unique_frequencies values dflt)"
    using distinct_fromkeys by (auto simp: unique_frequencies_def Let_def)
  show "frequency_seconds (PStr (driving_frequency values dflt)) \<le> frequency_seconds (PStr frequency)"
    using first_min_spec[of "\<lambda>s. frequency_seconds (PStr s)" x xs] assms by (auto simp: d u)
qed

theorem driving_frequency_fastest_witness:
  "driving_frequency [PStr ''4h'', PStr ''m1'', PStr ''1D''] ''1d'' = ''1m'' \<and>
   frequency_seconds (PStr (driving_frequency [PStr ''4h'', PStr ''m1'', PStr ''1D''] ''1d'')) \<le> frequency_seconds (PStr ''4h'')"
proof -
  have "driving_frequency [PStr ''4h'', PStr ''m1'', PStr ''1D''] ''1d'' = ''1m''"
    and "''4h'' \<in> set (unique_frequencies [PStr ''4h'', PStr ''m1'', PStr ''1D''] ''1d'')"
    by code_simp+
  then show ?thesis using driving_frequency_fastest by blast
qed

section \<open>Instrument keys\<close>

text \<open>Currency codes: non-empty texts of capital letters and digits.\<close>

definition is_code :: "string \<Rightarrow> bool" where
  "is_code s \<longleftrightarrow> s \<noteq> [] \<and> list_all (\<lambda>c. is_upper c \<or> is_digit c) s"

lemma code_char_range: "is_upper c \<or> is_digit c \<Longrightarrow> (48 \<le> (of_char c :: int) \<and> of_char c \<le> (57 :: int)) \<or> (65 \<le> (of_char c :: int) \<and> of_char c \<le> (90 :: int))"
  by (auto simp: is_upper_def is_digit_def digit_val_def Let_def split: if_splits)

lemma code_char:
  assumes "is_upper c \<or> is_digit c"
  shows "\<not> is_space c" "upper_char c = c" "c \<notin> {CHR '':'', CHR ''/'', CHR ''@'', CHR ''-'', CHR ''_''}"
    "lower_char c \<notin> {CHR '':'', CHR ''/''}"
proof -
  note r = code_char_range[OF assms]
  show "\<not> is_space c" "upper_char c = c" using r by (auto simp: is_space_def upper_char_def Let_def)
  show n: "c \<notin> {CHR '':'', CHR ''/'', CHR ''@'', CHR ''-'', CHR ''_''}" using r by auto
  have "(of_char (lower_char c) :: int) \<noteq> 58 \<and> (of_char (lower_char c) :: int) \<noteq> 47"
    using r by (auto simp: lower_char_def Let_def of_char_of)
  then show "lower_char c \<notin> {CHR '':'', CHR ''/''}" by auto
qed

lemma code_string:
  assumes "is_code s"
  shows "\<forall>c \<in> set s. \<not> is_space c" "upper s = s"
    "CHR '':'' \<notin> set s" "CHR ''/'' \<notin> set s" "CHR ''@'' \<notin> set s" "CHR ''-'' \<notin> set s" "CHR ''_'' \<notin> set s"
    "\<forall>c \<in> set (lower s). c \<noteq> CHR '':'' \<and> c \<noteq> CHR ''/''"
  using assms code_char
  by (fastforce simp: is_code_def list_all_iff upper_def lower_def intro!: map_idI)+

lemma not_crypto_prefix: "is_code b \<Longrightarrow> \<not> startswith (lower (b @ CHR ''/'' # r)) ''crypto:''"
proof
  let ?P = "\<lambda>c. c \<noteq> CHR '':'' \<and> c \<noteq> CHR ''/''"
  have slash: "lower_char (CHR ''/'') = CHR ''/''" by code_simp
  assume b: "is_code b" and "startswith (lower (b @ CHR ''/'' # r)) ''crypto:''"
  then obtain r' where e: "lower b @ CHR ''/'' # lower r = ''crypto:'' @ r'"
    using slash by (auto simp: startswith_append_iff lower_def)
  have "dropWhile ?P (lower b @ CHR ''/'' # lower r) = CHR ''/'' # lower r"
    using code_string(8)[OF b] by (simp add: dropWhile_append)
  moreover have "dropWhile ?P (''crypto:'' @ r') = CHR '':'' # r'" by simp
  ultimately show False using e by simp
qed

lemma supported_exchange:
  assumes "e \<in> set SUPPORTED_CRYPTO_EXCHANGE_IDS"
  shows "normalize_exchange_id (PStr e) = e" "CHR ''@'' \<notin> set e" "CHR '':'' \<notin> set e" "\<forall>c \<in> set e. \<not> is_space c" "e \<noteq> []"
proof -
  have "\<forall>e \<in> set SUPPORTED_CRYPTO_EXCHANGE_IDS. normalize_exchange_id (PStr e) = e \<and> CHR ''@'' \<notin> set e \<and>
      CHR '':'' \<notin> set e \<and> (\<forall>c \<in> set e. \<not> is_space c) \<and> e \<noteq> []"
    by code_simp
  then show "normalize_exchange_id (PStr e) = e" "CHR ''@'' \<notin> set e" "CHR '':'' \<notin> set e"
    "\<forall>c \<in> set e. \<not> is_space c" "e \<noteq> []" using assms by blast+
qed

lemma market_type_words:
  assumes "m \<in> set CRYPTO_MARKET_TYPES"
  shows "normalize_market_type (PStr m) ''Crypto'' = m" "lower (strip m) \<in> set product_words"
    "CHR ''@'' \<notin> set m" "CHR '':'' \<notin> set m" "\<forall>c \<in> set m. \<not> is_space c" "m \<noteq> []" "m \<in> {''spot'', ''swap''}"
proof -
  have "\<forall>m \<in> set CRYPTO_MARKET_TYPES. normalize_market_type (PStr m) ''Crypto'' = m \<and>
      lower (strip m) \<in> set product_words \<and> CHR ''@'' \<notin> set m \<and> CHR '':'' \<notin> set m \<and>
      (\<forall>c \<in> set m. \<not> is_space c) \<and> m \<noteq> [] \<and> m \<in> {''spot'', ''swap''}"
    by code_simp
  then show "normalize_market_type (PStr m) ''Crypto'' = m" "lower (strip m) \<in> set product_words"
    "CHR ''@'' \<notin> set m" "CHR '':'' \<notin> set m" "\<forall>c \<in> set m. \<not> is_space c" "m \<noteq> []" "m \<in> {''spot'', ''swap''}"
    using assms by blast+
qed

lemma parse_canonical_identifier:
  assumes b: "is_code b" and q: "is_code q"
    and e: "e \<in> set SUPPORTED_CRYPTO_EXCHANGE_IDS" and m: "m \<in> set CRYPTO_MARKET_TYPES"
  shows "parse_crypto_identifier (PStr (b @ ''/'' @ q @ ''@'' @ e @ '':'' @ m)) = Inr (b @ ''/'' @ q, m, e)"
proof -
  note [simp] = code_string(3-7)[OF b] code_string(3-7)[OF q] supported_exchange[OF e] market_type_words[OF m]
  let ?i = "(b @ ''/'' @ q) @ CHR ''@'' # (e @ CHR '':'' # m)"
  have p: "\<not> is_space (CHR ''/'')" "\<not> is_space (CHR ''@'')" "\<not> is_space (CHR '':'')" by code_simp+
  have sp: "strip ?i = ?i" "strip (e @ CHR '':'' # m) = e @ CHR '':'' # m" "strip (b @ ''/'' @ q) = b @ ''/'' @ q"
    by (rule strip_no_space, use p code_string(1)[OF b] code_string(1)[OF q] supported_exchange(4)[OF e]
          market_type_words(5)[OF m] in auto)+
  have up: "upper (b @ ''/'' @ q) = b @ ''/'' @ q"
    using code_string(2)[OF b] code_string(2)[OF q] by (simp add: upper_def upper_char_def)
  have "parse_qualifier (e @ CHR '':'' # m) = Inr (e, m)"
    by (simp add: parse_qualifier_def)
  moreover have "count_list ?i (CHR ''@'') = 1"
    by (simp add: count_notin)
  ultimately have si: "split_identifier ?i = Inr (b @ ''/'' @ q, e, m)"
    using rsplit_once_append[of "CHR ''@''" "e @ CHR '':'' # m" "b @ ''/'' @ q"]
    using sp by (simp add: split_identifier_def)
  have "\<not> startswith (lower ?i) ''crypto:''"
    using not_crypto_prefix[OF b, of "q @ CHR ''@'' # e @ CHR '':'' # m"] by simp
  then show ?thesis
    using si sp up by (simp add: parse_crypto_identifier_def check_settlement_def slash_quote_def replace_char_id)
qed

text \<open>The key of a crypto instrument identifies it: parsing the key of a specification
  with alphanumeric base and quote codes, a supported venue and a product gives the same market,
  symbol, venue and product back, whatever default market the caller passes.\<close>

theorem instrument_key_roundtrip:
  assumes "is_code b" and "is_code q"
    and "e \<in> set SUPPORTED_CRYPTO_EXCHANGE_IDS" and "m \<in> set CRYPTO_MARKET_TYPES"
    and "sp = \<lparr>is_market = ''Crypto'', is_symbol = b @ ''/'' @ q, is_exchange_id = e, is_market_type = m, is_instrument_id = i\<rparr>"
  shows "parse_instrument (PStr (spec_key sp)) default_market = Inr (sp\<lparr>is_instrument_id := spec_key sp\<rparr>)"
proof -
  let ?body = "b @ ''/'' @ q @ ''@'' @ e @ '':'' @ m"
  have cr: "lower (strip ''Crypto'') = ''crypto''" "normalize_market (PStr ''Crypto'') = ''Crypto''" by code_simp+
  have k: "spec_key sp = ''Crypto'' @ CHR '':'' # ?body"
    using supported_exchange(5)[OF assms(3)] market_type_words(6)[OF assms(4)]
    by (simp add: spec_key_def assms(5) cr)
  have ns: "\<forall>c \<in> set (''Crypto'' @ CHR '':'' # ?body). \<not> is_space c"
    using code_string(1)[OF assms(1)] code_string(1)[OF assms(2)] supported_exchange(4)[OF assms(3)] market_type_words(5)[OF assms(4)]
    by (auto simp: is_space_def)
  have "split_once (CHR '':'') (''Crypto'' @ CHR '':'' # ?body) = (''Crypto'', ?body)"
    by (rule split_once_append) simp
  then have "split_market (''Crypto'' @ CHR '':'' # ?body) default_market = (''Crypto'', ?body)"
    by (simp add: split_market_def cr)
  then show ?thesis
    using strip_no_space[OF ns] parse_canonical_identifier[OF assms(1-4)] market_type_words(7)[OF assms(4)]
    unfolding k parse_instrument_def by (simp add: assms(5))
qed

theorem instrument_key_roundtrip_witness:
  "parse_instrument (PStr ''Crypto:BTC/USDT@okx:swap'') ''USStock'' =
     Inr \<lparr>is_market = ''Crypto'', is_symbol = ''BTC/USDT'', is_exchange_id = ''okx'', is_market_type = ''swap'',
          is_instrument_id = ''Crypto:BTC/USDT@okx:swap''\<rparr>"
proof -
  have "is_code ''BTC''" "is_code ''USDT''" "''okx'' \<in> set SUPPORTED_CRYPTO_EXCHANGE_IDS" "''swap'' \<in> set CRYPTO_MARKET_TYPES"
    by code_simp+
  moreover have "spec_key \<lparr>is_market = ''Crypto'', is_symbol = ''BTC'' @ ''/'' @ ''USDT'', is_exchange_id = ''okx'',
      is_market_type = ''swap'', is_instrument_id = []\<rparr> = ''Crypto:BTC/USDT@okx:swap''"
    by code_simp
  ultimately show ?thesis
    using instrument_key_roundtrip[OF _ _ _ _ refl, of "''BTC''" "''USDT''" "''okx''" "''swap''" "[]" "''USStock''"] by simp
qed

lemma normalize_market_type_range:
  "normalize_market_type v ''Crypto'' \<in> {''spot'', ''swap''}"
  "market \<noteq> ''Crypto'' \<Longrightarrow> strip market = market \<Longrightarrow> normalize_market_type v market = ''spot''"
proof -
  have "strip ''Crypto'' = ''Crypto''" by code_simp
  then show "normalize_market_type v ''Crypto'' \<in> {''spot'', ''swap''}"
    by (auto simp: normalize_market_type_def CRYPTO_MARKET_TYPES_def Let_def)
qed (simp add: normalize_market_type_def Let_def)

lemma default_exchange_supported: "default_crypto_exchange_id configured \<in> set SUPPORTED_CRYPTO_EXCHANGE_IDS"
  by (simp add: default_crypto_exchange_id_def Let_def SUPPORTED_CRYPTO_EXCHANGE_IDS_def)

lemma parse_qualifier_market_type:
  "parse_qualifier qualifier = Inr (e, m) \<Longrightarrow> m \<in> {[], ''spot'', ''swap''}"
  using normalize_market_type_range(1)
  by (auto simp: parse_qualifier_def Let_def split: if_splits prod.splits)

lemma split_identifier_market_type:
  assumes "split_identifier ident = Inr (body, e, m)"
  shows "m \<in> {[], ''spot'', ''swap''}"
  using assms by (auto simp: split_identifier_def Let_def bindE_Inr_iff split: if_splits prod.splits
      dest: parse_qualifier_market_type)

lemma parse_crypto_identifier_range:
  assumes "parse_crypto_identifier v = Inr (symbol, m, e)"
  shows "symbol \<noteq> [] \<and> m \<in> {[], ''spot'', ''swap''}"
proof -
  obtain ident body where "split_identifier ident = Inr (body, e, m)"
    using assms by (auto simp: parse_crypto_identifier_def Let_def bindE_Inr_iff split: if_splits)
  moreover have "symbol \<noteq> []"
    using assms by (auto simp: parse_crypto_identifier_def Let_def bindE_Inr_iff split: if_splits)
  ultimately show ?thesis using split_identifier_market_type by blast
qed

text \<open>A market context accepted from a request is routable: a crypto context names a
  supported venue (always, when defaults apply), a symbol and the product spot or swap; any other
  market carries no venue.\<close>

theorem market_context_wf:
  assumes "context_from_mapping configured data apply_defaults = Inr c"
  shows "if mc_market c = ''Crypto''
    then mc_market_type c \<in> {''spot'', ''swap''} \<and> mc_symbol c \<noteq> [] \<and>
         (mc_exchange_id c \<in> set SUPPORTED_CRYPTO_EXCHANGE_IDS \<or> \<not> apply_defaults \<and> mc_exchange_id c = [])
    else mc_exchange_id c = [] \<and> mc_market_type c = ''spot''"
proof -
  define market where "market = strip (str_or (p_or (dget_or data ''market'' PNone) (get2 data ''market_category'' ''marketCategory'')) [])"
  have st: "strip market = market" by (simp add: market_def)
  show ?thesis
  proof (cases "market = ''Crypto''")
    case True
    with assms obtain symbol m e where "parse_crypto_identifier (dget_or data ''symbol'' PNone) = Inr (symbol, m, e)"
      by (auto simp: context_from_mapping_def market_def[symmetric] bindE_Inr_iff Let_def)
    note parsed = this
    define x where "x = str_default (normalize_exchange_id (p_or (get2 data ''exchange_id'' ''exchangeId'') (dget_or data ''exchange'' PNone))) e"
    have c: "mc_market c = ''Crypto'' \<and> mc_symbol c = symbol \<and>
        mc_market_type c = str_default m (normalize_market_type (get2 data ''market_type'' ''marketType'') ''Crypto'') \<and>
        mc_exchange_id c = (if apply_defaults \<and> x = [] then default_crypto_exchange_id configured else x) \<and>
        (x \<noteq> [] \<longrightarrow> x \<in> set SUPPORTED_CRYPTO_EXCHANGE_IDS)"
      using assms parsed True
      by (simp add: context_from_mapping_def market_def[symmetric] Let_def x_def[symmetric] split: if_split_asm)
        (clarsimp, blast?)+
    then show ?thesis
      using parse_crypto_identifier_range[OF parsed] default_exchange_supported[of configured]
        normalize_market_type_range(1)[of "get2 data ''market_type'' ''marketType''"]
      by (auto simp: str_default_def)
  next
    case False
    then show ?thesis
      using assms normalize_market_type_range(2)[OF False st]
      by (auto simp: context_from_mapping_def market_def[symmetric] Let_def str_default_def split: if_splits)
  qed
qed

theorem market_context_wf_witness:
  "\<exists>c. context_from_mapping ''okx'' [(''market'', PStr ''Crypto''), (''symbol'', PStr ''BTCUSDT@perp'')] True = Inr c \<and>
     mc_market_type c \<in> {''spot'', ''swap''} \<and> mc_exchange_id c \<in> set SUPPORTED_CRYPTO_EXCHANGE_IDS"
proof -
  let ?c = "\<lparr>mc_market = ''Crypto'', mc_symbol = ''BTC/USDT'', mc_exchange_id = ''okx'', mc_market_type = ''swap'',
     mc_instrument_id = [], mc_settle_currency = [], mc_timeframe = []\<rparr>"
  have "context_from_mapping ''okx'' [(''market'', PStr ''Crypto''), (''symbol'', PStr ''BTCUSDT@perp'')] True = Inr ?c"
    by code_simp
  from market_context_wf[OF this] this show ?thesis by (intro exI[of _ ?c]) simp
qed

end
