(* ===== verification/DataPortal.thy ===== *)
theory DataPortal
  imports Instruments
begin

text \<open>
  The point-in-time data portal (\<open>services/strategy_v2/data.py\<close>).  A pandas frame is its column
  labels and its rows, a row being its timestamp and the cells by label; timestamps are integers in
  nanoseconds.  \<open>index.searchsorted\<close>, \<open>index.get_loc\<close>, \<open>sort_index\<close> and \<open>duplicated\<close> are list
  functions on the rows.  What belongs to pandas alone is a parameter: \<open>to_datetime\<close> (with
  \<open>errors="coerce"\<close>, so \<open>None\<close> is \<open>NaT\<close>) and the rendering \<open>ts_iso\<close> of a timestamp in one error text.
  The cache of numpy column views (\<open>_columns\<close>) shares the cells of the immutable frames and is
  read through; the two caches that depend on the clock are part of the state.
\<close>

section \<open>Frames\<close>

type_synonym row = "timestamp \<times> (string, pyval) dict"

record frame =
  f_columns :: "string list"
  f_rows :: "row list"

record raw_frame =
  rf_datetime_index :: bool
  rf_columns :: "string list"
  rf_rows :: "(pyval \<times> (string, pyval) dict) list"

definition REQUIRED_COLUMNS :: "string list" where
  "REQUIRED_COLUMNS = [''open'', ''high'', ''low'', ''close'']"

definition searchsorted_right :: "row list \<Rightarrow> timestamp \<Rightarrow> nat" where
  "searchsorted_right rows cutoff = length (takeWhile (\<lambda>r. fst r \<le> cutoff) rows)"

definition wf_rows :: "row list \<Rightarrow> bool" where
  "wf_rows rows \<longleftrightarrow> sorted_wrt (<) (map fst rows)"

definition time_index ::
  "(pyval \<Rightarrow> timestamp option) \<Rightarrow> raw_frame \<Rightarrow> string \<Rightarrow> (string list \<times> (timestamp option \<times> (string, pyval) dict) list) result" where
  "time_index to_datetime raw key =
     (if rf_datetime_index raw
      then Inr (rf_columns raw, map (\<lambda>(i, cells). (to_datetime i, cells)) (rf_rows raw))
      else (case filter (\<lambda>n. n \<in> set (rf_columns raw)) [''time'', ''datetime'', ''date'', ''timestamp''] of
              [] \<Rightarrow> Inl (ValueError (''strategyV2.timeIndexRequired:'' @ key))
            | c # _ \<Rightarrow>
                Inr (filter (\<lambda>n. n \<noteq> c) (rf_columns raw),
                     map (\<lambda>(i, cells). (to_datetime (dget_or cells c PNone), dpop cells c)) (rf_rows raw))))"

definition dated_rows :: "(timestamp option \<times> (string, pyval) dict) list \<Rightarrow> row list" where
  "dated_rows rows = sort_key fst (concat (map (\<lambda>(t, cells). case t of None \<Rightarrow> [] | Some ts \<Rightarrow> [(ts, cells)]) rows))"

text \<open>The first timestamp whose rows are not all equal, and the rows with only the last of each timestamp.\<close>

fun conflicting_duplicate :: "row list \<Rightarrow> timestamp option" where
  "conflicting_duplicate [] = None"
| "conflicting_duplicate ((ts, cells) # rows) =
     (if \<exists>r \<in> set rows. fst r = ts \<and> snd r \<noteq> cells then Some ts else conflicting_duplicate rows)"

fun keep_last :: "row list \<Rightarrow> row list" where
  "keep_last [] = []"
| "keep_last (r # rows) = (if fst r \<in> fst ` set rows then keep_last rows else r # keep_last rows)"

definition normalize_column :: "string \<Rightarrow> string" where
  "normalize_column c = lower (strip c)"

definition normalize_frame ::
  "(pyval \<Rightarrow> timestamp option) \<Rightarrow> (timestamp \<Rightarrow> string) \<Rightarrow> raw_frame \<Rightarrow> string \<Rightarrow> frame result" where
  "normalize_frame to_datetime ts_iso raw key =
     (if rf_rows raw = [] \<or> rf_columns raw = [] then Inl (ValueError (''strategyV2.emptyData:'' @ key))
      else bindE (time_index to_datetime raw key) (\<lambda>(columns0, rows0).
        let columns = map normalize_column columns0;
            rows = map (\<lambda>(t, cells). (t, map (\<lambda>(k, v). (normalize_column k, v)) cells)) (dated_rows rows0);
            missing = filter (\<lambda>c. c \<notin> set columns) REQUIRED_COLUMNS
        in if missing \<noteq> [] then Inl (ValueError (''strategyV2.ohlcRequired:'' @ key @ '':'' @ join '','' missing))
           else let no_volume = (''volume'' \<notin> set columns);
                    columns1 = (if no_volume then columns @ [''volume''] else columns);
                    rows1 = (if no_volume then map (\<lambda>(t, cells). (t, dset cells ''volume'' (PFloat (Fin 0)))) rows else rows)
                in (case conflicting_duplicate rows1 of
                      Some ts \<Rightarrow> Inl (ValueError (''strategyV2.conflictingDuplicateBar:'' @ key @ '':'' @ ts_iso ts))
                    | None \<Rightarrow> Inr \<lparr>f_columns = columns1, f_rows = keep_last rows1\<rparr>)))"

section \<open>The portal\<close>

text \<open>A bar as \<open>bar_at\<close> returns it: the price columns and the optional market flags.\<close>

record bar =
  b_open :: pyfloat
  b_high :: pyfloat
  b_low :: pyfloat
  b_close :: pyfloat
  b_volume :: pyfloat
  b_flags :: "(string, pyval) dict"

record portal =
  driving_freq :: string
  frames_by_frequency :: "(string, (string, frame) dict) dict"
  aliases :: "(string, string) dict"
  timestamps :: "timestamp list"
  current_dt :: "timestamp option"
  include_current :: bool
  visible_ends :: "((string \<times> string), nat) dict"
  bar_cache_timestamp :: "timestamp option"
  bar_cache :: "(string, bar option) dict"

type_synonym raw_bundle = "(string \<times> raw_frame) list"

text \<open>One frequency of the constructor's loop: frames by key, and the aliases they add.\<close>

definition load_frames ::
  "(pyval \<Rightarrow> timestamp option) \<Rightarrow> (timestamp \<Rightarrow> string) \<Rightarrow> raw_bundle \<Rightarrow> (string, string) dict \<Rightarrow>
     ((string, frame) dict \<times> (string, string) dict) result" where
  "load_frames to_datetime ts_iso raw_frames al =
     bindE (mapE (\<lambda>(k, raw). bindE (parse_instrument (PStr k) []) (\<lambda>i. Inr (i, k, raw))) raw_frames) (\<lambda>parsed.
       foldE (\<lambda>(i, k, raw) (fs, al).
                bindE (normalize_frame to_datetime ts_iso raw (spec_key i)) (\<lambda>f.
                  Inr (dset fs (spec_key i) f, dset (dset al (is_symbol i) (spec_key i)) k (spec_key i))))
         (sort_key (\<lambda>(i, k, raw). (spec_key i, k)) parsed) ([], al))"

definition load_bundles ::
  "(pyval \<Rightarrow> timestamp option) \<Rightarrow> (timestamp \<Rightarrow> string) \<Rightarrow> (string \<times> raw_bundle) list \<Rightarrow>
     ((string, (string, frame) dict) dict \<times> (string, string) dict) result" where
  "load_bundles to_datetime ts_iso bundles =
     foldE (\<lambda>(raw_frequency, raw_frames) (by_freq, al).
              bindE (load_frames to_datetime ts_iso raw_frames al) (\<lambda>(fs, al').
                Inr (if fs \<noteq> [] then dset by_freq (normalize_frequency (PStr raw_frequency) ''1d'') fs else by_freq, al')))
       bundles ([], [])"

definition portal_init ::
  "(pyval \<Rightarrow> timestamp option) \<Rightarrow> (timestamp \<Rightarrow> string) \<Rightarrow> raw_bundle \<Rightarrow> (string \<times> raw_bundle) list \<Rightarrow> string \<Rightarrow> portal result" where
  "portal_init to_datetime ts_iso frames frequency_frames driving =
     (let drv = normalize_frequency (PStr driving) ''1d'';
          bundles = (if frequency_frames = [] then [(drv, frames)] else frequency_frames)
      in bindE (load_bundles to_datetime ts_iso bundles) (\<lambda>(by_freq, al).
           case dget by_freq drv of
             None \<Rightarrow> Inl (ValueError (''strategyV2.drivingFrequencyUnavailable:'' @ drv))
           | Some fs \<Rightarrow>
               Inr \<lparr>driving_freq = drv, frames_by_frequency = by_freq, aliases = al,
                    timestamps = sort (remdups (concat (map (\<lambda>f. map fst (f_rows f)) (dvals fs)))),
                    current_dt = None, include_current = False, visible_ends = [],
                    bar_cache_timestamp = None, bar_cache = []\<rparr>))"

definition ns_per_second :: int where
  "ns_per_second = 1000000000"

definition seconds_delta :: "string \<Rightarrow> int" where
  "seconds_delta freq = frequency_seconds (PStr freq) * ns_per_second"

definition set_clock :: "timestamp \<Rightarrow> bool \<Rightarrow> portal \<Rightarrow> portal" where
  "set_clock dt incl pt =
     (let pt1 = (if Some dt \<noteq> current_dt pt \<or> incl \<noteq> include_current pt then pt\<lparr>visible_ends := []\<rparr> else pt)
      in pt1\<lparr>current_dt := Some dt, include_current := incl\<rparr>)"

definition visible_cutoff :: "portal \<Rightarrow> string \<Rightarrow> timestamp option" where
  "visible_cutoff pt freq =
     (case current_dt pt of
        None \<Rightarrow> None
      | Some dt \<Rightarrow>
          let event_time = (if include_current pt then dt + seconds_delta (driving_freq pt) else dt)
          in Some (event_time - seconds_delta freq))"

definition frames_for_frequency :: "portal \<Rightarrow> pyval \<Rightarrow> (string, frame) dict result" where
  "frames_for_frequency pt freq =
     (let normalized = normalize_frequency freq (driving_freq pt) in
      case dget (frames_by_frequency pt) normalized of
        None \<Rightarrow> Inl (ValueError (''strategyV2.frequencyNotSubscribed:'' @ normalized))
      | Some fs \<Rightarrow> Inr fs)"

text \<open>\<open>key.split(":", 1)[-1].split("@", 1)[0]\<close>.\<close>

definition key_symbol :: "string \<Rightarrow> string" where
  "key_symbol key =
     takeWhile (\<lambda>c. c \<noteq> CHR ''@'') (if CHR '':'' \<in> set key then snd (split_once (CHR '':'') key) else key)"

definition resolve_key :: "portal \<Rightarrow> pyval \<Rightarrow> pyval \<Rightarrow> string result" where
  "resolve_key pt symbol freq =
     bindE (frames_for_frequency pt freq) (\<lambda>frames.
       let raw = strip (str_or symbol []) in
       if raw \<in> set (dkeys frames) then Inr raw
       else if (case dget (aliases pt) raw of None \<Rightarrow> False | Some k \<Rightarrow> k \<in> set (dkeys frames))
            then Inr (dget_or (aliases pt) raw [])
       else bindE (parse_instrument (PStr raw) []) (\<lambda>parsed.
              if spec_key parsed \<in> set (dkeys frames) then Inr (spec_key parsed)
              else (case filter (\<lambda>k. key_symbol k = is_symbol parsed) (dkeys frames) of
                      [k] \<Rightarrow> Inr k
                    | _ \<Rightarrow> Inl (ValueError (''strategyV2.dataUnavailable:'' @ raw)))))"

definition frame_of :: "portal \<Rightarrow> string \<Rightarrow> string \<Rightarrow> frame" where
  "frame_of pt key freq =
     (case dget (frames_by_frequency pt) freq of
        None \<Rightarrow> \<lparr>f_columns = [], f_rows = []\<rparr>
      | Some fs \<Rightarrow> dget_or fs key \<lparr>f_columns = [], f_rows = []\<rparr>)"

definition compute_visible_end :: "portal \<Rightarrow> string \<Rightarrow> string \<Rightarrow> nat" where
  "compute_visible_end pt key freq =
     (case visible_cutoff pt freq of
        None \<Rightarrow> 0
      | Some c \<Rightarrow> searchsorted_right (f_rows (frame_of pt key freq)) c)"

definition visible_end :: "string \<Rightarrow> string \<Rightarrow> portal \<Rightarrow> nat \<times> portal" where
  "visible_end key freq pt =
     (case dget (visible_ends pt) (key, freq) of
        Some n \<Rightarrow> (n, pt)
      | None \<Rightarrow>
          let n = compute_visible_end pt key freq
          in (n, pt\<lparr>visible_ends := dset (visible_ends pt) (key, freq) n\<rparr>))"

definition start_index :: "nat \<Rightarrow> int option \<Rightarrow> nat" where
  "start_index end_index count =
     (case count of
        None \<Rightarrow> 0
      | Some c \<Rightarrow> if 0 < c then nat (max 0 (int end_index - c)) else 0)"

definition slice_rows :: "nat \<Rightarrow> nat \<Rightarrow> frame \<Rightarrow> frame" where
  "slice_rows a b f = f\<lparr>f_rows := drop a (take b (f_rows f))\<rparr>"

definition visible_frame :: "pyval \<Rightarrow> int option \<Rightarrow> pyval \<Rightarrow> portal \<Rightarrow> (frame \<times> portal) result" where
  "visible_frame symbol count freq pt =
     (let normalized = normalize_frequency freq (driving_freq pt) in
      bindE (frames_for_frequency pt (PStr normalized)) (\<lambda>frames.
      bindE (resolve_key pt symbol (PStr normalized)) (\<lambda>key.
        case visible_end key normalized pt of (end_index, pt') \<Rightarrow>
          Inr (slice_rows (start_index end_index count) end_index (frame_of pt key normalized), pt'))))"

text \<open>Column selection of \<open>history\<close>: the requested labels the frame has, in the requested order.\<close>

definition select_columns :: "string list \<Rightarrow> frame \<Rightarrow> frame" where
  "select_columns cols f =
     (let cs = filter (\<lambda>c. c \<in> set (f_columns f)) cols
      in \<lparr>f_columns = cs, f_rows = map (\<lambda>(t, cells). (t, map (\<lambda>c. (c, dget_or cells c PNone)) cs)) (f_rows f)\<rparr>)"

definition history_one :: "int \<Rightarrow> string list \<Rightarrow> string \<Rightarrow> pyval \<Rightarrow> portal \<Rightarrow> ((string \<times> frame) \<times> portal) result" where
  "history_one count cols normalized symbol pt =
     bindE (resolve_key pt symbol (PStr normalized)) (\<lambda>key.
       if cols \<noteq> [] then
         (case visible_end key normalized pt of (end_index, pt') \<Rightarrow>
            Inr ((key, select_columns cols
                         (slice_rows (start_index end_index (Some count)) end_index (frame_of pt key normalized))), pt'))
       else bindE (visible_frame (PStr key) (Some count) (PStr normalized) pt) (\<lambda>(f, pt'). Inr ((key, f), pt')))"

definition history ::
  "pyval list \<Rightarrow> int \<Rightarrow> string list \<Rightarrow> pyval \<Rightarrow> portal \<Rightarrow> ((string, frame) dict \<times> portal) result" where
  "history symbols count cols freq pt =
     (let normalized = normalize_frequency freq (driving_freq pt);
          selected = map normalize_column cols
      in foldE (\<lambda>symbol (out, pt).
                  bindE (history_one count selected normalized symbol pt) (\<lambda>((key, f), pt').
                    Inr (dset out key f, pt')))
           symbols ([], pt))"

definition panel ::
  "pyval list \<Rightarrow> int option \<Rightarrow> pyval \<Rightarrow> portal \<Rightarrow> ((string, frame) dict \<times> portal) result" where
  "panel symbols count freq pt =
     (let normalized = normalize_frequency freq (driving_freq pt) in
      bindE (frames_for_frequency pt (PStr normalized)) (\<lambda>frames.
        foldE (\<lambda>symbol (out, pt).
                 bindE (resolve_key pt symbol (PStr normalized)) (\<lambda>key.
                 bindE (visible_frame symbol count (PStr normalized) pt) (\<lambda>(f, pt').
                   Inr (dset out key f, pt'))))
          (if symbols = [] then map PStr (dkeys frames) else symbols) ([], pt)))"

definition current_value :: "pyval \<Rightarrow> string \<Rightarrow> pyfloat \<Rightarrow> pyval \<Rightarrow> portal \<Rightarrow> (pyfloat \<times> portal) result" where
  "current_value symbol field dflt freq pt =
     (let normalized = normalize_frequency freq (driving_freq pt) in
      bindE (resolve_key pt symbol (PStr normalized)) (\<lambda>key.
        case visible_end key normalized pt of (end_index, pt') \<Rightarrow>
          let f = frame_of pt key normalized in
          if end_index = 0 \<or> field \<notin> set (f_columns f) \<or> length (f_rows f) < end_index then Inr (dflt, pt')
          else Inr (case to_float (dget_or (snd (f_rows f ! (end_index - 1))) field PNone) of
                      Inl _ \<Rightarrow> dflt
                    | Inr v \<Rightarrow> if is_nan v then dflt else v, pt')))"

definition bar_flag_names :: "string list" where
  "bar_flag_names =
     [''suspended'', ''is_suspended'', ''limit_up'', ''is_limit_up'', ''limit_down'', ''is_limit_down'', ''industry'']"

definition row_bar :: "string list \<Rightarrow> (string, pyval) dict \<Rightarrow> bar result" where
  "row_bar columns cells =
     bindE (to_float (dget_or cells ''open'' PNone)) (\<lambda>op.
     bindE (to_float (dget_or cells ''high'' PNone)) (\<lambda>hi.
     bindE (to_float (dget_or cells ''low'' PNone)) (\<lambda>lo.
     bindE (to_float (dget_or cells ''close'' PNone)) (\<lambda>cl.
     bindE (if ''volume'' \<in> set columns then to_float (p_or (dget_or cells ''volume'' PNone) (PFloat (Fin 0))) else Inr (Fin 0)) (\<lambda>vol.
       Inr \<lparr>b_open = op, b_high = hi, b_low = lo, b_close = cl, b_volume = vol,
            b_flags = map (\<lambda>n. (n, dget_or cells n PNone)) (filter (\<lambda>n. n \<in> set columns) bar_flag_names)\<rparr>)))))"

text \<open>The row of a timestamp; a missing row and a cell that is no number are both no bar.\<close>

definition lookup_bar :: "frame \<Rightarrow> timestamp \<Rightarrow> bar option result" where
  "lookup_bar f ts =
     (case map_of (f_rows f) ts of
        None \<Rightarrow> Inr None
      | Some cells \<Rightarrow>
          (case row_bar (f_columns f) cells of
             Inr b \<Rightarrow> Inr (Some b)
           | Inl OverflowError \<Rightarrow> Inl OverflowError
           | Inl _ \<Rightarrow> Inr None))"

definition bar_at :: "pyval \<Rightarrow> timestamp \<Rightarrow> portal \<Rightarrow> (bar option \<times> portal) result" where
  "bar_at symbol ts pt =
     bindE (resolve_key pt symbol (PStr (driving_freq pt))) (\<lambda>key.
       let pt1 = (if bar_cache_timestamp pt \<noteq> Some ts
                  then pt\<lparr>bar_cache_timestamp := Some ts, bar_cache := []\<rparr> else pt)
       in case dget (bar_cache pt1) key of
            Some cached \<Rightarrow> Inr (cached, pt1)
          | None \<Rightarrow>
              bindE (lookup_bar (frame_of pt1 key (driving_freq pt1)) ts) (\<lambda>b.
                Inr (b, pt1\<lparr>bar_cache := dset (bar_cache pt1) key b\<rparr>)))"

definition positive_price :: "(bar \<Rightarrow> pyfloat) \<Rightarrow> bar option \<Rightarrow> pyfloat option" where
  "positive_price field b =
     (case b of None \<Rightarrow> None | Some x \<Rightarrow> if flt (Fin 0) (field x) then Some (field x) else None)"

definition open_at :: "pyval \<Rightarrow> timestamp \<Rightarrow> portal \<Rightarrow> (pyfloat option \<times> portal) result" where
  "open_at symbol ts pt = bindE (bar_at symbol ts pt) (\<lambda>(b, pt'). Inr (positive_price b_open b, pt'))"

definition close_at :: "pyval \<Rightarrow> timestamp \<Rightarrow> portal \<Rightarrow> (pyfloat option \<times> portal) result" where
  "close_at symbol ts pt = bindE (bar_at symbol ts pt) (\<lambda>(b, pt'). Inr (positive_price b_close b, pt'))"

text \<open>The resolver of named universes is supplied by the caller, \<open>now\<close> is the wall clock.\<close>

definition universe :: "(string \<Rightarrow> timestamp \<Rightarrow> pyval list) option \<Rightarrow> timestamp \<Rightarrow> string \<Rightarrow> portal \<Rightarrow> string list result" where
  "universe resolver now reference pt =
     (case resolver of
        None \<Rightarrow> Inr []
      | Some r \<Rightarrow>
          mapE (\<lambda>v. bindE (parse_instrument v []) (\<lambda>i. Inr (spec_key i)))
            (r reference (case current_dt pt of None \<Rightarrow> now | Some t \<Rightarrow> t)))"

section \<open>Normalised frames\<close>

lemma keep_last_subset: "set (keep_last rows) \<subseteq> set rows"
  by (induction rows) auto

lemma keep_last_sorted: "sorted (map fst rows) \<Longrightarrow> wf_rows (keep_last rows)"
proof (induction rows)
  case (Cons r rows)
  have "fst r < fst x" if "fst r \<notin> fst ` set rows" "x \<in> set (keep_last rows)" for x
  proof -
    have "x \<in> set rows" using that(2) keep_last_subset by blast
    then have "fst r \<le> fst x" and "fst x \<in> fst ` set rows" using Cons.prems by auto
    then show ?thesis using that(1) by (metis order_le_imp_less_or_eq)
  qed
  then show ?case using Cons by (auto simp: wf_rows_def)
qed (simp add: wf_rows_def)

lemma dated_rows_sorted: "sorted (map fst (dated_rows rows))"
  by (simp add: dated_rows_def)

lemma normalize_frame_wf:
  assumes "normalize_frame to_datetime ts_iso raw key = Inr f"
  shows "wf_rows (f_rows f)"
proof -
  have m: "map fst (map (\<lambda>(t, cells). (t, g cells)) rs) = map fst rs" for g :: "(string, pyval) dict \<Rightarrow> (string, pyval) dict" and rs
    by (induction rs) auto
  obtain cs rs g where "f_rows f = keep_last (map (\<lambda>(t, cells). (t, g cells)) (dated_rows rs))"
    using assms
    by (force simp: normalize_frame_def bindE_Inr_iff Let_def comp_def case_prod_unfold split: if_splits option.splits)
  then show ?thesis
    by (simp only:) (rule keep_last_sorted, simp only: m dated_rows_sorted)
qed

definition wf_bundle :: "(string, frame) dict \<Rightarrow> bool" where
  "wf_bundle fs \<longleftrightarrow> (\<forall>f \<in> set (dvals fs). wf_rows (f_rows f))"

definition wf_portal :: "portal \<Rightarrow> bool" where
  "wf_portal pt \<longleftrightarrow> (\<forall>fs \<in> set (dvals (frames_by_frequency pt)). wf_bundle fs)"

lemma dvals_dset_subset: "set (dvals (dset d k v)) \<subseteq> insert v (set (dvals d))"
  by (induction d k v rule: dset.induct) (auto simp: dvals_def)

lemma load_frames_wf:
  assumes "load_frames to_datetime ts_iso raws al = Inr (fs, al')"
  shows "wf_bundle fs"
proof -
  obtain ps where "foldE (\<lambda>(i, k, raw) (fs, al).
                bindE (normalize_frame to_datetime ts_iso raw (spec_key i)) (\<lambda>f.
                  Inr (dset fs (spec_key i) f, dset (dset al (is_symbol i) (spec_key i)) k (spec_key i))))
         ps ([], al) = Inr (fs, al')"
    using assms by (auto simp: load_frames_def bindE_Inr_iff)
  then have "wf_bundle (fst (fs, al'))"
  proof (rule foldE_invariant)
    show "wf_bundle (fst ([], al))" by (simp add: wf_bundle_def dvals_def)
  next
    fix x a b
    assume "wf_bundle (fst a)" and "(case x of (i, k, raw) \<Rightarrow> \<lambda>(fs, al).
              bindE (normalize_frame to_datetime ts_iso raw (spec_key i)) (\<lambda>f.
                Inr (dset fs (spec_key i) f, dset (dset al (is_symbol i) (spec_key i)) k (spec_key i)))) a = Inr b"
    then show "wf_bundle (fst b)"
      by (cases x; cases a)
        (use dvals_dset_subset in \<open>fastforce simp: wf_bundle_def bindE_Inr_iff dest: normalize_frame_wf\<close>)
  qed
  then show ?thesis by simp
qed

lemma load_bundles_wf:
  assumes "load_bundles to_datetime ts_iso bundles = Inr (by_freq, al)"
  shows "\<forall>fs \<in> set (dvals by_freq). wf_bundle fs"
proof -
  have "\<forall>fs \<in> set (dvals (fst (by_freq, al))). wf_bundle fs"
    using assms unfolding load_bundles_def
  proof (rule foldE_invariant)
    fix x a b
    assume "\<forall>fs \<in> set (dvals (fst a)). wf_bundle fs"
      and "(case x of (raw_frequency, raw_frames) \<Rightarrow> \<lambda>(by_freq, al).
              bindE (load_frames to_datetime ts_iso raw_frames al) (\<lambda>(fs, al').
                Inr (if fs \<noteq> [] then dset by_freq (normalize_frequency (PStr raw_frequency) ''1d'') fs else by_freq, al'))) a = Inr b"
    then show "\<forall>fs \<in> set (dvals (fst b)). wf_bundle fs"
      by (cases x; cases a)
        (use dvals_dset_subset in \<open>fastforce simp: bindE_Inr_iff dest: load_frames_wf split: if_splits\<close>)
  qed (simp add: dvals_def)
  then show ?thesis by simp
qed

lemma portal_init_wf: "portal_init to_datetime ts_iso frames bundles driving = Inr pt \<Longrightarrow> wf_portal pt"
  by (auto simp: portal_init_def bindE_Inr_iff Let_def wf_portal_def split: option.splits dest!: load_bundles_wf)

lemma frame_of_wf: "wf_portal pt \<Longrightarrow> wf_rows (f_rows (frame_of pt key freq))"
proof -
  have v: "v \<in> set (dvals d)" if "dget d k = Some v" for d :: "('k, 'v) dict" and k v
    using dget_Some_in[OF that] by (force simp: dvals_def)
  assume "wf_portal pt"
  then show ?thesis
    by (auto simp: frame_of_def wf_portal_def wf_bundle_def dget_or_def wf_rows_def dest!: v split: option.splits)
qed

section \<open>Cache transparency\<close>

definition caches_ok :: "portal \<Rightarrow> bool" where
  "caches_ok pt \<longleftrightarrow>
     (\<forall>key freq n. dget (visible_ends pt) (key, freq) = Some n \<longrightarrow> n = compute_visible_end pt key freq) \<and>
     (\<forall>key b ts. dget (bar_cache pt) key = Some b \<longrightarrow> bar_cache_timestamp pt = Some ts \<longrightarrow>
        lookup_bar (frame_of pt key (driving_freq pt)) ts = Inr b) \<and>
     (bar_cache_timestamp pt = None \<longrightarrow> bar_cache pt = [])"

definition portal_ok :: "portal \<Rightarrow> bool" where
  "portal_ok pt \<longleftrightarrow> wf_portal pt \<and> caches_ok pt"

lemma portal_upd [simp]:
  "frame_of (pt\<lparr>visible_ends := v\<rparr>) = frame_of pt"
  "frame_of (pt\<lparr>bar_cache := c\<rparr>) = frame_of pt"
  "frame_of (pt\<lparr>bar_cache_timestamp := t\<rparr>) = frame_of pt"
  "frame_of (pt\<lparr>current_dt := d\<rparr>) = frame_of pt"
  "frame_of (pt\<lparr>include_current := i\<rparr>) = frame_of pt"
  "wf_portal (pt\<lparr>visible_ends := v\<rparr>) = wf_portal pt"
  "wf_portal (pt\<lparr>bar_cache := c\<rparr>) = wf_portal pt"
  "wf_portal (pt\<lparr>bar_cache_timestamp := t\<rparr>) = wf_portal pt"
  "wf_portal (pt\<lparr>current_dt := d\<rparr>) = wf_portal pt"
  "wf_portal (pt\<lparr>include_current := i\<rparr>) = wf_portal pt"
  by (simp_all add: frame_of_def wf_portal_def fun_eq_iff)

lemma cutoff_upd [simp]:
  "visible_cutoff (pt\<lparr>visible_ends := v\<rparr>) = visible_cutoff pt"
  "visible_cutoff (pt\<lparr>bar_cache := c\<rparr>) = visible_cutoff pt"
  "visible_cutoff (pt\<lparr>bar_cache_timestamp := t\<rparr>) = visible_cutoff pt"
  by (cases "current_dt pt"; simp add: visible_cutoff_def fun_eq_iff)+

lemma compute_visible_end_upd [simp]:
  "compute_visible_end (pt\<lparr>visible_ends := v\<rparr>) = compute_visible_end pt"
  "compute_visible_end (pt\<lparr>bar_cache := c\<rparr>) = compute_visible_end pt"
  "compute_visible_end (pt\<lparr>bar_cache_timestamp := t\<rparr>) = compute_visible_end pt"
  by (simp_all add: compute_visible_end_def fun_eq_iff cong: option.case_cong)

lemma resolve_key_upd [simp]:
  "resolve_key (pt\<lparr>visible_ends := v\<rparr>) = resolve_key pt"
  "resolve_key (pt\<lparr>bar_cache := c\<rparr>) = resolve_key pt"
  "resolve_key (pt\<lparr>bar_cache_timestamp := t\<rparr>) = resolve_key pt"
  by (simp_all add: resolve_key_def frames_for_frequency_def fun_eq_iff cong: if_cong)

lemma set_clock_ok: "portal_ok pt \<Longrightarrow> portal_ok (set_clock dt incl pt)"
proof -
  assume ok: "portal_ok pt"
  show ?thesis
  proof (cases "Some dt \<noteq> current_dt pt \<or> incl \<noteq> include_current pt")
    case True
    then show ?thesis
      using ok by (simp add: portal_ok_def caches_ok_def set_clock_def)
  next
    case False
    then have "set_clock dt incl pt = pt"
      by (simp add: set_clock_def)
    then show ?thesis using ok by simp
  qed
qed

lemma visible_end_ok:
  assumes "portal_ok pt" and "visible_end key freq pt = (n, pt')"
  shows "n = compute_visible_end pt key freq" and "portal_ok pt'"
  using assms
  by (auto simp: visible_end_def portal_ok_def caches_ok_def Let_def split: option.splits if_splits)

lemma bar_at_ok:
  assumes "portal_ok pt" and "bar_at symbol ts pt = Inr (b, pt')"
  shows "\<exists>key. resolve_key pt symbol (PStr (driving_freq pt)) = Inr key \<and>
      lookup_bar (frame_of pt key (driving_freq pt)) ts = Inr b"
    and "portal_ok pt'"
proof -
  obtain key where k: "resolve_key pt symbol (PStr (driving_freq pt)) = Inr key"
    using assms(2) by (auto simp: bar_at_def bindE_Inr_iff)
  show "\<exists>key. resolve_key pt symbol (PStr (driving_freq pt)) = Inr key \<and>
      lookup_bar (frame_of pt key (driving_freq pt)) ts = Inr b"
    using assms k
    by (auto simp: bar_at_def portal_ok_def caches_ok_def Let_def bindE_Inr_iff split: option.splits if_splits)
  show "portal_ok pt'"
    using assms k
    by (auto simp: dget_Cons bar_at_def portal_ok_def caches_ok_def Let_def bindE_Inr_iff split: option.splits if_splits)
qed

lemma visible_frame_cases:
  assumes "visible_frame symbol count freq pt = Inr (f, pt')"
  obtains key n where "resolve_key pt symbol (PStr (normalize_frequency freq (driving_freq pt))) = Inr key"
    and "visible_end key (normalize_frequency freq (driving_freq pt)) pt = (n, pt')"
    and "f = slice_rows (start_index n count) n (frame_of pt key (normalize_frequency freq (driving_freq pt)))"
proof -
  let ?nf = "normalize_frequency freq (driving_freq pt)"
  obtain key where k: "resolve_key pt symbol (PStr ?nf) = Inr key"
    "(case visible_end key ?nf pt of (n, pt') \<Rightarrow>
       Inr (slice_rows (start_index n count) n (frame_of pt key ?nf), pt')) = (Inr (f, pt') :: (frame \<times> portal) result)"
    using assms by (auto simp: visible_frame_def bindE_Inr_iff Let_def)
  then show thesis using that by (cases "visible_end key ?nf pt") auto
qed

lemma visible_frame_ok: "portal_ok pt \<Longrightarrow> visible_frame symbol count freq pt = Inr (f, pt') \<Longrightarrow> portal_ok pt'"
  by (erule visible_frame_cases) (rule visible_end_ok(2))

lemma current_value_ok:
  assumes "portal_ok pt" and "current_value symbol field dflt freq pt = Inr (x, pt')"
  shows "portal_ok pt'"
proof -
  obtain key where "snd (visible_end key (normalize_frequency freq (driving_freq pt)) pt) = pt'"
    using assms(2) by (auto simp: current_value_def bindE_Inr_iff Let_def case_prod_beta split: if_split_asm)
  then show ?thesis using visible_end_ok(2)[OF assms(1)] by (metis prod.collapse)
qed

lemma history_one_ok:
  assumes "portal_ok pt" and "history_one count cols nf symbol pt = Inr (x, pt')"
  shows "portal_ok pt'"
proof (cases "cols = []")
  case True
  then obtain key f where "visible_frame (PStr key) (Some count) (PStr nf) pt = Inr (f, pt')"
    using assms(2) by (auto simp: history_one_def bindE_Inr_iff)
  then show ?thesis using visible_frame_ok assms(1) by blast
next
  case False
  then obtain key where "snd (visible_end key nf pt) = pt'"
    using assms(2) by (auto simp: history_one_def bindE_Inr_iff case_prod_beta)
  then show ?thesis using visible_end_ok(2)[OF assms(1)] by (metis prod.collapse)
qed

lemma history_ok:
  assumes "portal_ok pt" and "history symbols count cols freq pt = Inr (out, pt')"
  shows "portal_ok pt'"
proof -
  have "portal_ok (snd (out, pt'))"
    using assms(2) unfolding history_def Let_def
    by (rule foldE_invariant) (use assms(1) in \<open>auto simp: bindE_Inr_iff dest: history_one_ok\<close>)
  then show ?thesis by simp
qed

lemma panel_ok:
  assumes "portal_ok pt" and "panel symbols count freq pt = Inr (out, pt')"
  shows "portal_ok pt'"
proof -
  obtain frames where f: "foldE (\<lambda>symbol (out, pt).
                 bindE (resolve_key pt symbol (PStr (normalize_frequency freq (driving_freq pt0)))) (\<lambda>key.
                 bindE (visible_frame symbol count (PStr (normalize_frequency freq (driving_freq pt0))) pt) (\<lambda>(f, pt').
                   Inr (dset out key f, pt'))))
          frames ([], pt) = Inr (out, pt')" if "pt0 = pt" for pt0
    using assms(2) by (auto simp: panel_def bindE_Inr_iff Let_def)
  have "portal_ok (snd (out, pt'))"
    using f[OF refl]
    by (rule foldE_invariant) (use assms(1) in \<open>auto simp: bindE_Inr_iff dest: visible_frame_ok\<close>)
  then show ?thesis by simp
qed

text \<open>The portals a program can hold: built by the constructor and used through its methods.\<close>

inductive portal_reach ::
  "(pyval \<Rightarrow> timestamp option) \<Rightarrow> (timestamp \<Rightarrow> string) \<Rightarrow> portal \<Rightarrow> bool" for to_datetime ts_iso where
  init: "portal_init to_datetime ts_iso frames bundles driving = Inr pt \<Longrightarrow> portal_reach to_datetime ts_iso pt"
| clock: "portal_reach to_datetime ts_iso pt \<Longrightarrow> portal_reach to_datetime ts_iso (set_clock dt incl pt)"
| frame: "portal_reach to_datetime ts_iso pt \<Longrightarrow> visible_frame symbol count freq pt = Inr (f, pt') \<Longrightarrow> portal_reach to_datetime ts_iso pt'"
| hist: "portal_reach to_datetime ts_iso pt \<Longrightarrow> history symbols n cols freq pt = Inr (out, pt') \<Longrightarrow> portal_reach to_datetime ts_iso pt'"
| panel: "portal_reach to_datetime ts_iso pt \<Longrightarrow> panel symbols count freq pt = Inr (out, pt') \<Longrightarrow> portal_reach to_datetime ts_iso pt'"
| current: "portal_reach to_datetime ts_iso pt \<Longrightarrow> current_value symbol field dflt freq pt = Inr (x, pt') \<Longrightarrow> portal_reach to_datetime ts_iso pt'"
| bar: "portal_reach to_datetime ts_iso pt \<Longrightarrow> bar_at symbol ts pt = Inr (b, pt') \<Longrightarrow> portal_reach to_datetime ts_iso pt'"

lemma portal_init_ok: "portal_init to_datetime ts_iso frames bundles driving = Inr pt \<Longrightarrow> portal_ok pt"
  by (frule portal_init_wf)
    (auto simp: portal_ok_def caches_ok_def portal_init_def bindE_Inr_iff Let_def split: option.splits)

lemma portal_reach_ok: "portal_reach to_datetime ts_iso pt \<Longrightarrow> portal_ok pt"
  by (induction rule: portal_reach.induct)
    (blast intro: portal_init_ok set_clock_ok dest: visible_frame_ok history_ok panel_ok current_value_ok bar_at_ok(2))+

section \<open>Point in time\<close>

lemma take_searchsorted:
  assumes "wf_rows rows"
  shows "take (searchsorted_right rows c) rows = filter (\<lambda>r. fst r \<le> c) rows"
proof -
  have "take (searchsorted_right rows c) rows = takeWhile (\<lambda>r. fst r \<le> c) rows"
    unfolding searchsorted_right_def by (metis takeWhile_eq_take)
  also have "\<dots> = filter (\<lambda>r. fst r \<le> c) rows"
    using assms by (induction rows) (auto simp: wf_rows_def filter_empty_conv eq_commute[of "[]"])
  finally show ?thesis .
qed

text \<open>The instant the strategy is asked at, and the bars of a frequency that are complete by then.\<close>

definition event_time :: "portal \<Rightarrow> timestamp option" where
  "event_time pt =
     map_option (\<lambda>dt. if include_current pt then dt + seconds_delta (driving_freq pt) else dt) (current_dt pt)"

definition complete_rows :: "portal \<Rightarrow> string \<Rightarrow> string \<Rightarrow> row list" where
  "complete_rows pt key freq =
     (case event_time pt of
        None \<Rightarrow> []
      | Some t \<Rightarrow> filter (\<lambda>r. fst r + seconds_delta freq \<le> t) (f_rows (frame_of pt key freq)))"

definition last_rows :: "int option \<Rightarrow> row list \<Rightarrow> row list" where
  "last_rows count rows =
     (case count of None \<Rightarrow> rows | Some c \<Rightarrow> if 0 < c then drop (length rows - nat c) rows else rows)"

lemma take_visible_end:
  assumes "wf_portal pt"
  shows "take (compute_visible_end pt key freq) (f_rows (frame_of pt key freq)) = complete_rows pt key freq"
proof (cases "current_dt pt")
  case None
  then show ?thesis by (simp add: compute_visible_end_def visible_cutoff_def complete_rows_def event_time_def)
next
  case (Some dt)
  have "(x \<le> t - d) = (x + d \<le> t)" for x t d :: int by linarith
  then show ?thesis
    using Some take_searchsorted[OF frame_of_wf[OF assms]]
    by (auto simp: compute_visible_end_def visible_cutoff_def complete_rows_def event_time_def Let_def)
qed

lemma drop_start_index: "drop (start_index (length rows) count) rows = last_rows count rows"
proof -
  have "nat (max 0 (int n - c)) = n - nat c" if "0 < c" for n c using that by linarith
  then show ?thesis by (auto simp: start_index_def last_rows_def split: option.splits)
qed

lemma compute_visible_end_le: "compute_visible_end pt key freq \<le> length (f_rows (frame_of pt key freq))"
  by (simp add: compute_visible_end_def searchsorted_right_def length_takeWhile_le split: option.splits)

lemma slice_visible:
  assumes "wf_portal pt" and "n = compute_visible_end pt key freq"
  shows "f_rows (slice_rows (start_index n count) n (frame_of pt key freq)) = last_rows count (complete_rows pt key freq)"
proof -
  have "length (complete_rows pt key freq) = n"
    using take_visible_end[OF assms(1), of key freq] compute_visible_end_le[of pt key freq] assms(2)
    by (metis length_take min.absorb2)
  then show ?thesis
    using drop_start_index[of "complete_rows pt key freq" count] take_visible_end[OF assms(1), of key freq] assms(2)
    by (simp add: slice_rows_def)
qed

lemma visible_frame_rows:
  assumes ok: "portal_ok pt" and v: "visible_frame symbol count freq pt = Inr (f, pt')"
  shows "\<exists>key. resolve_key pt symbol (PStr (normalize_frequency freq (driving_freq pt))) = Inr key \<and>
           f_rows f = last_rows count (complete_rows pt key (normalize_frequency freq (driving_freq pt)))"
  using v
proof (rule visible_frame_cases)
  fix key n
  let ?nf = "normalize_frequency freq (driving_freq pt)"
  assume k: "resolve_key pt symbol (PStr ?nf) = Inr key" "visible_end key ?nf pt = (n, pt')"
    "f = slice_rows (start_index n count) n (frame_of pt key ?nf)"
  show ?thesis
    using k slice_visible[OF _ visible_end_ok(1)[OF ok k(2)]] ok by (auto simp: portal_ok_def)
qed

text \<open>C1: No look-ahead.  For every portal a program can reach through the constructor
  and the public methods, the rows \<open>visible_frame\<close> hands to a strategy are exactly the last
  \<open>count\<close> bars of the resolved instrument (all of them without a count) whose whole period, start
  plus the length of the requested frequency, has ended by the event time; before the clock is set
  there are none.\<close>

theorem visible_frame_point_in_time:
  assumes "portal_reach to_datetime ts_iso pt"
    and "visible_frame symbol count freq pt = Inr (f, pt')"
  shows "\<exists>key. resolve_key pt symbol (PStr (normalize_frequency freq (driving_freq pt))) = Inr key \<and>
           f_rows f = last_rows count (complete_rows pt key (normalize_frequency freq (driving_freq pt)))"
  using assms visible_frame_rows portal_reach_ok by blast

definition demo_cells :: "rat \<Rightarrow> (string, pyval) dict" where
  "demo_cells x =
     [(''open'', PFloat (Fin x)), (''high'', PFloat (Fin x)), (''low'', PFloat (Fin x)), (''close'', PFloat (Fin x)),
      (''volume'', PFloat (Fin 1))]"

definition demo_raw :: raw_frame where
  "demo_raw = \<lparr>rf_datetime_index = True, rf_columns = [''open'', ''high'', ''low'', ''close'', ''volume''],
     rf_rows = [(PInt 120000000000, demo_cells 3), (PInt 0, demo_cells 1), (PInt 60000000000, demo_cells 2)]\<rparr>"

definition demo_datetime :: "pyval \<Rightarrow> timestamp option" where
  "demo_datetime v = (case v of PInt n \<Rightarrow> Some n | _ \<Rightarrow> None)"

definition demo_portal :: portal where
  "demo_portal = \<lparr>driving_freq = ''1m'',
     frames_by_frequency = [(''1m'', [(''USStock:AAPL'', \<lparr>f_columns = [''open'', ''high'', ''low'', ''close'', ''volume''],
        f_rows = [(0, demo_cells 1), (60000000000, demo_cells 2), (120000000000, demo_cells 3)]\<rparr>)])],
     aliases = [(''AAPL'', ''USStock:AAPL''), (''USStock:AAPL'', ''USStock:AAPL'')],
     timestamps = [0, 60000000000, 120000000000],
     current_dt = None, include_current = False, visible_ends = [], bar_cache_timestamp = None, bar_cache = []\<rparr>"

lemma demo_portal_init:
  "portal_init demo_datetime show_int [(''USStock:AAPL'', demo_raw)] [] ''1m'' = Inr demo_portal"
  by code_simp

lemma demo_portal_reach: "portal_reach demo_datetime show_int (set_clock 120000000000 False demo_portal)"
  by (rule portal_reach.clock, rule portal_reach.init, rule demo_portal_init)

lemma demo_visible_frame:
  "visible_frame (PStr ''AAPL'') None PNone (set_clock 120000000000 False demo_portal) =
     Inr (\<lparr>f_columns = [''open'', ''high'', ''low'', ''close'', ''volume''],
           f_rows = [(0, demo_cells 1), (60000000000, demo_cells 2)]\<rparr>,
          (set_clock 120000000000 False demo_portal)\<lparr>visible_ends := [((''USStock:AAPL'', ''1m''), 2)]\<rparr>)"
  by code_simp

theorem visible_frame_point_in_time_witness:
  "\<exists>key. resolve_key (set_clock 120000000000 False demo_portal) (PStr ''AAPL'') (PStr (normalize_frequency PNone ''1m'')) = Inr key \<and>
     [(0, demo_cells 1), (60000000000, demo_cells 2)] =
       last_rows None (complete_rows (set_clock 120000000000 False demo_portal) key (normalize_frequency PNone ''1m''))"
proof -
  have "driving_freq (set_clock 120000000000 False demo_portal) = ''1m''" by code_simp
  then show ?thesis
    using visible_frame_point_in_time[OF demo_portal_reach demo_visible_frame] by simp
qed

text \<open>C17: The caches of the portal never change an answer: in every reachable portal
  \<open>_visible_end\<close> and \<open>bar_at\<close> return what the same call returns on the portal with both caches
  emptied, even when the clock moves, \<open>include_current\<close> flips and bars of several timestamps are
  requested in any order.\<close>

theorem portal_caches_transparent:
  assumes "portal_reach to_datetime ts_iso pt"
  shows "fst (visible_end key freq pt) = fst (visible_end key freq (pt\<lparr>visible_ends := [], bar_cache := []\<rparr>)) \<and>
    map_sum id fst (bar_at symbol ts pt) = map_sum id fst (bar_at symbol ts (pt\<lparr>visible_ends := [], bar_cache := []\<rparr>))"
proof
  have ok: "portal_ok pt" by (rule portal_reach_ok[OF assms])
  have "fst (visible_end key freq pt) = compute_visible_end pt key freq"
    using visible_end_ok(1)[OF ok] by (metis prod.collapse)
  then show "fst (visible_end key freq pt) = fst (visible_end key freq (pt\<lparr>visible_ends := [], bar_cache := []\<rparr>))"
    by (simp add: visible_end_def Let_def)
  show "map_sum id fst (bar_at symbol ts pt) = map_sum id fst (bar_at symbol ts (pt\<lparr>visible_ends := [], bar_cache := []\<rparr>))"
  proof (cases "resolve_key pt symbol (PStr (driving_freq pt))")
    case (Inl e)
    then show ?thesis by (simp add: bar_at_def)
  next
    case (Inr key)
    let ?r = "lookup_bar (frame_of pt key (driving_freq pt)) ts"
    have "map_sum id fst (bar_at symbol ts pt) = ?r"
      using Inr ok by (cases ?r)
        (auto simp: bar_at_def portal_ok_def caches_ok_def Let_def split: option.splits if_splits)
    moreover have "map_sum id fst (bar_at symbol ts (pt\<lparr>visible_ends := [], bar_cache := []\<rparr>)) = ?r"
      using Inr by (cases ?r) (auto simp: bar_at_def Let_def)
    ultimately show ?thesis by simp
  qed
qed

theorem portal_caches_transparent_witness:
  "fst (visible_end ''USStock:AAPL'' ''1m'' (set_clock 120000000000 False demo_portal)) =
     fst (visible_end ''USStock:AAPL'' ''1m''
       ((set_clock 120000000000 False demo_portal)\<lparr>visible_ends := [], bar_cache := []\<rparr>))"
  using portal_caches_transparent[OF demo_portal_reach] by blast

end
