(* ===== verification/Orders.thy ===== *)
theory Orders
  imports Protection DataPortal
begin

text \<open>
  Order intents, the strategy-side order queue and the broker's order ledger
  (\<open>services/strategy_v2/runtime.py\<close>): \<open>OrderIntent\<close>, the order methods of the strategy context
  with \<open>_queue\<close> and \<open>cancel_order\<close>, \<open>_merge_pending\<close>, \<open>_order_event\<close>, \<open>_append_order_event\<close>,
  \<open>release_resting_order_references\<close>, \<open>_sync_order_statuses\<close> and \<open>_remove_cancelled_orders\<close>.
  \<open>time_iso\<close> stands for the rendering of a timestamp (\<open>_backtest_time_iso\<close> is a pandas call).
\<close>

section \<open>Identities\<close>

definition normalize_position_side :: "string \<Rightarrow> string" where
  "normalize_position_side value =
     (let side = lower (strip value) in if side = ''long'' \<or> side = ''short'' then side else [])"

definition position_key :: "string \<Rightarrow> string \<Rightarrow> string" where
  "position_key symbol side0 =
     (let side = normalize_position_side side0 in if side \<noteq> [] then symbol @ ''::'' @ side else symbol)"

definition grid_order_identity :: "string \<Rightarrow> (int \<times> string \<times> string \<times> int) option" where
  "grid_order_identity client_order_id =
     (case split_char (CHR ''-'') (strip client_order_id) of
        [p0, p1, p2, p3, p4] \<Rightarrow>
          if p0 \<noteq> ''grid'' then None
          else (case (parse_int p1, parse_int p4) of
                  (Some cell_index, Some cycle) \<Rightarrow>
                    let side = normalize_position_side p2; phase = lower (strip p3) in
                    if cell_index < 0 \<or> cycle < 1 \<or> side = [] \<or> (phase \<noteq> ''entry'' \<and> phase \<noteq> ''exit'') then None
                    else Some (cell_index, side, phase, cycle)
                | _ \<Rightarrow> None)
      | _ \<Rightarrow> None)"

section \<open>Order intents\<close>

record order_intent =
  oi_symbol :: string
  oi_kind :: string
  oi_value :: pyfloat
  oi_reason :: string
  oi_protection :: "protection_spec option"
  oi_signal_time :: "timestamp option"
  oi_attempts :: int
  oi_pending_direction :: int
  oi_order_type :: string
  oi_limit_price :: pyfloat
  oi_execution_algo :: string
  oi_maker_wait_sec :: pyfloat
  oi_maker_offset_bps :: pyfloat
  oi_position_side :: string
  oi_client_order_id :: string

text \<open>\<open>OrderIntent(symbol, kind, value, reason, signal_time=..., position_side=...)\<close>.\<close>

definition market_intent :: "string \<Rightarrow> string \<Rightarrow> pyfloat \<Rightarrow> string \<Rightarrow> timestamp option \<Rightarrow> string \<Rightarrow> order_intent" where
  "market_intent symbol kind value reason signal side =
     \<lparr>oi_symbol = symbol, oi_kind = kind, oi_value = value, oi_reason = reason, oi_protection = None,
      oi_signal_time = signal, oi_attempts = 0, oi_pending_direction = 0, oi_order_type = ''market'',
      oi_limit_price = Fin 0, oi_execution_algo = ''market'', oi_maker_wait_sec = Fin 0,
      oi_maker_offset_bps = Fin 0, oi_position_side = side, oi_client_order_id = []\<rparr>"

definition is_target :: "order_intent \<Rightarrow> bool" where
  "is_target o0 = startswith (oi_kind o0) ''target_''"

definition order_slot :: "order_intent \<Rightarrow> string \<times> string" where
  "order_slot o0 = (oi_symbol o0, normalize_position_side (oi_position_side o0))"

definition merge_one :: "order_intent list \<Rightarrow> order_intent \<Rightarrow> order_intent list" where
  "merge_one output o0 =
     (if is_target o0 then filter (\<lambda>item. \<not> (order_slot item = order_slot o0 \<and> is_target item)) output else output) @ [o0]"

definition merge_pending :: "order_intent list \<Rightarrow> order_intent list \<Rightarrow> order_intent list" where
  "merge_pending current incoming = foldl merge_one current incoming"

section \<open>The strategy context\<close>

record context_orders =
  cx_orders :: "order_intent list"
  cx_statuses :: "(string, (string, pyval) dict) dict"
  cx_cancelled :: "string set"
  cx_sequence :: int
  cx_default_protection :: "protection_spec option"
  cx_last_exit_reasons :: "(string, string) dict"
  cx_live_cancellation :: bool
  cx_current_dt :: "timestamp option"

definition ORDER_OPTION_NAMES :: "string list" where
  "ORDER_OPTION_NAMES =
     [''client_order_id'', ''execution_algo'', ''limit_price'', ''maker_offset_bps'', ''maker_wait_sec'', ''order_type'',
      ''position_side'', ''price'', ''protection'', ''reason'', ''stop_loss_pct'', ''take_profit_pct'', ''time_limit_seconds'',
      ''trailing_activation_pct'', ''trailing_rebase_on_scale_in'', ''trailing_stop_pct'', ''type'']"

definition inline_names :: "string list" where
  "inline_names = [''stop_loss_pct'', ''take_profit_pct'', ''trailing_stop_pct'', ''trailing_activation_pct'',
     ''time_limit_seconds'', ''trailing_rebase_on_scale_in'']"

definition set_default_protection :: "(string, pyval) dict \<Rightarrow> context_orders \<Rightarrow> context_orders result" where
  "set_default_protection values cx =
     bindE (from_value (SrcMap values) []) (\<lambda>sp. Inr (cx\<lparr>cx_default_protection := sp\<rparr>))"

definition order_value_number :: "pyval \<Rightarrow> pyfloat result" where
  "order_value_number value =
     (case to_float value of
        Inl _ \<Rightarrow> Inl (ContractError ''strategyV2.orderValueInvalid'')
      | Inr x \<Rightarrow> if isfinite x then Inr x else Inl (ContractError ''strategyV2.orderValueInvalid''))"

definition order_protection :: "(string, pyval) dict \<Rightarrow> context_orders \<Rightarrow> protection_spec option result" where
  "order_protection kwargs cx =
     bindE (from_value (spec_source_of (dget_or kwargs ''protection'' PNone))
              (filter (\<lambda>p. snd p \<noteq> PNone) (map (\<lambda>n. (n, dget_or kwargs n PNone)) inline_names)))
       (\<lambda>sp. Inr (case sp of None \<Rightarrow> cx_default_protection cx | Some x \<Rightarrow> Some x))"

text \<open>The order type and the execution algorithm.\<close>

definition order_route :: "(string, pyval) dict \<Rightarrow> (string \<times> string) result" where
  "order_route kwargs =
     (let g = (\<lambda>k. dget_or kwargs k PNone);
          order_type = lower (strip (str_or (p_or (g ''order_type'') (g ''type'')) ''market''));
          algo0 = lower (strip (str_or (g ''execution_algo'') []));
          algo1 = (if algo0 = [] then if order_type = ''limit'' then ''limit'' else ''market'' else algo0);
          algo = (if algo1 \<in> {''maker'', ''limit_then_market''} then ''maker_then_market'' else algo1)
      in if order_type \<notin> {''market'', ''limit''} then Inl (ContractError ''strategyV2.orderTypeUnsupported'')
         else if algo \<notin> {''market'', ''limit'', ''maker_then_market''} then Inl (ContractError ''strategyV2.executionAlgoUnsupported'')
         else Inr (order_type, algo))"

definition order_price :: "pyval \<Rightarrow> pyfloat result" where
  "order_price v =
     (case to_float (p_or v (PFloat (Fin 0))) of
        Inl _ \<Rightarrow> Inl (ContractError ''strategyV2.invalidOrderPrice'') | Inr x \<Rightarrow> Inr x)"

definition queued_status :: "string \<Rightarrow> string \<Rightarrow> (string, pyval) dict" where
  "queued_status reference status =
     [(''client_order_id'', PStr reference), (''status'', PStr status), (''filled_quantity'', PFloat (Fin 0)),
      (''filled_notional'', PFloat (Fin 0)), (''fee'', PFloat (Fin 0))]"

definition enqueue ::
  "(timestamp \<Rightarrow> string) \<Rightarrow> (string, pyval) dict \<Rightarrow> string \<Rightarrow> string \<Rightarrow> pyfloat \<Rightarrow> protection_spec option \<Rightarrow>
     string \<Rightarrow> string \<Rightarrow> pyfloat \<Rightarrow> pyfloat \<Rightarrow> pyfloat \<Rightarrow> context_orders \<Rightarrow> string option \<times> context_orders" where
  "enqueue ts_iso kwargs key kind number protection order_type algo limit_price wait offset cx =
     (let g = (\<lambda>k. dget_or kwargs k PNone);
          seq = cx_sequence cx + 1;
          given = strip (str_or (g ''client_order_id'') []);
          stamp = (case cx_current_dt cx of None \<Rightarrow> ''discovery'' | Some t \<Rightarrow> ts_iso t);
          reference = take 100 (if given = [] then ''strategy-v2:'' @ stamp @ '':'' @ show_int seq else given);
          intent = \<lparr>oi_symbol = key, oi_kind = kind, oi_value = number, oi_reason = str_or (g ''reason'') ''strategy'',
                    oi_protection = protection, oi_signal_time = cx_current_dt cx, oi_attempts = 0,
                    oi_pending_direction = 0, oi_order_type = order_type, oi_limit_price = limit_price,
                    oi_execution_algo = algo, oi_maker_wait_sec = pymax (Fin 0) wait,
                    oi_maker_offset_bps = pymax (Fin 0) offset,
                    oi_position_side = normalize_position_side (str_or (g ''position_side'') []),
                    oi_client_order_id = reference\<rparr>
      in (if given = [] then None else Some reference,
          cx\<lparr>cx_sequence := seq,
             cx_statuses := dsetdefault (cx_statuses cx) reference (queued_status reference ''queued''),
             cx_orders := cx_orders cx @ [intent]\<rparr>))"

definition queue_order ::
  "(timestamp \<Rightarrow> string) \<Rightarrow> portal \<Rightarrow> pyval \<Rightarrow> string \<Rightarrow> pyval \<Rightarrow> (string, pyval) dict \<Rightarrow> context_orders \<Rightarrow>
     (string option \<times> context_orders) result" where
  "queue_order ts_iso pt symbol kind value kwargs cx =
     (let g = (\<lambda>k. dget_or kwargs k PNone);
          unsupported = sort (filter (\<lambda>k. k \<notin> set ORDER_OPTION_NAMES) (dkeys kwargs))
      in if unsupported \<noteq> []
         then Inl (ContractError (''strategyV2.apiCallInvalid:'' @ kind @ '':unsupportedArgument:'' @ hd unsupported))
         else
           bindE (resolve_key pt symbol PNone) (\<lambda>key.
           bindE (order_value_number value) (\<lambda>number.
           bindE (order_protection kwargs cx) (\<lambda>protection.
           bindE (order_route kwargs) (\<lambda>(order_type, algo).
           bindE (order_price (if g ''limit_price'' = PNone \<and> order_type = ''limit'' then g ''price'' else g ''limit_price'')) (\<lambda>limit_price.
           bindE (order_price (g ''maker_wait_sec'')) (\<lambda>wait.
           bindE (order_price (g ''maker_offset_bps'')) (\<lambda>offset.
             if algo = ''limit'' \<and> fle limit_price (Fin 0) then Inl (ContractError ''strategyV2.limitPriceRequired'')
             else Inr (enqueue ts_iso kwargs key kind number protection order_type algo limit_price wait offset cx)))))))))"

definition get_order_status :: "pyval \<Rightarrow> context_orders \<Rightarrow> (string, pyval) dict" where
  "get_order_status client_order_id cx =
     (let reference = strip (str_or client_order_id []);
          known = dget_or (cx_statuses cx) reference []
      in if known \<noteq> [] then known else queued_status reference ''unknown'')"

definition cancel_order :: "pyval \<Rightarrow> context_orders \<Rightarrow> bool \<times> context_orders" where
  "cancel_order client_order_id cx =
     (let reference = strip (str_or client_order_id []) in
      if reference = [] then (False, cx)
      else
        let current = dget_or (cx_statuses cx) reference [] in
        if lower (strip (str_or (dget_or current ''status'' PNone) [])) = ''filled'' then (False, cx)
        else
          let queued = list_ex (\<lambda>o0. oi_client_order_id o0 = reference) (cx_orders cx);
              orders = (if queued then filter (\<lambda>o0. oi_client_order_id o0 \<noteq> reference) (cx_orders cx) else cx_orders cx);
              updated = dupdate current
                [(''client_order_id'', PStr reference),
                 (''status'', PStr (if cx_live_cancellation cx \<and> \<not> queued then ''cancel_pending'' else ''cancelled'')),
                 (''reason'', PStr ''cancelled_by_strategy'')]
          in (True, cx\<lparr>cx_orders := orders, cx_statuses := dset (cx_statuses cx) reference updated,
                       cx_cancelled := insert reference (cx_cancelled cx)\<rparr>))"

definition flush_cancelled_order_ids :: "context_orders \<Rightarrow> string set \<times> context_orders" where
  "flush_cancelled_order_ids cx = (cx_cancelled cx, cx\<lparr>cx_cancelled := {}\<rparr>)"

definition flush_orders :: "context_orders \<Rightarrow> order_intent list \<times> context_orders" where
  "flush_orders cx = (cx_orders cx, cx\<lparr>cx_orders := []\<rparr>)"

definition update_order_statuses :: "(string, (string, pyval) dict) dict \<Rightarrow> context_orders \<Rightarrow> context_orders" where
  "update_order_statuses values cx =
     cx\<lparr>cx_statuses :=
       foldl (\<lambda>d (reference, raw). if strip reference = [] then d else dset d (strip reference) raw) (cx_statuses cx) values\<rparr>"

definition set_last_exit_reason :: "string \<Rightarrow> string \<Rightarrow> context_orders \<Rightarrow> context_orders" where
  "set_last_exit_reason symbol reason cx =
     cx\<lparr>cx_last_exit_reasons := dset (cx_last_exit_reasons cx) symbol reason\<rparr>"

definition consume_last_exit_reason :: "string \<Rightarrow> context_orders \<Rightarrow> string \<times> context_orders" where
  "consume_last_exit_reason symbol cx =
     (dget_or (cx_last_exit_reasons cx) symbol [],
      cx\<lparr>cx_last_exit_reasons := dpop (cx_last_exit_reasons cx) symbol\<rparr>)"

section \<open>The order ledger\<close>

record order_event =
  oe_order_id :: string
  oe_client_order_id :: string
  oe_symbol :: string
  oe_position_side :: string
  oe_kind :: string
  oe_value :: pyfloat
  oe_reason :: string
  oe_status :: string
  oe_status_reason :: string
  oe_signal_time :: string
  oe_event_time :: string
  oe_attempt :: int
  oe_requested_quantity :: pyfloat
  oe_filled_quantity :: pyfloat
  oe_price :: pyfloat
  oe_commission :: pyfloat
  oe_first_event_time :: "string option"
  oe_last_event_time :: "string option"
  oe_last_order_id :: "string option"
  oe_occurrence_count :: "int option"
  oe_min_requested :: "pyfloat option"
  oe_max_requested :: "pyfloat option"

definition mk_order_event ::
  "(timestamp \<Rightarrow> string) \<Rightarrow> string \<Rightarrow> order_intent \<Rightarrow> timestamp \<Rightarrow> string \<Rightarrow> string \<Rightarrow>
     pyfloat \<Rightarrow> pyfloat \<Rightarrow> pyfloat \<Rightarrow> pyfloat \<Rightarrow> order_event" where
  "mk_order_event time_iso order_id o0 ts status reason requested filled price commission =
     \<lparr>oe_order_id = order_id, oe_client_order_id = oi_client_order_id o0, oe_symbol = oi_symbol o0,
      oe_position_side = normalize_position_side (oi_position_side o0), oe_kind = oi_kind o0,
      oe_value = oi_value o0, oe_reason = oi_reason o0, oe_status = status, oe_status_reason = reason,
      oe_signal_time = time_iso (case oi_signal_time o0 of None \<Rightarrow> ts | Some t \<Rightarrow> t),
      oe_event_time = time_iso ts, oe_attempt = oi_attempts o0 + 1, oe_requested_quantity = requested,
      oe_filled_quantity = filled, oe_price = price, oe_commission = commission,
      oe_first_event_time = None, oe_last_event_time = None, oe_last_order_id = None,
      oe_occurrence_count = None, oe_min_requested = None, oe_max_requested = None\<rparr>"

record ledger =
  lg_events :: "order_event list"
  lg_resting :: "(string, nat) dict"

definition is_resting :: "order_event \<Rightarrow> bool" where
  "is_resting e \<longleftrightarrow> oe_status e = ''deferred'' \<and> oe_status_reason e = ''limit_not_reached''"

definition count_or_one :: "order_event \<Rightarrow> int" where
  "count_or_one e = (case oe_occurrence_count e of None \<Rightarrow> 1 | Some n \<Rightarrow> if n = 0 then 1 else n)"

definition opt_or :: "pyfloat option \<Rightarrow> pyfloat \<Rightarrow> pyfloat" where
  "opt_or v d = (case v of None \<Rightarrow> d | Some x \<Rightarrow> f_or x d)"

definition absorb_poll :: "order_event \<Rightarrow> order_event \<Rightarrow> order_event" where
  "absorb_poll event existing =
     (let requested = f_or (oe_requested_quantity event) (Fin 0) in
      existing\<lparr>oe_last_event_time := Some (oe_event_time event),
               oe_last_order_id := Some (oe_order_id event),
               oe_occurrence_count := Some (count_or_one existing + 1),
               oe_requested_quantity := requested,
               oe_min_requested := Some (pymin (opt_or (oe_min_requested existing) requested) requested),
               oe_max_requested := Some (pymax (opt_or (oe_max_requested existing) requested) requested)\<rparr>)"

definition open_poll :: "order_event \<Rightarrow> order_event" where
  "open_poll event =
     (let requested = f_or (oe_requested_quantity event) (Fin 0) in
      event\<lparr>oe_first_event_time := Some (oe_event_time event), oe_last_event_time := Some (oe_event_time event),
            oe_occurrence_count := Some 1, oe_min_requested := Some requested, oe_max_requested := Some requested\<rparr>)"

definition append_order_event :: "order_event \<Rightarrow> bool \<Rightarrow> ledger \<Rightarrow> nat \<times> ledger" where
  "append_order_event event coalesce_resting lg =
     (let reference = strip (oe_client_order_id event); index = length (lg_events lg) in
      if coalesce_resting \<and> reference \<noteq> [] then
        (case dget (lg_resting lg) reference of
           Some i \<Rightarrow>
             if i < length (lg_events lg) \<and> is_resting (lg_events lg ! i)
             then (i, lg\<lparr>lg_events := (lg_events lg)[i := absorb_poll event (lg_events lg ! i)]\<rparr>)
             else (index, \<lparr>lg_events = lg_events lg @ [open_poll event], lg_resting = dset (lg_resting lg) reference index\<rparr>)
         | None \<Rightarrow> (index, \<lparr>lg_events = lg_events lg @ [open_poll event], lg_resting = dset (lg_resting lg) reference index\<rparr>))
      else (index, \<lparr>lg_events = lg_events lg @ [event],
                    lg_resting = (if reference \<noteq> [] then dpop (lg_resting lg) reference else lg_resting lg)\<rparr>))"

definition release_resting_order_references :: "string list \<Rightarrow> ledger \<Rightarrow> ledger" where
  "release_resting_order_references references lg =
     lg\<lparr>lg_resting := foldl dpop (lg_resting lg) (map strip references)\<rparr>"

section \<open>Order statuses\<close>

record order_summary =
  sm_client_order_id :: string
  sm_status :: string
  sm_filled_quantity :: pyfloat
  sm_filled_notional :: pyfloat
  sm_fee :: pyfloat
  sm_reason :: string

definition fresh_summary :: "string \<Rightarrow> order_summary" where
  "fresh_summary reference =
     \<lparr>sm_client_order_id = reference, sm_status = ''unknown'', sm_filled_quantity = Fin 0,
      sm_filled_notional = Fin 0, sm_fee = Fin 0, sm_reason = []\<rparr>"

definition summary_step :: "order_event \<Rightarrow> order_summary \<Rightarrow> order_summary" where
  "summary_step event current =
     (let quantity = pymax (Fin 0) (f_or (oe_filled_quantity event) (Fin 0));
          price = pymax (Fin 0) (f_or (oe_price event) (Fin 0))
      in current\<lparr>sm_filled_quantity := fadd (sm_filled_quantity current) quantity,
                 sm_filled_notional := fadd (sm_filled_notional current) (fmul quantity price),
                 sm_fee := fadd (sm_fee current) (pymax (Fin 0) (f_or (oe_commission event) (Fin 0))),
                 sm_status := str_default (oe_status event) ''unknown'',
                 sm_reason := oe_status_reason event\<rparr>)"

definition summary_dict :: "order_summary \<Rightarrow> (string, pyval) dict" where
  "summary_dict s =
     [(''client_order_id'', PStr (sm_client_order_id s)), (''status'', PStr (sm_status s)),
      (''filled_quantity'', PFloat (sm_filled_quantity s)), (''filled_notional'', PFloat (sm_filled_notional s)),
      (''fee'', PFloat (sm_fee s)), (''reason'', PStr (sm_reason s))]"

record status_sync =
  ss_cursor :: nat
  ss_summaries :: "(string, order_summary) dict"

text \<open>One ledger row: the summaries and the references that changed, in order of first change.\<close>

definition sync_row ::
  "order_event \<Rightarrow> (string, order_summary) dict \<times> string list \<Rightarrow> (string, order_summary) dict \<times> string list" where
  "sync_row event acc =
     (case acc of (summaries, changed) \<Rightarrow>
        let reference = strip (oe_client_order_id event) in
        if reference = [] then (summaries, changed)
        else (dset summaries reference (summary_step event (dget_or summaries reference (fresh_summary reference))),
              if reference \<in> set changed then changed else changed @ [reference]))"

definition sync_order_statuses :: "ledger \<Rightarrow> status_sync \<Rightarrow> context_orders \<Rightarrow> status_sync \<times> context_orders" where
  "sync_order_statuses lg ss cx =
     (case fold sync_row (drop (ss_cursor ss) (lg_events lg)) (ss_summaries ss, []) of (summaries, changed) \<Rightarrow>
        (\<lparr>ss_cursor = length (lg_events lg), ss_summaries = summaries\<rparr>,
         update_order_statuses (map (\<lambda>r. (r, summary_dict (dget_or summaries r (fresh_summary r)))) changed) cx))"

definition remove_cancelled_orders ::
  "order_intent list \<Rightarrow> context_orders \<Rightarrow> ledger \<Rightarrow> order_intent list \<times> context_orders \<times> ledger" where
  "remove_cancelled_orders orders cx lg =
     (case flush_cancelled_order_ids cx of (cancelled, cx') \<Rightarrow>
        if cancelled = {} then (orders, cx', lg)
        else (filter (\<lambda>o0. oi_client_order_id o0 \<notin> cancelled) orders, cx',
              lg\<lparr>lg_resting := filter (\<lambda>(k, i). k \<notin> strip ` cancelled) (lg_resting lg)\<rparr>))"

section \<open>Ledger compaction\<close>

lemma release_resting_filter:
  "lg_resting (release_resting_order_references refs lg) = filter (\<lambda>(k, i). k \<notin> strip ` set refs) (lg_resting lg)"
proof -
  have "foldl dpop d ks = filter (\<lambda>(k, i). k \<notin> set ks) d" for d :: "(string, nat) dict" and ks
    by (induction ks arbitrary: d) (auto simp: dpop_def intro!: filter_cong)
  then show ?thesis by (simp add: release_resting_order_references_def)
qed

text \<open>The ledgers the broker builds: rows are appended with compaction exactly for resting polls, and
  windows are released.  The first argument lists every event in order.\<close>

inductive ledger_reach :: "order_event list \<Rightarrow> ledger \<Rightarrow> bool" where
  empty: "ledger_reach [] \<lparr>lg_events = [], lg_resting = []\<rparr>"
| append: "ledger_reach evs lg \<Longrightarrow> oe_occurrence_count e = None \<Longrightarrow>
    append_order_event e (is_resting e) lg = (i, lg') \<Longrightarrow> ledger_reach (evs @ [e]) lg'"
| release: "ledger_reach evs lg \<Longrightarrow> ledger_reach evs (release_resting_order_references refs lg)"

lemma ledger_reach_append:
  "ledger_reach evs lg \<Longrightarrow> oe_occurrence_count e = None \<Longrightarrow> is_resting e = c \<Longrightarrow>
    ledger_reach (evs @ [e]) (snd (append_order_event e c lg))"
  by (cases "append_order_event e c lg") (auto intro: ledger_reach.append)

lemma absorb_poll_resting [simp]: "is_resting (absorb_poll e r) = is_resting r"
  by (simp add: absorb_poll_def is_resting_def Let_def)

lemma open_poll_resting [simp]: "is_resting (open_poll e) = is_resting e"
  by (simp add: open_poll_def is_resting_def Let_def)

lemma append_order_event_cases:
  assumes "append_order_event e c lg = (i, lg')"
  shows "(i < length (lg_events lg) \<and> c \<and> is_resting (lg_events lg ! i) \<and>
            lg_events lg' = (lg_events lg)[i := absorb_poll e (lg_events lg ! i)]) \<or>
         (i = length (lg_events lg) \<and> lg_events lg' = lg_events lg @ [if c \<and> strip (oe_client_order_id e) \<noteq> [] then open_poll e else e])"
  using assms by (auto simp: append_order_event_def Let_def split: if_splits option.splits)

lemma filter_update_out: "i < length xs \<Longrightarrow> \<not> P (xs ! i) \<Longrightarrow> \<not> P y \<Longrightarrow> filter P (xs[i := y]) = filter P xs"
proof (induction xs arbitrary: i)
  case (Cons x xs)
  then show ?case by (cases i) auto
qed simp

lemma sum_list_update_add:
  "i < length xs \<Longrightarrow> f y = f (xs ! i) + (1 :: int) \<Longrightarrow> sum_list (map f (xs[i := y])) = sum_list (map f xs) + 1"
proof (induction xs arbitrary: i)
  case (Cons x xs)
  then show ?case by (cases i) auto
qed simp

lemma count_positive:
  assumes "ledger_reach evs lg" and "r \<in> set (lg_events lg)"
  shows "1 \<le> count_or_one r"
  using assms
proof (induction arbitrary: r rule: ledger_reach.induct)
  case (append evs lg e i lg')
  have e: "count_or_one (open_poll e) = 1" "count_or_one e = 1"
    using append.hyps(2) by (simp_all add: count_or_one_def open_poll_def Let_def)
  have a: "1 \<le> count_or_one x \<Longrightarrow> 1 \<le> count_or_one (absorb_poll e x)" for x
    by (simp add: count_or_one_def absorb_poll_def Let_def)
  show ?case
    using append_order_event_cases[OF append.hyps(3)] append.prems append.IH e a
    by (auto dest!: set_update_subset_insert[THEN subsetD] split: if_splits)
qed (auto simp: release_resting_order_references_def)

lemma count_absorb: "1 \<le> count_or_one r \<Longrightarrow> count_or_one (absorb_poll e r) = count_or_one r + 1"
  by (simp add: count_or_one_def absorb_poll_def Let_def)

text \<open>C16: Compaction of resting polls loses nothing: however fills, rejections, deferrals
  and repeated polls of several orders interleave, every event that is not a resting poll has its
  own unchanged row, in order, and the occurrence counts of the rows add up to the number of events.\<close>

theorem ledger_compaction_lossless:
  assumes "ledger_reach evs lg"
  shows "filter (\<lambda>e. \<not> is_resting e) (lg_events lg) = filter (\<lambda>e. \<not> is_resting e) evs \<and>
    (\<Sum>r \<leftarrow> lg_events lg. count_or_one r) = int (length evs)"
  using assms
proof (induction rule: ledger_reach.induct)
  case (append evs lg e i lg')
  have e: "count_or_one (open_poll e) = 1" "count_or_one e = 1"
    using append.hyps(2) by (simp_all add: count_or_one_def open_poll_def Let_def)
  from append_order_event_cases[OF append.hyps(3)] show ?case
  proof
    assume i: "i < length (lg_events lg) \<and> is_resting e \<and> is_resting (lg_events lg ! i) \<and>
      lg_events lg' = (lg_events lg)[i := absorb_poll e (lg_events lg ! i)]"
    have "count_or_one (absorb_poll e (lg_events lg ! i)) = count_or_one (lg_events lg ! i) + 1"
      using i by (intro count_absorb count_positive[OF append.hyps(1)]) simp
    then show ?thesis
      using i append.IH by (simp add: filter_update_out sum_list_update_add)
  qed (use append.IH e in \<open>auto split: if_splits\<close>)
qed (auto simp: release_resting_order_references_def)

definition demo_event :: "string \<Rightarrow> string \<Rightarrow> string \<Rightarrow> rat \<Rightarrow> order_event" where
  "demo_event reference status reason qty =
     mk_order_event show_int ''1'' (market_intent ''AAPL'' ''quantity'' (Fin 1) ''strategy'' None []\<lparr>oi_client_order_id := reference\<rparr>)
       0 status reason (Fin qty) (Fin 0) (Fin 100) (Fin 0)"

theorem ledger_compaction_lossless_witness:
  "\<exists>lg. ledger_reach [demo_event ''a'' ''deferred'' ''limit_not_reached'' 5, demo_event ''b'' ''filled'' ''filled'' 1,
           demo_event ''a'' ''deferred'' ''limit_not_reached'' 3] lg \<and>
     length (lg_events lg) = 2 \<and> (\<Sum>r \<leftarrow> lg_events lg. count_or_one r) = 3"
proof -
  let ?a = "demo_event ''a'' ''deferred'' ''limit_not_reached''" and ?b = "demo_event ''b'' ''filled'' ''filled'' 1"
  let ?l0 = "\<lparr>lg_events = [], lg_resting = []\<rparr>"
  let ?l1 = "snd (append_order_event (?a 5) True ?l0)"
  let ?l2 = "snd (append_order_event ?b False ?l1)"
  let ?l3 = "snd (append_order_event (?a 3) True ?l2)"
  have r: "is_resting (?a 5)" "is_resting (?a 3)" "\<not> is_resting ?b" "oe_occurrence_count (?a 5) = None"
    "oe_occurrence_count (?a 3) = None" "oe_occurrence_count ?b = None"
    by (simp_all add: is_resting_def demo_event_def mk_order_event_def)
  have l3: "ledger_reach ((([] @ [?a 5]) @ [?b]) @ [?a 3]) ?l3"
    by (intro ledger_reach_append ledger_reach.empty) (simp_all add: r)
  have "length (lg_events ?l3) = 2" by code_simp
  then show ?thesis using ledger_compaction_lossless[OF l3] l3 by (intro exI[of _ ?l3]) simp
qed

section \<open>Incremental status summaries\<close>

inductive ledger_step :: "ledger \<Rightarrow> ledger \<Rightarrow> bool" where
  "append_order_event e c lg = (i, lg') \<Longrightarrow> ledger_step lg lg'"
| "ledger_step lg (release_resting_order_references refs lg)"

text \<open>The part of a row a status summary reads.\<close>

definition econ :: "order_event \<Rightarrow> string \<times> string \<times> string \<times> pyfloat \<times> pyfloat \<times> pyfloat" where
  "econ e = (oe_client_order_id e, oe_status e, oe_status_reason e, oe_filled_quantity e, oe_price e, oe_commission e)"

lemma econ_absorb [simp]: "econ (absorb_poll e r) = econ r"
  by (simp add: econ_def absorb_poll_def Let_def)

lemma ledger_step_prefix:
  "ledger_step lg lg' \<Longrightarrow> \<exists>new. map econ (lg_events lg') = map econ (lg_events lg) @ new"
proof (induction rule: ledger_step.induct)
  case (1 e c lg i lg')
  have "i < length (lg_events lg) \<Longrightarrow>
      map econ ((lg_events lg)[i := absorb_poll e (lg_events lg ! i)]) = map econ (lg_events lg)"
    by (simp add: map_update list_update_same_conv)
  then show ?case using append_order_event_cases[OF 1] by auto
qed (auto simp: release_resting_order_references_def)

lemma ledger_steps_prefix:
  "ledger_step\<^sup>*\<^sup>* lg lg' \<Longrightarrow> \<exists>new. map econ (lg_events lg') = map econ (lg_events lg) @ new"
  by (induction rule: rtranclp_induct) (auto dest!: ledger_step_prefix)

lemma sync_row_econ: "econ e = econ e' \<Longrightarrow> sync_row e = sync_row e'"
proof -
  assume "econ e = econ e'"
  then have h: "oe_client_order_id e = oe_client_order_id e'" "oe_status e = oe_status e'"
    "oe_status_reason e = oe_status_reason e'" "oe_filled_quantity e = oe_filled_quantity e'"
    "oe_price e = oe_price e'" "oe_commission e = oe_commission e'"
    by (simp_all add: econ_def)
  have "summary_step e = summary_step e'" by (rule ext) (simp only: summary_step_def h)
  then show ?thesis by (intro ext) (simp only: sync_row_def h)
qed

lemma fold_sync_econ: "map econ xs = map econ ys \<Longrightarrow> fold sync_row xs = fold sync_row ys"
proof (induction xs arbitrary: ys)
  case (Cons x xs)
  then obtain y ys' where "ys = y # ys'" by (cases ys) auto
  then show ?case using Cons.prems Cons.IH[of ys'] sync_row_econ[of x y] by simp
qed simp

lemma fold_sync_fst: "fst (fold sync_row xs (s, c)) = fst (fold sync_row xs (s, c'))"
proof (induction xs arbitrary: s c c')
  case (Cons x xs)
  then show ?case by (auto simp: sync_row_def Let_def)
qed simp

lemma sync_summaries:
  "ss_summaries (fst (sync_order_statuses lg ss cx)) = fst (fold sync_row (drop (ss_cursor ss) (lg_events lg)) (ss_summaries ss, []))"
  "ss_cursor (fst (sync_order_statuses lg ss cx)) = length (lg_events lg)"
  by (simp_all add: sync_order_statuses_def split: prod.splits)

text \<open>C28: Incremental order statuses are exact: synchronising after a first part of the run and
  again later, while the ledger appends rows, rewrites resting rows and releases windows in between,
  gives the same summaries as one pass over the final ledger, with every fill counted once.\<close>

theorem sync_incremental:
  assumes "ledger_step\<^sup>*\<^sup>* lg1 lg2"
  defines "ss0 \<equiv> \<lparr>ss_cursor = 0, ss_summaries = []\<rparr>"
  shows "ss_summaries (fst (sync_order_statuses lg2 (fst (sync_order_statuses lg1 ss0 cx1)) cx2)) =
    ss_summaries (fst (sync_order_statuses lg2 ss0 cx3))"
proof -
  let ?r1 = "lg_events lg1" and ?r2 = "lg_events lg2"
  obtain new where "map econ ?r2 = map econ ?r1 @ new" using ledger_steps_prefix[OF assms(1)] by blast
  then have "map econ (take (length ?r1) ?r2) = map econ ?r1"
    by (simp add: take_map[symmetric])
  then have f: "fold sync_row ?r1 = fold sync_row (take (length ?r1) ?r2)" using fold_sync_econ by metis
  have "fst (fold sync_row ?r2 ([], [])) =
      fst (fold sync_row (drop (length ?r1) ?r2) (fold sync_row (take (length ?r1) ?r2) ([], [])))"
    by (metis append_take_drop_id comp_apply fold_append)
  also have "\<dots> = fst (fold sync_row (drop (length ?r1) ?r2) (fst (fold sync_row ?r1 ([], [])), []))"
    unfolding f by (metis fold_sync_fst prod.collapse)
  finally show ?thesis by (simp add: sync_summaries ss0_def)
qed

definition demo_ledger :: ledger where
  "demo_ledger = snd (append_order_event (demo_event ''a'' ''deferred'' ''limit_not_reached'' 5) True \<lparr>lg_events = [], lg_resting = []\<rparr>)"

definition demo_context :: context_orders where
  "demo_context = \<lparr>cx_orders = [], cx_statuses = [], cx_cancelled = {}, cx_sequence = 0, cx_default_protection = None,
     cx_last_exit_reasons = [], cx_live_cancellation = False, cx_current_dt = None\<rparr>"

theorem sync_incremental_witness:
  "ss_summaries (fst (sync_order_statuses (snd (append_order_event (demo_event ''a'' ''filled'' ''filled'' 5) False demo_ledger))
      (fst (sync_order_statuses demo_ledger \<lparr>ss_cursor = 0, ss_summaries = []\<rparr> demo_context)) demo_context)) =
   ss_summaries (fst (sync_order_statuses (snd (append_order_event (demo_event ''a'' ''filled'' ''filled'' 5) False demo_ledger))
      \<lparr>ss_cursor = 0, ss_summaries = []\<rparr> demo_context))"
  by (rule sync_incremental) (metis ledger_step.intros(1) prod.collapse r_into_rtranclp)

section \<open>Pending orders\<close>

definition slot_targets :: "string \<times> string \<Rightarrow> order_intent list \<Rightarrow> order_intent list" where
  "slot_targets slot os = filter (\<lambda>o0. is_target o0 \<and> order_slot o0 = slot) os"

definition latest :: "'a list \<Rightarrow> 'a list" where
  "latest xs = (if xs = [] then [] else [last xs])"

lemma slot_targets_append [simp]: "slot_targets s (xs @ ys) = slot_targets s xs @ slot_targets s ys"
  by (simp add: slot_targets_def)

lemma slot_targets_merge_one:
  "slot_targets s (merge_one output o0) =
     (if is_target o0 \<and> order_slot o0 = s then [o0] else slot_targets s output)"
  by (auto simp: merge_one_def slot_targets_def filter_empty_conv intro!: filter_cong)

lemma merge_pending_slot:
  "slot_targets s (merge_pending current incoming) =
     (if slot_targets s incoming = [] then slot_targets s current else [last (slot_targets s incoming)])"
  unfolding merge_pending_def
proof (induction incoming rule: rev_induct)
  case (snoc x xs)
  then show ?case by (auto simp: slot_targets_merge_one) (auto simp: slot_targets_def split: if_splits)
qed (simp add: slot_targets_def)

lemma merge_pending_others:
  "filter (\<lambda>o0. \<not> is_target o0) (merge_pending current incoming) = filter (\<lambda>o0. \<not> is_target o0) (current @ incoming)"
  unfolding merge_pending_def
proof (induction incoming rule: rev_induct)
  case (snoc x xs)
  have "filter (\<lambda>o0. \<not> is_target o0) (merge_one out x) = filter (\<lambda>o0. \<not> is_target o0) (out @ [x])" for out
    by (auto simp: merge_one_def intro!: filter_cong)
  then show ?case using snoc by simp
qed simp

text \<open>C29: New orders supersede exactly the pending targets they replace: if the pending list
  holds at most one target order per instrument and position side, the merged list holds for each of
  them precisely the most recent target of both lists, and keeps every other order in its order.\<close>

theorem merge_pending_latest_target:
  assumes "\<forall>slot. length (slot_targets slot current) \<le> 1"
  shows "(\<forall>slot. slot_targets slot (merge_pending current incoming) = latest (slot_targets slot (current @ incoming))) \<and>
    filter (\<lambda>o0. \<not> is_target o0) (merge_pending current incoming) = filter (\<lambda>o0. \<not> is_target o0) (current @ incoming)"
proof (intro conjI allI merge_pending_others)
  fix slot
  have "length (slot_targets slot current) \<le> 1" using assms by blast
  then show "slot_targets slot (merge_pending current incoming) = latest (slot_targets slot (current @ incoming))"
    by (cases "slot_targets slot current") (auto simp: merge_pending_slot latest_def)
qed

definition demo_target :: "string \<Rightarrow> rat \<Rightarrow> order_intent" where
  "demo_target symbol x = market_intent symbol ''target_percent'' (Fin x) ''strategy'' None []"

theorem merge_pending_latest_target_witness:
  "slot_targets (''A'', []) (merge_pending [demo_target ''A'' 1, demo_target ''B'' 1] [demo_target ''A'' 2]) =
     latest (slot_targets (''A'', []) ([demo_target ''A'' 1, demo_target ''B'' 1] @ [demo_target ''A'' 2])) \<and>
   merge_pending [demo_target ''A'' 1, demo_target ''B'' 1] [demo_target ''A'' 2] = [demo_target ''B'' 1, demo_target ''A'' 2]"
proof
  have "\<forall>slot. length (slot_targets slot [demo_target ''A'' 1, demo_target ''B'' 1]) \<le> 1"
    by (auto simp: slot_targets_def order_slot_def demo_target_def market_intent_def)
  then show "slot_targets (''A'', []) (merge_pending [demo_target ''A'' 1, demo_target ''B'' 1] [demo_target ''A'' 2]) =
     latest (slot_targets (''A'', []) ([demo_target ''A'' 1, demo_target ''B'' 1] @ [demo_target ''A'' 2]))"
    using merge_pending_latest_target by blast
  show "merge_pending [demo_target ''A'' 1, demo_target ''B'' 1] [demo_target ''A'' 2] = [demo_target ''B'' 1, demo_target ''A'' 2]"
    by code_simp
qed

section \<open>Queued orders\<close>

definition wf_intent :: "order_intent \<Rightarrow> bool" where
  "wf_intent o0 \<longleftrightarrow>
     isfinite (oi_value o0) \<and> oi_order_type o0 \<in> {''market'', ''limit''} \<and>
     oi_execution_algo o0 \<in> {''market'', ''limit'', ''maker_then_market''} \<and>
     (oi_execution_algo o0 = ''limit'' \<longrightarrow> \<not> fle (oi_limit_price o0) (Fin 0)) \<and>
     fle (Fin 0) (oi_maker_wait_sec o0) \<and> fle (Fin 0) (oi_maker_offset_bps o0) \<and>
     oi_position_side o0 \<in> {[], ''long'', ''short''} \<and>
     oi_client_order_id o0 \<noteq> [] \<and> length (oi_client_order_id o0) \<le> 100 \<and>
     oi_attempts o0 = 0 \<and> oi_pending_direction o0 = 0"

lemma order_value_number_finite: "order_value_number v = Inr x \<Longrightarrow> isfinite x"
  by (auto simp: order_value_number_def split: sum.splits if_splits)

lemma order_route_range:
  "order_route kwargs = Inr (t, a) \<Longrightarrow> t \<in> {''market'', ''limit''} \<and> a \<in> {''market'', ''limit'', ''maker_then_market''}"
  by (auto simp: order_route_def Let_def split: if_split_asm)

lemma normalize_position_side_range: "normalize_position_side s \<in> {[], ''long'', ''short''}"
  by (auto simp: normalize_position_side_def Let_def)

lemma normalize_position_side_idem [simp]:
  "normalize_position_side (normalize_position_side s) = normalize_position_side s"
proof -
  have "normalize_position_side [] = []" "normalize_position_side ''long'' = ''long''" "normalize_position_side ''short'' = ''short''"
    by code_simp+
  then show ?thesis using normalize_position_side_range[of s] by auto
qed

lemma pymax_zero_ge: "fle (Fin 0) (pymax (Fin 0) x)"
  by (rule pymax_ge_left) simp

lemma dget_dsetdefault: "dget (dsetdefault d k v) k \<noteq> None"
  by (auto simp: dsetdefault_def split: option.splits)

lemma enqueue_fields:
  assumes "enqueue ts_iso kwargs key kind number protection t a price wait offset cx = (r, cx')"
  defines "o0 \<equiv> last (cx_orders cx')"
  shows "cx_orders cx' = cx_orders cx @ [o0]" and "oi_symbol o0 = key" and "oi_kind o0 = kind" and "oi_value o0 = number"
    and "oi_order_type o0 = t" and "oi_execution_algo o0 = a" and "oi_limit_price o0 = price"
    and "oi_maker_wait_sec o0 = pymax (Fin 0) wait" and "oi_maker_offset_bps o0 = pymax (Fin 0) offset"
    and "oi_position_side o0 \<in> {[], ''long'', ''short''}" and "oi_client_order_id o0 \<noteq> []"
    and "length (oi_client_order_id o0) \<le> 100" and "oi_attempts o0 = 0" and "oi_pending_direction o0 = 0"
    and "cx_sequence cx' = cx_sequence cx + 1" and "dget (cx_statuses cx') (oi_client_order_id o0) \<noteq> None"
    and "r = None \<or> r = Some (oi_client_order_id o0)"
  using assms(1) normalize_position_side_range[of "str_or (dget_or kwargs ''position_side'' PNone) []"]
    dget_dsetdefault[of "cx_statuses cx"]
  unfolding o0_def by (auto simp: enqueue_def Let_def split: if_split_asm)

text \<open>C30: Every order the strategy API accepts is well formed and traceable: it is queued last, its
  instrument resolves to loaded data, its value is finite, its type, algorithm and side are known, a
  limit order never carries a non-positive price, its reference is a non-empty text of at most 100
  characters that has a status, and earlier queued orders are kept.\<close>

theorem queue_order_wf:
  assumes "queue_order ts_iso pt symbol kind value kwargs cx = Inr (r, cx')"
  shows "\<exists>o0. cx_orders cx' = cx_orders cx @ [o0] \<and> wf_intent o0 \<and> oi_kind o0 = kind \<and>
    resolve_key pt symbol PNone = Inr (oi_symbol o0) \<and> cx_sequence cx' = cx_sequence cx + 1 \<and>
    dget (cx_statuses cx') (oi_client_order_id o0) \<noteq> None \<and> (r = None \<or> r = Some (oi_client_order_id o0))"
proof -
  obtain key number protection t a price wait offset where h:
    "resolve_key pt symbol PNone = Inr key" "order_value_number value = Inr number"
    "order_route kwargs = Inr (t, a)" "\<not> (a = ''limit'' \<and> fle price (Fin 0))"
    and q: "enqueue ts_iso kwargs key kind number protection t a price wait offset cx = (r, cx')"
    using assms unfolding queue_order_def Let_def
    by (simp only: bindE_Inr_iff split: if_split_asm) (auto simp: bindE_Inr_iff split: if_split_asm, blast+)
  show ?thesis
    using enqueue_fields[OF q] order_value_number_finite[OF h(2)] order_route_range[OF h(3)] h(1,4) pymax_zero_ge
    by (intro exI[of _ "last (cx_orders cx')"]) (simp add: wf_intent_def)
qed

theorem queue_order_wf_witness:
  "\<exists>o0 cx' r. queue_order show_int demo_portal (PStr ''AAPL'') ''quantity'' (PInt 3)
      [(''order_type'', PStr ''limit''), (''price'', PInt 7), (''client_order_id'', PStr ''grid-1-long-entry-2'')] demo_context = Inr (r, cx') \<and>
    cx_orders cx' = [o0] \<and> wf_intent o0"
proof -
  let ?q = "queue_order show_int demo_portal (PStr ''AAPL'') ''quantity'' (PInt 3)
      [(''order_type'', PStr ''limit''), (''price'', PInt 7), (''client_order_id'', PStr ''grid-1-long-entry-2'')] demo_context"
  have "\<not> isl ?q" by code_simp
  then obtain r cx' where e: "?q = Inr (r, cx')" by (cases ?q) auto
  then show ?thesis using queue_order_wf[OF e] by (auto simp: demo_context_def)
qed

text \<open>The positive-price check of limit orders lets NaN through: a limit order whose price
  is NaN, as an indicator yields during warm-up, is accepted and queued, although the order value is
  checked for finiteness and a missing price is refused.\<close>

theorem queue_order_nan_limit:
  "\<exists>cx'. queue_order show_int demo_portal (PStr ''AAPL'') ''quantity'' (PInt 1)
      [(''order_type'', PStr ''limit''), (''limit_price'', PFloat NaN)] demo_context = Inr (None, cx') \<and>
    map oi_execution_algo (cx_orders cx') = [''limit''] \<and> map oi_limit_price (cx_orders cx') = [NaN] \<and>
    queue_order show_int demo_portal (PStr ''AAPL'') ''quantity'' (PInt 1) [(''order_type'', PStr ''limit'')] demo_context =
      Inl (ContractError ''strategyV2.limitPriceRequired'')"
proof -
  let ?q = "queue_order show_int demo_portal (PStr ''AAPL'') ''quantity'' (PInt 1)
      [(''order_type'', PStr ''limit''), (''limit_price'', PFloat NaN)] demo_context"
  have "\<not> isl ?q" "fst (projr ?q) = None" "map oi_execution_algo (cx_orders (snd (projr ?q))) = [''limit'']"
    "map oi_limit_price (cx_orders (snd (projr ?q))) = [NaN]"
    "queue_order show_int demo_portal (PStr ''AAPL'') ''quantity'' (PInt 1) [(''order_type'', PStr ''limit'')] demo_context =
      Inl (ContractError ''strategyV2.limitPriceRequired'')"
    by code_simp+
  then show ?thesis by (cases ?q) auto
qed

section \<open>Cancellation\<close>

lemma dget_dupdate_three:
  "b \<noteq> c \<Longrightarrow> dget (dupdate d [(a, x), (b, y), (c, z)]) b = Some y"
  by (simp add: dupdate_def)

text \<open>C34: A cancellation the API confirms is effective: the order leaves the strategy queue,
  the next pass drops it from the pending orders and ends its ledger compaction window, its status
  says so, and the cancellation set is emptied; an unconfirmed cancellation changes nothing.\<close>

theorem cancelled_order_withheld:
  assumes "cancel_order v cx = (ok, cx')" and "reference = strip (str_or v [])"
    and "remove_cancelled_orders pending cx' lg = (pending', cx'', lg')"
  shows "(\<not> ok \<longrightarrow> cx' = cx) \<and>
    (ok \<longrightarrow> reference \<notin> oi_client_order_id ` (set pending' \<union> set (cx_orders cx'')) \<and>
       dget (lg_resting lg') reference = None \<and> cx_cancelled cx'' = {} \<and>
       dget_or (get_order_status v cx'') ''status'' PNone \<in> {PStr ''cancelled'', PStr ''cancel_pending''})"
proof (cases ok)
  case False
  then show ?thesis using assms(1) by (auto simp: cancel_order_def Let_def split: if_splits)
next
  case True
  define upd where "upd = dupdate (dget_or (cx_statuses cx) reference [])
      [(''client_order_id'', PStr reference),
       (''status'', PStr (if cx_live_cancellation cx \<and> \<not> list_ex (\<lambda>o0. oi_client_order_id o0 = reference) (cx_orders cx)
                          then ''cancel_pending'' else ''cancelled'')),
       (''reason'', PStr ''cancelled_by_strategy'')]"
  have c: "cx_cancelled cx' = insert reference (cx_cancelled cx)" "dget (cx_statuses cx') reference = Some upd"
    "reference \<notin> oi_client_order_id ` set (cx_orders cx')"
    using assms(1) True
    by (auto simp: cancel_order_def Let_def assms(2)[symmetric] upd_def list_ex_iff split: if_split_asm)
  have st: "dget upd ''status'' \<in> {Some (PStr ''cancelled''), Some (PStr ''cancel_pending'')}"
    by (simp add: upd_def dget_dupdate_three)
  then have ne: "upd \<noteq> []" by auto
  have r: "pending' = filter (\<lambda>o0. oi_client_order_id o0 \<notin> cx_cancelled cx') pending" "cx'' = cx'\<lparr>cx_cancelled := {}\<rparr>"
    "lg_resting lg' = filter (\<lambda>(k, i). k \<notin> strip ` cx_cancelled cx') (lg_resting lg)"
    using assms(3) c(1) by (auto simp: remove_cancelled_orders_def flush_cancelled_order_ids_def)
  have "strip reference = reference" by (simp add: assms(2))
  then have "reference \<in> strip ` cx_cancelled cx'" using c(1) by force
  then have w: "dget (lg_resting lg') reference = None"
    by (auto simp: dget_None_iff dkeys_def r(3))
  have "dget_or (get_order_status v cx'') ''status'' PNone \<in> {PStr ''cancelled'', PStr ''cancel_pending''}"
    using c(2) st ne by (auto simp: get_order_status_def assms(2)[symmetric] r(2) dget_or_def Let_def)
  then show ?thesis using True c r w by auto
qed

definition demo_queued :: context_orders where
  "demo_queued = demo_context\<lparr>cx_orders := [(demo_target ''A'' 1)\<lparr>oi_client_order_id := ''x''\<rparr>]\<rparr>"

theorem cancelled_order_withheld_witness:
  "''x'' \<notin> oi_client_order_id ` set (cx_orders (snd (cancel_order (PStr ''x '') demo_queued)))"
proof -
  have ok: "cancel_order (PStr ''x '') demo_queued = (True, snd (cancel_order (PStr ''x '') demo_queued))"
  proof (rule prod_eqI)
    show "fst (cancel_order (PStr ''x '') demo_queued) = fst (True, snd (cancel_order (PStr ''x '') demo_queued))"
      by code_simp
  qed simp
  have s: "''x'' = strip (str_or (PStr ''x '') [])" by code_simp
  obtain p c l where "remove_cancelled_orders [] (snd (cancel_order (PStr ''x '') demo_queued)) demo_ledger = (p, c, l)"
    using prod_cases3 by blast
  then have "cx_orders c = cx_orders (snd (cancel_order (PStr ''x '') demo_queued))"
    by (auto simp: remove_cancelled_orders_def flush_cancelled_order_ids_def split: if_splits)
  with cancelled_order_withheld[OF ok s \<open>remove_cancelled_orders [] _ demo_ledger = (p, c, l)\<close>] show ?thesis by auto
qed

text \<open>References are cut to 100 characters when an order is queued but not when it is
  cancelled: cancelling an order under the identifier the strategy chose for it, when that is longer,
  is confirmed while the order stays queued.\<close>

theorem long_reference_not_cancelled:
  "\<exists>r cx1 cx2. queue_order show_int demo_portal (PStr ''AAPL'') ''quantity'' (PInt 1)
        [(''client_order_id'', PStr (replicate 101 (CHR ''a'')))] demo_context = Inr (r, cx1) \<and>
      cancel_order (PStr (replicate 101 (CHR ''a''))) cx1 = (True, cx2) \<and>
      cx_orders cx2 = cx_orders cx1 \<and> length (cx_orders cx2) = 1"
proof -
  let ?q = "queue_order show_int demo_portal (PStr ''AAPL'') ''quantity'' (PInt 1)
        [(''client_order_id'', PStr (replicate 101 (CHR ''a'')))] demo_context"
  let ?c = "cancel_order (PStr (replicate 101 (CHR ''a''))) (snd (projr ?q))"
  have "\<not> isl ?q" "fst ?c" "cx_orders (snd ?c) = cx_orders (snd (projr ?q))" "length (cx_orders (snd ?c)) = 1"
    by code_simp+
  then show ?thesis by (cases ?q) (auto intro!: exI[of _ "snd ?c"] simp: prod_eq_iff)
qed

end
