(* ===== verification/TradeBook.thy ===== *)
theory TradeBook
  imports Orders
begin

text \<open>
  Realised trades of the simulation broker (\<open>services/strategy_v2/runtime.py\<close>,
  \<open>_record_closed_trade\<close>, \<open>_record_grid_entry\<close>, \<open>_consume_grid_entry\<close>): the average entry per
  position key, the entries of grid cells, and the list of closed trades.  Zero divisions are
  values of the result type although no reachable branch divides by zero.
\<close>

section \<open>Records\<close>

record execution =
  ex_order_id :: string
  ex_symbol :: string
  ex_time :: string
  ex_side :: string
  ex_type :: string
  ex_position_side :: string
  ex_position_key :: string
  ex_quantity :: pyfloat
  ex_price :: pyfloat
  ex_notional :: pyfloat
  ex_commission :: pyfloat
  ex_balance :: pyfloat
  ex_reason :: string
  ex_client_order_id :: string
  ex_signal_time :: string
  ex_fill_reference :: string
  ex_reference_price :: pyfloat
  ex_order_type :: string
  ex_limit_price :: pyfloat
  ex_status :: string
  ex_requested_quantity :: pyfloat
  ex_sub_lot_reconciled :: bool

record trade_entry =
  en_time :: string
  en_price :: pyfloat
  en_quantity :: pyfloat
  en_commission :: pyfloat
  en_side :: string

record grid_entry =
  ge_cell_index :: int
  ge_position_side :: string
  ge_cycle :: int
  ge_entry_time :: string
  ge_entry_price :: pyfloat
  ge_quantity :: pyfloat
  ge_commission :: pyfloat

record grid_match =
  gm_cell_index :: int
  gm_cycle :: int
  gm_entry_time :: string
  gm_entry_price :: pyfloat
  gm_entry_commission :: pyfloat
  gm_commission :: pyfloat
  gm_gross_profit :: pyfloat
  gm_profit :: pyfloat

text \<open>The account-level figures a grid match moves to their own keys.\<close>

record account_view =
  av_entry_time :: string
  av_avg_entry_price :: pyfloat
  av_gross_profit :: pyfloat
  av_realized_profit :: pyfloat

record closed_trade =
  ct_symbol :: string
  ct_side :: string
  ct_entry_time :: string
  ct_exit_time :: string
  ct_entry_price :: pyfloat
  ct_exit_price :: pyfloat
  ct_quantity :: pyfloat
  ct_profit :: pyfloat
  ct_gross_profit :: pyfloat
  ct_entry_commission :: pyfloat
  ct_exit_commission :: pyfloat
  ct_commission :: pyfloat
  ct_balance :: pyfloat
  ct_close_reason :: string
  ct_profit_basis :: string
  ct_grid :: "(grid_match \<times> account_view) option"

record trade_book =
  tb_entries :: "(string, trade_entry) dict"
  tb_grid :: "(string, grid_entry) dict"
  tb_closed :: "closed_trade list"

section \<open>Grid cells\<close>

definition dust :: pyfloat where
  "dust = fl (1 / 1000000000000)"

definition grid_entry_key :: "string \<Rightarrow> int \<times> string \<times> string \<times> int \<Rightarrow> string" where
  "grid_entry_key key identity =
     (case identity of (cell_index, side, _, cycle) \<Rightarrow>
        key @ ''|'' @ show_int cell_index @ ''|'' @ side @ ''|'' @ show_int cycle)"

definition book_key :: "execution \<Rightarrow> string" where
  "book_key ex = str_default (ex_position_key ex) (ex_symbol ex)"

definition record_grid_entry ::
  "execution \<Rightarrow> pyfloat \<Rightarrow> pyfloat \<Rightarrow> (string, grid_entry) dict \<Rightarrow> (string, grid_entry) dict result" where
  "record_grid_entry ex quantity commission grid =
     (case grid_order_identity (ex_client_order_id ex) of
        None \<Rightarrow> Inr grid
      | Some (cell, side, phase, cycle) \<Rightarrow>
          if phase \<noteq> ''entry'' \<or> fle quantity dust then Inr grid
          else
            let key = grid_entry_key (book_key ex) (cell, side, phase, cycle) in
            (case dget grid key of
               None \<Rightarrow>
                 Inr (dset grid key
                   \<lparr>ge_cell_index = cell, ge_position_side = side, ge_cycle = cycle, ge_entry_time = ex_time ex,
                    ge_entry_price = f_or (ex_price ex) (Fin 0), ge_quantity = quantity, ge_commission = commission\<rparr>)
             | Some current \<Rightarrow>
                 let previous = f_or (ge_quantity current) (Fin 0);
                     combined = fadd previous quantity
                 in if fle combined dust then Inr grid
                    else bindE (fdiv (fadd (fmul (f_or (ge_entry_price current) (Fin 0)) previous)
                                           (fmul (f_or (ex_price ex) (Fin 0)) quantity)) combined) (\<lambda>price.
                      Inr (dset grid key
                        (current\<lparr>ge_entry_price := price, ge_quantity := combined,
                                 ge_commission := fadd (f_or (ge_commission current) (Fin 0)) commission\<rparr>)))))"

definition consume_grid_entry ::
  "execution \<Rightarrow> pyfloat \<Rightarrow> pyfloat \<Rightarrow> (string, grid_entry) dict \<Rightarrow>
     (grid_match option \<times> (string, grid_entry) dict) result" where
  "consume_grid_entry ex closing_quantity close_commission grid =
     (case grid_order_identity (ex_client_order_id ex) of
        None \<Rightarrow> Inr (None, grid)
      | Some (cell, side, phase, cycle) \<Rightarrow>
          if phase \<noteq> ''exit'' \<or> fle closing_quantity dust then Inr (None, grid)
          else
            let key = grid_entry_key (book_key ex) (cell, side, phase, cycle) in
            (case dget grid key of
               None \<Rightarrow> Inr (None, grid)
             | Some entry \<Rightarrow>
                 let available = f_or (ge_quantity entry) (Fin 0) in
                 if flt (fadd available (fl (1 / 10000000000))) closing_quantity then Inr (None, grid)
                 else
                   let total = f_or (ge_commission entry) (Fin 0) in
                   bindE (fdiv (fmul total closing_quantity) (pymax available dust)) (\<lambda>entry_commission.
                     let remaining = pymax (Fin 0) (fsub available closing_quantity);
                         grid' = (if fle remaining dust then dpop grid key
                                  else dset grid key (entry\<lparr>ge_quantity := remaining,
                                         ge_commission := pymax (Fin 0) (fsub total entry_commission)\<rparr>));
                         entry_price = f_or (ge_entry_price entry) (Fin 0);
                         exit_price = f_or (ex_price ex) (Fin 0);
                         direction = (if side = ''long'' then Fin 1 else Fin (- 1));
                         gross = fmul (fmul (fsub exit_price entry_price) closing_quantity) direction;
                         commission = fadd entry_commission close_commission
                     in Inr (Some \<lparr>gm_cell_index = cell, gm_cycle = cycle,
                               gm_entry_time = str_default (ge_entry_time entry) (ex_time ex),
                               gm_entry_price = entry_price, gm_entry_commission = entry_commission,
                               gm_commission = commission, gm_gross_profit = gross,
                               gm_profit = fsub gross commission\<rparr>, grid'))))"

section \<open>Closing and opening\<close>

definition amount_side :: "pyfloat \<Rightarrow> string" where
  "amount_side a = (if flt (Fin 0) a then ''long'' else ''short'')"

text \<open>The quantities one execution closes and opens, and the fee of each part.\<close>

definition execution_delta :: "execution \<Rightarrow> pyfloat" where
  "execution_delta ex = fmul (ex_quantity ex) (if ex_side ex = ''buy'' then Fin 1 else Fin (- 1))"

definition closing_quantity :: "pyfloat \<Rightarrow> pyfloat \<Rightarrow> pyfloat" where
  "closing_quantity old_amount delta =
     (if flt (fmul old_amount delta) (Fin 0) then pymin (fabs old_amount) (fabs delta) else Fin 0)"

definition close_fee :: "execution \<Rightarrow> pyfloat \<Rightarrow> pyfloat \<Rightarrow> pyfloat result" where
  "close_fee ex delta closing = fdiv (fmul (f_or (ex_commission ex) (Fin 0)) closing) (pymax (fabs delta) dust)"

definition apply_grid_match :: "grid_match option \<Rightarrow> closed_trade \<Rightarrow> closed_trade" where
  "apply_grid_match gm ct =
     (case gm of
        None \<Rightarrow> ct
      | Some g \<Rightarrow>
          ct\<lparr>ct_entry_time := gm_entry_time g, ct_entry_price := gm_entry_price g,
             ct_gross_profit := gm_gross_profit g, ct_entry_commission := gm_entry_commission g,
             ct_commission := gm_commission g, ct_profit := gm_profit g, ct_profit_basis := ''grid_cell'',
             ct_grid := Some (g, \<lparr>av_entry_time = ct_entry_time ct, av_avg_entry_price = ct_entry_price ct,
                                  av_gross_profit = ct_gross_profit ct, av_realized_profit = ct_profit ct\<rparr>)\<rparr>)"

definition close_part ::
  "execution \<Rightarrow> pyfloat \<Rightarrow> pyfloat \<Rightarrow> pyfloat \<Rightarrow> pyfloat \<Rightarrow> pyfloat \<Rightarrow> trade_book \<Rightarrow> trade_book result" where
  "close_part ex old_amount old_cost target_amount closing cfee tb =
     (let symbol = book_key ex;
          entry = dget_or (tb_entries tb) symbol
                    \<lparr>en_time = ex_time ex, en_price = old_cost, en_quantity = fabs old_amount,
                     en_commission = Fin 0, en_side = amount_side old_amount\<rparr>;
          entry_quantity = pymax (f_or (en_quantity entry) (Fin 0)) closing;
          entry_total = f_or (en_commission entry) (Fin 0)
      in bindE (fdiv (fmul entry_total closing) entry_quantity) (\<lambda>entry_fee.
         let direction = (if flt (Fin 0) old_amount then Fin 1 else Fin (- 1));
             entry_price = f_or (en_price entry) old_cost;
             gross = fmul (fmul (fsub (ex_price ex) entry_price) closing) direction;
             profit = fsub (fsub gross entry_fee) cfee
         in bindE (consume_grid_entry ex closing cfee (tb_grid tb)) (\<lambda>(gm, grid').
            let trade = \<lparr>ct_symbol = symbol, ct_side = str_default (en_side entry) (amount_side old_amount),
                         ct_entry_time = str_default (en_time entry) (ex_time ex), ct_exit_time = ex_time ex,
                         ct_entry_price = entry_price, ct_exit_price = ex_price ex, ct_quantity = closing,
                         ct_profit = profit, ct_gross_profit = gross, ct_entry_commission = entry_fee,
                         ct_exit_commission = cfee, ct_commission = fadd entry_fee cfee,
                         ct_balance = f_or (ex_balance ex) (Fin 0), ct_close_reason = str_default (ex_reason ex) ''strategy'',
                         ct_profit_basis = ''account_average'', ct_grid = None\<rparr>;
                remaining = pymax (Fin 0) (fsub entry_quantity closing)
            in Inr \<lparr>tb_entries =
                      (if flt dust remaining \<and> fle (Fin 0) (fmul old_amount target_amount)
                       then dset (tb_entries tb) symbol
                              (entry\<lparr>en_quantity := remaining, en_commission := pymax (Fin 0) (fsub entry_total entry_fee)\<rparr>)
                       else dpop (tb_entries tb) symbol),
                    tb_grid = grid', tb_closed = tb_closed tb @ [apply_grid_match gm trade]\<rparr>)))"

definition open_entry ::
  "execution \<Rightarrow> pyfloat \<Rightarrow> pyfloat \<Rightarrow> pyfloat \<Rightarrow> (string, trade_entry) dict \<Rightarrow> (string, trade_entry) dict result" where
  "open_entry ex target_amount opening ofee entries =
     (let symbol = book_key ex; side = amount_side target_amount;
          fresh = \<lparr>en_time = ex_time ex, en_price = ex_price ex, en_quantity = opening, en_commission = ofee, en_side = side\<rparr>
      in case dget entries symbol of
           None \<Rightarrow> Inr (dset entries symbol fresh)
         | Some existing \<Rightarrow>
             if en_side existing = side then
               let previous = f_or (en_quantity existing) (Fin 0); combined = fadd previous opening
               in bindE (fdiv (fadd (fmul (f_or (en_price existing) (ex_price ex)) previous)
                                    (fmul (ex_price ex) opening)) combined) (\<lambda>price.
                    Inr (dset entries symbol (existing\<lparr>en_price := price, en_quantity := combined,
                           en_commission := fadd (f_or (en_commission existing) (Fin 0)) ofee\<rparr>)))
             else Inr (dset entries symbol fresh))"

definition open_part :: "execution \<Rightarrow> pyfloat \<Rightarrow> pyfloat \<Rightarrow> pyfloat \<Rightarrow> trade_book \<Rightarrow> trade_book result" where
  "open_part ex target_amount opening ofee tb =
     bindE (open_entry ex target_amount opening ofee (tb_entries tb)) (\<lambda>entries.
     bindE (record_grid_entry ex opening ofee (tb_grid tb)) (\<lambda>grid.
       Inr (tb\<lparr>tb_entries := entries, tb_grid := grid\<rparr>)))"

definition record_closed_trade ::
  "execution \<Rightarrow> pyfloat \<Rightarrow> pyfloat \<Rightarrow> pyfloat \<Rightarrow> trade_book \<Rightarrow> trade_book result" where
  "record_closed_trade ex old_amount old_cost target_amount tb =
     (let delta = execution_delta ex;
          closing = closing_quantity old_amount delta;
          opening = pymax (Fin 0) (fsub (fabs delta) closing)
      in bindE (close_fee ex delta closing) (\<lambda>cfee.
         let ofee = fsub (f_or (ex_commission ex) (Fin 0)) cfee in
         bindE (if flt dust closing then close_part ex old_amount old_cost target_amount closing cfee tb else Inr tb) (\<lambda>tb1.
           if flt dust opening then open_part ex target_amount opening ofee tb1 else Inr tb1)))"

section \<open>The book mirrors the position\<close>

text \<open>An entry stands for a position amount: none for a flat (dust) amount, otherwise the same
  quantity and side.\<close>

definition mirrors :: "pyfloat \<Rightarrow> trade_entry option \<Rightarrow> bool" where
  "mirrors amount entry =
     (case entry of
        None \<Rightarrow> \<not> flt dust (fabs amount)
      | Some en \<Rightarrow> flt dust (fabs amount) \<and> en_quantity en = fabs amount \<and> en_side en = amount_side amount)"

definition dust_rat :: rat where
  "dust_rat = (case dust of Fin d \<Rightarrow> d | _ \<Rightarrow> 0)"

lemma dust_Fin: "dust = Fin dust_rat" and dust_pos: "0 < dust_rat" and dust_square: "\<exists>e. fl (dust_rat * dust_rat) = Fin e \<and> 0 < e"
proof -
  show "dust = Fin dust_rat" "0 < dust_rat" by code_simp+
  have "flt (Fin 0) (fl (dust_rat * dust_rat)) \<and> isfinite (fl (dust_rat * dust_rat))" by code_simp
  then show "\<exists>e. fl (dust_rat * dust_rat) = Fin e \<and> 0 < e" by (cases "fl (dust_rat * dust_rat)") auto
qed

lemma flt_dust_iff: "flt dust (Fin x) \<longleftrightarrow> dust_rat < x"
  by (simp add: dust_Fin)

text \<open>Products of amounts above dust keep their sign: nothing underflows.\<close>

lemma fmul_sign_pos:
  assumes "dust_rat < \<bar>x\<bar>" and "dust_rat < \<bar>y\<bar>" and "0 < x * y"
  shows "flt (Fin 0) (fl (x * y))"
proof -
  have "dust_rat * dust_rat \<le> \<bar>x\<bar> * \<bar>y\<bar>" using assms(1,2) dust_pos by (intro mult_mono) auto
  also have "\<dots> = x * y" using assms(3) by (simp flip: abs_mult)
  finally have "fle (fl (dust_rat * dust_rat)) (fl (x * y))" by (rule fl_mono)
  moreover obtain e where "fl (dust_rat * dust_rat) = Fin e" "0 < e" using dust_square by blast
  ultimately show ?thesis using flt_fle_trans[of "Fin 0" "Fin e"] by simp
qed

lemma fmul_sign_neg:
  assumes "dust_rat < \<bar>x\<bar>" and "dust_rat < \<bar>y\<bar>" and "x * y < 0"
  shows "flt (fl (x * y)) (Fin 0)"
proof -
  have "flt (Fin 0) (fl ((- x) * y))" by (rule fmul_sign_pos) (use assms in auto)
  then show ?thesis by (cases "fl (x * y)") (auto simp: fl_minus)
qed

lemma amount_side_simps:
  "fle (Fin 0) a \<Longrightarrow> flt dust (fabs a) \<Longrightarrow> amount_side a = ''long''"
  "fle a (Fin 0) \<Longrightarrow> flt dust (fabs a) \<Longrightarrow> amount_side a = ''short''"
  using dust_pos by (cases a; auto simp: amount_side_def dust_Fin)+

lemma open_part_entries:
  assumes "open_part ex target opening ofee tb = Inr tb'"
  shows "open_entry ex target opening ofee (tb_entries tb) = Inr (tb_entries tb')"
    and "tb_closed tb' = tb_closed tb"
  using assms by (auto simp: open_part_def bindE_Inr_iff)

lemma open_entry_fresh:
  "open_entry ex target opening ofee entries = Inr entries' \<Longrightarrow> dget entries (book_key ex) = None \<Longrightarrow>
     \<exists>en. dget entries' (book_key ex) = Some en \<and> en_quantity en = opening \<and> en_side en = amount_side target"
  by (auto simp: open_entry_def Let_def)

lemma open_entry_add:
  "open_entry ex target opening ofee entries = Inr entries' \<Longrightarrow> dget entries (book_key ex) = Some en \<Longrightarrow>
     en_side en = amount_side target \<Longrightarrow> ftruthy (en_quantity en) \<Longrightarrow>
     \<exists>en'. dget entries' (book_key ex) = Some en' \<and> en_quantity en' = fadd (en_quantity en) opening \<and> en_side en' = amount_side target"
  by (auto simp: open_entry_def Let_def bindE_Inr_iff f_or_def)

lemma close_part_entries:
  assumes "close_part ex old cost target closing cfee tb = Inr tb'"
    and "dget (tb_entries tb) (book_key ex) = Some en"
  defines "remaining \<equiv> pymax (Fin 0) (fsub (pymax (f_or (en_quantity en) (Fin 0)) closing) closing)"
  shows "\<exists>c. dget (tb_entries tb') (book_key ex) =
      (if flt dust remaining \<and> fle (Fin 0) (fmul old target)
       then Some (en\<lparr>en_quantity := remaining, en_commission := c\<rparr>) else None)"
    and "k \<noteq> book_key ex \<Longrightarrow> dget (tb_entries tb') k = dget (tb_entries tb) k"
  using assms(1,2) unfolding remaining_def
  by (auto simp: close_part_def bindE_Inr_iff Let_def dget_or_def)

lemma record_closed_trade_parts:
  assumes "record_closed_trade ex old cost target tb = Inr tb'"
  defines "closing \<equiv> closing_quantity old (execution_delta ex)"
  defines "opening \<equiv> pymax (Fin 0) (fsub (fabs (execution_delta ex)) closing)"
  obtains cfee ofee tb1 where
    "if flt dust closing then close_part ex old cost target closing cfee tb = Inr tb1 else tb1 = tb"
    and "if flt dust opening then open_part ex target opening ofee tb1 = Inr tb' else tb' = tb1"
proof -
  obtain cfee tb1 where
    c: "(if flt dust closing then close_part ex old cost target closing cfee tb else Inr tb) = Inr tb1"
    and o0: "(if flt dust opening then open_part ex target opening (fsub (f_or (ex_commission ex) (Fin 0)) cfee) tb1 else Inr tb1) = Inr tb'"
    using assms(1) unfolding closing_def opening_def record_closed_trade_def Let_def
    by (simp only: bindE_Inr_iff) blast
  show thesis
  proof (rule that[of cfee tb1 "fsub (f_or (ex_commission ex) (Fin 0)) cfee"])
    show "if flt dust closing then close_part ex old cost target closing cfee tb = Inr tb1 else tb1 = tb"
      using c by (cases "flt dust closing") simp_all
    show "if flt dust opening then open_part ex target opening (fsub (f_or (ex_commission ex) (Fin 0)) cfee) tb1 = Inr tb' else tb' = tb1"
      using o0 by (cases "flt dust opening") simp_all
  qed
qed

lemma pymax_zero_Fin: "0 \<le> x \<Longrightarrow> pymax (Fin 0) (Fin x) = Fin x"
  by (auto simp: pymax_def)

lemma pymax_zero_nonneg: "fle (Fin 0) a \<Longrightarrow> pymax (Fin 0) a = a"
  by (cases a) (auto simp: pymax_def)

lemma mirror_add:
  assumes r: "record_closed_trade ex (Fin x) cost (fl (x + y)) tb = Inr tb'"
    and d: "execution_delta ex = Fin y" and y: "dust_rat < \<bar>y\<bar>" "fl y = Fin y"
    and x: "fl x = Fin x" "x = 0 \<or> dust_rat < \<bar>x\<bar>" "0 \<le> x * y"
    and m: "mirrors (Fin x) (dget (tb_entries tb) (book_key ex))"
  shows "mirrors (fl (x + y)) (dget (tb_entries tb') (book_key ex)) \<and> tb_closed tb' = tb_closed tb"
proof -
  have c: "closing_quantity (Fin x) (Fin y) = Fin 0"
    using flt_asym[of "fl (x * y)" "Fin 0"] fl_nonneg[OF x(3)] by (auto simp: closing_quantity_def)
  have b: "fl \<bar>y\<bar> = Fin \<bar>y\<bar>" using y(2) fabs_fl[of y] by simp
  have nd: "\<not> flt dust (Fin 0)" using dust_pos by (simp add: flt_dust_iff)
  have o0: "pymax (Fin 0) (fsub (fabs (Fin y)) (Fin 0)) = Fin \<bar>y\<bar>"
    using b by (simp add: pymax_zero_Fin)
  have yd: "flt dust (Fin \<bar>y\<bar>)" using y(1) by (simp add: flt_dust_iff)
  obtain cfee ofee tb1 where "if flt dust (Fin 0) then close_part ex (Fin x) cost (fl (x + y)) (Fin 0) cfee tb = Inr tb1 else tb1 = tb"
    "if flt dust (Fin \<bar>y\<bar>) then open_part ex (fl (x + y)) (Fin \<bar>y\<bar>) ofee tb1 = Inr tb' else tb' = tb1"
    by (rule record_closed_trade_parts[OF r, unfolded d c o0])
  then have "open_part ex (fl (x + y)) (Fin \<bar>y\<bar>) ofee tb = Inr tb'"
    by (simp only: nd yd if_True if_False)
  note op = open_part_entries[OF this]
  show ?thesis
  proof (cases "x = 0")
    case True
    then have "dget (tb_entries tb) (book_key ex) = None"
      using m dust_pos by (cases "dget (tb_entries tb) (book_key ex)") (auto simp: mirrors_def flt_dust_iff)
    from open_entry_fresh[OF op(1) this] show ?thesis using op(2) y True by (auto simp: mirrors_def flt_dust_iff)
  next
    case False
    then have dx: "dust_rat < \<bar>x\<bar>" using x(2) by blast
    then obtain en where en: "dget (tb_entries tb) (book_key ex) = Some en" "en_quantity en = Fin \<bar>x\<bar>" "en_side en = amount_side (Fin x)"
      using m by (cases "dget (tb_entries tb) (book_key ex)") (auto simp: mirrors_def flt_dust_iff)
    have xy: "\<bar>x + y\<bar> = \<bar>x\<bar> + \<bar>y\<bar>" using x(3) by (auto simp: zero_le_mult_iff)
    have bx: "fl \<bar>x\<bar> = Fin \<bar>x\<bar>" using x(1) fabs_fl[of x] by simp
    have t: "fabs (fl (x + y)) = fl (\<bar>x\<bar> + \<bar>y\<bar>)" by (simp add: fabs_fl xy)
    have g: "flt dust (fabs (fl (x + y)))"
      using fl_ge_b64[OF bx, of "\<bar>x\<bar> + \<bar>y\<bar>"] flt_fle_trans[of dust "Fin \<bar>x\<bar>"] dx by (simp add: t flt_dust_iff)
    have s: "amount_side (Fin x) = amount_side (fl (x + y))"
    proof (cases "0 < x")
      case True
      then have "fle (Fin 0) (fl (x + y))" using x(3) by (intro fl_nonneg) (simp add: zero_le_mult_iff)
      then show ?thesis using True amount_side_simps(1)[OF _ g] by (simp add: amount_side_def)
    next
      case False
      then have n: "x < 0" using \<open>x \<noteq> 0\<close> by simp
      then have "fle (fl (x + y)) (Fin 0)" using x(3) by (intro fl_nonpos) (simp add: zero_le_mult_iff)
      then show ?thesis using amount_side_simps(2)[OF _ g] n by (simp add: amount_side_def)
    qed
    have "en_side en = amount_side (fl (x + y))" "ftruthy (en_quantity en)"
      using en s \<open>x \<noteq> 0\<close> by (simp_all add: ftruthy_def)
    from open_entry_add[OF op(1) en(1) this] show ?thesis
      using op(2) en(2) g t by (auto simp: mirrors_def)
  qed
qed

lemma mirror_reduce:
  assumes r: "record_closed_trade ex (Fin x) cost (fl (x + y)) tb = Inr tb'"
    and d: "execution_delta ex = Fin y" and y: "dust_rat < \<bar>y\<bar>" "fl y = Fin y"
    and x: "fl x = Fin x" "dust_rat < \<bar>x\<bar>" "x * y < 0" "\<bar>y\<bar> \<le> \<bar>x\<bar>"
    and m: "mirrors (Fin x) (dget (tb_entries tb) (book_key ex))"
  shows "mirrors (fl (x + y)) (dget (tb_entries tb') (book_key ex))"
proof -
  have c: "closing_quantity (Fin x) (Fin y) = Fin \<bar>y\<bar>"
    using fmul_sign_neg[OF x(2) y(1) x(3)] x(4) by (auto simp: closing_quantity_def pymin_def)
  have o0: "pymax (Fin 0) (fsub (fabs (Fin y)) (Fin \<bar>y\<bar>)) = Fin 0" by (simp add: fsub_Fin pymax_def)
  have nd: "\<not> flt dust (Fin 0)" using dust_pos by (simp add: flt_dust_iff)
  have yd: "flt dust (Fin \<bar>y\<bar>)" using y(1) by (simp add: flt_dust_iff)
  obtain cfee ofee tb1 where "if flt dust (Fin \<bar>y\<bar>) then close_part ex (Fin x) cost (fl (x + y)) (Fin \<bar>y\<bar>) cfee tb = Inr tb1 else tb1 = tb"
    "if flt dust (Fin 0) then open_part ex (fl (x + y)) (Fin 0) ofee tb1 = Inr tb' else tb' = tb1"
    by (rule record_closed_trade_parts[OF r, unfolded d c o0])
  then have cp: "close_part ex (Fin x) cost (fl (x + y)) (Fin \<bar>y\<bar>) cfee tb = Inr tb'"
    by (simp only: nd yd if_True if_False)
  obtain en where en: "dget (tb_entries tb) (book_key ex) = Some en" "en_quantity en = Fin \<bar>x\<bar>" "en_side en = amount_side (Fin x)"
    using m x(2) by (cases "dget (tb_entries tb) (book_key ex)") (auto simp: mirrors_def flt_dust_iff)
  have xy: "\<bar>x + y\<bar> = \<bar>x\<bar> - \<bar>y\<bar>" using x(3,4) by (auto simp: mult_less_0_iff)
  have rem: "pymax (Fin 0) (fsub (pymax (f_or (Fin \<bar>x\<bar>) (Fin 0)) (Fin \<bar>y\<bar>)) (Fin \<bar>y\<bar>)) = fabs (fl (x + y))"
    using x(3,4) fl_nonneg[of "\<bar>x\<bar> - \<bar>y\<bar>"]
    by (auto simp: f_or_def ftruthy_def pymax_def[of "Fin \<bar>x\<bar>"] fsub_Fin fabs_fl xy pymax_zero_nonneg)
  have sg: "(0 < x \<and> fle (Fin 0) (fl (x + y))) \<or> (x < 0 \<and> fle (fl (x + y)) (Fin 0))"
    using x(3,4) by (auto simp: mult_less_0_iff intro!: fl_nonneg fl_nonpos)
  have pos: "fle (Fin 0) (fmul (Fin x) (fl (x + y)))" if "flt dust (fabs (fl (x + y)))"
  proof (cases "fl (x + y)")
    case (Fin t)
    have "0 \<le> x * t" using sg Fin by (auto simp: zero_le_mult_iff)
    then show ?thesis by (simp add: Fin fl_nonneg)
  qed (use sg in \<open>auto simp: inf_of_sign_def\<close>)
  have s: "amount_side (Fin x) = amount_side (fl (x + y))" if "flt dust (fabs (fl (x + y)))"
    using sg amount_side_simps[OF _ that] by (auto simp: amount_side_def[of "Fin x"])
  show ?thesis
    using close_part_entries(1)[OF cp en(1)] pos s unfolding en(2) rem
    by (cases "flt dust (fabs (fl (x + y)))") (auto simp: mirrors_def en(3))
qed

lemma mirror_reverse:
  assumes r: "record_closed_trade ex (Fin x) cost (fl (x + y)) tb = Inr tb'"
    and d: "execution_delta ex = Fin y" and y: "dust_rat < \<bar>y\<bar>" "fl y = Fin y"
    and x: "fl x = Fin x" "dust_rat < \<bar>x\<bar>" "x * y < 0" "\<bar>x\<bar> < \<bar>y\<bar>"
    and m: "mirrors (Fin x) (dget (tb_entries tb) (book_key ex))"
  shows "mirrors (fl (x + y)) (dget (tb_entries tb') (book_key ex))"
proof -
  have c: "closing_quantity (Fin x) (Fin y) = Fin \<bar>x\<bar>"
    using fmul_sign_neg[OF x(2) y(1) x(3)] x(4) by (auto simp: closing_quantity_def pymin_def)
  have xy: "\<bar>x + y\<bar> = \<bar>y\<bar> - \<bar>x\<bar>" using x(3,4) by (auto simp: mult_less_0_iff)
  have o0: "pymax (Fin 0) (fsub (fabs (Fin y)) (Fin \<bar>x\<bar>)) = fabs (fl (x + y))"
    using x(4) by (simp add: fsub_Fin fabs_fl xy pymax_zero_nonneg fl_nonneg)
  have nd: "\<not> flt dust (Fin 0)" using dust_pos by (simp add: flt_dust_iff)
  have xd: "flt dust (Fin \<bar>x\<bar>)" using x(2) by (simp add: flt_dust_iff)
  obtain cfee ofee tb1 where p: "if flt dust (Fin \<bar>x\<bar>) then close_part ex (Fin x) cost (fl (x + y)) (Fin \<bar>x\<bar>) cfee tb = Inr tb1 else tb1 = tb"
    and op: "if flt dust (fabs (fl (x + y))) then open_part ex (fl (x + y)) (fabs (fl (x + y))) ofee tb1 = Inr tb' else tb' = tb1"
    by (rule record_closed_trade_parts[OF r, unfolded d c o0])
  then have cp: "close_part ex (Fin x) cost (fl (x + y)) (Fin \<bar>x\<bar>) cfee tb = Inr tb1"
    by (simp only: xd if_True)
  obtain en where en: "dget (tb_entries tb) (book_key ex) = Some en" "en_quantity en = Fin \<bar>x\<bar>"
    using m x(2) by (cases "dget (tb_entries tb) (book_key ex)") (auto simp: mirrors_def flt_dust_iff)
  have rem: "pymax (Fin 0) (fsub (pymax (f_or (Fin \<bar>x\<bar>) (Fin 0)) (Fin \<bar>x\<bar>)) (Fin \<bar>x\<bar>)) = Fin 0"
    using x(3) by (auto simp: f_or_def ftruthy_def pymax_def fsub_Fin)
  have n: "dget (tb_entries tb1) (book_key ex) = None"
    using close_part_entries(1)[OF cp en(1)] en(2) rem nd by auto
  show ?thesis
  proof (cases "flt dust (fabs (fl (x + y)))")
    case True
    then have "open_entry ex (fl (x + y)) (fabs (fl (x + y))) ofee (tb_entries tb1) = Inr (tb_entries tb')"
      using op open_part_entries(1) by simp
    from open_entry_fresh[OF this n] show ?thesis using True by (auto simp: mirrors_def)
  next
    case False
    then show ?thesis using op n by (simp add: mirrors_def)
  qed
qed

text \<open>C18: The trade book and the portfolio never drift apart: if the entry of a position mirrors its
  amount (same side, bit-for-bit the same quantity, none for a flat position), then after recording
  any execution that opens, adds to, reduces, closes or reverses the position, the entry mirrors the
  new amount, with every floating-point rounding accounted for.\<close>

theorem book_mirrors_position:
  assumes "record_closed_trade ex (Fin x) cost (fadd (Fin x) (execution_delta ex)) tb = Inr tb'"
    and "execution_delta ex = Fin y" and "flt dust (fabs (Fin y))" and "is_b64 (Fin y)"
    and "is_b64 (Fin x)" and "x = 0 \<or> flt dust (fabs (Fin x))"
    and "mirrors (Fin x) (dget (tb_entries tb) (book_key ex))"
  shows "mirrors (fadd (Fin x) (execution_delta ex)) (dget (tb_entries tb') (book_key ex))"
proof -
  have y: "dust_rat < \<bar>y\<bar>" "fl y = Fin y" and x: "fl x = Fin x" "x = 0 \<or> dust_rat < \<bar>x\<bar>"
    using assms(3-6) by (simp_all add: flt_dust_iff)
  have r: "record_closed_trade ex (Fin x) cost (fl (x + y)) tb = Inr tb'" using assms(1,2) by simp
  consider "0 \<le> x * y" | "x * y < 0" "\<bar>y\<bar> \<le> \<bar>x\<bar>" | "x * y < 0" "\<bar>x\<bar> < \<bar>y\<bar>" by linarith
  then have "mirrors (fl (x + y)) (dget (tb_entries tb') (book_key ex))"
  proof cases
    case 1
    then show ?thesis using mirror_add[OF r assms(2) y x _ assms(7)] by blast
  next
    case 2
    then have "dust_rat < \<bar>x\<bar>" using x(2) by auto
    then show ?thesis using mirror_reduce[OF r assms(2) y x(1) _ 2 assms(7)] by blast
  next
    case 3
    then have "dust_rat < \<bar>x\<bar>" using x(2) by auto
    then show ?thesis using mirror_reverse[OF r assms(2) y x(1) _ 3 assms(7)] by blast
  qed
  then show ?thesis using assms(2) by simp
qed

section \<open>Recording never fails\<close>

lemma pymax_dust_nonzero: "pymax a dust \<noteq> Fin 0"
  using dust_pos by (auto simp: pymax_def dust_Fin)

lemma pymax_above_dust_nonzero: "flt dust c \<Longrightarrow> pymax a c \<noteq> Fin 0"
  using dust_pos by (cases c) (auto simp: pymax_def dust_Fin)

lemma fadd_above_dust_nonzero:
  assumes "fle (Fin 0) p" and "flt dust c"
  shows "fadd p c \<noteq> Fin 0"
proof (cases p)
  case (Fin x)
  show ?thesis
  proof (cases c)
    case c: (Fin y)
    have "fl dust_rat = Fin dust_rat" using fl_fl[of "1 / 1000000000000"] dust_Fin by (simp add: dust_def)
    moreover have "dust_rat \<le> x + y" using assms Fin c by (simp add: flt_dust_iff)
    ultimately have "fle (Fin dust_rat) (fl (x + y))" by (rule fl_ge_b64)
    then show ?thesis using Fin c dust_pos by (cases "fl (x + y)") auto
  qed (use Fin assms in auto)
qed (use assms in \<open>cases c; auto\<close>)+

lemma fdiv_total: "b \<noteq> Fin 0 \<Longrightarrow> \<exists>q. fdiv a b = Inr q"
  by (simp add: fdiv_def)

lemma consume_grid_entry_total: "\<exists>gm grid'. consume_grid_entry ex q f grid = Inr (gm, grid')"
  using pymax_dust_nonzero
  by (auto simp: consume_grid_entry_def fdiv_def Let_def split: option.splits)

lemma record_grid_entry_total: "\<exists>grid'. record_grid_entry ex q f grid = Inr grid'"
proof -
  have "fle c dust" if "c = Fin 0" for c using that dust_pos by (simp add: dust_Fin)
  then show ?thesis by (auto simp: record_grid_entry_def fdiv_def Let_def split: option.splits)
qed

lemma close_part_total:
  assumes "flt dust closing"
  shows "\<exists>tb'. close_part ex old cost target closing cfee tb = Inr tb' \<and>
    (\<forall>en. dget (tb_entries tb') (book_key ex) = Some en \<longrightarrow> fle (Fin 0) (en_quantity en))"
proof -
  let ?en = "dget_or (tb_entries tb) (book_key ex) \<lparr>en_time = ex_time ex, en_price = cost, en_quantity = fabs old,
                     en_commission = Fin 0, en_side = amount_side old\<rparr>"
  obtain fee where "fdiv (fmul (f_or (en_commission ?en) (Fin 0)) closing) (pymax (f_or (en_quantity ?en) (Fin 0)) closing) = Inr fee"
    using fdiv_total pymax_above_dust_nonzero[OF assms] by blast
  moreover obtain gm grid' where "consume_grid_entry ex closing cfee (tb_grid tb) = Inr (gm, grid')"
    using consume_grid_entry_total by blast
  ultimately show ?thesis by (auto simp: close_part_def Let_def pymax_zero_ge)
qed

lemma open_part_total:
  assumes "flt dust opening"
    and "\<forall>en. dget (tb_entries tb) (book_key ex) = Some en \<longrightarrow> fle (Fin 0) (en_quantity en)"
  shows "\<exists>tb'. open_part ex target opening ofee tb = Inr tb'"
proof -
  have "fle (Fin 0) (f_or q (Fin 0))" if "fle (Fin 0) q" for q using that by (simp add: f_or_def)
  then have "\<exists>es. open_entry ex target opening ofee (tb_entries tb) = Inr es"
    using assms fadd_above_dust_nonzero
    by (auto simp: open_entry_def fdiv_def Let_def split: option.splits)
  then obtain es where es: "open_entry ex target opening ofee (tb_entries tb) = Inr es" by blast
  obtain grid where "record_grid_entry ex opening ofee (tb_grid tb) = Inr grid" using record_grid_entry_total by blast
  then show ?thesis by (simp add: open_part_def es)
qed

lemma recording_total:
  assumes "\<forall>en. dget (tb_entries tb) (book_key ex) = Some en \<longrightarrow> fle (Fin 0) (en_quantity en)"
  shows "\<exists>tb'. record_closed_trade ex old_amount old_cost target_amount tb = Inr tb'"
proof -
  let ?d = "execution_delta ex"
  let ?c = "closing_quantity old_amount ?d"
  obtain cfee where f: "close_fee ex ?d ?c = Inr cfee"
    using fdiv_total[OF pymax_dust_nonzero] by (auto simp: close_fee_def)
  obtain tb1 where c: "(if flt dust ?c then close_part ex old_amount old_cost target_amount ?c cfee tb else Inr tb) = Inr tb1"
    and nn: "\<forall>en. dget (tb_entries tb1) (book_key ex) = Some en \<longrightarrow> fle (Fin 0) (en_quantity en)"
  proof (cases "flt dust ?c")
    case True
    then show thesis
      using that close_part_total[OF True, of ex old_amount old_cost target_amount cfee tb] by auto
  next
    case False
    then show thesis using that assms by simp
  qed
  then show ?thesis using f open_part_total[OF _ nn] by (simp add: record_closed_trade_def Let_def)
qed

text \<open>Recording a fill never raises: whatever amounts, prices and fees an execution carries, NaN
  and infinities included, no division by zero happens as long as the entry of the position has a
  non-negative quantity.\<close>

theorem record_closed_trade_total:
  assumes "\<forall>en. dget (tb_entries tb) (book_key ex) = Some en \<longrightarrow> fle (Fin 0) (en_quantity en)"
  shows "\<exists>tb'. record_closed_trade ex old_amount old_cost target_amount tb = Inr tb'"
  using assms by (rule recording_total)

definition demo_execution :: "string \<Rightarrow> rat \<Rightarrow> rat \<Rightarrow> string \<Rightarrow> execution" where
  "demo_execution side qty price reference =
     \<lparr>ex_order_id = ''o'', ex_symbol = ''A'', ex_time = ''t'', ex_side = side, ex_type = ''x'', ex_position_side = ''long'',
      ex_position_key = ''A'', ex_quantity = Fin qty, ex_price = Fin price, ex_notional = Fin (qty * price), ex_commission = Fin 1,
      ex_balance = Fin 100, ex_reason = ''strategy'', ex_client_order_id = reference, ex_signal_time = ''t'',
      ex_fill_reference = ''bar_open'', ex_reference_price = Fin price, ex_order_type = ''market'', ex_limit_price = Fin 0,
      ex_status = ''filled'', ex_requested_quantity = Fin qty, ex_sub_lot_reconciled = False\<rparr>"

definition demo_book :: trade_book where
  "demo_book = \<lparr>tb_entries = [(''A'', \<lparr>en_time = ''t'', en_price = Fin 10, en_quantity = Fin 2, en_commission = Fin 1, en_side = ''long''\<rparr>)],
     tb_grid = [], tb_closed = []\<rparr>"

theorem book_mirrors_position_witness:
  "\<exists>tb'. record_closed_trade (demo_execution ''sell'' 5 12 []) (Fin 2) (Fin 10) (Fin (- 3)) demo_book = Inr tb' \<and>
     mirrors (Fin (- 3)) (dget (tb_entries tb') ''A'')"
proof -
  let ?r = "record_closed_trade (demo_execution ''sell'' 5 12 []) (Fin 2) (Fin 10) (Fin (- 3)) demo_book"
  have d: "execution_delta (demo_execution ''sell'' 5 12 []) = Fin (- 5)" "fadd (Fin 2) (Fin (- 5)) = Fin (- 3)"
    "flt dust (fabs (Fin (- 5)))" "is_b64 (Fin (- 5))" "is_b64 (Fin 2)" "flt dust (fabs (Fin 2))"
    "mirrors (Fin 2) (dget (tb_entries demo_book) (book_key (demo_execution ''sell'' 5 12 [])))"
    "book_key (demo_execution ''sell'' 5 12 []) = ''A''"
    by code_simp+
  have "\<forall>en. dget (tb_entries demo_book) (book_key (demo_execution ''sell'' 5 12 [])) = Some en \<longrightarrow> fle (Fin 0) (en_quantity en)"
    by (simp add: demo_book_def d(8) dget_Cons)
  then obtain tb' where "?r = Inr tb'" using recording_total by blast
  then show ?thesis
    using book_mirrors_position[of "demo_execution ''sell'' 5 12 []" 2 "Fin 10" demo_book tb' "- 5"] d by simp
qed

theorem record_closed_trade_total_witness:
  "\<exists>tb'. record_closed_trade (demo_execution ''buy'' 5 12 []) (Fin 2) (Fin 10) (Fin 7) demo_book = Inr tb'"
proof (rule record_closed_trade_total)
  have "book_key (demo_execution ''buy'' 5 12 []) = ''A''" by code_simp
  then show "\<forall>en. dget (tb_entries demo_book) (book_key (demo_execution ''buy'' 5 12 [])) = Some en \<longrightarrow> fle (Fin 0) (en_quantity en)"
    by (simp add: demo_book_def dget_Cons)
qed

lemma record_closed_trade_other:
  assumes "record_closed_trade ex old cost target tb = Inr tb'" and "k \<noteq> book_key ex"
  shows "dget (tb_entries tb') k = dget (tb_entries tb) k"
proof -
  have cp: "close_part ex old cost target c f tb = Inr tb1 \<Longrightarrow> dget (tb_entries tb1) k = dget (tb_entries tb) k" for c f tb1
    using assms(2) by (auto simp: close_part_def bindE_Inr_iff Let_def)
  have oe: "open_entry ex target p f es = Inr es' \<Longrightarrow> dget es' k = dget es k" for p f es es'
    using assms(2) by (auto simp: open_entry_def bindE_Inr_iff Let_def split: option.splits if_splits)
  have "dget (tb_entries tb') k = dget (tb_entries tb) k"
    if "if flt dust c then close_part ex old cost target c f tb = Inr tb1 else tb1 = tb"
      "if flt dust p then open_part ex target p g tb1 = Inr tb' else tb' = tb1" for c f p g tb1
    using that cp[of c f tb1] oe[OF open_part_entries(1), of p g tb1 tb'] by (simp split: if_split_asm)
  then show ?thesis by (rule record_closed_trade_parts[OF assms(1)])
qed

section \<open>Grid cells\<close>

lemma dset_absent: "dget d k = None \<Longrightarrow> dset d k v = d @ [(k, v)]"
  by (induction d k v rule: dset.induct) (auto simp: dget_def split: if_splits)

lemma dpop_dset_absent: "dget d k = None \<Longrightarrow> dpop (dset d k v) k = d"
  by (auto simp: dset_absent dpop_def dget_None_iff dkeys_def filter_id_conv)

lemma grid_entry_key_phase: "grid_entry_key key (c, s, p, n) = grid_entry_key key (c, s, p', n)"
  by (simp add: grid_entry_key_def)

text \<open>C35: A grid cell is settled against its own entry: when the exit order of a cell and cycle closes
  the quantity its entry order recorded, the trade is matched at the price of that entry, whatever
  the account's average cost is, and the cell is removed, leaving every other cell as it was.\<close>

theorem grid_cell_roundtrip:
  assumes "grid_order_identity (ex_client_order_id ex1) = Some (cell, side, ''entry'', cycle)"
    and "grid_order_identity (ex_client_order_id ex2) = Some (cell, side, ''exit'', cycle)"
    and "book_key ex1 = book_key ex2"
    and "dget grid (grid_entry_key (book_key ex1) (cell, side, ''entry'', cycle)) = None"
    and "flt dust (Fin q)" and "is_b64 (Fin q)"
    and "record_grid_entry ex1 (Fin q) fee grid = Inr grid1"
  shows "\<exists>gm. consume_grid_entry ex2 (Fin q) cfee grid1 = Inr (Some gm, grid) \<and>
    gm_cell_index gm = cell \<and> gm_cycle gm = cycle \<and> gm_entry_price gm = f_or (ex_price ex1) (Fin 0) \<and>
    gm_gross_profit gm = fmul (fmul (fsub (f_or (ex_price ex2) (Fin 0)) (f_or (ex_price ex1) (Fin 0))) (Fin q))
                              (if side = ''long'' then Fin 1 else Fin (- 1))"
proof -
  let ?k = "grid_entry_key (book_key ex2) (cell, side, ''exit'', cycle)"
  have q: "0 < dust_rat" "dust_rat < q" "fl q = Fin q" using assms(5,6) dust_pos by (auto simp: flt_dust_iff)
  have k: "grid_entry_key (book_key ex1) (cell, side, ''entry'', cycle) = ?k"
    using assms(3) by (simp add: grid_entry_key_def)
  have nd: "\<not> fle (Fin q) dust" "fle (Fin 0) dust" using q by (simp_all add: dust_Fin)
  define ge where "ge = \<lparr>ge_cell_index = cell, ge_position_side = side, ge_cycle = cycle, ge_entry_time = ex_time ex1,
                    ge_entry_price = f_or (ex_price ex1) (Fin 0), ge_quantity = Fin q, ge_commission = fee\<rparr>"
  have g1: "grid1 = dset grid ?k ge"
    using assms(1,4,7) nd by (simp add: record_grid_entry_def k ge_def)
  have e: "\<not> flt (fadd (Fin q) (fl (1 / 10000000000))) (Fin q)"
  proof -
    obtain e where "fl (1 / 10000000000) = Fin e" "0 \<le> e"
    proof -
      have "isfinite (fl (1 / 10000000000))" by code_simp
      then show ?thesis using that fl_nonneg[of "1 / 10000000000"] by (cases "fl (1 / 10000000000)") auto
    qed
    then show ?thesis using fl_ge_b64[OF q(3), of "q + e"] flt_asym by (auto simp del: fl_numeral)
  qed
  have m: "pymax (Fin q) dust = Fin q" "f_or (Fin q) (Fin 0) = Fin q" "q \<noteq> 0"
    "pymax (Fin 0) (fsub (Fin q) (Fin q)) = Fin 0"
    using q by (simp_all add: pymax_def dust_Fin f_or_def ftruthy_def fsub_Fin)
  have p: "dpop (dset grid ?k ge) ?k = grid" by (rule dpop_dset_absent) (use assms(4) k in simp)
  have ne: "\<not> (phase \<noteq> phase \<or> fle (Fin q) dust)" for phase :: string using nd by simp
  show ?thesis
    unfolding consume_grid_entry_def assms(2) g1
    using e m nd p by (simp add: fdiv_def f_or_def[of "ge_entry_price ge" "Fin 0"] ge_def[symmetric] Let_def)
      (simp add: ge_def f_or_def)
qed

theorem grid_cell_roundtrip_witness:
  "\<exists>gm grid1. record_grid_entry (demo_execution ''buy'' 2 10 ''grid-3-long-entry-1'') (Fin 2) (Fin 0) [] = Inr grid1 \<and>
     consume_grid_entry (demo_execution ''sell'' 2 12 ''grid-3-long-exit-1'') (Fin 2) (Fin 0) grid1 = Inr (Some gm, []) \<and>
     gm_entry_price gm = Fin 10"
proof -
  let ?e1 = "demo_execution ''buy'' 2 10 ''grid-3-long-entry-1''" and ?e2 = "demo_execution ''sell'' 2 12 ''grid-3-long-exit-1''"
  have h: "grid_order_identity (ex_client_order_id ?e1) = Some (3, ''long'', ''entry'', 1)"
    "grid_order_identity (ex_client_order_id ?e2) = Some (3, ''long'', ''exit'', 1)"
    "book_key ?e1 = book_key ?e2" "flt dust (Fin 2)" "is_b64 (Fin 2)"
    "f_or (ex_price ?e1) (Fin 0) = Fin 10"
    by code_simp+
  obtain grid1 where r: "record_grid_entry ?e1 (Fin 2) (Fin 0) [] = Inr grid1" using record_grid_entry_total by blast
  have n: "dget [] (grid_entry_key (book_key ?e1) (3, ''long'', ''entry'', 1)) = None" by simp
  from grid_cell_roundtrip[OF h(1,2,3) n h(4,5) r, of "Fin 0"] show ?thesis
    using r h(6) by auto
qed

end
