(* ===== verification/SimBroker.thy ===== *)
theory SimBroker
  imports TradeBook
begin

text \<open>
  The multi-asset simulation broker (\<open>services/strategy_v2/runtime.py\<close>,
  \<open>MultiAssetSimulationBroker\<close>) with the instrument rules it consults
  (\<open>services/instrument_rules.py\<close>).  The broker is a record threaded through its methods; \<open>sim_env\<close>
  is what it reads of its surroundings: the data portal (\<open>bar_at\<close> and \<open>current\<close>), the rendering of
  timestamps and the configured default venue.  \<open>execute\<close> is split at its early exits: sizing,
  limit matching, quantity planning, minimum checks, the fill itself and the carried remainder.
\<close>

section \<open>Instrument rules\<close>

record instrument_rules =
  ir_key :: string
  ir_exchange_id :: string
  ir_market_type :: string
  ir_symbol :: string
  ir_amount_step :: pyfloat
  ir_min_amount :: pyfloat
  ir_min_notional :: pyfloat
  ir_price_tick :: pyfloat
  ir_contract_size :: pyfloat
  ir_source :: string
  ir_captured_at :: string

definition default_rules_for_symbol :: "string \<Rightarrow> instrument_rules" where
  "default_rules_for_symbol symbol =
     \<lparr>ir_key = symbol, ir_exchange_id = [], ir_market_type = [], ir_symbol = symbol,
      ir_amount_step = (if startswith symbol ''Crypto:'' then fl (1 / 100000000) else Fin 1),
      ir_min_amount = Fin 0, ir_min_notional = Fin 0, ir_price_tick = Fin 0, ir_contract_size = Fin 1,
      ir_source = ''engine_default'', ir_captured_at = []\<rparr>"

definition parse_strategy_crypto_key :: "string \<Rightarrow> (string \<times> string \<times> string) result" where
  "parse_strategy_crypto_key value =
     (let text = strip value in
      if \<not> startswith (lower text) ''crypto:'' then Inl (ValueError ''not crypto'')
      else
        let body = snd (split_once (CHR '':'') text);
            (symbol, venue) = (if CHR ''@'' \<in> set body then split_once (CHR ''@'') body else (body, []))
        in Inr (symbol,
             if venue = [] then ([], ''spot'')
             else if CHR '':'' \<in> set venue then split_once (CHR '':'') venue
             else if lower venue \<in> {''spot'', ''swap''} then ([], venue)
             else (venue, ''spot'')))"

definition instrument_rules_key :: "string \<Rightarrow> string \<Rightarrow> string \<Rightarrow> string \<Rightarrow> string" where
  "instrument_rules_key configured symbol exchange_id market_type =
     (let exchange = str_default (normalize_exchange_id (PStr exchange_id)) (default_crypto_exchange_id configured);
          kind = (if lower (strip market_type) \<in> {''swap'', ''future'', ''futures'', ''perp'', ''perpetual''} then ''swap'' else ''spot'');
          s1 = replace_char (CHR ''_'') (CHR ''/'') (replace_char (CHR ''-'') (CHR ''/'') (upper (strip symbol)));
          s2 = (if startswith s1 ''CRYPTO:'' then snd (split_once (CHR '':'') s1) else s1);
          s3 = (if CHR ''@'' \<in> set s2 then fst (split_once (CHR ''@'') s2) else s2)
      in ''Crypto:'' @ s3 @ ''@'' @ exchange @ '':'' @ kind)"

definition snapshot_get :: "string \<Rightarrow> (string, instrument_rules) dict \<Rightarrow> string \<Rightarrow> instrument_rules option" where
  "snapshot_get configured rules key =
     (case dget rules key of
        Some r \<Rightarrow> Some r
      | None \<Rightarrow>
          (case parse_strategy_crypto_key key of
             Inl _ \<Rightarrow> None
           | Inr (symbol, exchange, market_type) \<Rightarrow>
               dget rules (instrument_rules_key configured symbol exchange market_type)))"

text \<open>The rules argument of the broker: absent, a snapshot, or a plain mapping.\<close>

datatype rules_source =
    NoRules
  | RulesSnapshot "(string, instrument_rules) dict"
  | RulesMapping "(string, instrument_rules) dict"

section \<open>State\<close>

record position =
  ps_symbol :: string
  ps_amount :: pyfloat
  ps_avg_cost :: pyfloat
  ps_last_price :: pyfloat
  ps_position_side :: string

definition market_value :: "position \<Rightarrow> pyfloat" where
  "market_value p = fmul (ps_amount p) (ps_last_price p)"

record protection_event =
  pe_symbol :: string
  pe_side :: string
  pe_reason :: string
  pe_trigger_price :: pyfloat
  pe_fill_reference_price :: pyfloat
  pe_time :: string

record rebalance_record =
  rb_time :: string
  rb_record_type :: string
  rb_reasons :: "string list"
  rb_target_weights :: "(string, pyfloat) dict"
  rb_actual_weights :: "(string, pyfloat) dict"
  rb_cash_before :: pyfloat
  rb_cash_after :: pyfloat
  rb_equity_before :: pyfloat
  rb_equity_after :: pyfloat
  rb_turnover :: pyfloat
  rb_order_count :: nat
  rb_counts :: "(string, nat) dict"

record liquidation_event =
  le_time :: string
  le_equity_before :: pyfloat
  le_deficit_absorbed :: pyfloat
  le_positions_closed :: nat

record equity_point =
  eq_time :: string
  eq_value :: pyfloat
  eq_cash :: pyfloat
  eq_gross_exposure :: pyfloat
  eq_net_exposure :: pyfloat

record holding =
  ho_quantity :: pyfloat
  ho_average_cost :: pyfloat
  ho_last_price :: pyfloat
  ho_market_value :: pyfloat
  ho_weight :: pyfloat

record broker =
  br_starting_cash :: pyfloat
  br_cash :: pyfloat
  br_positions :: "(string, position) dict"
  br_total_value :: pyfloat
  br_leverage :: pyfloat
  br_commission :: pyfloat
  br_slippage :: pyfloat
  br_rules :: rules_source
  br_executions :: "execution list"
  br_book :: trade_book
  br_protections :: "(string, protection_state) dict"
  br_protection_events :: "protection_event list"
  br_ledger :: ledger
  br_rebalances :: "rebalance_record list"
  br_holdings :: "(equity_point \<times> (string, holding) dict) list"
  br_equity_curve :: "equity_point list"
  br_sequence :: int
  br_bankrupt :: bool
  br_liquidations :: "liquidation_event list"
  br_liquidation_adjustment :: pyfloat

record sim_env =
  se_bar :: "string \<Rightarrow> timestamp \<Rightarrow> bar option result"
  se_current :: "string \<Rightarrow> pyfloat \<Rightarrow> pyfloat result"
  se_time_iso :: "timestamp \<Rightarrow> string"
  se_ts_iso :: "timestamp \<Rightarrow> string"
  se_elapsed :: "timestamp \<Rightarrow> timestamp \<Rightarrow> pyfloat"
  se_default_exchange :: string

definition broker_init :: "pyfloat \<Rightarrow> pyfloat \<Rightarrow> pyfloat \<Rightarrow> pyfloat \<Rightarrow> rules_source \<Rightarrow> broker" where
  "broker_init initial_capital leverage commission slippage rules =
     \<lparr>br_starting_cash = initial_capital, br_cash = initial_capital, br_positions = [], br_total_value = initial_capital,
      br_leverage = pymax (Fin 1) (f_or leverage (Fin 1)), br_commission = pymax (Fin 0) (f_or commission (Fin 0)),
      br_slippage = pymax (Fin 0) (f_or slippage (Fin 0)), br_rules = rules, br_executions = [],
      br_book = \<lparr>tb_entries = [], tb_grid = [], tb_closed = []\<rparr>, br_protections = [], br_protection_events = [],
      br_ledger = \<lparr>lg_events = [], lg_resting = []\<rparr>, br_rebalances = [], br_holdings = [], br_equity_curve = [],
      br_sequence = 0, br_bankrupt = False, br_liquidations = [], br_liquidation_adjustment = Fin 0\<rparr>"

definition rules_for :: "sim_env \<Rightarrow> broker \<Rightarrow> string \<Rightarrow> instrument_rules" where
  "rules_for env br symbol =
     (case (case br_rules br of
              NoRules \<Rightarrow> None
            | RulesSnapshot rules \<Rightarrow> snapshot_get (se_default_exchange env) rules symbol
            | RulesMapping rules \<Rightarrow> dget rules symbol) of
        None \<Rightarrow> default_rules_for_symbol symbol
      | Some r \<Rightarrow> r)"

section \<open>Valuation\<close>

definition close_price :: "sim_env \<Rightarrow> string \<Rightarrow> timestamp \<Rightarrow> pyfloat option result" where
  "close_price env symbol ts = bindE (se_bar env symbol ts) (\<lambda>b. Inr (positive_price b_close b))"

definition open_price_at :: "sim_env \<Rightarrow> string \<Rightarrow> timestamp \<Rightarrow> pyfloat option result" where
  "open_price_at env symbol ts = bindE (se_bar env symbol ts) (\<lambda>b. Inr (positive_price b_open b))"

definition revalue :: "position \<Rightarrow> pyfloat \<Rightarrow> position" where
  "revalue p price = p\<lparr>ps_last_price := f_or price (f_or (ps_last_price p) (ps_avg_cost p))\<rparr>"

definition mark_position :: "sim_env \<Rightarrow> timestamp \<Rightarrow> position \<Rightarrow> position result" where
  "mark_position env ts p =
     bindE (close_price env (ps_symbol p) ts) (\<lambda>close.
       case close of
         Some price \<Rightarrow> Inr (revalue p price)
       | None \<Rightarrow> bindE (se_current env (ps_symbol p) (ps_last_price p)) (\<lambda>price. Inr (revalue p price)))"

definition usable_price :: "pyfloat option \<Rightarrow> bool" where
  "usable_price p = (case p of None \<Rightarrow> False | Some x \<Rightarrow> isfinite x \<and> flt (Fin 0) x)"

definition mark_position_before_fill ::
  "sim_env \<Rightarrow> timestamp \<Rightarrow> (string, pyfloat) dict \<Rightarrow> string \<Rightarrow> position \<Rightarrow> position result" where
  "mark_position_before_fill env ts overrides key p =
     (let raw = (case dget overrides key of None \<Rightarrow> dget overrides (ps_symbol p) | Some x \<Rightarrow> Some x) in
      bindE (if usable_price raw then Inr raw else open_price_at env (ps_symbol p) ts) (\<lambda>price.
      bindE (if usable_price price then Inr (the price) else se_current env (ps_symbol p) (ps_last_price p)) (\<lambda>x.
        Inr (revalue p x))))"

definition mark_all :: "(string \<Rightarrow> position \<Rightarrow> position result) \<Rightarrow> broker \<Rightarrow> (pyfloat \<times> broker) result" where
  "mark_all mark br =
     bindE (mapE (\<lambda>(k, p). bindE (mark k p) (\<lambda>p'. Inr (k, p'))) (br_positions br)) (\<lambda>ps.
       let total = foldl (\<lambda>t (k, p). fadd t (market_value p)) (br_cash br) ps
       in Inr (total, br\<lparr>br_positions := ps, br_total_value := total\<rparr>))"

definition mark_to_market :: "sim_env \<Rightarrow> timestamp \<Rightarrow> broker \<Rightarrow> (pyfloat \<times> broker) result" where
  "mark_to_market env ts br = mark_all (\<lambda>k. mark_position env ts) br"

definition mark_to_market_before_fill ::
  "sim_env \<Rightarrow> timestamp \<Rightarrow> (string, pyfloat) dict \<Rightarrow> broker \<Rightarrow> (pyfloat \<times> broker) result" where
  "mark_to_market_before_fill env ts overrides br = mark_all (mark_position_before_fill env ts overrides) br"

definition ratio_or_zero :: "pyfloat \<Rightarrow> pyfloat \<Rightarrow> pyfloat" where
  "ratio_or_zero a b = (if ftruthy b then fquot a b else Fin 0)"

definition record_equity :: "sim_env \<Rightarrow> timestamp \<Rightarrow> broker \<Rightarrow> broker result" where
  "record_equity env ts br0 =
     bindE (mark_to_market env ts br0) (\<lambda>(value, br).
       let gross = fsum (map (\<lambda>p. fabs (market_value p)) (dvals (br_positions br)));
           net = fsum (map market_value (dvals (br_positions br)));
           snapshot = \<lparr>eq_time = se_time_iso env ts, eq_value = fround_to 8 value, eq_cash = fround_to 8 (br_cash br),
                       eq_gross_exposure = ratio_or_zero gross value, eq_net_exposure = ratio_or_zero net value\<rparr>
       in Inr (br\<lparr>br_equity_curve := br_equity_curve br @ [snapshot],
                  br_holdings := br_holdings br @
                    [(snapshot, map (\<lambda>(k, p). (k, \<lparr>ho_quantity = ps_amount p, ho_average_cost = ps_avg_cost p,
                        ho_last_price = ps_last_price p, ho_market_value = market_value p,
                        ho_weight = ratio_or_zero (market_value p) value\<rparr>)) (br_positions br))]\<rparr>))"

section \<open>Quantities\<close>

text \<open>A price the source leaves \<open>None\<close> fails at its first arithmetic use.\<close>

definition with_price :: "pyfloat option \<Rightarrow> (pyfloat \<Rightarrow> 'a result) \<Rightarrow> 'a result" where
  "with_price p f = (case p of None \<Rightarrow> Inl TypeError | Some x \<Rightarrow> f x)"

definition target_quantity ::
  "broker \<Rightarrow> order_intent \<Rightarrow> position \<Rightarrow> pyfloat option \<Rightarrow> pyfloat \<Rightarrow> pyfloat result" where
  "target_quantity br o0 current price equity =
     (if oi_kind o0 = ''quantity'' then Inr (fadd (ps_amount current) (oi_value o0))
      else if oi_kind o0 = ''value'' then
        with_price price (\<lambda>p. bindE (fdiv (fmul (oi_value o0) (br_leverage br)) p) (\<lambda>q. Inr (fadd (ps_amount current) q)))
      else if oi_kind o0 = ''target_quantity'' then Inr (oi_value o0)
      else if oi_kind o0 = ''target_value'' then with_price price (\<lambda>p. fdiv (fmul (oi_value o0) (br_leverage br)) p)
      else if oi_kind o0 = ''target_percent'' then
        let tv = fmul (fmul equity (oi_value o0)) (br_leverage br) in
        bindE (if flt (Fin 0) tv
               then fdiv tv (fmul (fadd (Fin 1) (br_slippage br)) (fadd (Fin 1) (br_commission br))) else Inr tv) (\<lambda>v.
          with_price price (\<lambda>p. fdiv v p))
      else Inl (ContractError (''strategyV2.orderKindUnsupported:'' @ oi_kind o0)))"

definition gross_value :: "broker \<Rightarrow> string \<Rightarrow> pyfloat" where
  "gross_value br exclude =
     fsum (map (\<lambda>(k, p). fabs (market_value p)) (filter (\<lambda>(k, p). k \<noteq> exclude) (br_positions br)))"

definition lot_size :: "string \<Rightarrow> instrument_rules \<Rightarrow> pyfloat" where
  "lot_size symbol rules =
     (let explicit = f_or (ir_amount_step rules) (Fin 0)
      in if flt (Fin 0) explicit then explicit
         else if startswith symbol ''Crypto:'' then fl (1 / 100000000) else Fin 1)"

definition is_pure_reduction :: "pyfloat \<Rightarrow> pyfloat \<Rightarrow> bool" where
  "is_pure_reduction amount delta \<longleftrightarrow>
     flt (fmul amount delta) (Fin 0) \<and> fle (fabs delta) (fadd (fabs amount) dust)"

definition is_crypto_swap_symbol :: "string \<Rightarrow> bool" where
  "is_crypto_swap_symbol symbol =
     (let text = lower (strip symbol) in
      if \<not> startswith text ''crypto:'' \<or> CHR ''@'' \<notin> set text then False
      else let binding = snd (rsplit_once (CHR ''@'') text) in binding = ''swap'' \<or> endswith binding '':swap'')"

definition is_crypto_usd_symbol :: "string \<Rightarrow> bool" where
  "is_crypto_usd_symbol symbol =
     (startswith (lower symbol) ''crypto:'' \<and>
      (let body = upper (takeWhile (\<lambda>c. c \<noteq> CHR ''@'') symbol)
       in endswith body ''/USDT'' \<or> endswith body ''/USDC'' \<or> endswith body ''/USD''))"

definition lot_units :: "pyfloat \<Rightarrow> int result" where
  "lot_units ratio =
     bindE (fround ratio) (\<lambda>nearest.
     bindE (float_of_int nearest) (\<lambda>n.
       if fle (fabs (fsub ratio n)) (pymax dust (fmul (Fin 4) (fulp ratio))) then Inr nearest
       else ffloor ratio))"

definition round_to_lot :: "pyfloat \<Rightarrow> pyfloat \<Rightarrow> pyfloat result" where
  "round_to_lot value lot =
     (if fle lot (Fin 0) then Inr value
      else bindE (fdiv (fabs value) lot) (\<lambda>ratio.
           bindE (lot_units ratio) (\<lambda>units.
             if units \<noteq> 0 then bindE (float_of_int units) (\<lambda>u. Inr (fcopysign (fmul u lot) value)) else Inr (Fin 0))))"

definition liquidity_cap :: "bar option \<Rightarrow> pyfloat \<Rightarrow> pyfloat option result" where
  "liquidity_cap b lot =
     (let volume = (case b of None \<Rightarrow> Fin 0 | Some x \<Rightarrow> f_or (b_volume x) (Fin 0)) in
      if fle volume (Fin 0) then Inr None
      else bindE (fdiv (fmul volume (fl (1 / 10))) lot) (\<lambda>q.
           bindE (ffloor (fadd q (fl (1 / 10000000000)))) (\<lambda>units.
             if units \<noteq> 0 then bindE (float_of_int units) (\<lambda>u. Inr (Some (fmul u lot))) else Inr (Some (Fin 0)))))"

definition direction :: "pyfloat \<Rightarrow> int" where
  "direction d = (if flt (Fin 0) d then 1 else if flt d (Fin 0) then - 1 else 0)"

text \<open>The two caps of \<open>_feasible_delta\<close>, before rounding: borrowing power, then gross exposure.\<close>

definition cash_capped :: "broker \<Rightarrow> pyfloat \<Rightarrow> pyfloat \<Rightarrow> pyfloat \<Rightarrow> (pyfloat \<times> string) result" where
  "cash_capped br delta fill_price equity =
     (if flt (Fin 0) delta then
        let borrowing_floor = fmul (fneg equity) (fsub (br_leverage br) (Fin 1));
            spendable = pymax (Fin 0) (fsub (br_cash br) borrowing_floor)
        in bindE (fdiv spendable (pymax (fmul fill_price (fadd (Fin 1) (br_commission br))) dust)) (\<lambda>cash_cap.
             Inr (if flt cash_cap delta then (cash_cap, ''insufficient_cash'') else (delta, [])))
      else Inr (delta, []))"

definition exposure_capped ::
  "broker \<Rightarrow> pyfloat \<Rightarrow> pyfloat \<Rightarrow> pyfloat \<Rightarrow> string \<Rightarrow> pyfloat \<times> string \<Rightarrow> (pyfloat \<times> string) result" where
  "exposure_capped br amount fill_price equity key feasible_reason =
     (case feasible_reason of (feasible, reason) \<Rightarrow>
        let gross_limit = pymax (Fin 0) (fsub (fmul equity (br_leverage br)) (gross_value br key)) in
        bindE (fdiv gross_limit (pymax fill_price dust)) (\<lambda>max_target_abs.
          let desired = fadd amount feasible in
          Inr (if flt (fadd max_target_abs dust) (fabs desired)
               then (fsub (fcopysign max_target_abs desired) amount, ''position_limit'')
               else (feasible, reason))))"

definition feasible_delta ::
  "broker \<Rightarrow> pyfloat \<Rightarrow> position \<Rightarrow> pyfloat \<Rightarrow> pyfloat \<Rightarrow> pyfloat \<Rightarrow> string \<Rightarrow> (pyfloat \<times> string) result" where
  "feasible_delta br delta current fill_price equity lot key =
     bindE (cash_capped br delta fill_price equity) (\<lambda>capped.
     bindE (exposure_capped br (ps_amount current) fill_price equity key capped) (\<lambda>(feasible, reason).
       if direction delta \<noteq> 0 \<and> direction feasible \<notin> {0, direction delta}
       then Inr (Fin 0, str_default reason ''position_limit'')
       else bindE (round_to_lot feasible lot) (\<lambda>rounded. Inr (rounded, reason))))"

definition next_average_cost :: "pyfloat \<Rightarrow> pyfloat \<Rightarrow> pyfloat \<Rightarrow> pyfloat \<Rightarrow> pyfloat result" where
  "next_average_cost old_amount old_cost delta fill_price =
     (let new_amount = fadd old_amount delta in
      if fle (fabs new_amount) dust then Inr (Fin 0)
      else if feq old_amount (Fin 0) \<or> flt (Fin 0) (fmul old_amount delta)
        then fdiv (fadd (fmul old_amount old_cost) (fmul delta fill_price)) new_amount
      else if flt (fmul old_amount new_amount) (Fin 0) then Inr fill_price
      else Inr old_cost)"

definition execution_identity :: "pyfloat \<Rightarrow> pyfloat \<Rightarrow> pyfloat \<Rightarrow> string \<times> string" where
  "execution_identity old_amount target_amount delta =
     (if fle (Fin 0) old_amount \<and> fle (Fin 0) target_amount then
        (if flt (Fin 0) delta then (if fle (fabs old_amount) dust then ''open_long'' else ''add_long'')
         else (if fle (fabs target_amount) dust then ''close_long'' else ''reduce_long''), ''long'')
      else if fle old_amount (Fin 0) \<and> fle target_amount (Fin 0) then
        (if flt delta (Fin 0) then (if fle (fabs old_amount) dust then ''open_short'' else ''add_short'')
         else (if fle (fabs target_amount) dust then ''close_short'' else ''reduce_short''), ''short'')
      else (if flt (Fin 0) target_amount then (''reverse_to_long'', ''long'') else (''reverse_to_short'', ''short'')))"

section \<open>Execution\<close>

definition flag_truthy :: "bar \<Rightarrow> string \<Rightarrow> bool" where
  "flag_truthy b name =
     (case dget_or (b_flags b) name PNone of
        PStr s \<Rightarrow> lower (strip s) \<in> {''1'', ''true'', ''yes'', ''y''}
      | PFloat NaN \<Rightarrow> False
      | v \<Rightarrow> truthy v)"

definition current_position :: "broker \<Rightarrow> order_intent \<Rightarrow> position" where
  "current_position br o0 =
     dget_or (br_positions br) (position_key (oi_symbol o0) (oi_position_side o0))
       \<lparr>ps_symbol = oi_symbol o0, ps_amount = Fin 0, ps_avg_cost = Fin 0, ps_last_price = Fin 0,
        ps_position_side = normalize_position_side (oi_position_side o0)\<rparr>"

definition execution_block_reason ::
  "broker \<Rightarrow> order_intent \<Rightarrow> bar option \<Rightarrow> pyfloat option \<Rightarrow> string result" where
  "execution_block_reason br o0 b open_price =
     (case b of
        None \<Rightarrow> Inr ''no_price''
      | Some x \<Rightarrow>
          if \<not> usable_price open_price then Inr ''no_price''
          else if flag_truthy x ''suspended'' \<or> flag_truthy x ''is_suspended'' then Inr ''suspended''
          else
            let current = current_position br o0 in
            bindE (target_quantity br o0 current open_price (pymax (br_total_value br) (Fin 0))) (\<lambda>target.
              let delta = fsub target (ps_amount current) in
              Inr (if flt (Fin 0) delta \<and> (flag_truthy x ''limit_up'' \<or> flag_truthy x ''is_limit_up'') then ''limit_up''
                   else if flt delta (Fin 0) \<and> (flag_truthy x ''limit_down'' \<or> flag_truthy x ''is_limit_down'') then ''limit_down''
                   else [])))"

text \<open>What one pass over the batch accumulates.\<close>

record batch =
  bt_broker :: broker
  bt_deferred :: "order_intent list"
  bt_weights :: "(string, pyfloat) dict"
  bt_indexes :: "nat list"
  bt_overrides :: "(string, pyfloat) dict"

definition log_event :: "order_event \<Rightarrow> bool \<Rightarrow> batch \<Rightarrow> batch" where
  "log_event e coalesce bt =
     (case append_order_event e coalesce (br_ledger (bt_broker bt)) of (i, lg) \<Rightarrow>
        bt\<lparr>bt_broker := (bt_broker bt)\<lparr>br_ledger := lg\<rparr>, bt_indexes := bt_indexes bt @ [i]\<rparr>)"

text \<open>An order under execution: the order, its identifier and what the market shows.\<close>

record job =
  jb_order :: order_intent
  jb_order_id :: string
  jb_key :: string
  jb_forced :: bool
  jb_bar :: "bar option"
  jb_open :: "pyfloat option"

definition note_event ::
  "sim_env \<Rightarrow> timestamp \<Rightarrow> job \<Rightarrow> string \<Rightarrow> string \<Rightarrow> pyfloat \<Rightarrow> pyfloat \<Rightarrow> bool \<Rightarrow> batch \<Rightarrow> batch" where
  "note_event env ts jb status reason requested price coalesce =
     log_event (mk_order_event (se_time_iso env) (jb_order_id jb) (jb_order jb) ts status reason requested (Fin 0) price (Fin 0)) coalesce"

definition is_limit_order :: "order_intent \<Rightarrow> bool" where
  "is_limit_order o0 \<longleftrightarrow> oi_order_type o0 = ''limit'' \<or> oi_execution_algo o0 = ''limit''"

subsection \<open>Sizing\<close>

record sizing =
  sz_current :: position
  sz_price :: "pyfloat option"
  sz_target :: pyfloat
  sz_delta :: pyfloat
  sz_closes :: bool
  sz_reconciles :: bool

definition size_order :: "broker \<Rightarrow> job \<Rightarrow> pyfloat \<Rightarrow> (sizing \<times> pyfloat) result" where
  "size_order br jb equity =
     (let o0 = jb_order jb;
          current = current_position br o0;
          price = (if is_limit_order o0 \<and> flt (Fin 0) (oi_limit_price o0) then Some (oi_limit_price o0) else jb_open jb)
      in bindE (target_quantity br o0 current price equity) (\<lambda>target.
         bindE (if ftruthy equity then with_price price (\<lambda>p. fdiv (fmul target p) equity) else Inr (Fin 0)) (\<lambda>weight.
           let closes = (oi_kind o0 \<in> {''target_quantity'', ''target_value'', ''target_percent''} \<and>
                         fle (fabs target) dust \<and> flt dust (fabs (ps_amount current)))
           in Inr (\<lparr>sz_current = current, sz_price = price, sz_target = target,
                    sz_delta = fsub target (ps_amount current), sz_closes = closes,
                    sz_reconciles = closes \<and> (is_crypto_swap_symbol (oi_symbol o0) \<or> is_crypto_usd_symbol (oi_symbol o0))\<rparr>,
                   weight))))"

text \<open>The three reasons an order needs no trade.\<close>

definition already_met :: "job \<Rightarrow> sizing \<Rightarrow> bool result" where
  "already_met jb sz =
     (let o0 = jb_order jb; delta = sz_delta sz in
      if oi_pending_direction o0 \<noteq> 0 \<and> direction delta \<noteq> oi_pending_direction o0 then Inr True
      else
        bindE (if is_crypto_usd_symbol (oi_symbol o0) \<and> startswith (oi_kind o0) ''target_'' \<and>
                  flt (Fin 0) (fmul (ps_amount (sz_current sz)) (sz_target sz))
               then with_price (sz_price sz) (\<lambda>p. Inr (fle (fabs (fmul delta p)) (fadd (Fin 10) (fl (1 / 1000000000)))))
               else Inr False) (\<lambda>within_tolerance.
          if within_tolerance then Inr True
          else if fle (fabs delta) dust then Inr True
          else with_price (sz_price sz) (\<lambda>p. Inr (flt (fabs (fmul delta p)) (fl (1 / 100)) \<and> \<not> sz_closes sz))))"

subsection \<open>Price\<close>

datatype fill_choice = LimitMissing | LimitRests pyfloat | FillAt pyfloat string

definition match_limit :: "pyfloat \<Rightarrow> pyfloat \<Rightarrow> bar option \<Rightarrow> pyfloat \<Rightarrow> fill_choice" where
  "match_limit limit_price delta b open_price =
     (let high = (case b of None \<Rightarrow> open_price | Some x \<Rightarrow> f_or (b_high x) open_price);
          low = (case b of None \<Rightarrow> open_price | Some x \<Rightarrow> f_or (b_low x) open_price)
      in if fle limit_price (Fin 0) then LimitMissing
         else if flt (Fin 0) delta \<and> fle open_price limit_price then FillAt open_price ''gap_open''
         else if flt (Fin 0) delta \<and> fle low limit_price then FillAt limit_price ''limit''
         else if flt delta (Fin 0) \<and> fle limit_price open_price then FillAt open_price ''gap_open''
         else if flt delta (Fin 0) \<and> fle limit_price high then FillAt limit_price ''limit''
         else LimitRests limit_price)"

definition market_fill :: "pyfloat \<Rightarrow> pyfloat \<Rightarrow> pyfloat \<Rightarrow> fill_choice" where
  "market_fill slippage delta open_price =
     FillAt (fmul open_price (if flt (Fin 0) delta then fadd (Fin 1) slippage else fsub (Fin 1) slippage)) ''bar_open''"

definition choose_fill :: "broker \<Rightarrow> job \<Rightarrow> pyfloat \<Rightarrow> fill_choice result" where
  "choose_fill br jb delta =
     with_price (jb_open jb) (\<lambda>open_price.
       Inr (if is_limit_order (jb_order jb)
            then match_limit (f_or (oi_limit_price (jb_order jb)) (Fin 0)) delta (jb_bar jb) open_price
            else market_fill (br_slippage br) delta open_price))"

subsection \<open>Quantity\<close>

record plan =
  pl_delta :: pyfloat
  pl_exact :: bool
  pl_cap :: "pyfloat option"
  pl_reason :: string

definition ten :: pyfloat where
  "ten = Fin 10"

text \<open>A closing order of a crypto position takes a sub-lot remainder along: exactly, when rounding
  leaves less than a lot, or after the liquidity cap, when less than a lot would be left over.\<close>

definition reconcile_delta :: "sizing \<Rightarrow> pyfloat \<Rightarrow> pyfloat \<Rightarrow> pyfloat \<Rightarrow> pyfloat \<times> bool" where
  "reconcile_delta sz fill_price lot rounded =
     (let amount = ps_amount (sz_current sz) in
      if sz_reconciles sz \<and> flt (fabs rounded) (fsub lot dust) \<and> fle (fabs (fmul amount fill_price)) ten
      then (fneg amount, True) else (rounded, False))"

definition cap_delta :: "pyfloat option \<Rightarrow> pyfloat \<times> bool \<Rightarrow> pyfloat \<times> bool" where
  "cap_delta cap de =
     (case cap of
        None \<Rightarrow> de
      | Some c \<Rightarrow> if flt c (fabs (fst de)) then (fcopysign c (fst de), False) else de)"

definition takes_residual :: "sizing \<Rightarrow> pyfloat \<Rightarrow> pyfloat \<Rightarrow> pyfloat option \<Rightarrow> pyfloat \<Rightarrow> bool" where
  "takes_residual sz fill_price lot cap delta =
     (let amount = ps_amount (sz_current sz); residual = fadd amount delta in
      sz_reconciles sz \<and> flt (fmul amount delta) (Fin 0) \<and>
      flt (Fin 0) (fabs residual) \<and> flt (fabs residual) (fsub lot dust) \<and>
      fle (fabs (fmul residual fill_price)) ten \<and>
      (case cap of None \<Rightarrow> True | Some c \<Rightarrow> fle (fabs amount) c))"

text \<open>Lot rounding, reconciliation and the liquidity cap; \<open>Inl\<close> is a rejection reason.\<close>

definition lot_plan :: "job \<Rightarrow> sizing \<Rightarrow> pyfloat \<Rightarrow> pyfloat \<Rightarrow> (string + plan) result" where
  "lot_plan jb sz fill_price lot =
     bindE (round_to_lot (sz_delta sz) lot) (\<lambda>rounded.
       let de = reconcile_delta sz fill_price lot rounded in
       if flt (fabs (fst de)) (fsub lot dust) \<and> \<not> snd de then Inr (Inl ''minimum_trade_unit'')
       else
         bindE (if jb_forced jb then Inr None else liquidity_cap (jb_bar jb) lot) (\<lambda>cap.
           let ce = cap_delta cap de in
           Inr (Inr (if takes_residual sz fill_price lot cap (fst ce)
                     then \<lparr>pl_delta = fneg (ps_amount (sz_current sz)), pl_exact = True, pl_cap = cap, pl_reason = []\<rparr>
                     else \<lparr>pl_delta = fst ce, pl_exact = snd ce, pl_cap = cap, pl_reason = []\<rparr>))))"

definition feasible_plan ::
  "broker \<Rightarrow> job \<Rightarrow> sizing \<Rightarrow> pyfloat \<Rightarrow> pyfloat \<Rightarrow> pyfloat \<Rightarrow> plan \<Rightarrow> (string + plan) result" where
  "feasible_plan br jb sz fill_price equity lot pl =
     bindE (if jb_forced jb \<or> pl_exact pl then Inr (pl_delta pl, [])
            else feasible_delta br (pl_delta pl) (sz_current sz) fill_price equity lot (jb_key jb)) (\<lambda>(feasible, reason).
       Inr (if flt (fabs feasible) (fsub lot dust) \<and> \<not> pl_exact pl then Inl (str_default reason ''position_limit'')
            else Inr (pl\<lparr>pl_delta := feasible, pl_reason := reason\<rparr>)))"

definition minimum_check :: "job \<Rightarrow> sizing \<Rightarrow> instrument_rules \<Rightarrow> pyfloat \<Rightarrow> plan \<Rightarrow> string + plan" where
  "minimum_check jb sz rules fill_price pl =
     (let delta = pl_delta pl;
          min_amount = pymax (Fin 0) (f_or (ir_min_amount rules) (Fin 0));
          min_notional = pymax (Fin 0) (f_or (ir_min_notional rules) (Fin 0));
          exempt = (jb_forced jb \<or> pl_exact pl \<or>
                    (is_pure_reduction (ps_amount (sz_current sz)) delta \<and> is_crypto_swap_symbol (oi_symbol (jb_order jb))))
      in if flt (Fin 0) min_amount \<and> flt (fadd (fabs delta) dust) min_amount \<and> \<not> exempt then Inl ''minimum_trade_unit''
         else if flt (Fin 0) min_notional \<and> flt (Fin 0) fill_price \<and> \<not> exempt \<and> flt (fabs (fmul delta fill_price)) min_notional
              then Inl ''min_notional''
         else Inr pl)"

definition plan_quantity ::
  "sim_env \<Rightarrow> broker \<Rightarrow> job \<Rightarrow> sizing \<Rightarrow> pyfloat \<Rightarrow> pyfloat \<Rightarrow> (string + plan) result" where
  "plan_quantity env br jb sz fill_price equity =
     (let rules = rules_for env br (oi_symbol (jb_order jb)); lot = lot_size (oi_symbol (jb_order jb)) rules in
      bindE (lot_plan jb sz fill_price lot) (\<lambda>r1.
        case r1 of
          Inl reason \<Rightarrow> Inr (Inl reason)
        | Inr pl \<Rightarrow>
            bindE (feasible_plan br jb sz fill_price equity lot pl) (\<lambda>r2.
              case r2 of
                Inl reason \<Rightarrow> Inr (Inl reason)
              | Inr pl' \<Rightarrow> Inr (minimum_check jb sz rules fill_price pl'))))"

subsection \<open>The fill\<close>

definition fill_status :: "pyfloat \<Rightarrow> pyfloat \<Rightarrow> pyfloat \<Rightarrow> pyfloat \<Rightarrow> string" where
  "fill_status requested delta lot fill_price =
     (let remaining = pymax (Fin 0) (fsub (fabs requested) (fabs delta)) in
      if fle lot (fadd remaining dust) \<and> fle (fl (1 / 100)) (fadd (fmul remaining fill_price) dust)
      then ''partial'' else ''filled'')"

definition protect_fill ::
  "order_intent \<Rightarrow> string \<Rightarrow> position \<Rightarrow> pyfloat \<Rightarrow> timestamp \<Rightarrow> (string, protection_state) dict \<Rightarrow> (string, protection_state) dict" where
  "protect_fill o0 key p fill_price ts prots =
     (let new_side = amount_side (ps_amount p);
          existing = dget prots key;
          side_changed = (case existing of None \<Rightarrow> False | Some st \<Rightarrow> pst_side st \<noteq> new_side);
          spec = (case oi_protection o0 of Some sp \<Rightarrow> Some sp | None \<Rightarrow> map_option pst_spec existing)
      in if oi_protection o0 \<noteq> None \<or> side_changed then
           (case spec of
              None \<Rightarrow> prots
            | Some sp \<Rightarrow>
                (case existing of
                   Some st \<Rightarrow>
                     if \<not> side_changed then dset prots key (apply_scale_in (ps_avg_cost p) fill_price (Some sp) (Some ts) st)
                     else dset prots key (state_open (oi_symbol o0) new_side (ps_avg_cost p) sp ts)
                 | None \<Rightarrow> dset prots key (state_open (oi_symbol o0) new_side (ps_avg_cost p) sp ts)))
         else prots)"

text \<open>Cash, position and protection after buying or selling \<open>delta\<close>.\<close>

definition settle :: "job \<Rightarrow> position \<Rightarrow> pyfloat \<Rightarrow> pyfloat \<Rightarrow> timestamp \<Rightarrow> broker \<Rightarrow> broker result" where
  "settle jb current delta fill_price ts br =
     (let fee = fmul (fabs (fmul delta fill_price)) (br_commission br);
          cash = fsub (fsub (br_cash br) (fmul delta fill_price)) fee
      in bindE (next_average_cost (ps_amount current) (ps_avg_cost current) delta fill_price) (\<lambda>cost.
           let p = current\<lparr>ps_amount := fadd (ps_amount current) delta, ps_avg_cost := cost, ps_last_price := fill_price\<rparr>;
               flat = fle (fabs (ps_amount p)) dust;
               positions = (if flat then dpop (br_positions br) (jb_key jb) else dset (br_positions br) (jb_key jb) p);
               prots = (if flat then dpop (br_protections br) (jb_key jb)
                        else protect_fill (jb_order jb) (jb_key jb) p fill_price ts (br_protections br))
           in Inr (br\<lparr>br_cash := cash, br_positions := positions, br_protections := prots,
                      br_total_value := fadd cash (fsum (map market_value (dvals positions)))\<rparr>)))"

definition mk_execution ::
  "sim_env \<Rightarrow> timestamp \<Rightarrow> job \<Rightarrow> sizing \<Rightarrow> pyfloat \<Rightarrow> pyfloat \<Rightarrow> string \<Rightarrow> string \<Rightarrow> bool \<Rightarrow> broker \<Rightarrow> execution" where
  "mk_execution env ts jb sz delta fill_price reference status exact br =
     (let o0 = jb_order jb; old = ps_amount (sz_current sz); target = fadd old delta;
          notional = fabs (fmul delta fill_price)
      in \<lparr>ex_order_id = jb_order_id jb, ex_symbol = oi_symbol o0, ex_time = se_time_iso env ts,
          ex_side = (if flt (Fin 0) delta then ''buy'' else ''sell''),
          ex_type = fst (execution_identity old target delta),
          ex_position_side = str_default (normalize_position_side (oi_position_side o0)) (snd (execution_identity old target delta)),
          ex_position_key = jb_key jb, ex_quantity = fabs delta, ex_price = fill_price, ex_notional = notional,
          ex_commission = fmul notional (br_commission br), ex_balance = br_total_value br, ex_reason = oi_reason o0,
          ex_client_order_id = oi_client_order_id o0,
          ex_signal_time = se_time_iso env (case oi_signal_time o0 of None \<Rightarrow> ts | Some t \<Rightarrow> t),
          ex_fill_reference = reference, ex_reference_price = (case jb_open jb of None \<Rightarrow> Fin 0 | Some x \<Rightarrow> x),
          ex_order_type = (if is_limit_order o0 then ''limit'' else ''market''),
          ex_limit_price = (if is_limit_order o0 then f_or (oi_limit_price o0) (Fin 0) else Fin 0),
          ex_status = status, ex_requested_quantity = fabs (sz_delta sz), ex_sub_lot_reconciled = exact\<rparr>)"

definition fill_reason :: "job \<Rightarrow> sizing \<Rightarrow> plan \<Rightarrow> string \<Rightarrow> string" where
  "fill_reason jb sz pl status =
     (if status = ''partial'' then
        str_default (pl_reason pl)
          (if (case pl_cap pl of None \<Rightarrow> False | Some c \<Rightarrow> flt c (fabs (sz_delta sz)))
           then ''insufficient_liquidity'' else ''partial_fill'')
      else if jb_forced jb then ''margin_liquidation'' else ''filled'')"

text \<open>The part of a partial fill that is carried to a later bar.\<close>

definition carry_remainder :: "job \<Rightarrow> sizing \<Rightarrow> pyfloat \<Rightarrow> string \<Rightarrow> order_intent list result" where
  "carry_remainder jb sz delta status =
     (let o0 = jb_order jb; limit = is_limit_order o0; requested = sz_delta sz;
          remaining = pymax (Fin 0) (fsub (fabs requested) (fabs delta));
          carried = o0\<lparr>oi_attempts := (if limit then oi_attempts o0 else oi_attempts o0 + 1),
                       oi_pending_direction := (if flt (Fin 0) requested then 1 else - 1)\<rparr>
      in if status = ''partial'' \<and> (limit \<or> oi_attempts o0 < 4) then
           (if oi_kind o0 = ''quantity'' then Inr [carried\<lparr>oi_value := fcopysign remaining requested\<rparr>]
            else if oi_kind o0 = ''value'' then
              with_price (sz_price sz) (\<lambda>p. Inr [carried\<lparr>oi_value := fcopysign (fmul remaining p) requested\<rparr>])
            else Inr [carried])
         else Inr [])"

definition apply_fill ::
  "sim_env \<Rightarrow> timestamp \<Rightarrow> job \<Rightarrow> sizing \<Rightarrow> pyfloat \<Rightarrow> string \<Rightarrow> plan \<Rightarrow> batch \<Rightarrow> batch result" where
  "apply_fill env ts jb sz fill_price reference pl bt =
     (let delta = pl_delta pl; current = sz_current sz;
          lot = lot_size (oi_symbol (jb_order jb)) (rules_for env (bt_broker bt) (oi_symbol (jb_order jb)));
          status = fill_status (sz_delta sz) delta lot fill_price
      in bindE (settle jb current delta fill_price ts (bt_broker bt)) (\<lambda>br1.
         let ex = mk_execution env ts jb sz delta fill_price reference status (pl_exact pl) br1;
             bt1 = log_event (mk_order_event (se_time_iso env) (jb_order_id jb) (jb_order jb) ts status (fill_reason jb sz pl status)
                      (fabs (sz_delta sz)) (fabs delta) fill_price (ex_commission ex)) False
                    (bt\<lparr>bt_broker := br1\<lparr>br_executions := br_executions br1 @ [ex]\<rparr>,
                        bt_overrides := dset (bt_overrides bt) (jb_key jb) fill_price\<rparr>);
             br2 = bt_broker bt1
         in bindE (record_closed_trade ex (ps_amount current) (ps_avg_cost current) (fadd (ps_amount current) delta) (br_book br2)) (\<lambda>book.
            bindE (carry_remainder jb sz delta status) (\<lambda>rest.
              Inr (bt1\<lparr>bt_broker := br2\<lparr>br_book := book\<rparr>, bt_deferred := bt_deferred bt1 @ rest\<rparr>)))))"

subsection \<open>One order, one batch\<close>

definition make_job ::
  "sim_env \<Rightarrow> timestamp \<Rightarrow> (string, pyfloat) dict \<Rightarrow> int \<Rightarrow> order_intent \<Rightarrow> job result" where
  "make_job env ts overrides sequence o0 =
     (let key = position_key (oi_symbol o0) (oi_position_side o0);
          override = (case dget overrides key of None \<Rightarrow> dget overrides (oi_symbol o0) | Some x \<Rightarrow> Some x)
      in bindE (se_bar env (oi_symbol o0) ts) (\<lambda>b.
           Inr \<lparr>jb_order = o0, jb_order_id = se_ts_iso env ts @ '':'' @ show_int sequence, jb_key = key,
                jb_forced = (oi_reason o0 = ''margin_liquidation''), jb_bar = b,
                jb_open = (case override of Some x \<Rightarrow> Some x | None \<Rightarrow> map_option b_open b)\<rparr>))"

definition trade_order :: "sim_env \<Rightarrow> timestamp \<Rightarrow> pyfloat \<Rightarrow> job \<Rightarrow> sizing \<Rightarrow> batch \<Rightarrow> batch result" where
  "trade_order env ts equity jb sz bt =
     bindE (choose_fill (bt_broker bt) jb (sz_delta sz)) (\<lambda>choice.
       case choice of
         LimitMissing \<Rightarrow> Inr (note_event env ts jb ''rejected'' ''limit_price_required'' (fabs (sz_delta sz)) (Fin 0) False bt)
       | LimitRests limit_price \<Rightarrow>
           let bt1 = note_event env ts jb ''deferred'' ''limit_not_reached'' (fabs (sz_delta sz)) limit_price True bt
           in Inr (bt1\<lparr>bt_deferred := bt_deferred bt1 @ [jb_order jb]\<rparr>)
       | FillAt fill_price reference \<Rightarrow>
           bindE (plan_quantity env (bt_broker bt) jb sz fill_price equity) (\<lambda>planned.
             case planned of
               Inl reason \<Rightarrow> Inr (note_event env ts jb ''rejected'' reason (fabs (sz_delta sz)) (Fin 0) False bt)
             | Inr pl \<Rightarrow> apply_fill env ts jb sz fill_price reference pl bt))"

definition note_weight :: "job \<Rightarrow> sizing \<Rightarrow> pyfloat \<Rightarrow> batch \<Rightarrow> batch" where
  "note_weight jb sz weight bt =
     (if flt dust (fabs weight) \<or> flt dust (fabs (ps_amount (sz_current sz)))
      then bt\<lparr>bt_weights := dset (bt_weights bt) (jb_key jb) weight\<rparr> else bt)"

definition attempt_sized :: "sim_env \<Rightarrow> timestamp \<Rightarrow> pyfloat \<Rightarrow> job \<Rightarrow> sizing \<Rightarrow> batch \<Rightarrow> batch result" where
  "attempt_sized env ts equity jb sz bt =
     bindE (already_met jb sz) (\<lambda>met.
       if met then Inr (note_event env ts jb ''rejected'' ''target_already_met'' (Fin 0) (Fin 0) False bt)
       else trade_order env ts equity jb sz bt)"

definition note_blocked :: "sim_env \<Rightarrow> timestamp \<Rightarrow> job \<Rightarrow> string \<Rightarrow> batch \<Rightarrow> batch" where
  "note_blocked env ts jb blocked bt =
     (let o0 = jb_order jb in
      if 4 \<le> oi_attempts o0 then note_event env ts jb ''rejected'' blocked (Fin 0) (Fin 0) False bt
      else let bt1 = note_event env ts jb ''deferred'' blocked (Fin 0) (Fin 0) False bt
           in bt1\<lparr>bt_deferred := bt_deferred bt1 @ [o0\<lparr>oi_attempts := oi_attempts o0 + 1\<rparr>]\<rparr>)"

definition attempt_order :: "sim_env \<Rightarrow> timestamp \<Rightarrow> pyfloat \<Rightarrow> job \<Rightarrow> string \<Rightarrow> batch \<Rightarrow> batch result" where
  "attempt_order env ts equity jb blocked bt =
     (if blocked \<noteq> [] then Inr (note_blocked env ts jb blocked bt)
      else bindE (size_order (bt_broker bt) jb equity) (\<lambda>(sz, weight).
             attempt_sized env ts equity jb sz (note_weight jb sz weight bt)))"

definition numbered :: "batch \<Rightarrow> batch" where
  "numbered bt = bt\<lparr>bt_broker := (bt_broker bt)\<lparr>br_sequence := br_sequence (bt_broker bt) + 1\<rparr>\<rparr>"

definition block_reason :: "broker \<Rightarrow> job \<Rightarrow> string result" where
  "block_reason br jb =
     (if jb_forced jb then Inr [] else execution_block_reason br (jb_order jb) (jb_bar jb) (jb_open jb))"

definition execute_one ::
  "sim_env \<Rightarrow> timestamp \<Rightarrow> (string, pyfloat) dict \<Rightarrow> pyfloat \<Rightarrow> order_intent \<Rightarrow> batch \<Rightarrow> batch result" where
  "execute_one env ts overrides equity o0 bt0 =
     (let bt = numbered bt0 in
      bindE (make_job env ts overrides (br_sequence (bt_broker bt)) o0) (\<lambda>jb.
      bindE (block_reason (bt_broker bt) jb) (\<lambda>blocked. attempt_order env ts equity jb blocked bt)))"

definition PROTECTION_EXIT_REASONS :: "string list" where
  "PROTECTION_EXIT_REASONS = [''stop_loss'', ''take_profit'', ''trailing_stop'', ''time_limit'']"

definition rebalance_type :: "string list \<Rightarrow> string" where
  "rebalance_type reasons =
     (if reasons \<noteq> [] \<and> list_all (\<lambda>r. r \<in> set PROTECTION_EXIT_REASONS) reasons then ''protection''
      else if ''margin_liquidation'' \<in> set reasons then ''liquidation'' else ''rebalance'')"

definition record_rebalance ::
  "sim_env \<Rightarrow> timestamp \<Rightarrow> pyfloat \<Rightarrow> pyfloat \<Rightarrow> batch \<Rightarrow> broker result" where
  "record_rebalance env ts equity_before cash_before bt =
     bindE (mark_to_market_before_fill env ts (bt_overrides bt) (bt_broker bt)) (\<lambda>(equity_after, br).
       let events = map (\<lambda>i. lg_events (br_ledger br) ! i) (bt_indexes bt);
           reasons = sort (remdups (filter (\<lambda>r. r \<noteq> []) (map oe_reason events)));
           turnover = fsum (map (\<lambda>e. fmul (f_or (oe_filled_quantity e) (Fin 0)) (f_or (oe_price e) (Fin 0))) events)
       in Inr (br\<lparr>br_rebalances := br_rebalances br @
                 [\<lparr>rb_time = se_time_iso env ts, rb_record_type = rebalance_type reasons, rb_reasons = reasons,
                   rb_target_weights = bt_weights bt,
                   rb_actual_weights = map (\<lambda>(k, p). (k, ratio_or_zero (market_value p) equity_after)) (br_positions br),
                   rb_cash_before = cash_before, rb_cash_after = br_cash br,
                   rb_equity_before = equity_before, rb_equity_after = equity_after,
                   rb_turnover = ratio_or_zero turnover equity_before, rb_order_count = length events,
                   rb_counts = map (\<lambda>n. (n, length (filter (\<lambda>e. oe_status e = n) events)))
                                 [''filled'', ''partial'', ''deferred'', ''rejected'']\<rparr>]\<rparr>))"

definition execute ::
  "sim_env \<Rightarrow> timestamp \<Rightarrow> (string, pyfloat) dict \<Rightarrow> order_intent list \<Rightarrow> broker \<Rightarrow> (order_intent list \<times> broker) result" where
  "execute env ts overrides orders br0 =
     (if orders = [] then Inr ([], br0)
      else
        bindE (mark_to_market_before_fill env ts overrides br0) (\<lambda>(equity_before, br).
        bindE (foldE (execute_one env ts overrides equity_before) orders
                 \<lparr>bt_broker = br, bt_deferred = [], bt_weights = [], bt_indexes = [], bt_overrides = overrides\<rparr>) (\<lambda>bt.
        bindE (record_rebalance env ts equity_before (br_cash br) bt) (\<lambda>br'.
          Inr (bt_deferred bt, br')))))"

section \<open>Liquidation and protection\<close>

definition liquidation_price :: "sim_env \<Rightarrow> timestamp \<Rightarrow> position \<Rightarrow> pyfloat option result" where
  "liquidation_price env ts p =
     bindE (close_price env (ps_symbol p) ts) (\<lambda>close.
       let price = (if usable_price close then close else Some (f_or (ps_last_price p) (ps_avg_cost p)))
       in Inr (if usable_price price then price else None))"

definition liquidation_orders ::
  "sim_env \<Rightarrow> timestamp \<Rightarrow> position list \<Rightarrow> (order_intent list \<times> (string, pyfloat) dict) result" where
  "liquidation_orders env ts ps =
     foldE (\<lambda>p (orders, overrides).
        bindE (liquidation_price env ts p) (\<lambda>price.
          Inr (case price of
                 None \<Rightarrow> (orders, overrides)
               | Some x \<Rightarrow> (orders @ [market_intent (ps_symbol p) ''target_quantity'' (Fin 0) ''margin_liquidation'' (Some ts) (ps_position_side p)],
                            dset overrides (ps_symbol p) x)))) ps ([], [])"

definition liquidate_if_insolvent :: "sim_env \<Rightarrow> timestamp \<Rightarrow> broker \<Rightarrow> (bool \<times> broker) result" where
  "liquidate_if_insolvent env ts br0 =
     (if br_bankrupt br0 then Inr (True, br0)
      else
        bindE (mark_to_market env ts br0) (\<lambda>(equity_before, br).
          if flt (Fin 0) equity_before then Inr (False, br)
          else
            bindE (liquidation_orders env ts (dvals (br_positions br))) (\<lambda>(orders, overrides).
            bindE (execute env ts overrides orders br) (\<lambda>(deferred, br1).
              let deficit = pymax (Fin 0) (fneg (br_cash br1));
                  br2 = (if ftruthy deficit
                         then br1\<lparr>br_liquidation_adjustment := fadd (br_liquidation_adjustment br1) deficit,
                                  br_cash := fadd (br_cash br1) deficit\<rparr> else br1)
              in bindE (mark_to_market env ts br2) (\<lambda>(total, br3).
                   Inr (True, br3\<lparr>br_total_value := pymax (Fin 0) total, br_bankrupt := True,
                     br_liquidations := br_liquidations br3 @
                       [\<lparr>le_time = se_time_iso env ts, le_equity_before = equity_before, le_deficit_absorbed = deficit,
                         le_positions_closed = length orders\<rparr>]\<rparr>))))))"

type_synonym protection_hit = "string \<times> string \<times> string \<times> protection_decision"

definition scan_protection ::
  "sim_env \<Rightarrow> timestamp \<Rightarrow> string \<times> protection_state \<Rightarrow> broker \<times> protection_hit list \<Rightarrow> (broker \<times> protection_hit list) result" where
  "scan_protection env ts keyed acc =
     (case keyed of (key, st0) \<Rightarrow> case acc of (br, hits) \<Rightarrow>
        case dget (br_positions br) key of
          None \<Rightarrow>
            bindE (se_bar env (pst_symbol st0) ts) (\<lambda>_. Inr (br\<lparr>br_protections := dpop (br_protections br) key\<rparr>, hits))
        | Some p \<Rightarrow>
            bindE (se_bar env (ps_symbol p) ts) (\<lambda>b.
              case b of
                None \<Rightarrow> Inr (br, hits)
              | Some x \<Rightarrow>
                  (case evaluate_bar (se_elapsed env) ''conservative'' (st0\<lparr>pst_entry_price := ps_avg_cost p\<rparr>) ts
                          (b_open x) (b_high x) (b_low x) of (dec, st1) \<Rightarrow>
                     let br' = br\<lparr>br_protections := dset (br_protections br) key st1\<rparr> in
                     Inr (br', case dec of
                                 None \<Rightarrow> hits
                               | Some d \<Rightarrow> hits @ [(key, ps_symbol p, normalize_position_side (ps_position_side p), d)]))))"

definition confirm_protection ::
  "sim_env \<Rightarrow> execution list \<Rightarrow> order_event list \<Rightarrow> protection_hit \<Rightarrow> broker \<times> protection_decision list \<Rightarrow> broker \<times> protection_decision list" where
  "confirm_protection env executed attempted hit acc =
     (case hit of (key, symbol, side, d) \<Rightarrow> case acc of (br, decisions) \<Rightarrow>
        if \<exists>ex \<in> set executed. ex_position_key ex = key \<and> ex_reason ex = pd_reason d
        then (br\<lparr>br_protection_events := br_protection_events br @
                   [\<lparr>pe_symbol = symbol, pe_side = pd_side d, pe_reason = pd_reason d, pe_trigger_price = pd_trigger_price d,
                     pe_fill_reference_price = pd_price d, pe_time = se_time_iso env (pd_timestamp d)\<rparr>]\<rparr>, decisions @ [d])
        else if \<exists>e \<in> set attempted. oe_symbol e = symbol \<and> normalize_position_side (oe_position_side e) = side \<and>
                oe_reason e = pd_reason d \<and> oe_status_reason e = ''target_already_met''
        then (br\<lparr>br_protections := dpop (br_protections br) key\<rparr>, decisions)
        else (br, decisions))"

definition process_protections :: "sim_env \<Rightarrow> timestamp \<Rightarrow> broker \<Rightarrow> (protection_decision list \<times> broker) result" where
  "process_protections env ts br0 =
     bindE (foldE (scan_protection env ts) (br_protections br0) (br0, [])) (\<lambda>(br, hits).
       if hits = [] then Inr ([], br)
       else
         let orders = map (\<lambda>(key, symbol, side, d). market_intent symbol ''target_quantity'' (Fin 0) (pd_reason d) (Some ts) side) hits;
             overrides = foldl (\<lambda>m (key, symbol, side, d). dset m key (pd_price d)) [] hits;
             n_ex = length (br_executions br); n_lg = length (lg_events (br_ledger br))
         in bindE (execute env ts overrides orders br) (\<lambda>(deferred, br1).
              case fold (confirm_protection env (drop n_ex (br_executions br1)) (drop n_lg (lg_events (br_ledger br1)))) hits (br1, []) of
                (br2, decisions) \<Rightarrow> Inr (decisions, br2)))"

end
