(* ===== verification/BrokerProps.thy ===== *)
theory BrokerProps
  imports SimBroker
begin

text \<open>
  Properties of the simulation broker: the direction of every fill, limit prices, the accounting of
  every order of a batch, bounded retries, the invariant that ties positions, protections and trade
  entries together, forced liquidation, and the view of the data portal the broker runs on.
\<close>

section \<open>Directions\<close>

lemma direction_simps [simp]:
  "direction (Fin x) = (if 0 < x then 1 else if x < 0 then - 1 else 0)"
  "direction PInf = 1" "direction NInf = - 1" "direction NaN = 0"
  by (auto simp: direction_def)

lemma direction_range: "direction d \<in> {- 1, 0, 1}"
  by (auto simp: direction_def)

lemma direction_pos_iff: "direction d = 1 \<longleftrightarrow> flt (Fin 0) d"
  by (auto simp: direction_def)

lemma direction_neg_iff: "direction d = - 1 \<longleftrightarrow> flt d (Fin 0)"
  by (cases d) auto

lemma direction_fneg [simp]: "direction (fneg d) = - direction d"
  by (cases d) auto

lemma direction_fcopysign:
  assumes "flt (Fin 0) a" and "direction v \<noteq> 0"
  shows "direction (fcopysign a v) = direction v"
  using assms by (cases a; cases v) (auto simp: fcopysign_def split: if_splits)

lemma fcopysign_zero [simp]: "fcopysign (Fin 0) v = Fin 0"
  by (simp add: fcopysign_def)

lemma fl_dust: "fl dust_rat = Fin dust_rat"
  using fl_fl[of "1 / 1000000000000"] dust_Fin by (simp add: dust_def)

lemma rne_0 [simp]: "rne 0 = 0"
  using rne_of_int[of 0] by simp

lemma lot_units_nonneg:
  assumes "lot_units ratio = Inr n" and "fle (Fin 0) ratio"
  shows "0 \<le> n"
  using assms rne_ge_of_int[of 0]
  by (cases ratio) (auto simp: lot_units_def bindE_Inr_iff split: if_splits)

lemma float_of_int_pos: "float_of_int n = Inr u \<Longrightarrow> 1 \<le> n \<Longrightarrow> \<exists>x. u = Fin x \<and> 1 \<le> x"
  using fl_mono[of 1 "of_int n"] by (cases "fl (of_int n)") (auto simp: float_of_int_def)

lemma fmul_lot_pos:
  assumes "1 \<le> x" and "flt dust lot"
  shows "flt (Fin 0) (fmul (Fin x) lot)"
proof (cases lot)
  case (Fin l)
  then have "dust_rat < l" using assms(2) by (simp add: flt_dust_iff)
  then have "dust_rat \<le> x * l" using assms(1) dust_pos by (metis less_eq_rat_def mult_le_cancel_right1 order_less_trans order_trans verit_comp_simplify1(3))
  then have "fle (Fin dust_rat) (fl (x * l))" by (rule fl_ge_b64[OF fl_dust])
  then show ?thesis using Fin dust_pos by (cases "fl (x * l)") auto
qed (use assms in \<open>auto simp: inf_of_sign_def dust_Fin\<close>)

lemma round_to_lot_direction:
  assumes "round_to_lot v lot = Inr r" and "flt dust lot"
  shows "r = Fin 0 \<or> (direction r = direction v \<and> direction v \<noteq> 0)"
proof -
  have nl: "\<not> fle lot (Fin 0)" using assms(2) dust_pos by (cases lot) (auto simp: dust_Fin)
  then obtain ratio n where h: "fdiv (fabs v) lot = Inr ratio" "lot_units ratio = Inr n"
    "if n \<noteq> 0 then bindE (float_of_int n) (\<lambda>u. Inr (fcopysign (fmul u lot) v)) = Inr r else r = Fin 0"
    using assms(1) by (auto simp: round_to_lot_def bindE_Inr_iff split: if_splits)
  show ?thesis
  proof (cases "n = 0")
    case False
    then obtain u where u: "float_of_int n = Inr u" "r = fcopysign (fmul u lot) v"
      using h(3) by (auto simp: bindE_Inr_iff)
    have nv: "v \<noteq> NaN" using h(1,2) by (cases lot) (auto simp: fdiv_def lot_units_def split: if_splits)
    have "ratio = Fin 0" if "v = Fin 0"
      using h(1) that nl assms(2) by (cases lot) (auto simp: fdiv_def)
    then have vz: "v \<noteq> Fin 0" using h(2) False by (auto simp: lot_units_def bindE_Inr_iff float_of_int_def split: if_splits)
    have "fle (Fin 0) ratio"
      using h(1,2) nl nv assms(2)
      by (cases lot; cases v) (auto simp: fdiv_def lot_units_def intro!: fl_nonneg divide_nonneg_nonneg split: if_splits)
    then have "1 \<le> n" using lot_units_nonneg[OF h(2)] False by linarith
    then obtain x where "u = Fin x" "1 \<le> x" using float_of_int_pos[OF u(1)] by blast
    then have "flt (Fin 0) (fmul u lot)" using fmul_lot_pos[OF _ assms(2)] by simp
    moreover have "direction v \<noteq> 0" using nv vz by (cases v) (auto split: if_splits)
    ultimately show ?thesis using direction_fcopysign u(2) by blast
  qed (use h(3) in simp)
qed

section \<open>Planned quantities keep the direction\<close>

definition lot_ok :: "pyfloat \<Rightarrow> bool" where
  "lot_ok lot \<longleftrightarrow> flt (Fin 0) (fsub lot dust)"

lemma lot_ok_dust: "lot_ok lot \<Longrightarrow> flt dust lot"
  using fl_nonpos[of "l - dust_rat" for l] flt_asym
  by (cases lot) (auto simp: lot_ok_def dust_Fin fsub_def, meson not_less not_le diff_le_0_iff_le flt_asym)

lemma not_small_nonzero: "lot_ok lot \<Longrightarrow> \<not> flt (fabs r) (fsub lot dust) \<Longrightarrow> r \<noteq> Fin 0"
  by (auto simp: lot_ok_def)

lemma direction_fcopysign_range: "direction v \<noteq> 0 \<Longrightarrow> direction (fcopysign a v) \<in> {0, direction v}"
  by (cases a; cases v) (auto simp: fcopysign_def split: if_splits)

lemma feasible_delta_direction:
  assumes "feasible_delta br delta cur fp eqy lot key = Inr (f, reason)" and "lot_ok lot" and "direction delta \<noteq> 0"
  shows "f = Fin 0 \<or> direction f = direction delta"
proof -
  obtain g where "f = Fin 0 \<or> (direction g \<in> {0, direction delta} \<and> round_to_lot g lot = Inr f)"
    using assms(1,3) by (auto simp: feasible_delta_def bindE_Inr_iff split: if_splits)
  then show ?thesis using round_to_lot_direction[OF _ lot_ok_dust[OF assms(2)]] by force
qed

lemma fl_direction: "direction (fl x) \<noteq> 0 \<Longrightarrow> direction (fl x) = direction (Fin x)"
  using fl_nonneg[of x] fl_nonpos[of x]
  by (cases "0 < x"; cases "x < 0"; cases "fl x") (auto split: if_splits)

lemma direction_close:
  assumes "fle (fabs t) dust" and "flt dust (fabs a)" and "direction (fsub t a) \<noteq> 0"
  shows "direction (fneg a) = direction (fsub t a)"
proof -
  obtain x where t: "t = Fin x" "\<bar>x\<bar> \<le> dust_rat" using assms(1) by (cases t) (auto simp: dust_Fin)
  show ?thesis
  proof (cases a)
    case (Fin y)
    then have "dust_rat < \<bar>y\<bar>" using assms(2) by (simp add: flt_dust_iff)
    then have "direction (Fin (x - y)) = direction (Fin (- y))" using t(2) by auto
    then show ?thesis using assms(3) fl_direction[of "x - y"] by (simp add: t(1) Fin fsub_Fin del: direction_simps)
  qed (use assms t in \<open>auto simp: fsub_def\<close>)
qed

lemma fmul_neg_direction: "flt (fmul a d) (Fin 0) \<Longrightarrow> direction (fneg a) = direction d \<and> direction d \<noteq> 0"
proof (cases a; cases d)
  fix x y assume h: "a = Fin x" "d = Fin y" "flt (fmul a d) (Fin 0)"
  then have "x * y < 0" using fl_nonneg[of "x * y"] flt_asym by (metis fmul.simps(1) not_less)
  then show ?thesis using h by (auto simp: mult_less_0_iff)
qed (auto simp: inf_of_sign_def split: if_splits)

text \<open>A sizing the broker computed: the delta leads from the position to the target, and closing
  orders have a flat target.\<close>

definition wf_sizing :: "sizing \<Rightarrow> bool" where
  "wf_sizing sz \<longleftrightarrow> sz_delta sz = fsub (sz_target sz) (ps_amount (sz_current sz)) \<and>
     (sz_reconciles sz \<longrightarrow> fle (fabs (sz_target sz)) dust \<and> flt dust (fabs (ps_amount (sz_current sz))))"

lemma size_order_wf: "size_order br jb equity = Inr (sz, w) \<Longrightarrow> wf_sizing sz \<and> sz_current sz = current_position br (jb_order jb)"
  by (auto simp: size_order_def wf_sizing_def bindE_Inr_iff Let_def)

lemma lot_plan_direction:
  assumes "lot_plan jb sz fp lot = Inr (Inr pl)" and "wf_sizing sz" and "lot_ok lot" and "direction (sz_delta sz) \<noteq> 0"
  shows "direction (pl_delta pl) \<in> {0, direction (sz_delta sz)}"
    and "direction (pl_delta pl) = 0 \<Longrightarrow> \<exists>c. pl_cap pl = Some c \<and> (c = Fin 0 \<or> c = NaN)"
    and "pl_cap pl = (if jb_forced jb then None else projr (liquidity_cap (jb_bar jb) lot)) \<and> (jb_forced jb \<or> \<not> isl (liquidity_cap (jb_bar jb) lot))"
proof -
  let ?a = "ps_amount (sz_current sz)" and ?small = "fsub lot dust" and ?d = "sz_delta sz"
  obtain r cap where r: "round_to_lot ?d lot = Inr r"
    and cap: "(if jb_forced jb then Inr None else liquidity_cap (jb_bar jb) lot) = Inr cap"
    and ns: "\<not> (flt (fabs (fst (reconcile_delta sz fp lot r))) ?small \<and> \<not> snd (reconcile_delta sz fp lot r))"
    and pl: "pl = (if takes_residual sz fp lot cap (fst (cap_delta cap (reconcile_delta sz fp lot r)))
                     then \<lparr>pl_delta = fneg ?a, pl_exact = True, pl_cap = cap, pl_reason = []\<rparr>
                     else \<lparr>pl_delta = fst (cap_delta cap (reconcile_delta sz fp lot r)),
                           pl_exact = snd (cap_delta cap (reconcile_delta sz fp lot r)), pl_cap = cap, pl_reason = []\<rparr>)"
    using assms(1) unfolding lot_plan_def Let_def
    by (simp only: bindE_Inr_iff split: if_split_asm) auto
  define d0 where "d0 = fst (reconcile_delta sz fp lot r)"
  define d1 where "d1 = fst (cap_delta cap (reconcile_delta sz fp lot r))"
  have plc: "pl_cap pl = cap" and pld: "pl_delta pl = d1 \<or> (pl_delta pl = fneg ?a \<and> flt (fmul ?a d1) (Fin 0))"
    using pl by (auto simp: d1_def takes_residual_def Let_def)
  have d1c: "d1 = d0 \<or> (\<exists>c. cap = Some c \<and> d1 = fcopysign c d0)"
    by (auto simp: d1_def d0_def cap_delta_def split: option.splits)
  have "r \<noteq> Fin 0 \<Longrightarrow> direction r = direction ?d" using round_to_lot_direction[OF r lot_ok_dust[OF assms(3)]] by blast
  moreover have "direction (fneg ?a) = direction ?d" if "sz_reconciles sz"
    using direction_close[of "sz_target sz" ?a] assms(2,4) that by (auto simp: wf_sizing_def)
  ultimately have d0: "direction d0 = direction ?d"
    using ns not_small_nonzero[OF assms(3)] unfolding d0_def reconcile_delta_def Let_def
    by (auto simp del: direction_fneg split: if_splits)
  then have d1: "direction d1 \<in> {0, direction ?d}"
    using d1c direction_fcopysign_range[of d0] assms(4) by auto
  have pd: "direction (pl_delta pl) = direction d1" using pld fmul_neg_direction by auto
  then show "direction (pl_delta pl) \<in> {0, direction ?d}" using d1 by simp
  show "pl_cap pl = (if jb_forced jb then None else projr (liquidity_cap (jb_bar jb) lot)) \<and> (jb_forced jb \<or> \<not> isl (liquidity_cap (jb_bar jb) lot))"
    using cap plc by (auto split: if_splits)
  assume z: "direction (pl_delta pl) = 0"
  then have "d1 \<noteq> d0" using pd d0 assms(4) by auto
  then obtain c where c: "cap = Some c" "d1 = fcopysign c d0" using d1c by blast
  have "direction (fcopysign c d0) = 0" using z pd c(2) by simp
  then have "c = Fin 0 \<or> c = NaN" using d0 assms(4)
    by (cases c; cases d0) (auto simp: fcopysign_def split: if_splits)
  then show "\<exists>c. pl_cap pl = Some c \<and> (c = Fin 0 \<or> c = NaN)" using plc c(1) by blast
qed

text \<open>A bar is liquid when a tenth of its volume is at least one lot (or it reports no volume).\<close>

definition liquid :: "bar option \<Rightarrow> pyfloat \<Rightarrow> bool" where
  "liquid b lot \<longleftrightarrow> (\<forall>c. liquidity_cap b lot = Inr (Some c) \<longrightarrow> flt (Fin 0) c)"

definition job_lot :: "sim_env \<Rightarrow> broker \<Rightarrow> job \<Rightarrow> pyfloat" where
  "job_lot env br jb = lot_size (oi_symbol (jb_order jb)) (rules_for env br (oi_symbol (jb_order jb)))"

lemma bindE_accept_iff:
  "bindE m (\<lambda>r. case r of Inl a \<Rightarrow> Inr (Inl a) | Inr b \<Rightarrow> f b) = Inr (Inr y) \<longleftrightarrow> (\<exists>b. m = Inr (Inr b) \<and> f b = Inr (Inr y))"
  by (cases m) (auto split: sum.splits)

lemma plan_direction:
  assumes "plan_quantity env br jb sz fp equity = Inr (Inr pl)" and "wf_sizing sz" and "lot_ok (job_lot env br jb)"
    and "liquid (jb_bar jb) (job_lot env br jb)" and "direction (sz_delta sz) \<noteq> 0"
  shows "direction (pl_delta pl) = direction (sz_delta sz)"
proof -
  let ?lot = "job_lot env br jb"
  obtain p0 p1 where l: "lot_plan jb sz fp ?lot = Inr (Inr p0)" and f: "feasible_plan br jb sz fp equity ?lot p0 = Inr (Inr p1)"
    and m: "minimum_check jb sz (rules_for env br (oi_symbol (jb_order jb))) fp p1 = Inr pl"
    using assms(1) by (auto simp: plan_quantity_def job_lot_def Let_def bindE_accept_iff)
  have pl: "pl = p1" using m by (auto simp: minimum_check_def Let_def split: if_splits)
  note lp = lot_plan_direction[OF l assms(2,3,5)]
  have d0: "direction (pl_delta p0) = direction (sz_delta sz)"
  proof (rule ccontr)
    assume "\<not> ?thesis"
    then obtain c where "pl_cap p0 = Some c" "c = Fin 0 \<or> c = NaN" using lp(1,2) by auto
    moreover from this lp(3) have "liquidity_cap (jb_bar jb) ?lot = Inr (Some c)"
      by (cases "liquidity_cap (jb_bar jb) ?lot") (auto split: if_splits)
    ultimately show False using assms(4) by (auto simp: liquid_def)
  qed
  obtain g reason where g: "(if jb_forced jb \<or> pl_exact p0 then Inr (pl_delta p0, [])
      else feasible_delta br (pl_delta p0) (sz_current sz) fp equity ?lot (jb_key jb)) = Inr (g, reason)"
    "\<not> (flt (fabs g) (fsub ?lot dust) \<and> \<not> pl_exact p0)" "pl_delta p1 = g"
  proof -
    obtain gr where "(if jb_forced jb \<or> pl_exact p0 then Inr (pl_delta p0, [])
        else feasible_delta br (pl_delta p0) (sz_current sz) fp equity ?lot (jb_key jb)) = Inr gr"
      "(case gr of (feasible, reason) \<Rightarrow>
         (if flt (fabs feasible) (fsub ?lot dust) \<and> \<not> pl_exact p0 then Inl (str_default reason ''position_limit'')
            else Inr (p0\<lparr>pl_delta := feasible, pl_reason := reason\<rparr>))) = Inr p1"
      using f unfolding feasible_plan_def bindE_Inr_iff by auto
    then show ?thesis using that[of "fst gr" "snd gr"] by (auto simp: case_prod_beta split: if_split_asm)
  qed
  show ?thesis
  proof (cases "jb_forced jb \<or> pl_exact p0")
    case True
    then show ?thesis using g d0 pl by simp
  next
    case False
    then have "g \<noteq> Fin 0" using g(2) not_small_nonzero[OF assms(3)] by auto
    moreover have fd: "feasible_delta br (pl_delta p0) (sz_current sz) fp equity ?lot (jb_key jb) = Inr (g, reason)"
      using g(1) False by simp
    ultimately show ?thesis
      using feasible_delta_direction[OF fd assms(3)] g(3) d0 assms(5) pl by simp
  qed
qed

section \<open>What one order can do\<close>

lemma block_reason_range:
  "execution_block_reason br o0 b op = Inr r \<Longrightarrow> r \<in> {[], ''no_price'', ''suspended'', ''limit_up'', ''limit_down''}"
  by (auto simp: execution_block_reason_def bindE_Inr_iff Let_def split: option.splits if_splits)

lemma choose_fill_cases:
  assumes "choose_fill br jb d = Inr choice"
  shows "choice = LimitMissing \<or> (\<exists>p. choice = LimitRests p \<and> is_limit_order (jb_order jb)) \<or> (\<exists>p r. choice = FillAt p r)"
  using assms by (auto simp: choose_fill_def with_price_def match_limit_def market_fill_def Let_def split: option.splits if_splits)

lemma make_job_order: "make_job env ts ov n o0 = Inr jb \<Longrightarrow> jb_order jb = o0 \<and> jb_key jb = position_key (oi_symbol o0) (oi_position_side o0)"
  by (auto simp: make_job_def bindE_Inr_iff Let_def)

lemma block_reason_not_resting: "block_reason br jb = Inr r \<Longrightarrow> r \<noteq> ''limit_not_reached''"
  using block_reason_range by (fastforce simp: block_reason_def split: if_splits)

lemma note_event_deferred [simp]:
  "bt_deferred (note_event env ts jb st re rq pr c b) = bt_deferred b"
  "(note_event env ts jb st re rq pr c b)\<lparr>bt_deferred := bt_deferred b\<rparr> = note_event env ts jb st re rq pr c b"
  by (simp_all add: note_event_def log_event_def split: prod.splits)

lemma note_weight_shape: "\<exists>w. note_weight jb sz weight bt = bt\<lparr>bt_weights := w\<rparr>"
proof (cases "flt dust (fabs weight) \<or> flt dust (fabs (ps_amount (sz_current sz)))")
  case False
  then have "note_weight jb sz weight bt = bt\<lparr>bt_weights := bt_weights bt\<rparr>" by (simp add: note_weight_def)
  then show ?thesis by blast
qed (auto simp: note_weight_def)

text \<open>What an order did to a batch without trading: a rejection, a resting limit order, or a
  deferral with one more attempt.\<close>

definition noted_only :: "sim_env \<Rightarrow> timestamp \<Rightarrow> job \<Rightarrow> batch \<Rightarrow> batch \<Rightarrow> bool" where
  "noted_only env ts jb bt bt' \<longleftrightarrow>
     (\<exists>status reason requested price coalesce rest.
        bt' = (note_event env ts jb status reason requested price coalesce bt)\<lparr>bt_deferred := bt_deferred bt @ rest\<rparr> \<and>
        (status = ''rejected'' \<and> rest = [] \<or>
         status = ''deferred'' \<and> (rest = [jb_order jb] \<and> is_limit_order (jb_order jb) \<or>
            rest = [(jb_order jb)\<lparr>oi_attempts := oi_attempts (jb_order jb) + 1\<rparr>] \<and> oi_attempts (jb_order jb) < 4)) \<and>
        (coalesce \<longleftrightarrow> status = ''deferred'' \<and> reason = ''limit_not_reached''))"

lemma noted_rejected: "noted_only env ts jb bt (note_event env ts jb ''rejected'' reason requested price False bt)"
  unfolding noted_only_def
  by (rule exI[of _ "''rejected''"], rule exI[of _ reason], rule exI[of _ requested], rule exI[of _ price],
      rule exI[of _ False], rule exI[of _ "[]"]) simp

lemma noted_deferred:
  assumes "rest = [jb_order jb] \<and> is_limit_order (jb_order jb) \<or>
      rest = [(jb_order jb)\<lparr>oi_attempts := oi_attempts (jb_order jb) + 1\<rparr>] \<and> oi_attempts (jb_order jb) < 4"
    and "coalesce \<longleftrightarrow> reason = ''limit_not_reached''"
  shows "noted_only env ts jb bt ((note_event env ts jb ''deferred'' reason requested price coalesce bt)\<lparr>bt_deferred := bt_deferred bt @ rest\<rparr>)"
  unfolding noted_only_def
  by (rule exI[of _ "''deferred''"], rule exI[of _ reason], rule exI[of _ requested], rule exI[of _ price],
      rule exI[of _ coalesce], rule exI[of _ rest]) (use assms in simp)

lemma noted_blocked: "blocked \<noteq> ''limit_not_reached'' \<Longrightarrow> noted_only env ts jb bt (note_blocked env ts jb blocked bt)"
  by (auto simp: note_blocked_def Let_def noted_rejected intro!: noted_deferred)

text \<open>The two ways an order leaves \<open>execute\<close>: with a note in the ledger or with a fill.\<close>

lemma trade_order_cases:
  assumes "trade_order env ts equity jb sz bt = Inr bt'"
  shows "noted_only env ts jb bt bt' \<or>
    (\<exists>p reference pl. choose_fill (bt_broker bt) jb (sz_delta sz) = Inr (FillAt p reference) \<and>
       plan_quantity env (bt_broker bt) jb sz p equity = Inr (Inr pl) \<and> apply_fill env ts jb sz p reference pl bt = Inr bt')"
proof -
  obtain choice where ch: "choose_fill (bt_broker bt) jb (sz_delta sz) = Inr choice"
    using assms by (auto simp: trade_order_def bindE_Inr_iff)
  consider "choice = LimitMissing" | p where "choice = LimitRests p" "is_limit_order (jb_order jb)" | p r where "choice = FillAt p r"
    using choose_fill_cases[OF ch] by blast
  then show ?thesis
  proof cases
    case 1
    then show ?thesis using assms ch noted_rejected by (auto simp: trade_order_def)
  next
    case (2 p)
    then show ?thesis using assms ch noted_deferred[of "[jb_order jb]" jb True] by (auto simp: trade_order_def Let_def)
  next
    case (3 p r)
    then obtain planned where pq: "plan_quantity env (bt_broker bt) jb sz p equity = Inr planned"
      using assms ch by (auto simp: trade_order_def bindE_Inr_iff)
    show ?thesis
    proof (cases planned)
      case (Inl reason)
      then show ?thesis using assms ch 3 pq noted_rejected by (auto simp: trade_order_def)
    next
      case (Inr pl)
      then show ?thesis using assms ch 3 pq by (auto simp: trade_order_def)
    qed
  qed
qed

lemma execute_one_cases:
  assumes "execute_one env ts ov equity o0 bt0 = Inr bt'"
  obtains (noted) jb w where "make_job env ts ov (br_sequence (bt_broker bt0) + 1) o0 = Inr jb"
      "noted_only env ts jb ((numbered bt0)\<lparr>bt_weights := w\<rparr>) bt'"
  | (filled) jb w sz weight p reference pl where
      "make_job env ts ov (br_sequence (bt_broker bt0) + 1) o0 = Inr jb"
      "size_order (bt_broker (numbered bt0)) jb equity = Inr (sz, weight)"
      "already_met jb sz = Inr False"
      "choose_fill (bt_broker (numbered bt0)) jb (sz_delta sz) = Inr (FillAt p reference)"
      "plan_quantity env (bt_broker (numbered bt0)) jb sz p equity = Inr (Inr pl)"
      "apply_fill env ts jb sz p reference pl ((numbered bt0)\<lparr>bt_weights := w\<rparr>) = Inr bt'"
proof -
  let ?bt = "numbered bt0"
  have w0: "?bt\<lparr>bt_weights := bt_weights ?bt\<rparr> = ?bt" by simp
  have q: "br_sequence (bt_broker ?bt) = br_sequence (bt_broker bt0) + 1" by (simp add: numbered_def)
  obtain jb blocked where j: "make_job env ts ov (br_sequence (bt_broker bt0) + 1) o0 = Inr jb"
    and b: "block_reason (bt_broker ?bt) jb = Inr blocked" and a: "attempt_order env ts equity jb blocked ?bt = Inr bt'"
    using assms by (auto simp: execute_one_def Let_def bindE_Inr_iff q)
  show thesis
  proof (cases "blocked = []")
    case False
    then have "bt' = note_blocked env ts jb blocked ?bt" using a by (simp add: attempt_order_def)
    then show thesis using noted[OF j, of "bt_weights ?bt"] noted_blocked[OF block_reason_not_resting[OF b]] w0 by simp
  next
    case True
    then obtain sz weight w where sz: "size_order (bt_broker ?bt) jb equity = Inr (sz, weight)"
      and at0: "attempt_sized env ts equity jb sz (?bt\<lparr>bt_weights := w\<rparr>) = Inr bt'"
      using a note_weight_shape[of jb] by (auto simp: attempt_order_def bindE_Inr_iff) metis
    then obtain met where met: "already_met jb sz = Inr met"
      and tr: "if met then bt' = note_event env ts jb ''rejected'' ''target_already_met'' (Fin 0) (Fin 0) False (?bt\<lparr>bt_weights := w\<rparr>)
               else trade_order env ts equity jb sz (?bt\<lparr>bt_weights := w\<rparr>) = Inr bt'"
      by (auto simp: attempt_sized_def bindE_Inr_iff split: if_splits)
    show thesis
    proof (cases met)
      case True
      then show thesis using noted[OF j, of w] tr noted_rejected by simp
    next
      case False
      then have "trade_order env ts equity jb sz (?bt\<lparr>bt_weights := w\<rparr>) = Inr bt'" using tr by simp
      from trade_order_cases[OF this] show thesis
        using noted[OF j] filled[OF j sz] met False by auto
    qed
  qed
qed

section \<open>Frame of one order\<close>

text \<open>The configuration of a broker, and what valuation leaves alone.\<close>

definition config :: "broker \<Rightarrow> pyfloat \<times> pyfloat \<times> pyfloat \<times> rules_source \<times> pyfloat" where
  "config br = (br_leverage br, br_commission br, br_slippage br, br_rules br, br_starting_cash br)"

lemma rules_for_config: "config br = config br' \<Longrightarrow> rules_for env br = rules_for env br'"
  by (auto simp: config_def rules_for_def fun_eq_iff)

lemma config_upd [simp]:
  "config (br\<lparr>br_sequence := n\<rparr>) = config br" "config (br\<lparr>br_ledger := l\<rparr>) = config br"
  "config (br\<lparr>br_book := b\<rparr>) = config br" "config (br\<lparr>br_executions := e\<rparr>) = config br"
  "config (br\<lparr>br_positions := p, br_total_value := v\<rparr>) = config br" "config (br\<lparr>br_rebalances := r\<rparr>) = config br"
  "config (br\<lparr>br_protections := q\<rparr>) = config br"
  by (simp_all add: config_def)

lemma numbered_frame [simp]:
  "br_executions (bt_broker (numbered bt)) = br_executions (bt_broker bt)"
  "config (bt_broker (numbered bt)) = config (bt_broker bt)"
  "br_positions (bt_broker (numbered bt)) = br_positions (bt_broker bt)"
  "br_protections (bt_broker (numbered bt)) = br_protections (bt_broker bt)"
  "br_book (bt_broker (numbered bt)) = br_book (bt_broker bt)"
  "br_ledger (bt_broker (numbered bt)) = br_ledger (bt_broker bt)"
  "br_sequence (bt_broker (numbered bt)) = br_sequence (bt_broker bt) + 1"
  "bt_indexes (numbered bt) = bt_indexes bt" "bt_deferred (numbered bt) = bt_deferred bt"
  by (simp_all add: numbered_def)

lemma log_event_frame [simp]:
  "br_executions (bt_broker (log_event e c bt)) = br_executions (bt_broker bt)"
  "config (bt_broker (log_event e c bt)) = config (bt_broker bt)"
  "br_positions (bt_broker (log_event e c bt)) = br_positions (bt_broker bt)"
  "br_protections (bt_broker (log_event e c bt)) = br_protections (bt_broker bt)"
  "br_book (bt_broker (log_event e c bt)) = br_book (bt_broker bt)"
  "br_sequence (bt_broker (log_event e c bt)) = br_sequence (bt_broker bt)"
  "bt_deferred (log_event e c bt) = bt_deferred bt"
  by (simp_all add: log_event_def split: prod.splits)

lemma noted_only_frame:
  assumes "noted_only env ts jb bt bt'"
  shows "br_executions (bt_broker bt') = br_executions (bt_broker bt)" "config (bt_broker bt') = config (bt_broker bt)"
    "br_positions (bt_broker bt') = br_positions (bt_broker bt)" "br_protections (bt_broker bt') = br_protections (bt_broker bt)"
    "br_book (bt_broker bt') = br_book (bt_broker bt)" "br_sequence (bt_broker bt') = br_sequence (bt_broker bt)"
  using assms by (auto simp: noted_only_def note_event_def)

lemma settle_frame:
  assumes "settle jb cur d p ts br = Inr br'"
  shows "br_executions br' = br_executions br" "config br' = config br" "br_ledger br' = br_ledger br"
    "br_book br' = br_book br" "br_sequence br' = br_sequence br"
  using assms by (auto simp: settle_def bindE_Inr_iff Let_def config_def)

text \<open>The parts of a fill.\<close>

lemma apply_fill_parts:
  assumes "apply_fill env ts jb sz p reference pl bt = Inr bt'"
  obtains br1 status ex book rest e where
    "settle jb (sz_current sz) (pl_delta pl) p ts (bt_broker bt) = Inr br1"
    "status \<in> {''partial'', ''filled''}"
    "ex = mk_execution env ts jb sz (pl_delta pl) p reference status (pl_exact pl) br1"
    "record_closed_trade ex (ps_amount (sz_current sz)) (ps_avg_cost (sz_current sz)) (fadd (ps_amount (sz_current sz)) (pl_delta pl)) (br_book br1) = Inr book"
    "carry_remainder jb sz (pl_delta pl) status = Inr rest"
    "oe_status e = status" "oe_occurrence_count e = None"
    "bt' = (let b = log_event e False (bt\<lparr>bt_broker := br1\<lparr>br_executions := br_executions br1 @ [ex]\<rparr>,
               bt_overrides := dset (bt_overrides bt) (jb_key jb) p\<rparr>)
            in b\<lparr>bt_broker := (bt_broker b)\<lparr>br_book := book\<rparr>, bt_deferred := bt_deferred b @ rest\<rparr>)"
proof -
  let ?lot = "lot_size (oi_symbol (jb_order jb)) (rules_for env (bt_broker bt) (oi_symbol (jb_order jb)))"
  define status where "status = fill_status (sz_delta sz) (pl_delta pl) ?lot p"
  have st: "status \<in> {''partial'', ''filled''}" by (simp add: status_def fill_status_def Let_def)
  obtain br1 where s: "settle jb (sz_current sz) (pl_delta pl) p ts (bt_broker bt) = Inr br1"
    using assms by (auto simp: apply_fill_def Let_def bindE_Inr_iff)
  define ex where "ex = mk_execution env ts jb sz (pl_delta pl) p reference status (pl_exact pl) br1"
  define e where "e = mk_order_event (se_time_iso env) (jb_order_id jb) (jb_order jb) ts status (fill_reason jb sz pl status)
                      (fabs (sz_delta sz)) (fabs (pl_delta pl)) p (ex_commission ex)"
  have e: "oe_status e = status" "oe_occurrence_count e = None" by (simp_all add: e_def mk_order_event_def)
  define b where "b = log_event e False (bt\<lparr>bt_broker := br1\<lparr>br_executions := br_executions br1 @ [ex]\<rparr>,
               bt_overrides := dset (bt_overrides bt) (jb_key jb) p\<rparr>)"
  have bb: "br_book (bt_broker b) = br_book br1" "bt_deferred b = bt_deferred bt" by (simp_all add: b_def)
  have eq: "apply_fill env ts jb sz p reference pl bt =
      bindE (record_closed_trade ex (ps_amount (sz_current sz)) (ps_avg_cost (sz_current sz)) (fadd (ps_amount (sz_current sz)) (pl_delta pl)) (br_book br1)) (\<lambda>book.
      bindE (carry_remainder jb sz (pl_delta pl) status) (\<lambda>rest.
        Inr (b\<lparr>bt_broker := (bt_broker b)\<lparr>br_book := book\<rparr>, bt_deferred := bt_deferred b @ rest\<rparr>)))"
    using s by (simp add: apply_fill_def Let_def status_def[symmetric] ex_def[symmetric] e_def[symmetric] b_def[symmetric] bb)
  from assms[unfolded eq] obtain book rest where
    "record_closed_trade ex (ps_amount (sz_current sz)) (ps_avg_cost (sz_current sz)) (fadd (ps_amount (sz_current sz)) (pl_delta pl)) (br_book br1) = Inr book"
    "carry_remainder jb sz (pl_delta pl) status = Inr rest"
    "bt' = b\<lparr>bt_broker := (bt_broker b)\<lparr>br_book := book\<rparr>, bt_deferred := bt_deferred b @ rest\<rparr>"
    by (auto simp only: bindE_Inr_iff sum.inject)
  then show thesis using that[OF s st ex_def _ _ e] b_def by (simp add: Let_def)
qed

lemma apply_fill_frame:
  assumes "apply_fill env ts jb sz p reference pl bt = Inr bt'"
  shows "config (bt_broker bt') = config (bt_broker bt)" "br_sequence (bt_broker bt') = br_sequence (bt_broker bt)"
  using assms by (auto elim!: apply_fill_parts simp: Let_def settle_frame)

lemma execute_one_frame:
  assumes "execute_one env ts ov equity o0 bt = Inr bt'"
  shows "config (bt_broker bt') = config (bt_broker bt)" "br_sequence (bt_broker bt') = br_sequence (bt_broker bt) + 1"
proof -
  have "config (bt_broker bt') = config (bt_broker bt) \<and> br_sequence (bt_broker bt') = br_sequence (bt_broker bt) + 1"
  proof (cases rule: execute_one_cases[OF assms])
    case noted: (1 jb w)
    then show ?thesis using noted_only_frame(2,6)[OF noted(2)] by simp
  next
    case filled: (2 jb w sz weight p reference pl)
    then show ?thesis using apply_fill_frame[OF filled(6)] by simp
  qed
  then show "config (bt_broker bt') = config (bt_broker bt)" "br_sequence (bt_broker bt') = br_sequence (bt_broker bt) + 1"
    by simp_all
qed

section \<open>Limit prices\<close>

definition limit_respected :: "execution \<Rightarrow> bool" where
  "limit_respected ex \<longleftrightarrow>
     ex_order_type ex = ''limit'' \<longrightarrow>
     (ex_side ex = ''buy'' \<longrightarrow> fle (ex_price ex) (ex_limit_price ex)) \<and>
     (ex_side ex = ''sell'' \<longrightarrow> fle (ex_limit_price ex) (ex_price ex))"

lemma flt_not_both: "flt (Fin 0) d \<Longrightarrow> \<not> flt d (Fin 0)"
  by (cases d) auto

lemma match_limit_price:
  assumes "match_limit limit d b op = FillAt p r"
  shows "direction d \<noteq> 0" and "direction d = 1 \<Longrightarrow> fle p limit" and "direction d = - 1 \<Longrightarrow> fle limit p"
proof -
  have self: "fle x limit \<Longrightarrow> fle limit limit" "fle limit x \<Longrightarrow> fle limit limit" for x
    by (auto simp: fle_refl_iff)
  show "direction d \<noteq> 0" using assms by (auto simp: match_limit_def Let_def direction_def split: if_splits)
  show "direction d = 1 \<Longrightarrow> fle p limit"
    using assms self flt_not_both flt_imp_fle
    by (auto simp: match_limit_def Let_def direction_pos_iff split: if_splits)
  show "direction d = - 1 \<Longrightarrow> fle limit p"
    using assms self flt_not_both flt_imp_fle
    by (auto simp: match_limit_def Let_def direction_neg_iff split: if_splits)
qed

lemma fill_respects_limit:
  assumes "choose_fill br jb (sz_delta sz) = Inr (FillAt p r)" and "direction d = direction (sz_delta sz)"
  shows "limit_respected (mk_execution env ts jb sz d p r status exact br')"
proof (cases "is_limit_order (jb_order jb)")
  case True
  then have m: "\<exists>op. match_limit (f_or (oi_limit_price (jb_order jb)) (Fin 0)) (sz_delta sz) (jb_bar jb) op = FillAt p r"
    using assms(1) by (auto simp: choose_fill_def with_price_def split: option.splits)
  have "flt (Fin 0) d \<longleftrightarrow> direction (sz_delta sz) = 1" using assms(2) direction_pos_iff by metis
  moreover have "direction (sz_delta sz) \<in> {- 1, 1}" using m match_limit_price(1) direction_range by fastforce
  ultimately show ?thesis
    using True m match_limit_price(2,3) by (auto simp: limit_respected_def mk_execution_def Let_def split: if_splits)
qed (simp add: limit_respected_def mk_execution_def Let_def)

lemma mark_all_frame:
  assumes "mark_all f br = Inr (v, br')"
  shows "config br' = config br" "br_executions br' = br_executions br" "br_ledger br' = br_ledger br"
    "br_protections br' = br_protections br" "br_book br' = br_book br" "br_sequence br' = br_sequence br"
    "br_rebalances br' = br_rebalances br" "br_cash br' = br_cash br" "br_total_value br' = v"
  using assms by (auto simp: mark_all_def bindE_Inr_iff Let_def config_def)

text \<open>Executing a batch is one pass over its orders between two valuations.\<close>

lemma execute_parts:
  assumes "execute env ts ov orders br = Inr (deferred, br')" and "orders \<noteq> []"
  obtains equity br1 bt where "mark_to_market_before_fill env ts ov br = Inr (equity, br1)"
    "foldE (execute_one env ts ov equity) orders
       \<lparr>bt_broker = br1, bt_deferred = [], bt_weights = [], bt_indexes = [], bt_overrides = ov\<rparr> = Inr bt"
    "record_rebalance env ts equity (br_cash br1) bt = Inr br'" "deferred = bt_deferred bt"
  using assms by (auto simp: execute_def bindE_Inr_iff)

lemma record_rebalance_frame:
  assumes "record_rebalance env ts equity cash bt = Inr br'"
  shows "config br' = config (bt_broker bt)" "br_executions br' = br_executions (bt_broker bt)" "br_ledger br' = br_ledger (bt_broker bt)"
    "br_protections br' = br_protections (bt_broker bt)" "br_book br' = br_book (bt_broker bt)" "br_sequence br' = br_sequence (bt_broker bt)"
  using assms mark_all_frame
  by (auto simp: record_rebalance_def bindE_Inr_iff Let_def mark_to_market_before_fill_def config_def)

lemma execute_one_respects_limit:
  assumes st: "execute_one env ts overrides equity o0 b = Inr b'" and config: "config (bt_broker b) = config br"
    and lots: "\<forall>symbol. lot_ok (lot_size symbol (rules_for env br symbol))"
    and liquidity: "\<forall>symbol c. se_bar env symbol ts = Inr c \<longrightarrow> liquid c (lot_size symbol (rules_for env br symbol))"
  shows "config (bt_broker b') = config br
    \<and> (\<exists>new. br_executions (bt_broker b') = br_executions (bt_broker b) @ new \<and> (\<forall>ex \<in> set new. limit_respected ex))"
proof (cases rule: execute_one_cases[OF st])
  case noted: (1 jb w)
  then show ?thesis using noted_only_frame(1,2)[OF noted(2)] config by simp
next
  case filled: (2 jb w sz weight q reference pl)
  have jl: "job_lot env (bt_broker (numbered b)) jb = lot_size (oi_symbol (jb_order jb)) (rules_for env br (oi_symbol (jb_order jb)))"
    using rules_for_config[of "bt_broker (numbered b)" br env] config by (simp add: job_lot_def)
  have "se_bar env (oi_symbol (jb_order jb)) ts = Inr (jb_bar jb)"
    using filled(1) by (auto simp: make_job_def bindE_Inr_iff Let_def)
  then have lq: "liquid (jb_bar jb) (job_lot env (bt_broker (numbered b)) jb)" "lot_ok (job_lot env (bt_broker (numbered b)) jb)"
    using lots liquidity jl by auto
  have wf: "wf_sizing sz" using size_order_wf[OF filled(2)] by simp
  obtain br2 status ex book rest e where
    "settle jb (sz_current sz) (pl_delta pl) q ts (bt_broker ((numbered b)\<lparr>bt_weights := w\<rparr>)) = Inr br2"
    and ex: "ex = mk_execution env ts jb sz (pl_delta pl) q reference status (pl_exact pl) br2"
    and b': "b' = (let c = log_event e False ((numbered b)\<lparr>bt_weights := w\<rparr>\<lparr>bt_broker := br2\<lparr>br_executions := br_executions br2 @ [ex]\<rparr>,
         bt_overrides := dset (bt_overrides ((numbered b)\<lparr>bt_weights := w\<rparr>)) (jb_key jb) q\<rparr>)
      in c\<lparr>bt_broker := (bt_broker c)\<lparr>br_book := book\<rparr>, bt_deferred := bt_deferred c @ rest\<rparr>)"
    by (rule apply_fill_parts[OF filled(6)]) blast
  then have be: "br_executions (bt_broker b') = br_executions (bt_broker b) @ [ex]"
    using settle_frame(1) by (auto simp: Let_def)
  have "limit_respected ex"
  proof (cases "is_limit_order (jb_order jb)")
    case True
    then have "direction (sz_delta sz) \<noteq> 0"
      using filled(4) match_limit_price(1) by (auto simp: choose_fill_def with_price_def split: option.splits)
    from plan_direction[OF filled(5) wf lq(2,1) this] show ?thesis
      unfolding ex by (rule fill_respects_limit[OF filled(4)])
  qed (simp add: ex limit_respected_def mk_execution_def Let_def)
  then show ?thesis using config be apply_fill_frame(1)[OF filled(6)] by auto
qed



section \<open>A batch that succeeds\<close>

text \<open>When the market data never fails, valuation does not either.\<close>

lemma mark_all_total:
  assumes "\<And>k p. \<exists>p'. mark k p = Inr p'"
  shows "\<exists>v br'. mark_all mark br = Inr (v, br')"
proof -
  have "\<exists>y. (case kp of (k, p) \<Rightarrow> bindE (mark k p) (\<lambda>p'. Inr (k, p'))) = Inr y" for kp
    using assms[of "fst kp" "snd kp"] by (cases kp) auto
  then obtain ps where "mapE (\<lambda>(k, p). bindE (mark k p) (\<lambda>p'. Inr (k, p'))) (br_positions br) = Inr ps"
    using mapE_total[of "\<lambda>(k, p). bindE (mark k p) (\<lambda>p'. Inr (k, p'))"] by blast
  then show ?thesis by (simp add: mark_all_def Let_def)
qed

definition market_total :: "sim_env \<Rightarrow> bool" where
  "market_total env \<longleftrightarrow> (\<forall>s t. \<exists>b. se_bar env s t = Inr b) \<and> (\<forall>s d. \<exists>x. se_current env s d = Inr x)"

lemma mark_before_fill_total:
  assumes "market_total env"
  shows "\<exists>v br'. mark_to_market_before_fill env ts ov br = Inr (v, br')"
  unfolding mark_to_market_before_fill_def
proof (rule mark_all_total)
  fix k :: string and p :: position
  obtain b where b: "se_bar env (ps_symbol p) ts = Inr b" using assms unfolding market_total_def by blast
  obtain c where c: "se_current env (ps_symbol p) (ps_last_price p) = Inr c" using assms unfolding market_total_def by blast
  show "\<exists>p'. mark_position_before_fill env ts ov k p = Inr p'"
    by (simp add: mark_position_before_fill_def open_price_at_def b c Let_def)
qed

lemma mark_total:
  assumes "market_total env"
  shows "\<exists>v br'. mark_to_market env ts br = Inr (v, br')"
  unfolding mark_to_market_def
proof (rule mark_all_total)
  fix k :: string and p :: position
  obtain b where b: "se_bar env (ps_symbol p) ts = Inr b" using assms unfolding market_total_def by blast
  obtain c where c: "se_current env (ps_symbol p) (ps_last_price p) = Inr c" using assms unfolding market_total_def by blast
  show "\<exists>p'. mark_position env ts p = Inr p'"
    by (simp add: mark_position_def close_price_def b c split: option.split)
qed

lemma record_rebalance_total:
  assumes "market_total env"
  shows "\<exists>br'. record_rebalance env ts equity cash bt = Inr br'"
  using mark_before_fill_total[OF assms, of ts "bt_overrides bt" "bt_broker bt"]
  by (auto simp: record_rebalance_def Let_def)

end
