(* ===== verification/BrokerDemo.thy ===== *)
theory BrokerDemo
  imports BrokerProps
begin

text \<open>
  Concrete batches of the simulation broker, at which the hypotheses of its properties hold.
\<close>

text \<open>A one-order batch of a broker without positions.\<close>

definition demo_bar :: bar where
  "demo_bar = \<lparr>b_open = Fin 102, b_high = Fin 103, b_low = Fin 99, b_close = Fin 101, b_volume = Fin 0, b_flags = []\<rparr>"

definition demo_env :: sim_env where
  "demo_env = \<lparr>se_bar = (\<lambda>s t. Inr (Some demo_bar)), se_current = (\<lambda>s d. Inr d), se_time_iso = show_int, se_ts_iso = show_int,
     se_elapsed = (\<lambda>a b. Fin 0), se_default_exchange = ''binance''\<rparr>"

definition demo_broker :: broker where
  "demo_broker = broker_init (Fin 10000) (Fin 1) (Fin 0) (Fin 0) NoRules"

definition demo_started :: broker where
  "demo_started = demo_broker\<lparr>br_sequence := 1\<rparr>"

definition demo_limit :: order_intent where
  "demo_limit = (market_intent ''US:X'' ''quantity'' (Fin 2) ''strategy'' None [])\<lparr>oi_order_type := ''limit'', oi_limit_price := Fin 100\<rparr>"

definition demo_job :: job where
  "demo_job = \<lparr>jb_order = demo_limit, jb_order_id = ''0:1'', jb_key = ''US:X'', jb_forced = False, jb_bar = Some demo_bar, jb_open = Some (Fin 102)\<rparr>"

definition demo_sizing :: sizing where
  "demo_sizing = \<lparr>sz_current = \<lparr>ps_symbol = ''US:X'', ps_amount = Fin 0, ps_avg_cost = Fin 0, ps_last_price = Fin 0, ps_position_side = []\<rparr>,
     sz_price = Some (Fin 100), sz_target = Fin 2, sz_delta = Fin 2, sz_closes = False, sz_reconciles = False\<rparr>"

lemma demo_market_total: "market_total demo_env"
  by (simp add: market_total_def demo_env_def)

lemma demo_steps:
  "make_job demo_env 0 [] 1 demo_limit = Inr demo_job"
  by code_simp

lemma demo_steps2:
  "block_reason demo_started demo_job = Inr []"
  by code_simp

lemma demo_steps3:
  "size_order demo_started demo_job (Fin 10000) = Inr (demo_sizing, fl (2 / 100))"
  by code_simp

lemma demo_steps4:
  "already_met demo_job demo_sizing = Inr False"
  by code_simp

lemma demo_steps5:
  "choose_fill demo_started demo_job (Fin 2) = Inr (FillAt (Fin 100) ''limit'')"
  by code_simp

lemma demo_rules: "rules_for demo_env demo_started ''US:X'' = default_rules_for_symbol ''US:X''"
  "lot_size ''US:X'' (default_rules_for_symbol ''US:X'') = Fin 1"
  by code_simp+

lemma dust_small: "dust_rat \<le> 1"
  using fl_le_b64[of 1 "1 / 1000000000000"] dust_Fin by (simp add: dust_def)

lemma fle_pymax: "fle a x \<Longrightarrow> \<not> is_nan y \<Longrightarrow> fle a (pymax x y)"
  by (cases a; cases x; cases y) (auto simp: pymax_def is_nan_def)

lemma demo_round: "round_to_lot (Fin 2) (Fin 1) = Inr (Fin 2)"
proof -
  have f: "fround (Fin 2) = Inr 2" "float_of_int 2 = Inr (Fin 2)" "\<not> is_nan (fmul (Fin 4) (fulp (Fin 2)))" by code_simp+
  have "lot_units (Fin 2) = Inr 2"
    using f fle_pymax[of "Fin 0" dust] dust_pos by (simp add: lot_units_def fsub_def dust_Fin)
  then show ?thesis using f by (simp add: round_to_lot_def fdiv_def fcopysign_def)
qed

lemma demo_capped: "cash_capped demo_started (Fin 2) (Fin 100) (Fin 10000) = Inr (Fin 2, [])"
proof -
  have "br_leverage demo_started = Fin 1" "br_cash demo_started = Fin 10000" "br_commission demo_started = Fin 0" by code_simp+
  then show ?thesis using dust_pos dust_small
    by (simp add: cash_capped_def dust_Fin Let_def fdiv_def pymax_def fsub_def)
qed

lemma demo_exp: "exposure_capped demo_started (Fin 0) (Fin 100) (Fin 10000) ''US:X'' (Fin 2, []) = Inr (Fin 2, [])"
proof -
  have "br_leverage demo_started = Fin 1" "gross_value demo_started ''US:X'' = Fin 0" by code_simp+
  moreover have "fle (Fin 2) (fl (100 + dust_rat))" using fl_ge_b64[of 2 "100 + dust_rat"] dust_pos by simp
  then have "\<not> flt (fl (100 + dust_rat)) (Fin 2)" by (cases "fl (100 + dust_rat)") auto
  ultimately show ?thesis using dust_pos dust_small
    by (simp add: exposure_capped_def dust_Fin Let_def fdiv_def pymax_def fsub_def)
qed

lemma demo_small: "\<not> flt (Fin 2) (fsub (Fin 1) dust)"
proof -
  have "fle (fl (1 - dust_rat)) (Fin 1)" using fl_le_b64[of 1 "1 - dust_rat"] dust_pos by simp
  then show ?thesis by (cases "fl (1 - dust_rat)") (auto simp: fsub_def dust_Fin)
qed

lemma demo_min:
  "minimum_check demo_job demo_sizing (default_rules_for_symbol ''US:X'') (Fin 100) pl = Inr pl"
  by (simp add: minimum_check_def default_rules_for_symbol_def pymax_def f_or_def Let_def)

lemma demo_steps6:
  "plan_quantity demo_env demo_started demo_job demo_sizing (Fin 100) (Fin 10000) = Inr (Inr \<lparr>pl_delta = Fin 2, pl_exact = False, pl_cap = None, pl_reason = []\<rparr>)"
proof -
  have "feasible_delta demo_started (Fin 2) (sz_current demo_sizing) (Fin 100) (Fin 10000) (Fin 1) ''US:X'' = Inr (Fin 2, [])"
    by (simp add: feasible_delta_def demo_capped demo_exp demo_round demo_sizing_def)
  moreover have "lot_plan demo_job demo_sizing (Fin 100) (Fin 1) = Inr (Inr \<lparr>pl_delta = Fin 2, pl_exact = False, pl_cap = None, pl_reason = []\<rparr>)"
    by (simp add: lot_plan_def demo_sizing_def demo_round reconcile_delta_def takes_residual_def cap_delta_def demo_job_def liquidity_cap_def demo_bar_def demo_small f_or_def)
  ultimately show ?thesis 
   using demo_min
    by (simp add: plan_quantity_def feasible_plan_def demo_job_def demo_limit_def market_intent_def demo_rules demo_small)
qed

lemma apply_fill_total:
  assumes "settle jb (sz_current sz) (pl_delta pl) p ts (bt_broker bt) = Inr br1"
    and "\<exists>book. record_closed_trade (mk_execution env ts jb sz (pl_delta pl) p reference status (pl_exact pl) br1)
      (ps_amount (sz_current sz)) (ps_avg_cost (sz_current sz)) (fadd (ps_amount (sz_current sz)) (pl_delta pl)) (br_book br1) = Inr book"
    and "\<exists>rest. carry_remainder jb sz (pl_delta pl) status = Inr rest"
    and "status = fill_status (sz_delta sz) (pl_delta pl)
           (lot_size (oi_symbol (jb_order jb)) (rules_for env (bt_broker bt) (oi_symbol (jb_order jb)))) p"
  shows "\<exists>bt'. apply_fill env ts jb sz p reference pl bt = Inr bt'"
  using assms by (auto simp: apply_fill_def Let_def)

lemma demo_filled:
  assumes "bt_broker bt = demo_started"
  shows "\<exists>bt'. apply_fill demo_env 0 demo_job demo_sizing (Fin 100) ''limit'' \<lparr>pl_delta = Fin 2, pl_exact = False, pl_cap = None, pl_reason = []\<rparr>
     bt = Inr bt'"
proof -
  have "next_average_cost (Fin 0) (Fin 0) (Fin 2) (Fin 100) = Inr (Fin 100)"
    using dust_small by (simp add: next_average_cost_def dust_Fin fdiv_def feq_def Let_def)
  then obtain br1 where s: "settle demo_job (sz_current demo_sizing) (Fin 2) (Fin 100) 0 demo_started = Inr br1"
    by (auto simp: settle_def Let_def demo_sizing_def)
  then have "tb_entries (br_book br1) = []"
    using settle_frame(4)[OF s] by (simp add: demo_started_def demo_broker_def broker_init_def)
  moreover have "\<exists>rest. carry_remainder demo_job demo_sizing d st = Inr rest" for d st
    by (simp add: carry_remainder_def Let_def demo_job_def demo_limit_def market_intent_def)
  ultimately show ?thesis
    using s assms by (intro apply_fill_total[of _ _ _ _ _ _ br1]) (auto intro: recording_total)
qed

lemma demo_executes: "\<exists>deferred br'. execute demo_env 0 [] [demo_limit] demo_broker = Inr (deferred, br')"
proof -
  have mk: "mark_to_market_before_fill demo_env 0 [] demo_broker = Inr (Fin 10000, demo_broker)"
    by (simp add: mark_to_market_before_fill_def mark_all_def demo_broker_def broker_init_def Let_def)
  let ?b0 = "\<lparr>bt_broker = demo_broker, bt_deferred = [], bt_weights = [], bt_indexes = [], bt_overrides = []\<rparr> :: batch"
  have n: "numbered ?b0 = ?b0\<lparr>bt_broker := demo_started\<rparr>" "br_sequence demo_started = 1"
    by (simp_all add: numbered_def demo_started_def demo_broker_def broker_init_def)
  have w: "bt_broker (note_weight jb sz w b) = bt_broker b" for jb sz w b by (simp add: note_weight_def)
  have sd: "sz_delta demo_sizing = Fin 2" by (simp add: demo_sizing_def)
  have "execute_one demo_env 0 [] (Fin 10000) demo_limit ?b0 = apply_fill demo_env 0 demo_job demo_sizing (Fin 100) ''limit''
      \<lparr>pl_delta = Fin 2, pl_exact = False, pl_cap = None, pl_reason = []\<rparr> (note_weight demo_job demo_sizing (fl (2 / 100)) (numbered ?b0))"
    by (simp add: execute_one_def n(2) n(1) attempt_order_def attempt_sized_def trade_order_def w sd
        demo_steps demo_steps2 demo_steps3 demo_steps4 demo_steps5 demo_steps6)
  moreover have "bt_broker (note_weight demo_job demo_sizing (fl (2 / 100)) (numbered ?b0)) = demo_started"
    by (simp add: w n(1))
  ultimately have "\<exists>bt. execute_one demo_env 0 [] (Fin 10000) demo_limit ?b0 = Inr bt"
    using demo_filled by simp
  then obtain bt where "execute_one demo_env 0 [] (Fin 10000) demo_limit ?b0 = Inr bt" by blast
  moreover obtain br' where "record_rebalance demo_env 0 (Fin 10000) (br_cash demo_broker) bt = Inr br'"
    using record_rebalance_total[OF demo_market_total] by blast
  ultimately show ?thesis by (simp add: execute_def mk)
qed

lemma default_lot: "lot_size s (rules_for demo_env demo_broker s) \<in> {Fin 1, fl (1 / 100000000)}"
  by (auto simp: lot_size_def rules_for_def demo_broker_def broker_init_def default_rules_for_symbol_def f_or_def Let_def)

lemma lot_okI:
  assumes "lot = Fin l" and "2 * dust_rat \<le> l"
  shows "lot_ok lot"
proof -
  have "fle (Fin dust_rat) (fl (l - dust_rat))" using assms(2) by (intro fl_ge_b64[OF fl_dust]) simp
  then show ?thesis using dust_pos by (cases "fl (l - dust_rat)") (auto simp: lot_ok_def assms(1) dust_Fin fsub_def)
qed

lemma crypto_lot: "\<exists>l. fl (1 / 100000000) = Fin l \<and> 2 * dust_rat \<le> l"
proof -
  have "2 * dust_rat \<le> (case fl (1 / 100000000) of Fin x \<Rightarrow> x | _ \<Rightarrow> 0)" by code_simp
  then show ?thesis using dust_pos by (cases "fl (1 / 100000000)") auto
qed

lemma demo_lots: "lot_ok (lot_size s (rules_for demo_env demo_broker s))"
proof -
  obtain l where l: "fl (1 / 100000000) = Fin l" "2 * dust_rat \<le> l" using crypto_lot by blast
  then have "l \<le> 1" using fl_le_b64[of 1 "1 / 100000000"] by simp
  then show ?thesis using default_lot[of s] l lot_okI by auto
qed


end
