(* ===== verification/BrokerBatch.thy ===== *)
theory BrokerBatch
  imports BrokerDemo
begin

text \<open>
  What a batch of orders leaves behind: one ledger row per order, with exactly one of four statuses,
  the orders carried to the next bar, and the bound on how often an order is carried.
\<close>

section \<open>The trace of one order\<close>

text \<open>A row of the ledger keeps its status when later events are appended or absorbed.\<close>

lemma append_order_event_status:
  assumes "append_order_event e c lg = (i, lg')" and "c \<longrightarrow> oe_status e = ''deferred''"
  shows "i < length (lg_events lg')" "oe_status (lg_events lg' ! i) = oe_status e"
    "length (lg_events lg) \<le> length (lg_events lg')"
    "j < length (lg_events lg) \<Longrightarrow> oe_status (lg_events lg' ! j) = oe_status (lg_events lg ! j)"
  using assms
  by (auto simp: append_order_event_def absorb_poll_def open_poll_def is_resting_def Let_def nth_append nth_list_update
      split: if_splits option.splits)

text \<open>The four ways an order ends: its status in the ledger and what is carried to the next bar.\<close>

definition order_fate :: "order_intent \<Rightarrow> string \<Rightarrow> order_intent list \<Rightarrow> bool" where
  "order_fate o0 status rest \<longleftrightarrow>
     status = ''filled'' \<and> rest = [] \<or>
     status = ''rejected'' \<and> rest = [] \<or>
     status = ''deferred'' \<and> length rest = 1 \<or>
     status = ''partial'' \<and> length rest \<le> 1"

text \<open>Limit orders rest without a bound; any other carried order has used up one of its attempts.\<close>

definition carried_from :: "order_intent \<Rightarrow> order_intent \<Rightarrow> bool" where
  "carried_from o0 r \<longleftrightarrow>
     oi_symbol r = oi_symbol o0 \<and> oi_kind r = oi_kind o0 \<and> is_limit_order r = is_limit_order o0 \<and>
     (is_limit_order r \<or> oi_attempts r = oi_attempts o0 + 1 \<and> oi_attempts o0 < 4)"

definition traced :: "order_intent \<Rightarrow> batch \<Rightarrow> batch \<Rightarrow> bool" where
  "traced o0 b b' \<longleftrightarrow>
     (\<exists>e c rest. br_ledger (bt_broker b') = snd (append_order_event e c (br_ledger (bt_broker b))) \<and>
       bt_indexes b' = bt_indexes b @ [fst (append_order_event e c (br_ledger (bt_broker b)))] \<and>
       (c \<longrightarrow> oe_status e = ''deferred'') \<and> bt_deferred b' = bt_deferred b @ rest \<and>
       order_fate o0 (oe_status e) rest \<and> (\<forall>r \<in> set rest. carried_from o0 r) \<and>
       br_rebalances (bt_broker b') = br_rebalances (bt_broker b))"

lemma traced_numbered: "traced o0 ((numbered b)\<lparr>bt_weights := w\<rparr>) b' \<Longrightarrow> traced o0 b b'"
  by (simp add: traced_def numbered_def)

lemma log_event_ledger:
  "br_ledger (bt_broker (log_event e c b)) = snd (append_order_event e c (br_ledger (bt_broker b)))"
  "bt_indexes (log_event e c b) = bt_indexes b @ [fst (append_order_event e c (br_ledger (bt_broker b)))]"
  "br_rebalances (bt_broker (log_event e c b)) = br_rebalances (bt_broker b)"
  by (simp_all add: log_event_def split: prod.splits)

lemma noted_traced:
  assumes "noted_only env ts jb b b'"
  shows "traced (jb_order jb) b b'"
proof -
  obtain status reason requested price c rest where
    b': "b' = (note_event env ts jb status reason requested price c b)\<lparr>bt_deferred := bt_deferred b @ rest\<rparr>"
    and rest: "status = ''rejected'' \<and> rest = [] \<or>
         status = ''deferred'' \<and> (rest = [jb_order jb] \<and> is_limit_order (jb_order jb) \<or>
            rest = [(jb_order jb)\<lparr>oi_attempts := oi_attempts (jb_order jb) + 1\<rparr>] \<and> oi_attempts (jb_order jb) < 4)"
    and c: "c \<longleftrightarrow> status = ''deferred'' \<and> reason = ''limit_not_reached''"
    using assms unfolding noted_only_def by blast
  let ?e = "mk_order_event (se_time_iso env) (jb_order_id jb) (jb_order jb) ts status reason requested (Fin 0) price (Fin 0)"
  have s: "oe_status ?e = status" by (simp add: mk_order_event_def)
  show ?thesis unfolding traced_def
  proof (rule exI[of _ ?e], rule exI[of _ c], rule exI[of _ rest], intro conjI)
    show "br_ledger (bt_broker b') = snd (append_order_event ?e c (br_ledger (bt_broker b)))"
      "bt_indexes b' = bt_indexes b @ [fst (append_order_event ?e c (br_ledger (bt_broker b)))]"
      by (simp_all add: b' note_event_def log_event_ledger)
    show "\<forall>r \<in> set rest. carried_from (jb_order jb) r" using rest by (auto simp: carried_from_def is_limit_order_def)
    show "c \<longrightarrow> oe_status ?e = ''deferred''" using c unfolding s by simp
    show "order_fate (jb_order jb) (oe_status ?e) rest" using rest unfolding s order_fate_def by (elim disjE conjE) simp_all
    show "bt_deferred b' = bt_deferred b @ rest" by (simp add: b')
    show "br_rebalances (bt_broker b') = br_rebalances (bt_broker b)" by (simp add: b' note_event_def log_event_ledger(3))
  qed
qed

lemma settle_rebalances: "settle jb cur d p ts br = Inr br' \<Longrightarrow> br_rebalances br' = br_rebalances br"
  by (auto simp: settle_def bindE_Inr_iff Let_def)

lemma carry_remainder_fate:
  assumes "carry_remainder jb sz d status = Inr rest" and "status \<in> {''partial'', ''filled''}"
  shows "order_fate (jb_order jb) status rest" "\<forall>r \<in> set rest. carried_from (jb_order jb) r"
  using assms
  by (auto simp: carry_remainder_def order_fate_def carried_from_def is_limit_order_def with_price_def Let_def
      split: if_splits option.splits)

lemma fill_traced:
  assumes "apply_fill env ts jb sz p reference pl b = Inr b'"
  shows "traced (jb_order jb) b b'"
  using assms
proof (rule apply_fill_parts)
  fix br1 status ex book rest e
  assume st: "settle jb (sz_current sz) (pl_delta pl) p ts (bt_broker b) = Inr br1"
    and status: "status \<in> {''partial'', ''filled''}"
    and rest: "carry_remainder jb sz (pl_delta pl) status = Inr rest" and e: "oe_status e = status"
    and b': "b' = (let c = log_event e False (b\<lparr>bt_broker := br1\<lparr>br_executions := br_executions br1 @ [ex]\<rparr>,
               bt_overrides := dset (bt_overrides b) (jb_key jb) p\<rparr>)
            in c\<lparr>bt_broker := (bt_broker c)\<lparr>br_book := book\<rparr>, bt_deferred := bt_deferred c @ rest\<rparr>)"
  let ?b = "b\<lparr>bt_broker := br1\<lparr>br_executions := br_executions br1 @ [ex]\<rparr>, bt_overrides := dset (bt_overrides b) (jb_key jb) p\<rparr>"
  show ?thesis unfolding traced_def
  proof (rule exI[of _ e], rule exI[of _ False], rule exI[of _ rest], intro conjI)
    show "br_ledger (bt_broker b') = snd (append_order_event e False (br_ledger (bt_broker b)))"
      "bt_indexes b' = bt_indexes b @ [fst (append_order_event e False (br_ledger (bt_broker b)))]"
      using settle_frame(3)[OF st] by (simp_all add: b' Let_def log_event_ledger)
    show "br_rebalances (bt_broker b') = br_rebalances (bt_broker b)"
      using settle_rebalances[OF st] by (simp add: b' Let_def log_event_ledger(3))
  qed (use carry_remainder_fate[OF rest status] e in \<open>auto simp: b' Let_def\<close>)
qed

lemma execute_one_traced:
  assumes "execute_one env ts ov equity o0 b = Inr b'"
  shows "traced o0 b b'"
proof (cases rule: execute_one_cases[OF assms])
  case noted: (1 jb w)
  show ?thesis using traced_numbered[OF noted_traced[OF noted(2)]] make_job_order[OF noted(1)] by simp
next
  case filled: (2 jb w sz weight p reference pl)
  show ?thesis using traced_numbered[OF fill_traced[OF filled(6)]] make_job_order[OF filled(1)] by simp
qed

section \<open>The trace of a batch\<close>

definition statuses :: "batch \<Rightarrow> string list" where
  "statuses b = map (\<lambda>i. oe_status (lg_events (br_ledger (bt_broker b)) ! i)) (bt_indexes b)"

definition indexed :: "batch \<Rightarrow> bool" where
  "indexed b \<longleftrightarrow> (\<forall>i \<in> set (bt_indexes b). i < length (lg_events (br_ledger (bt_broker b))))"

lemma traced_status:
  assumes "traced o0 b b'" and "indexed b"
  obtains s rest where "statuses b' = statuses b @ [s]" "bt_deferred b' = bt_deferred b @ rest"
    "order_fate o0 s rest" "\<forall>r \<in> set rest. carried_from o0 r" "indexed b'"
    "br_rebalances (bt_broker b') = br_rebalances (bt_broker b)"
proof -
  obtain e c rest i lg where a: "append_order_event e c (br_ledger (bt_broker b)) = (i, lg)"
    "br_ledger (bt_broker b') = lg" "bt_indexes b' = bt_indexes b @ [i]" "c \<longrightarrow> oe_status e = ''deferred''"
    "bt_deferred b' = bt_deferred b @ rest" "order_fate o0 (oe_status e) rest" "\<forall>r \<in> set rest. carried_from o0 r"
    "br_rebalances (bt_broker b') = br_rebalances (bt_broker b)"
    using assms(1) unfolding traced_def by (metis prod.collapse)
  note st = append_order_event_status[OF a(1,4)]
  have "statuses b' = statuses b @ [oe_status e]"
    using st assms(2) by (auto simp: statuses_def a(2,3) indexed_def)
  moreover have "indexed b'" using st assms(2) by (auto simp: indexed_def a(2,3) intro: less_le_trans)
  ultimately show thesis using a that by blast
qed

definition count_status :: "string \<Rightarrow> string list \<Rightarrow> nat" where
  "count_status n ss = length (filter (\<lambda>s. s = n) ss)"

lemma count_status_snoc [simp]: "count_status n (ss @ [s]) = count_status n ss + (if s = n then 1 else 0)"
  by (simp add: count_status_def)

lemma batch_trace:
  assumes "foldE (execute_one env ts ov equity) orders b = Inr b'" and "indexed b"
  shows "\<exists>ss rest. statuses b' = statuses b @ ss \<and> bt_deferred b' = bt_deferred b @ rest \<and> indexed b' \<and>
     length ss = length orders \<and>
     set ss \<subseteq> {''filled'', ''partial'', ''deferred'', ''rejected''} \<and>
     count_status ''deferred'' ss \<le> length rest \<and> length rest \<le> count_status ''deferred'' ss + count_status ''partial'' ss \<and>
     (\<forall>r \<in> set rest. \<exists>o0 \<in> set orders. carried_from o0 r) \<and>
     br_sequence (bt_broker b') = br_sequence (bt_broker b) + int (length orders) \<and>
     br_rebalances (bt_broker b') = br_rebalances (bt_broker b)"
  using assms
proof (induction orders arbitrary: b)
  case Nil
  then show ?case by (auto simp: count_status_def)
next
  case (Cons o0 orders)
  then obtain b1 where st: "execute_one env ts ov equity o0 b = Inr b1" and run: "foldE (execute_one env ts ov equity) orders b1 = Inr b'"
    by (auto simp: bindE_Inr_iff)
  obtain s rest where s: "statuses b1 = statuses b @ [s]" "bt_deferred b1 = bt_deferred b @ rest" "order_fate o0 s rest"
    "\<forall>r \<in> set rest. carried_from o0 r" "indexed b1" "br_rebalances (bt_broker b1) = br_rebalances (bt_broker b)"
    using traced_status[OF execute_one_traced[OF st] Cons.prems(2)] by blast
  obtain ss rest' where i: "statuses b' = statuses b1 @ ss" "bt_deferred b' = bt_deferred b1 @ rest'" "indexed b'"
    "length ss = length orders" "set ss \<subseteq> {''filled'', ''partial'', ''deferred'', ''rejected''}"
    "count_status ''deferred'' ss \<le> length rest'" "length rest' \<le> count_status ''deferred'' ss + count_status ''partial'' ss"
    "\<forall>r \<in> set rest'. \<exists>o0 \<in> set orders. carried_from o0 r"
    "br_sequence (bt_broker b') = br_sequence (bt_broker b1) + int (length orders)"
    "br_rebalances (bt_broker b') = br_rebalances (bt_broker b1)"
    using Cons.IH[OF run s(5)] by blast
  have f: "s \<in> {''filled'', ''partial'', ''deferred'', ''rejected''}"
    "count_status ''deferred'' [s] \<le> length rest" "length rest \<le> count_status ''deferred'' [s] + count_status ''partial'' [s]"
    using s(3) by (auto simp: order_fate_def count_status_def)
  have c: "count_status n (s # ss) = count_status n [s] + count_status n ss" for n by (simp add: count_status_def)
  show ?case
  proof (intro exI conjI)
    show "statuses b' = statuses b @ (s # ss)" "bt_deferred b' = bt_deferred b @ (rest @ rest')"
      using i(1,2) s(1,2) by simp_all
    show "br_sequence (bt_broker b') = br_sequence (bt_broker b) + int (length (o0 # orders))"
      using i(9) execute_one_frame(2)[OF st] by simp
    show "set (s # ss) \<subseteq> {''filled'', ''partial'', ''deferred'', ''rejected''}" using i(5) f(1) by simp
    show "count_status ''deferred'' (s # ss) \<le> length (rest @ rest')"
      "length (rest @ rest') \<le> count_status ''deferred'' (s # ss) + count_status ''partial'' (s # ss)"
      using i(6,7) f(2,3) by (simp_all add: c)
    show "\<forall>r \<in> set (rest @ rest'). \<exists>o1 \<in> set (o0 # orders). carried_from o1 r" using i(8) s(4) by auto
  qed (use i s(6) in simp_all)
qed

lemma count_four:
  assumes "set ss \<subseteq> {''filled'', ''partial'', ''deferred'', ''rejected''}"
  shows "count_status ''filled'' ss + count_status ''partial'' ss + count_status ''deferred'' ss + count_status ''rejected'' ss = length ss"
  using assms by (induction ss) (auto simp: count_status_def)

text \<open>C6: No order of a batch is lost or counted twice: the rebalance record of the batch counts
  exactly as many ledger rows as there were orders, each with one of the four statuses, the order
  numbers advance by the size of the batch, and the orders handed back are those deferred plus at most
  the partially filled ones, each continuing an order of the batch.\<close>

theorem batch_accounts_for_every_order:
  assumes "execute env ts overrides orders br = Inr (deferred, br')" and "orders \<noteq> []"
  shows "\<exists>rb filled partial waiting rejected. br_rebalances br' = br_rebalances br @ [rb] \<and>
     rb_order_count rb = length orders \<and>
     rb_counts rb = [(''filled'', filled), (''partial'', partial), (''deferred'', waiting), (''rejected'', rejected)] \<and>
     filled + partial + waiting + rejected = length orders \<and>
     br_sequence br' = br_sequence br + int (length orders) \<and>
     waiting \<le> length deferred \<and> length deferred \<le> waiting + partial \<and>
     (\<forall>r \<in> set deferred. \<exists>o0 \<in> set orders. carried_from o0 r)"
  using assms
proof (rule execute_parts)
  fix equity br1 b
  assume mk: "mark_to_market_before_fill env ts overrides br = Inr (equity, br1)"
    and run: "foldE (execute_one env ts overrides equity) orders
       \<lparr>bt_broker = br1, bt_deferred = [], bt_weights = [], bt_indexes = [], bt_overrides = overrides\<rparr> = Inr b"
    and rb: "record_rebalance env ts equity (br_cash br1) b = Inr br'" and d: "deferred = bt_deferred b"
  note mf = mark_all_frame[OF mk[unfolded mark_to_market_before_fill_def]]
  let ?c = "\<lambda>n. count_status n (statuses b)"
  have t: "length (statuses b) = length orders" "set (statuses b) \<subseteq> {''filled'', ''partial'', ''deferred'', ''rejected''}"
    "?c ''deferred'' \<le> length (bt_deferred b)" "length (bt_deferred b) \<le> ?c ''deferred'' + ?c ''partial''"
    "\<forall>r \<in> set (bt_deferred b). \<exists>o0 \<in> set orders. carried_from o0 r"
    "br_sequence (bt_broker b) = br_sequence br1 + int (length orders)" "br_rebalances (bt_broker b) = br_rebalances br1"
    using batch_trace[OF run] by (auto simp: statuses_def indexed_def)
  obtain ea br2 where m2: "mark_all (mark_position_before_fill env ts (bt_overrides b)) (bt_broker b) = Inr (ea, br2)"
    using rb by (auto simp: record_rebalance_def bindE_Inr_iff mark_to_market_before_fill_def)
  note m2f = mark_all_frame[OF m2]
  let ?events = "map (\<lambda>i. lg_events (br_ledger br2) ! i) (bt_indexes b)"
  have ev: "map oe_status ?events = statuses b" by (simp add: statuses_def m2f(3))
  have cnt: "length (filter (\<lambda>e. oe_status e = n) ?events) = ?c n" for n
    unfolding ev[symmetric] count_status_def by (simp add: filter_map comp_def)
  have len: "length ?events = length orders" using arg_cong[OF ev, of length] t(1) by simp
  obtain r where r: "br_rebalances br' = br_rebalances (bt_broker b) @ [r]" "rb_order_count r = length ?events"
    "rb_counts r = map (\<lambda>n. (n, length (filter (\<lambda>e. oe_status e = n) ?events))) [''filled'', ''partial'', ''deferred'', ''rejected'']"
    using rb m2 m2f(7) by (auto simp: record_rebalance_def mark_to_market_before_fill_def Let_def)
  show ?thesis
  proof (intro exI conjI)
    show "br_rebalances br' = br_rebalances br @ [r]" using r(1) t(7) mf(7) by simp
    show "rb_order_count r = length orders" using r(2) len by simp
    show "rb_counts r = [(''filled'', ?c ''filled''), (''partial'', ?c ''partial''), (''deferred'', ?c ''deferred''), (''rejected'', ?c ''rejected'')]"
      using r(3) cnt by simp
    show "?c ''filled'' + ?c ''partial'' + ?c ''deferred'' + ?c ''rejected'' = length orders"
      using count_four[OF t(2)] t(1) by simp
    show "br_sequence br' = br_sequence br + int (length orders)"
      using record_rebalance_frame(6)[OF rb] t(6) mf(6) by simp
  qed (use t d in simp_all)
qed

theorem batch_accounts_for_every_order_witness:
  "\<exists>deferred br' rb. execute demo_env 0 [] [demo_limit] demo_broker = Inr (deferred, br') \<and>
     br_rebalances br' = br_rebalances demo_broker @ [rb] \<and> rb_order_count rb = 1"
proof -
  obtain deferred br' where e: "execute demo_env 0 [] [demo_limit] demo_broker = Inr (deferred, br')"
    using demo_executes by blast
  with batch_accounts_for_every_order[OF e] show ?thesis by auto
qed

section \<open>Bounded retries\<close>

text \<open>Rounds of execution in which only orders handed back by the broker are submitted again, possibly
  fewer of them (cancelled or superseded), at any time, in any market and from any broker state.\<close>

inductive retried :: "order_intent list \<Rightarrow> nat \<Rightarrow> order_intent list \<Rightarrow> bool" where
  start: "retried orders 0 orders"
| round: "retried orders n pending \<Longrightarrow> execute env ts overrides pending br = Inr (deferred, br') \<Longrightarrow>
    set pending' \<subseteq> set deferred \<Longrightarrow> retried orders (Suc n) pending'"

lemma execute_carries:
  assumes "execute env ts overrides orders br = Inr (deferred, br')" and "r \<in> set deferred"
  shows "\<exists>o0 \<in> set orders. carried_from o0 r"
proof (cases "orders = []")
  case True
  then show ?thesis using assms by (simp add: execute_def)
next
  case False
  show ?thesis using assms(1) False
  proof (rule execute_parts)
    fix equity br1 b
    assume run: "foldE (execute_one env ts overrides equity) orders
       \<lparr>bt_broker = br1, bt_deferred = [], bt_weights = [], bt_indexes = [], bt_overrides = overrides\<rparr> = Inr b" and "deferred = bt_deferred b"
    then show ?thesis using batch_trace[OF run] assms(2) by (auto simp: indexed_def)
  qed
qed

lemma retried_attempts:
  assumes "retried orders n pending"
  shows "\<forall>r \<in> set pending. is_limit_order r \<or> (\<exists>o0 \<in> set orders. oi_attempts r = oi_attempts o0 + int n) \<and> (n = 0 \<or> oi_attempts r \<le> 4)"
  using assms
proof (induction rule: retried.induct)
  case (round orders n pending env ts overrides br deferred br' pending')
  show ?case
  proof
    fix r assume "r \<in> set pending'"
    then obtain o1 where o1: "o1 \<in> set pending" "carried_from o1 r"
      using execute_carries[OF round(2)] round(3) by blast
    then show "is_limit_order r \<or> (\<exists>o0 \<in> set orders. oi_attempts r = oi_attempts o0 + int (Suc n)) \<and> (Suc n = 0 \<or> oi_attempts r \<le> 4)"
      using bspec[OF round.IH o1(1)] by (auto simp: carried_from_def)
  qed
qed auto

text \<open>C27: Market orders do not linger: orders enter with attempt zero, and after five rounds of
  resubmission, whatever the market and the account do, none of them is still pending; only resting
  limit orders may be.\<close>

theorem market_orders_retire:
  assumes "retried orders n pending" and "\<forall>o0 \<in> set orders. 0 \<le> oi_attempts o0" and "5 \<le> n"
  shows "\<forall>r \<in> set pending. is_limit_order r"
proof
  fix r assume "r \<in> set pending"
  then show "is_limit_order r" using bspec[OF retried_attempts[OF assms(1)]] assms(2,3) by force
qed

text \<open>An order for an instrument without data is carried four times and then given up.\<close>

definition dark_env :: sim_env where
  "dark_env = demo_env\<lparr>se_bar := \<lambda>s t. Inr None\<rparr>"

definition dark_order :: "int \<Rightarrow> order_intent" where
  "dark_order n = (market_intent ''US:X'' ''quantity'' (Fin 2) ''strategy'' None [])\<lparr>oi_attempts := n\<rparr>"

lemma dark_one:
  "\<exists>b'. execute_one dark_env 0 [] equity (dark_order n) b = Inr b' \<and>
     bt_deferred b' = bt_deferred b @ (if n < 4 then [dark_order (n + 1)] else [])"
  by (simp add: execute_one_def make_job_def dark_env_def demo_env_def dark_order_def market_intent_def block_reason_def
      execution_block_reason_def attempt_order_def note_blocked_def note_event_def Let_def)

lemma dark_round:
  "\<exists>br'. execute dark_env 0 [] [dark_order n] br = Inr (if n < 4 then [dark_order (n + 1)] else [], br')"
proof -
  have mt: "market_total dark_env" by (simp add: market_total_def dark_env_def demo_env_def)
  obtain v br1 where mk: "mark_to_market_before_fill dark_env 0 [] br = Inr (v, br1)"
    using mark_before_fill_total[OF mt] by blast
  obtain b where b: "execute_one dark_env 0 [] v (dark_order n)
      \<lparr>bt_broker = br1, bt_deferred = [], bt_weights = [], bt_indexes = [], bt_overrides = []\<rparr> = Inr b"
    "bt_deferred b = (if n < 4 then [dark_order (n + 1)] else [])"
    using dark_one[of v n "\<lparr>bt_broker = br1, bt_deferred = [], bt_weights = [], bt_indexes = [], bt_overrides = []\<rparr>"] by auto
  obtain br' where "record_rebalance dark_env 0 v (br_cash br1) b = Inr br'"
    using record_rebalance_total[OF mt] by blast
  then show ?thesis by (simp add: execute_def mk b)
qed

lemma dark_carried: "n \<le> 4 \<Longrightarrow> retried [dark_order 0] n [dark_order (int n)]"
proof (induction n)
  case 0
  show ?case using retried.start[of "[dark_order 0]"] by simp
next
  case (Suc n)
  then obtain br' where "execute dark_env 0 [] [dark_order (int n)] demo_broker = Inr ([dark_order (int n + 1)], br')"
    using dark_round[of "int n" demo_broker] by auto
  from retried.round[OF Suc.IH this, of "[dark_order (int (Suc n))]"] show ?case using Suc.prems by (simp add: add.commute)
qed

theorem market_orders_retire_witness:
  "retried [dark_order 0] 4 [dark_order 4] \<and> retried [dark_order 0] 5 [] \<and> list_all is_limit_order []"
proof -
  have r4: "retried [dark_order 0] 4 [dark_order 4]" using dark_carried[of 4] by simp
  obtain br' where "execute dark_env 0 [] [dark_order 4] demo_broker = Inr ([], br')"
    using dark_round[of 4 demo_broker] by auto
  from retried.round[OF r4 this, of "[]"] have "retried [dark_order 0] 5 []" by simp
  with r4 show ?thesis using market_orders_retire[of "[dark_order 0]" 5 "[]"] by (simp add: dark_order_def market_intent_def)
qed

end
