(* ===== verification/BrokerSafety.thy ===== *)
theory BrokerSafety
  imports BrokerDemo
begin

text \<open>
  The broker as a state machine: its operations as steps, and the invariant of every state they reach.
  A protection always guards an open position of its own side, no position is dust, and the
  configuration is the one the broker was built with.
\<close>

section \<open>The invariant\<close>

definition guarded :: "broker \<Rightarrow> bool" where
  "guarded br \<longleftrightarrow> wf_dict (br_protections br) \<and>
     (\<forall>k p. dget (br_positions br) k = Some p \<longrightarrow> \<not> fle (fabs (ps_amount p)) dust) \<and>
     (\<forall>k st. dget (br_protections br) k = Some st \<longrightarrow>
        (\<exists>p. dget (br_positions br) k = Some p \<and> pst_side st = amount_side (ps_amount p)))"

lemma guarded_cong:
  assumes "guarded br" and "br_protections br' = br_protections br"
    and "\<And>k. map_option ps_amount (dget (br_positions br') k) = map_option ps_amount (dget (br_positions br) k)"
  shows "guarded br'"
proof -
  have a: "dget (br_positions br') k = Some p' \<Longrightarrow> \<exists>p. dget (br_positions br) k = Some p \<and> ps_amount p = ps_amount p'" for k p'
    using assms(3)[of k] by (cases "dget (br_positions br) k") auto
  have b: "dget (br_positions br) k = Some p \<Longrightarrow> \<exists>p'. dget (br_positions br') k = Some p' \<and> ps_amount p' = ps_amount p" for k p
    using assms(3)[of k] by (cases "dget (br_positions br') k") auto
  show ?thesis unfolding guarded_def
  proof (intro conjI allI impI)
    show "wf_dict (br_protections br')" using assms(1,2) by (simp add: guarded_def)
  next
    fix k p assume "dget (br_positions br') k = Some p"
    then show "\<not> fle (fabs (ps_amount p)) dust" using a assms(1) unfolding guarded_def by metis
  next
    fix k st assume "dget (br_protections br') k = Some st"
    then show "\<exists>p. dget (br_positions br') k = Some p \<and> pst_side st = amount_side (ps_amount p)"
      using b assms(1,2) unfolding guarded_def by metis
  qed
qed

section \<open>Valuation\<close>

lemma revalue_amount [simp]: "ps_amount (revalue p x) = ps_amount p" "ps_symbol (revalue p x) = ps_symbol p"
  by (simp_all add: revalue_def)

lemma mapE_amounts:
  assumes "mapE (\<lambda>(k, p). bindE (mark k p) (\<lambda>p'. Inr (k, p'))) ps = Inr ps'"
    and "\<And>k p p'. mark k p = Inr p' \<Longrightarrow> ps_amount p' = ps_amount p"
  shows "map_option ps_amount (dget ps' k) = map_option ps_amount (dget ps k)"
  using assms(1)
proof (induction ps arbitrary: ps')
  case (Cons kp ps)
  obtain j p where kp: "kp = (j, p)" by (cases kp)
  from Cons.prems obtain p' qs where "mark j p = Inr p'" "ps' = (j, p') # qs"
    "mapE (\<lambda>(k, p). bindE (mark k p) (\<lambda>p'. Inr (k, p'))) ps = Inr qs"
    by (auto simp: kp bindE_Inr_iff)
  then show ?case using Cons.IH assms(2) by (simp add: kp dget_Cons)
qed simp

lemma mark_all_guarded:
  assumes "mark_all mark br = Inr (v, br')" and "guarded br"
    and "\<And>k p p'. mark k p = Inr p' \<Longrightarrow> ps_amount p' = ps_amount p"
  shows "guarded br'"
proof (rule guarded_cong[OF assms(2)])
  show "br_protections br' = br_protections br" by (rule mark_all_frame(4)[OF assms(1)])
  obtain ps where m: "mapE (\<lambda>(k, p). bindE (mark k p) (\<lambda>p'. Inr (k, p'))) (br_positions br) = Inr ps" "br_positions br' = ps"
    using assms(1) by (auto simp: mark_all_def bindE_Inr_iff Let_def)
  show "map_option ps_amount (dget (br_positions br') k) = map_option ps_amount (dget (br_positions br) k)" for k
    using mapE_amounts[OF m(1) assms(3)] m(2) by simp
qed

lemma mark_position_amount: "mark_position env ts p = Inr p' \<Longrightarrow> ps_amount p' = ps_amount p"
  by (auto simp: mark_position_def bindE_Inr_iff split: option.splits)

lemma mark_position_before_fill_amount: "mark_position_before_fill env ts ov k p = Inr p' \<Longrightarrow> ps_amount p' = ps_amount p"
  by (auto simp: mark_position_before_fill_def bindE_Inr_iff Let_def)

lemma mark_to_market_guarded: "mark_to_market env ts br = Inr (v, br') \<Longrightarrow> guarded br \<Longrightarrow> guarded br'"
  unfolding mark_to_market_def by (erule (1) mark_all_guarded) (rule mark_position_amount)

lemma mark_before_fill_guarded: "mark_to_market_before_fill env ts ov br = Inr (v, br') \<Longrightarrow> guarded br \<Longrightarrow> guarded br'"
  unfolding mark_to_market_before_fill_def by (erule (1) mark_all_guarded) (rule mark_position_before_fill_amount)

section \<open>Fills\<close>

lemma lower_amount_side [simp]: "lower (amount_side a) = amount_side a"
  by (simp add: amount_side_def) code_simp

lemma apply_scale_in_side [simp]: "pst_side (apply_scale_in e f sp w st) = pst_side st"
  by (simp add: apply_scale_in_def Let_def split: option.split)

lemma state_open_side [simp]: "pst_side (state_open s sd e sp t) = lower sd"
  by (simp add: state_open_def Let_def)

lemma protect_fill_other: "k \<noteq> key \<Longrightarrow> dget (protect_fill o0 key p fp ts prots) k = dget prots k"
  by (simp add: protect_fill_def Let_def split: option.split)

lemma protect_fill_wf: "wf_dict prots \<Longrightarrow> wf_dict (protect_fill o0 key p fp ts prots)"
  by (simp add: protect_fill_def Let_def split: option.split)

lemma protect_fill_side:
  assumes "dget (protect_fill o0 key p fp ts prots) key = Some st"
  shows "pst_side st = amount_side (ps_amount p)"
  using assms by (auto simp: protect_fill_def Let_def split: option.splits if_splits)

lemma settle_guarded:
  assumes "settle jb cur d fp ts br = Inr br'" and "guarded br"
  shows "guarded br'"
proof -
  obtain cost where "next_average_cost (ps_amount cur) (ps_avg_cost cur) d fp = Inr cost"
    using assms(1) by (auto simp: settle_def bindE_Inr_iff Let_def)
  define q where "q = cur\<lparr>ps_amount := fadd (ps_amount cur) d, ps_avg_cost := cost, ps_last_price := fp\<rparr>"
  have b: "br_positions br' = (if fle (fabs (ps_amount q)) dust then dpop (br_positions br) (jb_key jb) else dset (br_positions br) (jb_key jb) q)"
    "br_protections br' = (if fle (fabs (ps_amount q)) dust then dpop (br_protections br) (jb_key jb)
        else protect_fill (jb_order jb) (jb_key jb) q fp ts (br_protections br))"
    using assms(1) \<open>next_average_cost _ _ _ _ = _\<close> by (auto simp: settle_def Let_def q_def)
  show ?thesis
  proof (cases "fle (fabs (ps_amount q)) dust")
    case True
    then show ?thesis using assms(2) by (auto simp: guarded_def b)
  next
    case False
    have pos: "dget (br_positions br') = (dget (br_positions br))(jb_key jb \<mapsto> q)" using False by (simp add: b)
    show ?thesis unfolding guarded_def
    proof (intro conjI allI impI)
      show "wf_dict (br_protections br')" using False assms(2) protect_fill_wf by (simp add: b guarded_def)
    next
      fix k p assume "dget (br_positions br') k = Some p"
      then show "\<not> fle (fabs (ps_amount p)) dust" using False assms(2) by (auto simp: pos guarded_def split: if_splits)
    next
      fix k st assume st: "dget (br_protections br') k = Some st"
      show "\<exists>p. dget (br_positions br') k = Some p \<and> pst_side st = amount_side (ps_amount p)"
      proof (cases "k = jb_key jb")
        case True
        then show ?thesis using st False protect_fill_side by (simp add: b)
      next
        case other: False
        then have "dget (br_protections br) k = Some st" using st False protect_fill_other by (simp add: b)
        then show ?thesis using assms(2) other by (auto simp: pos guarded_def)
      qed
    qed
  qed
qed

lemma guarded_frame:
  assumes "guarded br" and "br_positions br' = br_positions br" and "br_protections br' = br_protections br"
  shows "guarded br'"
  using assms by (simp add: guarded_def)

lemma apply_fill_guarded:
  assumes "apply_fill env ts jb sz p reference pl b = Inr b'" and "guarded (bt_broker b)"
  shows "guarded (bt_broker b')"
  using assms(1)
proof (rule apply_fill_parts)
  fix br1 status ex book rest e
  assume st: "settle jb (sz_current sz) (pl_delta pl) p ts (bt_broker b) = Inr br1"
    and b': "b' = (let c = log_event e False (b\<lparr>bt_broker := br1\<lparr>br_executions := br_executions br1 @ [ex]\<rparr>,
               bt_overrides := dset (bt_overrides b) (jb_key jb) p\<rparr>)
            in c\<lparr>bt_broker := (bt_broker c)\<lparr>br_book := book\<rparr>, bt_deferred := bt_deferred c @ rest\<rparr>)"
  show ?thesis
    by (rule guarded_frame[OF settle_guarded[OF st assms(2)]]) (simp_all add: b' Let_def)
qed

lemma execute_one_guarded:
  assumes "execute_one env ts ov equity o0 b = Inr b'" and "guarded (bt_broker b)"
  shows "guarded (bt_broker b')"
proof (cases rule: execute_one_cases[OF assms(1)])
  case noted: (1 jb w)
  show ?thesis using noted_only_frame(3,4)[OF noted(2)] by (intro guarded_frame[OF assms(2)]) simp_all
next
  case filled: (2 jb w sz weight p reference pl)
  have "guarded (bt_broker ((numbered b)\<lparr>bt_weights := w\<rparr>))" by (rule guarded_frame[OF assms(2)]) simp_all
  then show ?thesis by (rule apply_fill_guarded[OF filled(6)])
qed

lemma record_rebalance_guarded:
  assumes "record_rebalance env ts equity cash b = Inr br'" and "guarded (bt_broker b)"
  shows "guarded br'"
proof -
  obtain v br where m: "mark_to_market_before_fill env ts (bt_overrides b) (bt_broker b) = Inr (v, br)"
    "br_positions br' = br_positions br" "br_protections br' = br_protections br"
    using assms(1) by (auto simp: record_rebalance_def bindE_Inr_iff Let_def)
  show ?thesis using mark_before_fill_guarded[OF m(1) assms(2)] m(2,3) by (rule guarded_frame)
qed

lemma execute_guarded:
  assumes "execute env ts ov orders br = Inr (deferred, br')" and "guarded br"
  shows "guarded br'"
proof (cases "orders = []")
  case True
  then show ?thesis using assms by (simp add: execute_def)
next
  case False
  show ?thesis using assms(1) False
  proof (rule execute_parts)
    fix equity br1 b
    assume mk: "mark_to_market_before_fill env ts ov br = Inr (equity, br1)"
      and run: "foldE (execute_one env ts ov equity) orders
       \<lparr>bt_broker = br1, bt_deferred = [], bt_weights = [], bt_indexes = [], bt_overrides = ov\<rparr> = Inr b"
      and rb: "record_rebalance env ts equity (br_cash br1) b = Inr br'"
    have "guarded (bt_broker b)" using run
      by (rule foldE_invariant) (use mark_before_fill_guarded[OF mk assms(2)] execute_one_guarded in auto)
    then show ?thesis by (rule record_rebalance_guarded[OF rb])
  qed
qed

section \<open>Protections and liquidation\<close>

lemma trailing_trigger_side: "trailing_trigger st = (t, st') \<Longrightarrow> pst_side st' = pst_side st"
  by (auto simp: trailing_trigger_def Let_def split: if_splits)

lemma evaluate_bar_side:
  assumes "evaluate_bar elapsed mode st ts o0 h l = (dec, st')"
  shows "pst_side st' = pst_side st"
proof (rule evaluate_bar_cases[OF assms])
  fix cs st1
  assume b: "bar_candidates elapsed st ts (f_number o0 (Fin 0)) (pymax (f_number o0 (Fin 0)) (f_number h (f_number o0 (Fin 0))))
      (pymin (f_number o0 (Fin 0)) (f_number l (f_number o0 (Fin 0)))) = (cs, st1)"
    and st': "st' = (if dec = None then st1\<lparr>pst_highest_price := pymax (pst_highest_price st1) (pymax (f_number o0 (Fin 0)) (f_number h (f_number o0 (Fin 0)))),
        pst_lowest_price := pymin (pst_lowest_price st1) (pymin (f_number o0 (Fin 0)) (f_number l (f_number o0 (Fin 0))))\<rparr> else st1)"
  obtain t st2 where t: "trailing_trigger st = (t, st2)" by force
  then have "st1 = st2" using b by (simp add: bar_candidates_def Let_def)
  then show ?thesis using trailing_trigger_side[OF t] st' by simp
qed

text \<open>A stored protection fits the position it is scanned with.\<close>

definition fits :: "(string, position) dict \<Rightarrow> string \<times> protection_state \<Rightarrow> bool" where
  "fits ps keyed \<longleftrightarrow> (\<forall>p. dget ps (fst keyed) = Some p \<longrightarrow> pst_side (snd keyed) = amount_side (ps_amount p))"

lemma scan_protection_guarded:
  assumes "scan_protection env ts keyed acc = Inr acc'" and "guarded (fst acc)" and "fits (br_positions (fst acc)) keyed"
  shows "guarded (fst acc') \<and> br_positions (fst acc') = br_positions (fst acc)"
proof -
  obtain key st0 br hits where k: "keyed = (key, st0)" "acc = (br, hits)" by (cases keyed; cases acc)
  show ?thesis
  proof (cases "dget (br_positions br) key")
    case None
    then have "fst acc' = br\<lparr>br_protections := dpop (br_protections br) key\<rparr>"
      using assms(1) by (auto simp: scan_protection_def k bindE_Inr_iff)
    moreover have "(if j = key then None else dget (br_protections br) j) = Some st \<Longrightarrow> dget (br_protections br) j = Some st" for j st
      by (simp split: if_splits)
    ultimately show ?thesis using assms(2) by (simp add: guarded_def k)
  next
    case (Some p)
    have st0: "pst_side st0 = amount_side (ps_amount p)" using assms(3) Some by (simp add: k fits_def)
    obtain b where b: "se_bar env (ps_symbol p) ts = Inr b" using assms(1) Some by (auto simp: scan_protection_def k bindE_Inr_iff)
    show ?thesis
    proof (cases b)
      case None
      then show ?thesis using assms(1,2) Some b by (auto simp: scan_protection_def k)
    next
      case bar: (Some x)
      obtain dec st1 where ev: "evaluate_bar (se_elapsed env) ''conservative'' (st0\<lparr>pst_entry_price := ps_avg_cost p\<rparr>) ts
          (b_open x) (b_high x) (b_low x) = (dec, st1)" by force
      have "fst acc' = br\<lparr>br_protections := dset (br_protections br) key st1\<rparr>"
        using assms(1) Some b bar ev by (auto simp: scan_protection_def k Let_def)
      moreover have "pst_side st1 = amount_side (ps_amount p)" using evaluate_bar_side[OF ev] st0 by simp
      ultimately show ?thesis using assms(2) Some by (simp add: guarded_def k)
    qed
  qed
qed

lemma scan_all_guarded:
  assumes "foldE (scan_protection env ts) keyed acc = Inr acc'" and "guarded (fst acc)"
    and "\<forall>x \<in> set keyed. fits (br_positions (fst acc)) x"
  shows "guarded (fst acc')"
  using assms
proof (induction keyed arbitrary: acc)
  case (Cons x keyed)
  then obtain acc1 where "scan_protection env ts x acc = Inr acc1" "foldE (scan_protection env ts) keyed acc1 = Inr acc'"
    by (auto simp: bindE_Inr_iff)
  then show ?case using scan_protection_guarded[of env ts x acc acc1] Cons by simp
qed simp

lemma guarded_dpop_protection: "guarded br \<Longrightarrow> guarded (br\<lparr>br_protections := dpop (br_protections br) key\<rparr>)"
  by (simp add: guarded_def)

lemma confirm_protection_guarded: "guarded (fst acc) \<Longrightarrow> guarded (fst (confirm_protection env ex evs hit acc))"
  using guarded_dpop_protection guarded_frame[of "fst acc"]
  by (auto simp: confirm_protection_def split: prod.splits)

lemma confirm_all_guarded: "guarded (fst acc) \<Longrightarrow> guarded (fst (fold (confirm_protection env ex evs) hits acc))"
  by (induction hits arbitrary: acc) (simp_all add: confirm_protection_guarded)

lemma guarded_fits: "guarded br \<Longrightarrow> \<forall>x \<in> set (br_protections br). fits (br_positions br) x"
  by (auto simp: guarded_def fits_def) (metis in_dict_dget option.inject)

lemma process_protections_guarded:
  assumes "process_protections env ts br = Inr (decisions, br')" and "guarded br"
  shows "guarded br'"
proof -
  obtain br1 hits where s: "foldE (scan_protection env ts) (br_protections br) (br, []) = Inr (br1, hits)"
    using assms(1) by (auto simp: process_protections_def bindE_Inr_iff)
  have g1: "guarded br1" using scan_all_guarded[OF s] assms(2) guarded_fits by simp
  show ?thesis
  proof (cases "hits = []")
    case True
    then show ?thesis using assms(1) s g1 by (simp add: process_protections_def)
  next
    case False
    let ?orders = "map (\<lambda>(key, symbol, side, d). market_intent symbol ''target_quantity'' (Fin 0) (pd_reason d) (Some ts) side) hits"
    let ?ov = "foldl (\<lambda>m (key, symbol, side, d). dset m key (pd_price d)) [] hits"
    obtain deferred br2 where e: "execute env ts ?ov ?orders br1 = Inr (deferred, br2)"
      using assms(1) s False by (auto simp: process_protections_def bindE_Inr_iff Let_def)
    let ?c = "confirm_protection env (drop (length (br_executions br1)) (br_executions br2)) (drop (length (lg_events (br_ledger br1))) (lg_events (br_ledger br2)))"
    have "br' = fst (fold ?c hits (br2, []))"
      using assms(1) s False e by (simp add: process_protections_def Let_def split: prod.splits)
    then show ?thesis using confirm_all_guarded[of "(br2, [])"] execute_guarded[OF e g1] by simp
  qed
qed

lemma liquidate_parts:
  assumes "liquidate_if_insolvent env ts br = Inr (dead, br')" and "\<not> br_bankrupt br"
  obtains (solvent) v where "mark_to_market env ts br = Inr (v, br')" "flt (Fin 0) v" "\<not> dead"
  | (liquidated) v br1 orders ov deferred br2 total br3 deficit event where "mark_to_market env ts br = Inr (v, br1)" "\<not> flt (Fin 0) v" "dead"
      "liquidation_orders env ts (dvals (br_positions br1)) = Inr (orders, ov)"
      "execute env ts ov orders br1 = Inr (deferred, br2)" "deficit = pymax (Fin 0) (fneg (br_cash br2))"
      "mark_to_market env ts (if ftruthy deficit then br2\<lparr>br_liquidation_adjustment := fadd (br_liquidation_adjustment br2) deficit,
                                  br_cash := fadd (br_cash br2) deficit\<rparr> else br2) = Inr (total, br3)"
      "br' = br3\<lparr>br_total_value := pymax (Fin 0) total, br_bankrupt := True, br_liquidations := br_liquidations br3 @ [event]\<rparr>"
proof -
  obtain v br1 where m: "mark_to_market env ts br = Inr (v, br1)"
    using assms by (auto simp: liquidate_if_insolvent_def bindE_Inr_iff)
  show thesis
  proof (cases "flt (Fin 0) v")
    case True
    then show thesis using assms m solvent by (simp add: liquidate_if_insolvent_def)
  next
    case False
    then obtain orders ov where o: "liquidation_orders env ts (dvals (br_positions br1)) = Inr (orders, ov)"
      using assms m by (auto simp: liquidate_if_insolvent_def bindE_Inr_iff)
    then obtain deferred br2 where e: "execute env ts ov orders br1 = Inr (deferred, br2)"
      using assms m False by (auto simp: liquidate_if_insolvent_def bindE_Inr_iff)
    let ?d = "pymax (Fin 0) (fneg (br_cash br2))"
    let ?b = "if ftruthy ?d then br2\<lparr>br_liquidation_adjustment := fadd (br_liquidation_adjustment br2) ?d, br_cash := fadd (br_cash br2) ?d\<rparr> else br2"
    obtain total br3 where t: "mark_to_market env ts ?b = Inr (total, br3)"
      using assms m False o e by (auto simp: liquidate_if_insolvent_def bindE_Inr_iff Let_def)
    then have "dead \<and> br3\<lparr>br_total_value := pymax (Fin 0) total, br_bankrupt := True,
        br_liquidations := br_liquidations br3 @ [\<lparr>le_time = se_time_iso env ts, le_equity_before = v, le_deficit_absorbed = ?d,
          le_positions_closed = length orders\<rparr>]\<rparr> = br'"
      using assms m False o e by (simp add: liquidate_if_insolvent_def Let_def)
    then show thesis using liquidated[OF m False _ o e refl t] by blast
  qed
qed

lemma liquidate_guarded:
  assumes "liquidate_if_insolvent env ts br = Inr (dead, br')" and "guarded br"
  shows "guarded br'"
proof (cases "br_bankrupt br")
  case True
  then show ?thesis using assms by (simp add: liquidate_if_insolvent_def)
next
  case False
  show ?thesis using assms(1) False
  proof (cases rule: liquidate_parts)
    case (solvent v)
    then show ?thesis using mark_to_market_guarded assms(2) by blast
  next
    case (liquidated v br1 orders ov deferred br2 total br3 deficit event)
    have "guarded br2" using execute_guarded[OF liquidated(5) mark_to_market_guarded[OF liquidated(1) assms(2)]] .
    then have "guarded (if ftruthy deficit then br2\<lparr>br_liquidation_adjustment := fadd (br_liquidation_adjustment br2) deficit,
        br_cash := fadd (br_cash br2) deficit\<rparr> else br2)" by (simp add: guarded_def)
    from mark_to_market_guarded[OF liquidated(7) this] show ?thesis by (simp add: liquidated(8) guarded_def)
  qed
qed

lemma record_equity_guarded:
  assumes "record_equity env ts br = Inr br'" and "guarded br"
  shows "guarded br'"
proof -
  obtain v br1 where m: "mark_to_market env ts br = Inr (v, br1)" "br_positions br' = br_positions br1" "br_protections br' = br_protections br1"
    using assms(1) by (auto simp: record_equity_def bindE_Inr_iff Let_def)
  show ?thesis using mark_to_market_guarded[OF m(1) assms(2)] m(2,3) by (rule guarded_frame)
qed

section \<open>Reachable brokers\<close>

text \<open>Any interleaving of the broker's operations, at any times and on any market data.\<close>

inductive broker_run :: "broker \<Rightarrow> broker \<Rightarrow> bool" for br0 :: broker where
  start: "broker_run br0 br0"
| trade: "broker_run br0 br \<Longrightarrow> execute env ts overrides orders br = Inr (deferred, br') \<Longrightarrow> broker_run br0 br'"
| protect: "broker_run br0 br \<Longrightarrow> process_protections env ts br = Inr (decisions, br') \<Longrightarrow> broker_run br0 br'"
| liquidate: "broker_run br0 br \<Longrightarrow> liquidate_if_insolvent env ts br = Inr (dead, br') \<Longrightarrow> broker_run br0 br'"
| equity: "broker_run br0 br \<Longrightarrow> record_equity env ts br = Inr br' \<Longrightarrow> broker_run br0 br'"
| release: "broker_run br0 br \<Longrightarrow> remove_cancelled_orders pending cx (br_ledger br) = (pending', cx', lg) \<Longrightarrow>
    broker_run br0 (br\<lparr>br_ledger := lg\<rparr>)"

lemma broker_run_guarded:
  assumes "broker_run br0 br" and "guarded br0"
  shows "guarded br"
  using assms
proof (induction rule: broker_run.induct)
  case (release br pending cx pending' cx' lg)
  then show ?case by (simp add: guarded_def)
qed (blast intro: execute_guarded process_protections_guarded liquidate_guarded record_equity_guarded)+

text \<open>C3: A protection never outlives or contradicts its position: in every state the broker reaches
  from its construction, each stored protection belongs to an open position and has the side of its
  amount, also after reversals, partial closes, protection exits and liquidation, and no position is
  kept whose amount is dust.\<close>

theorem protections_guard_positions:
  assumes "broker_run (broker_init capital leverage commission slippage rules) br"
  shows "(\<forall>k st. dget (br_protections br) k = Some st \<longrightarrow>
            (\<exists>p. dget (br_positions br) k = Some p \<and> pst_side st = amount_side (ps_amount p))) \<and>
         (\<forall>k p. dget (br_positions br) k = Some p \<longrightarrow> \<not> fle (fabs (ps_amount p)) dust)"
proof -
  have "guarded (broker_init capital leverage commission slippage rules)"
    by (simp add: guarded_def broker_init_def dkeys_def)
  from broker_run_guarded[OF assms this] show ?thesis unfolding guarded_def by blast
qed

theorem protections_guard_positions_witness:
  "\<exists>deferred br. execute demo_env 0 [] [demo_limit] demo_broker = Inr (deferred, br) \<and>
     broker_run (broker_init (Fin 10000) (Fin 1) (Fin 0) (Fin 0) NoRules) br \<and>
     (\<forall>k p. dget (br_positions br) k = Some p \<longrightarrow> \<not> fle (fabs (ps_amount p)) dust)"
proof -
  obtain deferred br where e: "execute demo_env 0 [] [demo_limit] demo_broker = Inr (deferred, br)" using demo_executes by blast
  have "broker_run (broker_init (Fin 10000) (Fin 1) (Fin 0) (Fin 0) NoRules) br"
    by (rule broker_run.trade[OF broker_run.start e[unfolded demo_broker_def]])
  with e show ?thesis using protections_guard_positions[of "Fin 10000" "Fin 1" "Fin 0" "Fin 0" NoRules br] by blast
qed



definition broke_broker :: broker where
  "broke_broker = demo_broker\<lparr>br_cash := Fin (- 3)\<rparr>"


end
