(* ===== verification/MarketView.thy ===== *)
theory MarketView
  imports SimBroker
begin

text \<open>
  The market as the simulation broker sees it.  The data portal answers \<open>bar_at\<close> and \<open>current\<close>
  through caches it updates on every call; the broker's model reads a fixed view instead.  The
  interface \<open>memo_source\<close> says what a caching source must guarantee for that to be the same, and
  the portal is shown to guarantee it.
\<close>

section \<open>The view\<close>

definition bar_view :: "portal \<Rightarrow> string \<Rightarrow> timestamp \<Rightarrow> bar option result" where
  "bar_view pt symbol ts =
     bindE (resolve_key pt (PStr symbol) (PStr (driving_freq pt))) (\<lambda>key.
       lookup_bar (frame_of pt key (driving_freq pt)) ts)"

definition current_view :: "portal \<Rightarrow> string \<Rightarrow> pyfloat \<Rightarrow> pyfloat result" where
  "current_view pt symbol dflt =
     (let normalized = normalize_frequency PNone (driving_freq pt) in
      bindE (resolve_key pt (PStr symbol) (PStr normalized)) (\<lambda>key.
        let end_index = compute_visible_end pt key normalized; f = frame_of pt key normalized in
        if end_index = 0 \<or> ''close'' \<notin> set (f_columns f) \<or> length (f_rows f) < end_index then Inr dflt
        else Inr (case to_float (dget_or (snd (f_rows f ! (end_index - 1))) ''close'' PNone) of
                    Inl _ \<Rightarrow> dflt
                  | Inr v \<Rightarrow> if is_nan v then dflt else v)))"

text \<open>What the broker needs besides the portal: renderings of timestamps, elapsed time, the default venue.\<close>

record rendering =
  rd_time_iso :: "timestamp \<Rightarrow> string"
  rd_ts_iso :: "timestamp \<Rightarrow> string"
  rd_elapsed :: "timestamp \<Rightarrow> timestamp \<Rightarrow> pyfloat"
  rd_default_exchange :: string

definition portal_env :: "rendering \<Rightarrow> portal \<Rightarrow> sim_env" where
  "portal_env rd pt =
     \<lparr>se_bar = bar_view pt, se_current = current_view pt, se_time_iso = rd_time_iso rd, se_ts_iso = rd_ts_iso rd,
      se_elapsed = rd_elapsed rd, se_default_exchange = rd_default_exchange rd\<rparr>"

section \<open>Caching sources\<close>

fun answers :: "('q \<Rightarrow> 's \<Rightarrow> ('r \<times> 's) result) \<Rightarrow> 'q list \<Rightarrow> 's \<Rightarrow> 'r list result" where
  "answers ask [] s = Inr []"
| "answers ask (q # qs) s = bindE (ask q s) (\<lambda>(r, s'). bindE (answers ask qs s') (\<lambda>rs. Inr (r # rs)))"

locale memo_source =
  fixes ok :: "'s \<Rightarrow> bool"
    and ask :: "'q \<Rightarrow> 's \<Rightarrow> ('r \<times> 's) result"
    and view :: "'s \<Rightarrow> 'q \<Rightarrow> 'r result"
  assumes ask_view: "ok s \<Longrightarrow> map_sum id fst (ask q s) = view s q"
    and ask_ok: "ok s \<Longrightarrow> ask q s = Inr (r, s') \<Longrightarrow> ok s'"
    and ask_keeps: "ok s \<Longrightarrow> ask q s = Inr (r, s') \<Longrightarrow> view s' = view s"
begin

text \<open>Threading the state through any sequence of questions gives the answers of the fixed view.\<close>

lemma answers_view: "ok s \<Longrightarrow> answers ask qs s = mapE (view s) qs"
proof (induction qs arbitrary: s)
  case (Cons q qs)
  show ?case
  proof (cases "ask q s")
    case (Inl e)
    then show ?thesis using ask_view[OF Cons.prems, of q] by (cases "view s q") auto
  next
    case (Inr rs)
    obtain r s' where rs: "rs = (r, s')" by (cases rs)
    have "view s q = Inr r" using ask_view[OF Cons.prems, of q] Inr rs by (cases "view s q") auto
    moreover have "answers ask qs s' = mapE (view s) qs"
      using Cons.IH[OF ask_ok[OF Cons.prems]] ask_keeps[OF Cons.prems] Inr rs by metis
    ultimately show ?thesis using Inr rs by simp
  qed
qed simp

lemma ask_stable:
  assumes "ok s" and "ask q s = Inr (r, s')"
  shows "map_sum id fst (ask p s') = map_sum id fst (ask p s)"
  using ask_view[OF assms(1)] ask_view[OF ask_ok[OF assms]] ask_keeps[OF assms] by simp

end

section \<open>The portal as a caching source\<close>

datatype market_query = BarQuery string timestamp | CurrentQuery string pyfloat

datatype market_answer = BarAnswer "bar option" | PriceAnswer pyfloat

fun ask_portal :: "market_query \<Rightarrow> portal \<Rightarrow> (market_answer \<times> portal) result" where
  "ask_portal (BarQuery symbol ts) pt =
     bindE (bar_at (PStr symbol) ts pt) (\<lambda>(b, pt'). Inr (BarAnswer b, pt'))"
| "ask_portal (CurrentQuery symbol dflt) pt =
     bindE (current_value (PStr symbol) ''close'' dflt PNone pt) (\<lambda>(x, pt'). Inr (PriceAnswer x, pt'))"

fun env_answer :: "sim_env \<Rightarrow> market_query \<Rightarrow> market_answer result" where
  "env_answer env (BarQuery symbol ts) = bindE (se_bar env symbol ts) (\<lambda>b. Inr (BarAnswer b))"
| "env_answer env (CurrentQuery symbol dflt) = bindE (se_current env symbol dflt) (\<lambda>x. Inr (PriceAnswer x))"

text \<open>Two portals with the same data and clock, whatever their caches hold, show the same view.\<close>

definition same_data :: "portal \<Rightarrow> portal \<Rightarrow> bool" where
  "same_data pt pt' \<longleftrightarrow> (\<exists>v c t. pt' = pt\<lparr>visible_ends := v, bar_cache := c, bar_cache_timestamp := t\<rparr>)"

lemma same_data_view:
  assumes "same_data pt pt'"
  shows "bar_view pt' = bar_view pt" "current_view pt' = current_view pt"
  using assms by (auto simp: same_data_def bar_view_def current_view_def Let_def fun_eq_iff cong: if_cong)

lemma same_data_refl: "same_data pt pt"
  unfolding same_data_def by (intro exI[of _ "visible_ends pt"] exI[of _ "bar_cache pt"] exI[of _ "bar_cache_timestamp pt"]) simp

lemma visible_end_same_data: "same_data pt (snd (visible_end key freq pt))"
proof -
  have "\<exists>v. snd (visible_end key freq pt) = pt\<lparr>visible_ends := v\<rparr>"
    by (auto simp: visible_end_def Let_def split: option.splits) (metis portal.surjective portal.update_convs(7))
  then obtain v where "snd (visible_end key freq pt) = pt\<lparr>visible_ends := v\<rparr>" by blast
  then show ?thesis unfolding same_data_def
    by (intro exI[of _ v] exI[of _ "bar_cache pt"] exI[of _ "bar_cache_timestamp pt"]) simp
qed

lemma bar_at_same_data:
  assumes "bar_at symbol ts pt = Inr (b, pt')"
  shows "same_data pt pt'"
proof -
  have "\<exists>c t. pt' = pt\<lparr>bar_cache := c, bar_cache_timestamp := t\<rparr>"
    using assms by (auto simp: bar_at_def bindE_Inr_iff Let_def split: option.splits if_splits)
       (metis portal.surjective portal.update_convs(8,9))+
  then obtain c t where "pt' = pt\<lparr>bar_cache := c, bar_cache_timestamp := t\<rparr>" by blast
  then show ?thesis unfolding same_data_def
    by (intro exI[of _ "visible_ends pt"] exI[of _ c] exI[of _ t]) simp
qed

lemma current_value_same_data:
  assumes "current_value symbol field dflt freq pt = Inr (x, pt')"
  shows "same_data pt pt'"
proof -
  obtain key where "snd (visible_end key (normalize_frequency freq (driving_freq pt)) pt) = pt'"
    using assms by (auto simp: current_value_def bindE_Inr_iff Let_def case_prod_beta split: if_split_asm)
  then show ?thesis using visible_end_same_data by metis
qed

lemma ask_portal_ok: "portal_ok pt \<Longrightarrow> ask_portal q pt = Inr (r, pt') \<Longrightarrow> portal_ok pt' \<and> same_data pt pt'"
  by (cases q) (auto simp: bindE_Inr_iff dest: bar_at_ok(2) current_value_ok bar_at_same_data current_value_same_data)

lemma bar_at_view:
  assumes "portal_ok pt"
  shows "map_sum id fst (bar_at (PStr symbol) ts pt) = bar_view pt symbol ts"
proof (cases "bar_at (PStr symbol) ts pt")
  case (Inr r)
  then show ?thesis using bar_at_ok(1)[OF assms, of "PStr symbol" ts "fst r" "snd r"] by (auto simp: bar_view_def)
next
  case (Inl e)
  then show ?thesis using assms
    by (cases "resolve_key pt (PStr symbol) (PStr (driving_freq pt))")
      (auto simp: bar_at_def bar_view_def Let_def bindE_Inl_iff split: option.splits if_splits)
qed

lemma current_value_view:
  assumes "portal_ok pt"
  shows "map_sum id fst (current_value (PStr symbol) ''close'' dflt PNone pt) = current_view pt symbol dflt"
proof (cases "resolve_key pt (PStr symbol) (PStr (normalize_frequency PNone (driving_freq pt)))")
  case (Inl e)
  then show ?thesis by (simp add: current_value_def current_view_def Let_def)
next
  case (Inr key)
  obtain n pt' where v: "visible_end key (normalize_frequency PNone (driving_freq pt)) pt = (n, pt')" by force
  from visible_end_ok(1)[OF assms v] show ?thesis
    using Inr v by (simp add: current_value_def current_view_def Let_def)
qed

lemma ask_portal_view:
  assumes "portal_ok pt"
  shows "map_sum id fst (ask_portal q pt) = env_answer (portal_env rd pt) q"
proof (cases q)
  case (BarQuery symbol ts)
  then show ?thesis using bar_at_view[OF assms, of symbol ts, symmetric]
    by (cases "bar_at (PStr symbol) ts pt") (auto simp: portal_env_def)
next
  case (CurrentQuery symbol dflt)
  then show ?thesis using current_value_view[OF assms, of symbol dflt, symmetric]
    by (cases "current_value (PStr symbol) ''close'' dflt PNone pt") (auto simp: portal_env_def)
qed

lemma env_answer_same_data: "same_data pt pt' \<Longrightarrow> portal_env rd pt' = portal_env rd pt"
  using same_data_view by (simp add: portal_env_def)

interpretation feed: memo_source portal_ok ask_portal "\<lambda>pt. env_answer (portal_env rd pt)" for rd
proof unfold_locales
  fix pt q r pt'
  assume ok: "portal_ok pt"
  show "map_sum id fst (ask_portal q pt) = env_answer (portal_env rd pt) q" by (rule ask_portal_view[OF ok])
  assume "ask_portal q pt = Inr (r, pt')"
  then show "portal_ok pt'" "env_answer (portal_env rd pt') = env_answer (portal_env rd pt)"
    using ask_portal_ok[OF ok] env_answer_same_data by metis+
qed

text \<open>C5: The cached market feed implements the fixed view the broker reads: on every portal a program
  can hold, any sequence of bar and current-price questions, with the caches updated in between,
  gets exactly the answers, errors included, that the view of that portal gives.\<close>

theorem cached_feed_refines_view:
  assumes "portal_reach to_datetime ts_iso pt"
  shows "answers ask_portal queries pt = mapE (env_answer (portal_env rd pt)) queries"
  by (rule feed.answers_view[OF portal_reach_ok[OF assms]])

definition demo_rendering :: rendering where
  "demo_rendering = \<lparr>rd_time_iso = show_int, rd_ts_iso = show_int, rd_elapsed = (\<lambda>a b. Fin 0), rd_default_exchange = ''binance''\<rparr>"

theorem cached_feed_refines_view_witness:
  "answers ask_portal [CurrentQuery ''AAPL'' (Fin 7), BarQuery ''AAPL'' 0, BarQuery ''AAPL'' 0] (set_clock 120000000000 False demo_portal) =
     mapE (env_answer (portal_env demo_rendering (set_clock 120000000000 False demo_portal)))
       [CurrentQuery ''AAPL'' (Fin 7), BarQuery ''AAPL'' 0, BarQuery ''AAPL'' 0]"
  using cached_feed_refines_view[OF demo_portal_reach] .

end
