(* ===== verification/Schedule.thy ===== *)
theory Schedule
  imports PyVal
begin

text \<open>
  Scheduled callbacks (\<open>services/strategy_v2/runtime.py\<close>, \<open>_schedule_due\<close>, \<open>_parse_schedule_time\<close>,
  \<open>_is_intraday_frequency\<close>) on time-zone-free timestamps, which is what the backtest index holds.
  Timestamps are nanoseconds since 1970; the Gregorian calendar behind \<open>calendar.monthrange\<close> and the
  date fields of a timestamp is defined here.  Daily, weekly and monthly schedules are instances of
  one interface, \<open>periods\<close>: a partition of the days into periods with one occurrence in each.
\<close>

section \<open>Calendar\<close>

definition DAY_NS :: int where
  "DAY_NS = 86400000000000"

definition day_of :: "timestamp \<Rightarrow> int" where
  "day_of ts = ts div DAY_NS"

definition weekday :: "int \<Rightarrow> int" where
  "weekday day = (day + 3) mod 7"

definition is_leap :: "int \<Rightarrow> bool" where
  "is_leap y \<longleftrightarrow> 4 dvd y \<and> (\<not> 100 dvd y \<or> 400 dvd y)"

text \<open>Days before the first of January of a year, counted from 1970.\<close>

definition year_start :: "int \<Rightarrow> int" where
  "year_start y = (let z = y - 1 in 365 * z + z div 4 - z div 100 + z div 400 - 719162)"

definition year_days :: "int \<Rightarrow> int" where
  "year_days y = (if is_leap y then 366 else 365)"

lemma leap_rule:
  assumes "c \<Longrightarrow> b" and "b \<Longrightarrow> a"
  shows "365 + (if a then 1 else 0) - (if b then 1 else 0) + (if c then 1 else 0) = (if a \<and> (\<not> b \<or> c) then 366 else (365 :: int))"
  using assms by (cases a; cases b; cases c) simp_all

lemma year_start_Suc: "year_start (y + 1) = year_start y + year_days y"
proof -
  have s: "y div n = (y - 1) div n + (if n dvd y then 1 else 0)" if "0 < n" for n :: int
  proof (cases "n dvd y")
    case True
    then obtain q where "y = n * q" by blast
    moreover have "(n * q - 1) div n = q - 1"
      using that by (intro int_div_pos_eq[where r = "n - 1"]) (auto simp: algebra_simps)
    ultimately show ?thesis using that by simp
  next
    case False
    have r: "y mod n \<noteq> 0" "0 \<le> y mod n" "y mod n < n" using False that by (auto simp: dvd_eq_mod_eq_0)
    have "(y - 1) div n = y div n"
      using that r by (intro int_div_pos_eq[where r = "y mod n - 1"]) (auto simp: algebra_simps)
    then show ?thesis using False by simp
  qed
  have d: "400 dvd y \<Longrightarrow> 100 dvd y" "100 dvd y \<Longrightarrow> 4 dvd y" by (auto elim: dvd_trans[rotated])
  have "year_start (y + 1) - year_start y = 365 + (y div 4 - (y - 1) div 4) - (y div 100 - (y - 1) div 100) + (y div 400 - (y - 1) div 400)"
    by (simp add: year_start_def Let_def)
  also have "\<dots> = year_days y"
  proof -
    have e: "y div n - (y - 1) div n = (if n dvd y then 1 else 0)" if "0 < n" for n :: int using s[OF that] by linarith
    show ?thesis unfolding e[of 4, simplified] e[of 100, simplified] e[of 400, simplified]
      unfolding year_days_def is_leap_def by (rule leap_rule[OF d])
  qed
  finally show ?thesis by simp
qed

lemma year_days_pos: "0 < year_days y" "365 \<le> year_days y"
  by (simp_all add: year_days_def)

text \<open>The year of a day, by search from below.\<close>

function find_year :: "int \<Rightarrow> int \<Rightarrow> int" where
  "find_year day y = (if year_start (y + 1) \<le> day then find_year day (y + 1) else y)"
  by auto
termination
  by (relation "measure (\<lambda>(day, y). nat (day + 1 - year_start y))") (auto simp: year_start_Suc year_days_def split: if_splits)

definition year_of :: "int \<Rightarrow> int" where
  "year_of day = find_year day (1970 + (if 0 \<le> day then day div 366 else day div 365))"

definition month_lengths :: "int \<Rightarrow> int list" where
  "month_lengths y = [31, if is_leap y then 29 else 28, 31, 30, 31, 30, 31, 31, 30, 31, 30, 31]"

text \<open>The month that contains a day of the year: its first day and its length.\<close>

fun find_month :: "int \<Rightarrow> int list \<Rightarrow> int \<Rightarrow> int \<times> int" where
  "find_month first (l # m # ls) day = (if day < first + l then (first, l) else find_month (first + l) (m # ls) day)"
| "find_month first [l] day = (first, l)"
| "find_month first [] day = (first, 0)"

definition month_span :: "int \<Rightarrow> int \<times> int" where
  "month_span day = (let y = year_of day in find_month (year_start y) (month_lengths y) day)"

definition month_first :: "int \<Rightarrow> int" where
  "month_first day = fst (month_span day)"

definition month_days :: "int \<Rightarrow> int" where
  "month_days day = snd (month_span day)"

declare find_year.simps [simp del]

lemma find_year_bounds:
  assumes "year_start y \<le> day"
  shows "year_start (find_year day y) \<le> day \<and> day < year_start (find_year day y + 1)"
  using assms
proof (induction day y rule: find_year.induct)
  case (1 day y)
  then show ?case by (cases "year_start (y + 1) \<le> day") (simp_all add: find_year.simps[of day y])
qed

lemma year_start_grows: "0 \<le> k \<Longrightarrow> year_start y + 365 * k \<le> year_start (y + k) \<and> year_start (y + k) \<le> year_start y + 366 * k"
proof (induction k rule: int_ge_induct)
  case (step k)
  then show ?case using year_start_Suc[of "y + k"] by (simp add: year_days_def algebra_simps split: if_splits)
qed simp

lemma year_start_mono: "y < z \<Longrightarrow> year_start (y + 1) \<le> year_start z"
  using year_start_grows[of "z - (y + 1)" "y + 1"] by simp

lemma year_start_1970: "year_start 1970 = 0"
  by (simp add: year_start_def)

lemma year_of_bounds: "year_start (year_of day) \<le> day" "day < year_start (year_of day + 1)"
proof -
  have "year_start (1970 + (if 0 \<le> day then day div 366 else day div 365)) \<le> day"
  proof (cases "0 \<le> day")
    case True
    then have "0 \<le> day div 366" "366 * (day div 366) \<le> day" by auto
    then show ?thesis using year_start_grows[of "day div 366" 1970] True by (simp add: year_start_1970)
  next
    case False
    let ?k = "- (day div 365)"
    have "0 \<le> ?k" "365 * (day div 365) \<le> day" using False by (auto simp: div_nonpos_pos_le0)
    then show ?thesis using year_start_grows[of ?k "1970 - ?k"] False by (simp add: year_start_1970)
  qed
  then show "year_start (year_of day) \<le> day" "day < year_start (year_of day + 1)"
    using find_year_bounds by (simp_all add: year_of_def)
qed

lemma year_of_unique:
  assumes "year_start y \<le> day" and "day < year_start (y + 1)"
  shows "year_of day = y"
proof -
  have "\<not> y < year_of day" using year_start_mono[of y "year_of day"] year_of_bounds(1)[of day] assms(2) by linarith
  moreover have "\<not> year_of day < y" using year_start_mono[of "year_of day" y] year_of_bounds(2)[of day] assms(1) by linarith
  ultimately show ?thesis by simp
qed

lemma find_month_bounds:
  assumes "first \<le> day" and "day < first + sum_list ls" and "\<forall>l \<in> set ls. 0 < l" and "find_month first ls day = (f, l)"
  shows "first \<le> f \<and> f \<le> day \<and> day < f + l \<and> f + l \<le> first + sum_list ls \<and> l \<in> set ls \<and>
     (\<forall>x. f \<le> x \<and> x < f + l \<longrightarrow> find_month first ls x = (f, l))"
  using assms
proof (induction first ls day rule: find_month.induct)
  case (1 first l1 m ls day)
  have nonneg: "0 \<le> sum_list (m # ls)" using "1.prems"(3) by (intro sum_list_nonneg) (auto intro: less_imp_le)
  show ?case
  proof (cases "day < first + l1")
    case True
    then show ?thesis using "1.prems" nonneg by auto
  next
    case False
    have ih: "first + l1 \<le> f \<and> f \<le> day \<and> day < f + l \<and> f + l \<le> first + l1 + sum_list (m # ls) \<and> l \<in> set (m # ls) \<and>
       (\<forall>x. f \<le> x \<and> x < f + l \<longrightarrow> find_month (first + l1) (m # ls) x = (f, l))"
      using False "1.prems" by (intro "1.IH") (auto simp: algebra_simps)
    then show ?thesis using "1.prems"(3) by auto
  qed
qed auto

lemma month_lengths_sum: "sum_list (month_lengths y) = year_days y" "\<forall>l \<in> set (month_lengths y). 28 \<le> l \<and> l \<le> 31"
  by (simp_all add: month_lengths_def year_days_def)

lemma month_span_bounds:
  "month_first day \<le> day" "day < month_first day + month_days day" "28 \<le> month_days day" "month_days day \<le> 31"
  "month_first day \<le> x \<Longrightarrow> x < month_first day + month_days day \<Longrightarrow> month_first x = month_first day \<and> month_days x = month_days day"
proof -
  obtain f l where m: "month_span day = (f, l)" by force
  have pos: "\<forall>l \<in> set (month_lengths (year_of day)). 0 < l" using month_lengths_sum(2) by force
  have y: "day < year_start (year_of day) + sum_list (month_lengths (year_of day))"
    using year_of_bounds(2)[of day] year_start_Suc month_lengths_sum(1) by simp
  note b = find_month_bounds[OF year_of_bounds(1) y pos m[unfolded month_span_def Let_def]]
  show "month_first day \<le> day" "day < month_first day + month_days day" "28 \<le> month_days day" "month_days day \<le> 31"
    using b month_lengths_sum(2) by (auto simp: month_first_def month_days_def m)
  assume "month_first day \<le> x" "x < month_first day + month_days day"
  then have x: "f \<le> x" "x < f + l" by (simp_all add: month_first_def month_days_def m)
  have "year_of x = year_of day"
    using b x month_lengths_sum(1) year_start_Suc[of "year_of day"] by (intro year_of_unique) auto
  then have "month_span x = (f, l)" using b x by (simp add: month_span_def Let_def)
  then show "month_first x = month_first day \<and> month_days x = month_days day" by (simp add: month_first_def month_days_def m)
qed

section \<open>Schedules\<close>

record schedule =
  sc_frequency :: string
  sc_callback :: string
  sc_time :: string
  sc_weekday :: "int option"
  sc_monthday :: "int option"

definition is_intraday_frequency :: "string \<Rightarrow> bool" where
  "is_intraday_frequency frequency =
     (let normalized = lower (strip (str_default frequency ''1d''))
      in endswith normalized ''m'' \<or> endswith normalized ''h'')"

definition parse_schedule_time :: "string \<Rightarrow> int" where
  "parse_schedule_time value =
     (let text = str_default value ''00:00'' in
      if CHR '':'' \<notin> set text then 0
      else case split_once (CHR '':'') text of (hours, minutes) \<Rightarrow>
        (case (parse_int hours, parse_int minutes) of
           (Some h, Some m) \<Rightarrow> h * 3600000000000 + m * 60000000000
         | _ \<Rightarrow> 0))"

definition int_or :: "int option \<Rightarrow> int \<Rightarrow> int" where
  "int_or v d = (case v of None \<Rightarrow> d | Some n \<Rightarrow> if n = 0 then d else n)"

text \<open>\<open>occurrence(anchor)\<close>: the day of the schedule in the period of the anchor, and its time of day.\<close>

definition target_weekday :: "schedule \<Rightarrow> int" where
  "target_weekday sc = max 1 (min 7 (int_or (sc_weekday sc) 1)) - 1"

definition occurrence_day :: "schedule \<Rightarrow> int \<Rightarrow> int" where
  "occurrence_day sc day =
     (if sc_frequency sc = ''weekly'' then day + (target_weekday sc - weekday day)
      else if sc_frequency sc = ''monthly'' then month_first day + min (max 1 (int_or (sc_monthday sc) 1)) (month_days day) - 1
      else day)"

definition schedule_offset :: "schedule \<Rightarrow> string \<Rightarrow> int" where
  "schedule_offset sc bar_frequency =
     (if is_intraday_frequency bar_frequency \<and> sc_time sc \<noteq> [] then parse_schedule_time (sc_time sc) else 0)"

definition occurrence :: "schedule \<Rightarrow> string \<Rightarrow> timestamp \<Rightarrow> timestamp" where
  "occurrence sc bar_frequency anchor = occurrence_day sc (day_of anchor) * DAY_NS + schedule_offset sc bar_frequency"

definition previous_anchor :: "schedule \<Rightarrow> timestamp \<Rightarrow> timestamp" where
  "previous_anchor sc current =
     (if sc_frequency sc = ''weekly'' then current - 7 * DAY_NS
      else current - (day_of current - month_first (day_of current)) * DAY_NS - DAY_NS)"

definition schedule_due :: "schedule \<Rightarrow> timestamp \<Rightarrow> timestamp option \<Rightarrow> string \<Rightarrow> bool" where
  "schedule_due sc current previous bar_frequency =
     (if sc_frequency sc \<notin> {''daily'', ''weekly'', ''monthly''} then False
      else
        let scheduled_at = occurrence sc bar_frequency current in
        if current < scheduled_at then
          (case previous of
             None \<Rightarrow> False
           | Some p \<Rightarrow>
               if sc_frequency sc = ''daily'' then False
               else let earlier = occurrence sc bar_frequency (previous_anchor sc current) in p < earlier \<and> earlier \<le> current)
        else
          (case previous of
             None \<Rightarrow> True
           | Some p \<Rightarrow>
               if sc_frequency sc = ''daily'' \<and> \<not> is_intraday_frequency bar_frequency then day_of current \<noteq> day_of p
               else p < scheduled_at \<and> scheduled_at \<le> current))"

section \<open>Periods\<close>

locale periods =
  fixes start :: "int \<Rightarrow> int" and len :: "int \<Rightarrow> int" and off :: "int \<Rightarrow> int"
  assumes start_le: "start d \<le> d"
    and before_end: "d < start d + len d"
    and same_period: "start d \<le> x \<Longrightarrow> x < start d + len d \<Longrightarrow> start x = start d \<and> len x = len d"
    and off_range: "0 \<le> off d" "off d < len d"
    and off_same: "start x = start d \<Longrightarrow> len x = len d \<Longrightarrow> off x = off d"
begin

lemma periods_disjoint:
  assumes "start a < start b"
  shows "start a + len a \<le> start b"
proof (rule ccontr)
  assume "\<not> start a + len a \<le> start b"
  then have "start (start b) = start a" using same_period[of a "start b"] assms by simp
  moreover have "start (start b) = start b" using same_period[of b "start b"] start_le[of b] before_end[of b] by simp
  ultimately show False using assms by simp
qed

lemma off_mono:
  assumes "start a < start b"
  shows "start a + off a < start b"
  using periods_disjoint[OF assms] off_range(2)[of a] by linarith

lemma before_previous:
  assumes "start a < start d"
  shows "start a \<le> start (start d - 1)"
proof (rule ccontr)
  assume "\<not> start a \<le> start (start d - 1)"
  then have "start (start d - 1) + len (start d - 1) \<le> start a" by (intro periods_disjoint) simp
  then show False using before_end[of "start d - 1"] assms by linarith
qed

text \<open>The latest occurrence up to a moment is the one of its own period, if that has come, and the one
  of the period before otherwise.\<close>

definition occ :: "int \<Rightarrow> int \<Rightarrow> int" where
  "occ time d = (start d + off d) * DAY_NS + time"

lemma occ_mono:
  assumes "start a < start b" and "0 \<le> time" "time < DAY_NS"
  shows "occ time a < start b * DAY_NS"
proof -
  have "(start a + off a + 1) * DAY_NS \<le> start b * DAY_NS"
    using off_mono[OF assms(1)] by (intro mult_right_mono) (auto simp: DAY_NS_def)
  then show ?thesis using assms(3) by (simp add: occ_def algebra_simps)
qed

lemma occ_le: "0 \<le> time \<Longrightarrow> start d * DAY_NS \<le> occ time d"
  using off_range(1)[of d] by (simp add: occ_def DAY_NS_def algebra_simps)

lemma occ_cong:
  assumes "start a = start b"
  shows "occ time a = occ time b"
proof -
  have "start (start a) = start a" "len (start a) = len a" "len (start b) = len b"
    using same_period[of a "start a"] same_period[of b "start b"] start_le before_end by (metis order_refl order.strict_trans1)+
  then have "len a = len b" using assms by simp
  then show ?thesis using off_same[OF assms] assms by (simp add: occ_def)
qed

lemma latest_occurrence:
  fixes now :: int
  assumes "0 \<le> time" "time < DAY_NS"
  defines "d \<equiv> now div DAY_NS"
  defines "latest \<equiv> (if occ time d \<le> now then occ time d else occ time (start d - 1))"
  shows "latest \<le> now" and "occ time a \<le> now \<Longrightarrow> occ time a \<le> latest"
proof -
  have pos: "0 < DAY_NS" by (simp add: DAY_NS_def)
  have m: "now = d * DAY_NS + now mod DAY_NS" "0 \<le> now mod DAY_NS" "now mod DAY_NS < DAY_NS"
    using pos by (simp_all add: d_def)
  have now: "d * DAY_NS \<le> now" "now < (d + 1) * DAY_NS"
    using m by (simp_all add: algebra_simps)
  have prev: "start (start d - 1) < start d" using start_le[of "start d - 1"] by linarith
  have sd: "start d * DAY_NS \<le> now" using mult_right_mono[OF start_le[of d], of DAY_NS] now(1) pos by linarith
  show "latest \<le> now" using occ_mono[OF prev assms(1,2)] sd by (simp add: latest_def)
  assume a: "occ time a \<le> now"
  have "start a * DAY_NS < (d + 1) * DAY_NS" using a occ_le[OF assms(1), of a] now(2) by linarith
  then have "start a \<le> d" using pos by (simp add: mult_less_cancel_right)
  then consider "start a = start d" | "start a < start d" | "start d < start a" "start a \<le> d" by linarith
  then show "occ time a \<le> latest"
  proof cases
    case 1
    then show ?thesis using a occ_cong[of a d time] by (simp add: latest_def)
  next
    case 2
    have "occ time a \<le> occ time (start d - 1)"
    proof (cases "start a = start (start d - 1)")
      case True
      then show ?thesis using occ_cong[of a "start d - 1" time] by simp
    next
      case False
      then have "start a < start (start d - 1)" using before_previous[OF 2] by simp
      then show ?thesis using occ_mono[OF _ assms(1,2)] occ_le[OF assms(1), of "start d - 1"] by force
    qed
    moreover have "occ time (start d - 1) \<le> occ time d" using occ_mono[OF prev assms(1,2)] occ_le[OF assms(1), of d] by linarith
    ultimately show ?thesis by (simp add: latest_def)
  next
    case 3
    then show ?thesis using periods_disjoint[of d a] before_end[of d] by linarith
  qed
qed

lemma due_iff_occurrence_between:
  assumes "0 \<le> time" "time < DAY_NS"
  shows "(\<exists>a. previous < occ time a \<and> occ time a \<le> now) \<longleftrightarrow>
     previous < (if occ time (now div DAY_NS) \<le> now then occ time (now div DAY_NS) else occ time (start (now div DAY_NS) - 1))"
    (is "_ \<longleftrightarrow> previous < ?latest")
proof
  assume "\<exists>a. previous < occ time a \<and> occ time a \<le> now"
  then obtain a where "previous < occ time a" "occ time a \<le> now" by blast
  then show "previous < ?latest" using latest_occurrence(2)[OF assms, where now = now and a = a] by linarith
next
  assume "previous < ?latest"
  moreover have "?latest \<le> now" by (rule latest_occurrence(1)[OF assms])
  ultimately show "\<exists>a. previous < occ time a \<and> occ time a \<le> now"
    by (cases "occ time (now div DAY_NS) \<le> now") auto
qed

end

section \<open>Weeks and months\<close>

definition week_start :: "int \<Rightarrow> int" where
  "week_start day = day - weekday day"

definition month_offset :: "schedule \<Rightarrow> int \<Rightarrow> int" where
  "month_offset sc day = min (max 1 (int_or (sc_monthday sc) 1)) (month_days day) - 1"

lemma weekday_range: "0 \<le> weekday d" "weekday d < 7"
  by (simp_all add: weekday_def)

lemma week_same:
  assumes "week_start d \<le> x" and "x < week_start d + 7"
  shows "week_start x = week_start d"
  using assms unfolding week_start_def weekday_def by presburger

interpretation weeks: periods week_start "\<lambda>d. 7" "\<lambda>d. target_weekday sc" for sc
proof unfold_locales
  fix d x
  show "week_start d \<le> d" "d < week_start d + 7" using weekday_range[of d] by (simp_all add: week_start_def)
  show "week_start d \<le> x \<Longrightarrow> x < week_start d + 7 \<Longrightarrow> week_start x = week_start d \<and> 7 = (7 :: int)" using week_same[of d x] by simp
  show "0 \<le> target_weekday sc" "target_weekday sc < 7" by (simp_all add: target_weekday_def)
qed simp

interpretation months: periods month_first month_days "month_offset sc" for sc
proof unfold_locales
  fix d x
  show "0 \<le> month_offset sc d" "month_offset sc d < month_days d"
    using month_span_bounds(3)[of d] by (auto simp: month_offset_def)
  show "month_first d \<le> d" "d < month_first d + month_days d" by (fact month_span_bounds)+
  show "month_first d \<le> x \<Longrightarrow> x < month_first d + month_days d \<Longrightarrow> month_first x = month_first d \<and> month_days x = month_days d"
    by (fact month_span_bounds)
  show "month_first x = month_first d \<Longrightarrow> month_days x = month_days d \<Longrightarrow> month_offset sc x = month_offset sc d"
    by (simp add: month_offset_def)
qed

lemma occurrence_weekly:
  "sc_frequency sc = ''weekly'' \<Longrightarrow> occurrence sc f ts = weeks.occ sc (schedule_offset sc f) (day_of ts)"
  by (simp add: occurrence_def weeks.occ_def occurrence_day_def week_start_def)

lemma occurrence_monthly:
  "sc_frequency sc = ''monthly'' \<Longrightarrow> occurrence sc f ts = months.occ sc (schedule_offset sc f) (day_of ts)"
  by (simp add: occurrence_def months.occ_def occurrence_day_def month_offset_def)

lemma day_of_shift: "day_of (ts - k * DAY_NS) = day_of ts - k"
  by (simp add: day_of_def DAY_NS_def)

lemma day_of_day [simp]: "day_of (d * DAY_NS) = d"
  by (simp add: day_of_def DAY_NS_def)

lemma previous_week: "week_start (d - 7) = week_start (week_start d - 1)"
proof -
  have "weekday (d - 7) = weekday d" unfolding weekday_def by presburger
  then have w: "week_start (d - 7) = week_start d - 7" by (simp add: week_start_def)
  then show ?thesis using week_same[of "d - 7" "week_start d - 1"] by simp
qed

text \<open>C25: Weekly and monthly callbacks run exactly when they should: between two consecutive bars the
  callback is due if and only if a scheduled moment lies after the earlier bar and not after the later
  one, across weekends, holidays, short months, leap years and gaps of any length.\<close>

theorem schedule_never_misses:
  assumes "sc_frequency sc \<in> {''weekly'', ''monthly''}"
    and "0 \<le> schedule_offset sc f" "schedule_offset sc f < DAY_NS"
  shows "schedule_due sc current (Some previous) f \<longleftrightarrow>
     (\<exists>anchor. previous < occurrence sc f anchor \<and> occurrence sc f anchor \<le> current)"
proof -
  let ?t = "schedule_offset sc f"
  have ex: "(\<exists>a. P a) \<longleftrightarrow> (\<exists>anchor. P (day_of anchor))" for P by (metis day_of_day)
  from assms(1) consider (w) "sc_frequency sc = ''weekly''" | (m) "sc_frequency sc = ''monthly''" by auto
  then show ?thesis
  proof cases
    case w
    have p: "occurrence sc f (previous_anchor sc current) = weeks.occ sc ?t (week_start (day_of current) - 1)"
      unfolding occurrence_weekly[OF w] using w previous_week day_of_shift[of current 7]
      by (intro weeks.occ_cong) (simp add: previous_anchor_def)
    have "schedule_due sc current (Some previous) f \<longleftrightarrow> previous <
        (if weeks.occ sc ?t (day_of current) \<le> current then weeks.occ sc ?t (day_of current)
         else weeks.occ sc ?t (week_start (day_of current) - 1))"
      using w p weeks.latest_occurrence(1)[OF assms(2,3), of sc current]
      by (auto simp: schedule_due_def occurrence_weekly[OF w] Let_def day_of_def)
    also have "\<dots> \<longleftrightarrow> (\<exists>a. previous < weeks.occ sc ?t a \<and> weeks.occ sc ?t a \<le> current)"
      using weeks.due_iff_occurrence_between[OF assms(2,3), of previous sc current] by (simp add: day_of_def)
    finally show ?thesis unfolding occurrence_weekly[OF w] using ex[of "\<lambda>a. previous < weeks.occ sc ?t a \<and> weeks.occ sc ?t a \<le> current"] by blast
  next
    case m
    have "previous_anchor sc current = current - (day_of current - month_first (day_of current) + 1) * DAY_NS"
      using m by (simp add: previous_anchor_def algebra_simps)
    then have p: "occurrence sc f (previous_anchor sc current) = months.occ sc ?t (month_first (day_of current) - 1)"
      unfolding occurrence_monthly[OF m] by (simp add: day_of_shift)
    have "schedule_due sc current (Some previous) f \<longleftrightarrow> previous <
        (if months.occ sc ?t (day_of current) \<le> current then months.occ sc ?t (day_of current)
         else months.occ sc ?t (month_first (day_of current) - 1))"
      using m p months.latest_occurrence(1)[OF assms(2,3), of sc current]
      by (auto simp: schedule_due_def occurrence_monthly[OF m] Let_def day_of_def)
    also have "\<dots> \<longleftrightarrow> (\<exists>a. previous < months.occ sc ?t a \<and> months.occ sc ?t a \<le> current)"
      using months.due_iff_occurrence_between[OF assms(2,3), of previous sc current] by (simp add: day_of_def)
    finally show ?thesis unfolding occurrence_monthly[OF m] using ex[of "\<lambda>a. previous < months.occ sc ?t a \<and> months.occ sc ?t a \<le> current"] by blast
  qed
qed

definition month_end :: schedule where
  "month_end = \<lparr>sc_frequency = ''monthly'', sc_callback = ''rebalance'', sc_time = [], sc_weekday = None, sc_monthday = Some 31\<rparr>"

text \<open>The last day of a leap February: a callback for the 31st is due on the 29th.\<close>

theorem schedule_never_misses_witness:
  "schedule_due month_end (19782 * DAY_NS) (Some (19781 * DAY_NS)) ''1d'' \<and>
   (\<exists>anchor. 19781 * DAY_NS < occurrence month_end ''1d'' anchor \<and> occurrence month_end ''1d'' anchor \<le> 19782 * DAY_NS)"
proof -
  have o: "schedule_offset month_end ''1d'' = 0" by code_simp
  have d: "schedule_due month_end (19782 * DAY_NS) (Some (19781 * DAY_NS)) ''1d''" by code_simp
  show ?thesis using schedule_never_misses[of month_end "''1d''" "19782 * DAY_NS" "19781 * DAY_NS"] o d
    by (simp add: month_end_def DAY_NS_def)
qed


end
