(* ===== verification/Backtest.thy ===== *)
theory Backtest
  imports BrokerSafety MarketView Schedule
begin

text \<open>
  The backtest runner (\<open>services/strategy_v2/runtime.py\<close>, \<open>StrategyV2BacktestRunner.run\<close>): the loop over
  the bars that interleaves pending orders, strategy handlers, scheduled callbacks, protections,
  liquidation and the equity record.  The strategy is user code and a parameter: each handler is a
  function of the broker it may read and of the context, log and portal it may change.
\<close>

section \<open>Strategy and runner\<close>

record strategy_world =
  sw_context :: context_orders
  sw_logs :: "string list"
  sw_portal :: portal

type_synonym handler =
  "broker \<Rightarrow> timestamp option \<Rightarrow> (string, frame) dict option \<Rightarrow> strategy_world \<Rightarrow> strategy_world result"

record program =
  pg_handler :: "string \<Rightarrow> handler option"
  pg_schedules :: "schedule list"
  pg_strategy_type :: string
  pg_driving_frequency :: string

record runner =
  rn_world :: strategy_world
  rn_broker :: broker
  rn_sync :: status_sync
  rn_logs :: "string list"
  rn_pending :: "order_intent list"
  rn_opening :: "order_intent list"
  rn_previous :: "timestamp option"

text \<open>What the runner is given besides the strategy: renderings and the text of an exception.\<close>

record setting =
  st_rendering :: rendering
  st_describe :: "pyexc \<Rightarrow> string"
  st_program :: program

definition runner_env :: "setting \<Rightarrow> runner \<Rightarrow> sim_env" where
  "runner_env st rn = portal_env (st_rendering st) (sw_portal (rn_world rn))"

definition clock_to :: "timestamp \<Rightarrow> bool \<Rightarrow> runner \<Rightarrow> runner" where
  "clock_to ts include rn =
     rn\<lparr>rn_world := (rn_world rn)\<lparr>sw_portal := set_clock ts include (sw_portal (rn_world rn))\<rparr>\<rparr>"

definition on_context :: "(context_orders \<Rightarrow> context_orders) \<Rightarrow> runner \<Rightarrow> runner" where
  "on_context f rn = rn\<lparr>rn_world := (rn_world rn)\<lparr>sw_context := f (sw_context (rn_world rn))\<rparr>\<rparr>"

definition invoke :: "setting \<Rightarrow> string \<Rightarrow> (string, frame) dict option \<Rightarrow> runner \<Rightarrow> runner result" where
  "invoke st name data rn =
     (case pg_handler (st_program st) name of
        None \<Rightarrow> Inr rn
      | Some h \<Rightarrow>
          (case h (rn_broker rn) (rn_previous rn) data (rn_world rn) of
             Inr w \<Rightarrow> Inr (rn\<lparr>rn_world := w\<rparr>)
           | Inl (ContractError text) \<Rightarrow> Inl (ContractError text)
           | Inl e \<Rightarrow> Inl (ContractError (''strategyV2.runtimeFailed:'' @ name @ '':'' @ st_describe st e))))"

definition sync_statuses :: "runner \<Rightarrow> runner" where
  "sync_statuses rn =
     (case sync_order_statuses (br_ledger (rn_broker rn)) (rn_sync rn) (sw_context (rn_world rn)) of (ss, cx) \<Rightarrow>
        on_context (\<lambda>_. cx) (rn\<lparr>rn_sync := ss\<rparr>))"

definition drop_cancelled :: "runner \<Rightarrow> runner" where
  "drop_cancelled rn =
     (case remove_cancelled_orders (rn_pending rn) (sw_context (rn_world rn)) (br_ledger (rn_broker rn)) of (pending, cx, lg) \<Rightarrow>
        on_context (\<lambda>_. cx) (rn\<lparr>rn_pending := pending, rn_broker := (rn_broker rn)\<lparr>br_ledger := lg\<rparr>\<rparr>))"

text \<open>\<open>flush_orders\<close> into the orders of this bar's opening, or into the pending orders.\<close>

definition take_opening :: "runner \<Rightarrow> runner" where
  "take_opening rn =
     (case flush_orders (sw_context (rn_world rn)) of (orders, cx) \<Rightarrow>
        on_context (\<lambda>_. cx) (rn\<lparr>rn_opening := rn_opening rn @ orders\<rparr>))"

definition take_pending :: "runner \<Rightarrow> runner" where
  "take_pending rn =
     (case flush_orders (sw_context (rn_world rn)) of (orders, cx) \<Rightarrow>
        on_context (\<lambda>_. cx) (rn\<lparr>rn_pending := merge_pending (rn_pending rn) orders\<rparr>))"

definition take_logs :: "runner \<Rightarrow> runner" where
  "take_logs rn =
     rn\<lparr>rn_logs := rn_logs rn @ sw_logs (rn_world rn), rn_world := (rn_world rn)\<lparr>sw_logs := []\<rparr>\<rparr>"

section \<open>The phases of a bar\<close>

definition fill_pending :: "setting \<Rightarrow> timestamp \<Rightarrow> runner \<Rightarrow> runner result" where
  "fill_pending st ts rn =
     (if rn_pending rn = [] then Inr rn
      else bindE (execute (runner_env st rn) ts [] (rn_pending rn) (rn_broker rn)) (\<lambda>(deferred, br).
             Inr (sync_statuses (rn\<lparr>rn_pending := deferred, rn_broker := br\<rparr>))))"

definition opening_callback :: "setting \<Rightarrow> string \<Rightarrow> (string, frame) dict option \<Rightarrow> runner \<Rightarrow> runner result" where
  "opening_callback st name data rn =
     bindE (invoke st name data rn) (\<lambda>rn1. Inr (take_opening (drop_cancelled rn1)))"

definition scheduled_callbacks :: "setting \<Rightarrow> timestamp \<Rightarrow> runner \<Rightarrow> runner result" where
  "scheduled_callbacks st ts rn0 =
     foldE (\<lambda>sc rn. if schedule_due sc ts (rn_previous rn) (pg_driving_frequency (st_program st))
                    then opening_callback st (sc_callback sc) None rn else Inr rn)
       (pg_schedules (st_program st)) rn0"

definition rebalance_callback :: "setting \<Rightarrow> runner \<Rightarrow> runner result" where
  "rebalance_callback st rn =
     (if pg_strategy_type (st_program st) = ''portfolio'' \<and> pg_schedules (st_program st) = [] then
        bindE (panel [] None PNone (sw_portal (rn_world rn))) (\<lambda>(data, pt).
          opening_callback st ''on_rebalance'' (Some data) (rn\<lparr>rn_world := (rn_world rn)\<lparr>sw_portal := pt\<rparr>\<rparr>))
      else Inr rn)"

definition fill_opening :: "setting \<Rightarrow> timestamp \<Rightarrow> runner \<Rightarrow> runner result" where
  "fill_opening st ts rn =
     (if rn_opening rn = [] then Inr rn
      else bindE (execute (runner_env st rn) ts [] (rn_opening rn) (rn_broker rn)) (\<lambda>(deferred, br).
             Inr (sync_statuses (rn\<lparr>rn_pending := merge_pending (rn_pending rn) deferred, rn_opening := [], rn_broker := br\<rparr>))))"

definition guard_positions :: "setting \<Rightarrow> timestamp \<Rightarrow> runner \<Rightarrow> runner result" where
  "guard_positions st ts rn =
     bindE (process_protections (runner_env st rn) ts (rn_broker rn)) (\<lambda>(decisions, br).
       Inr (foldl (\<lambda>r d. on_context (set_last_exit_reason (pd_symbol d) (pd_reason d)) r)
              (sync_statuses (rn\<lparr>rn_broker := br\<rparr>)) decisions))"

definition finish_bar :: "setting \<Rightarrow> timestamp \<Rightarrow> runner \<Rightarrow> runner result" where
  "finish_bar st ts rn =
     bindE (record_equity (runner_env st rn) ts (rn_broker rn)) (\<lambda>br.
       Inr (rn\<lparr>rn_broker := br, rn_previous := Some ts\<rparr>))"

definition closing_callback :: "setting \<Rightarrow> string \<Rightarrow> runner \<Rightarrow> runner result" where
  "closing_callback st name rn =
     bindE (invoke st name None rn) (\<lambda>rn1. Inr (take_pending (drop_cancelled rn1)))"

definition close_bar :: "setting \<Rightarrow> timestamp \<Rightarrow> runner \<Rightarrow> runner result" where
  "close_bar st ts rn0 =
     (let rn = clock_to ts True rn0 in
      bindE (liquidate_if_insolvent (runner_env st rn) ts (rn_broker rn)) (\<lambda>(dead, br).
        let rn1 = rn\<lparr>rn_broker := br\<rparr> in
        if dead then
          finish_bar st ts (take_logs (on_context (\<lambda>cx. snd (flush_orders cx)) (rn1\<lparr>rn_pending := []\<rparr>)))
        else
          bindE (closing_callback st ''handle_data'' rn1) (\<lambda>rn2.
          bindE (closing_callback st ''after_trading_end'' rn2) (\<lambda>rn3.
            finish_bar st ts (take_logs rn3)))))"

definition open_bar :: "setting \<Rightarrow> timestamp \<Rightarrow> runner \<Rightarrow> runner result" where
  "open_bar st ts rn =
     bindE (fill_pending st ts (clock_to ts False rn)) (\<lambda>rn1.
     bindE (opening_callback st ''before_trading_start'' None (rn1\<lparr>rn_opening := []\<rparr>)) (\<lambda>rn2.
     bindE (scheduled_callbacks st ts rn2) (\<lambda>rn3.
     bindE (rebalance_callback st rn3) (\<lambda>rn4.
       fill_opening st ts rn4))))"

definition run_bar :: "setting \<Rightarrow> timestamp \<Rightarrow> runner \<Rightarrow> runner result" where
  "run_bar st ts rn0 =
     (let rn = on_context (\<lambda>cx. cx\<lparr>cx_current_dt := Some ts\<rparr>) rn0 in
      if br_bankrupt (rn_broker rn) then finish_bar st ts (clock_to ts True rn)
      else
        bindE (open_bar st ts rn) (\<lambda>rn1.
        bindE (guard_positions st ts rn1) (\<lambda>rn2.
          close_bar st ts rn2)))"

definition backtest_range :: "timestamp option \<Rightarrow> timestamp option \<Rightarrow> timestamp list \<Rightarrow> timestamp list" where
  "backtest_range start_date end_date tss =
     filter (\<lambda>t. (case start_date of None \<Rightarrow> True | Some s \<Rightarrow> s \<le> t) \<and> (case end_date of None \<Rightarrow> True | Some e \<Rightarrow> t \<le> e)) tss"

definition run :: "setting \<Rightarrow> timestamp option \<Rightarrow> timestamp option \<Rightarrow> runner \<Rightarrow> runner result" where
  "run st start_date end_date rn =
     (let tss = backtest_range start_date end_date (timestamps (sw_portal (rn_world rn))) in
      if tss = [] then Inl (ContractError ''strategyV2.backtestRangeEmpty'')
      else foldE (run_bar st) tss (rn\<lparr>rn_previous := None, rn_pending := []\<rparr>))"

text \<open>The constructor: the leverage the strategy may use, and a fresh broker and context.\<close>

definition PLATFORM_MAX_LEVERAGE :: pyfloat where
  "PLATFORM_MAX_LEVERAGE = Fin 100"

definition requested_leverage :: "bool \<Rightarrow> pyfloat \<Rightarrow> bool \<Rightarrow> pyfloat \<Rightarrow> pyfloat result" where
  "requested_leverage leverage_enabled leverage allowed max_leverage =
     (let requested = (if leverage_enabled then pymax (Fin 1) (f_or leverage (Fin 1)) else Fin 1) in
      if flt (Fin 1) requested \<and> \<not> allowed then Inl (ContractError ''strategyV2.leverageNotAllowed'')
      else if flt (pymin PLATFORM_MAX_LEVERAGE max_leverage) requested
        then Inl (ContractError ''strategyV2.leverageExceedsStrategyLimit'')
      else Inr requested)"

definition fresh_context :: context_orders where
  "fresh_context = \<lparr>cx_orders = [], cx_statuses = [], cx_cancelled = {}, cx_sequence = 0, cx_default_protection = None,
     cx_last_exit_reasons = [], cx_live_cancellation = False, cx_current_dt = None\<rparr>"

definition runner_init ::
  "pyfloat \<Rightarrow> pyfloat \<Rightarrow> pyfloat \<Rightarrow> pyfloat \<Rightarrow> rules_source \<Rightarrow> portal \<Rightarrow> runner" where
  "runner_init capital leverage commission slippage rules pt =
     \<lparr>rn_world = \<lparr>sw_context = fresh_context, sw_logs = [], sw_portal = pt\<rparr>,
      rn_broker = broker_init capital leverage commission slippage rules,
      rn_sync = \<lparr>ss_cursor = 0, ss_summaries = []\<rparr>, rn_logs = [], rn_pending = [], rn_opening = [], rn_previous = None\<rparr>"

section \<open>Frames\<close>

lemma runner_frames [simp]:
  "rn_broker (on_context f rn) = rn_broker rn" "rn_broker (clock_to ts incl rn) = rn_broker rn"
  "rn_broker (sync_statuses rn) = rn_broker rn" "rn_broker (take_opening rn) = rn_broker rn"
  "rn_broker (take_pending rn) = rn_broker rn" "rn_broker (take_logs rn) = rn_broker rn"
  by (simp_all add: on_context_def clock_to_def sync_statuses_def take_opening_def take_pending_def take_logs_def split: prod.split)

lemma drop_cancelled_broker:
  "\<exists>pending cx lg. remove_cancelled_orders (rn_pending rn) (sw_context (rn_world rn)) (br_ledger (rn_broker rn)) = (pending, cx, lg) \<and>
     rn_broker (drop_cancelled rn) = (rn_broker rn)\<lparr>br_ledger := lg\<rparr>"
  by (simp add: drop_cancelled_def split: prod.split)

lemma invoke_broker: "invoke st name data rn = Inr rn' \<Longrightarrow> rn_broker rn' = rn_broker rn \<and> rn_previous rn' = rn_previous rn"
  by (auto simp: invoke_def split: option.splits sum.splits pyexc.splits)

lemma foldl_context_broker [simp]: "rn_broker (foldl (\<lambda>r d. on_context (f d) r) rn ds) = rn_broker rn"
  by (induction ds arbitrary: rn) simp_all

section \<open>The runner drives the broker machine\<close>

text \<open>Each phase, and so the whole run, is a run of the broker's own operations.\<close>

lemma drop_cancelled_runs: "broker_run br0 (rn_broker rn) \<Longrightarrow> broker_run br0 (rn_broker (drop_cancelled rn))"
  using drop_cancelled_broker[of rn] by (metis broker_run.release)

lemma opening_callback_runs:
  "opening_callback st name data rn = Inr rn' \<Longrightarrow> broker_run br0 (rn_broker rn) \<Longrightarrow> broker_run br0 (rn_broker rn')"
  by (auto simp: opening_callback_def bindE_Inr_iff dest!: invoke_broker intro!: drop_cancelled_runs)

lemma closing_callback_runs:
  "closing_callback st name rn = Inr rn' \<Longrightarrow> broker_run br0 (rn_broker rn) \<Longrightarrow> broker_run br0 (rn_broker rn')"
  by (auto simp: closing_callback_def bindE_Inr_iff dest!: invoke_broker intro!: drop_cancelled_runs)

lemma fill_pending_runs:
  "fill_pending st ts rn = Inr rn' \<Longrightarrow> broker_run br0 (rn_broker rn) \<Longrightarrow> broker_run br0 (rn_broker rn')"
  by (auto simp: fill_pending_def bindE_Inr_iff split: if_splits intro: broker_run.trade)

lemma fill_opening_runs:
  "fill_opening st ts rn = Inr rn' \<Longrightarrow> broker_run br0 (rn_broker rn) \<Longrightarrow> broker_run br0 (rn_broker rn')"
  by (auto simp: fill_opening_def bindE_Inr_iff split: if_splits intro: broker_run.trade)

lemma scheduled_callbacks_runs:
  assumes "scheduled_callbacks st ts rn = Inr rn'" and "broker_run br0 (rn_broker rn)"
  shows "broker_run br0 (rn_broker rn')"
  using assms(1) unfolding scheduled_callbacks_def
  by (rule foldE_invariant) (use assms(2) opening_callback_runs in \<open>auto split: if_splits\<close>)

lemma rebalance_callback_runs:
  assumes "rebalance_callback st rn = Inr rn'" and "broker_run br0 (rn_broker rn)"
  shows "broker_run br0 (rn_broker rn')"
  using assms by (auto simp: rebalance_callback_def bindE_Inr_iff split: if_splits elim!: opening_callback_runs)

lemma guard_positions_runs:
  "guard_positions st ts rn = Inr rn' \<Longrightarrow> broker_run br0 (rn_broker rn) \<Longrightarrow> broker_run br0 (rn_broker rn')"
  by (auto simp: guard_positions_def bindE_Inr_iff intro: broker_run.protect)

lemma finish_bar_runs:
  "finish_bar st ts rn = Inr rn' \<Longrightarrow> broker_run br0 (rn_broker rn) \<Longrightarrow> broker_run br0 (rn_broker rn')"
  by (auto simp: finish_bar_def bindE_Inr_iff intro: broker_run.equity)

lemma open_bar_runs:
  assumes "open_bar st ts rn = Inr rn'" and "broker_run br0 (rn_broker rn)"
  shows "broker_run br0 (rn_broker rn')"
proof -
  obtain rn1 rn2 rn3 rn4 where p: "fill_pending st ts (clock_to ts False rn) = Inr rn1"
    "opening_callback st ''before_trading_start'' None (rn1\<lparr>rn_opening := []\<rparr>) = Inr rn2"
    "scheduled_callbacks st ts rn2 = Inr rn3" "rebalance_callback st rn3 = Inr rn4" "fill_opening st ts rn4 = Inr rn'"
    using assms(1) by (auto simp: open_bar_def bindE_Inr_iff)
  have "broker_run br0 (rn_broker rn1)" using fill_pending_runs[OF p(1)] assms(2) by simp
  then have "broker_run br0 (rn_broker rn2)" using opening_callback_runs[OF p(2)] by simp
  then show ?thesis
    using fill_opening_runs[OF p(5)] rebalance_callback_runs[OF p(4)] scheduled_callbacks_runs[OF p(3)] by simp
qed

lemma close_bar_parts:
  assumes "close_bar st ts rn = Inr rn'"
  obtains dead br where "liquidate_if_insolvent (runner_env st (clock_to ts True rn)) ts (rn_broker rn) = Inr (dead, br)"
    "dead \<Longrightarrow> finish_bar st ts (take_logs (on_context (\<lambda>cx. snd (flush_orders cx))
        ((clock_to ts True rn)\<lparr>rn_broker := br, rn_pending := []\<rparr>))) = Inr rn'"
    "\<not> dead \<Longrightarrow> \<exists>rn2 rn3. closing_callback st ''handle_data'' ((clock_to ts True rn)\<lparr>rn_broker := br\<rparr>) = Inr rn2 \<and>
        closing_callback st ''after_trading_end'' rn2 = Inr rn3 \<and> finish_bar st ts (take_logs rn3) = Inr rn'"
  using assms by (auto simp: close_bar_def bindE_Inr_iff Let_def split: if_splits)

lemma close_bar_runs:
  assumes "close_bar st ts rn = Inr rn'" and "broker_run br0 (rn_broker rn)"
  shows "broker_run br0 (rn_broker rn')"
  using assms(1)
proof (rule close_bar_parts)
  fix dead br
  assume l: "liquidate_if_insolvent (runner_env st (clock_to ts True rn)) ts (rn_broker rn) = Inr (dead, br)"
    and d: "dead \<Longrightarrow> finish_bar st ts (take_logs (on_context (\<lambda>cx. snd (flush_orders cx))
        ((clock_to ts True rn)\<lparr>rn_broker := br, rn_pending := []\<rparr>))) = Inr rn'"
    and c: "\<not> dead \<Longrightarrow> \<exists>rn2 rn3. closing_callback st ''handle_data'' ((clock_to ts True rn)\<lparr>rn_broker := br\<rparr>) = Inr rn2 \<and>
        closing_callback st ''after_trading_end'' rn2 = Inr rn3 \<and> finish_bar st ts (take_logs rn3) = Inr rn'"
  have br: "broker_run br0 br" using broker_run.liquidate[OF assms(2) l] .
  show ?thesis
  proof (cases dead)
    case True
    then show ?thesis using finish_bar_runs[OF d] br by simp
  next
    case False
    then obtain rn2 rn3 where p: "closing_callback st ''handle_data'' ((clock_to ts True rn)\<lparr>rn_broker := br\<rparr>) = Inr rn2"
      "closing_callback st ''after_trading_end'' rn2 = Inr rn3" "finish_bar st ts (take_logs rn3) = Inr rn'" using c by blast
    have "broker_run br0 (rn_broker rn2)" using closing_callback_runs[OF p(1)] br by simp
    then show ?thesis using finish_bar_runs[OF p(3)] closing_callback_runs[OF p(2)] by simp
  qed
qed

lemma run_bar_runs:
  assumes "run_bar st ts rn = Inr rn'" and "broker_run br0 (rn_broker rn)"
  shows "broker_run br0 (rn_broker rn')"
proof (cases "br_bankrupt (rn_broker rn)")
  case True
  then show ?thesis using assms by (auto simp: run_bar_def Let_def elim!: finish_bar_runs)
next
  case False
  then obtain rn1 rn2 where p: "open_bar st ts (on_context (\<lambda>cx. cx\<lparr>cx_current_dt := Some ts\<rparr>) rn) = Inr rn1"
    "guard_positions st ts rn1 = Inr rn2" "close_bar st ts rn2 = Inr rn'"
    using assms(1) by (auto simp: run_bar_def Let_def bindE_Inr_iff)
  have "broker_run br0 (rn_broker rn1)" using open_bar_runs[OF p(1)] assms(2) by simp
  then show ?thesis using close_bar_runs[OF p(3)] guard_positions_runs[OF p(2)] by simp
qed

lemma run_runs:
  assumes "run st start_date end_date rn = Inr rn'"
  shows "broker_run (rn_broker rn) (rn_broker rn')"
proof -
  have "foldE (run_bar st) (backtest_range start_date end_date (timestamps (sw_portal (rn_world rn)))) (rn\<lparr>rn_previous := None, rn_pending := []\<rparr>) = Inr rn'"
    using assms by (auto simp: run_def Let_def split: if_splits)
  then show ?thesis by (rule foldE_invariant) (use run_bar_runs broker_run.start in auto)
qed

section \<open>What trading leaves alone\<close>

text \<open>The equity record and the bankruptcy flag change only where the runner closes a bar.\<close>

definition chronicle :: "broker \<Rightarrow> equity_point list \<times> bool" where
  "chronicle br = (br_equity_curve br, br_bankrupt br)"

lemma chronicle_upd [simp]:
  "chronicle (br\<lparr>br_ledger := l\<rparr>) = chronicle br" "chronicle (br\<lparr>br_sequence := n\<rparr>) = chronicle br"
  "chronicle (br\<lparr>br_book := b\<rparr>) = chronicle br" "chronicle (br\<lparr>br_executions := e\<rparr>) = chronicle br"
  "chronicle (br\<lparr>br_protections := q\<rparr>) = chronicle br" "chronicle (br\<lparr>br_protection_events := pe\<rparr>) = chronicle br"
  "chronicle (br\<lparr>br_rebalances := r\<rparr>) = chronicle br" "chronicle (br\<lparr>br_positions := ps, br_total_value := v\<rparr>) = chronicle br"
  "chronicle (br\<lparr>br_liquidation_adjustment := a, br_cash := c\<rparr>) = chronicle br"
  "chronicle (br\<lparr>br_cash := c, br_positions := ps, br_protections := q, br_total_value := v\<rparr>) = chronicle br"
  by (simp_all add: chronicle_def)

lemma mark_all_chronicle: "mark_all f br = Inr (v, br') \<Longrightarrow> chronicle br' = chronicle br"
  by (auto simp: mark_all_def bindE_Inr_iff Let_def)

lemma log_event_chronicle [simp]: "chronicle (bt_broker (log_event e c b)) = chronicle (bt_broker b)"
  by (simp add: log_event_def split: prod.splits)

lemma settle_chronicle: "settle jb cur d p ts br = Inr br' \<Longrightarrow> chronicle br' = chronicle br"
  by (auto simp: settle_def bindE_Inr_iff Let_def)

lemma apply_fill_chronicle:
  assumes "apply_fill env ts jb sz p reference pl b = Inr b'"
  shows "chronicle (bt_broker b') = chronicle (bt_broker b)"
  using assms by (auto elim!: apply_fill_parts simp: Let_def settle_chronicle)

lemma execute_one_chronicle:
  assumes "execute_one env ts ov equity o0 b = Inr b'"
  shows "chronicle (bt_broker b') = chronicle (bt_broker b)"
proof (cases rule: execute_one_cases[OF assms])
  case noted: (1 jb w)
  then show ?thesis by (auto simp: noted_only_def note_event_def numbered_def)
next
  case filled: (2 jb w sz weight p reference pl)
  then show ?thesis using apply_fill_chronicle[OF filled(6)] by (simp add: numbered_def)
qed

lemma record_rebalance_chronicle:
  "record_rebalance env ts equity cash b = Inr br' \<Longrightarrow> chronicle br' = chronicle (bt_broker b)"
  by (auto simp: record_rebalance_def bindE_Inr_iff Let_def mark_to_market_before_fill_def dest!: mark_all_chronicle)

lemma execute_chronicle:
  assumes "execute env ts ov orders br = Inr (deferred, br')"
  shows "chronicle br' = chronicle br"
proof (cases "orders = []")
  case False
  show ?thesis using assms False
  proof (rule execute_parts)
    fix equity br1 b
    assume mk: "mark_to_market_before_fill env ts ov br = Inr (equity, br1)"
      and run: "foldE (execute_one env ts ov equity) orders
       \<lparr>bt_broker = br1, bt_deferred = [], bt_weights = [], bt_indexes = [], bt_overrides = ov\<rparr> = Inr b"
      and rb: "record_rebalance env ts equity (br_cash br1) b = Inr br'"
    have "chronicle br1 = chronicle br" using mark_all_chronicle mk[unfolded mark_to_market_before_fill_def] by blast
    moreover have "chronicle (bt_broker b) = chronicle br1" using run
      by (rule foldE_invariant) (use execute_one_chronicle in auto)
    ultimately show ?thesis using record_rebalance_chronicle[OF rb] by simp
  qed
qed (use assms in \<open>simp add: execute_def\<close>)

lemma scan_protection_parts:
  assumes "scan_protection env ts keyed acc = Inr acc'"
  shows "\<exists>prots. fst acc' = (fst acc)\<lparr>br_protections := prots\<rparr>"
proof -
  obtain key st0 br hits where k: "keyed = (key, st0)" "acc = (br, hits)" by (cases keyed; cases acc)
  have same: "br = br\<lparr>br_protections := br_protections br\<rparr>" by simp
  show ?thesis
  proof (cases "dget (br_positions br) key")
    case None
    then show ?thesis using assms by (auto simp: scan_protection_def k bindE_Inr_iff)
  next
    case (Some p)
    obtain b where b: "se_bar env (ps_symbol p) ts = Inr b" using assms Some by (auto simp: scan_protection_def k bindE_Inr_iff)
    show ?thesis
    proof (cases b)
      case None
      then have "fst acc' = br" using assms Some b by (auto simp: scan_protection_def k)
      then show ?thesis using same unfolding k fst_conv by metis
    next
      case bar: (Some x)
      obtain dec st1 where ev: "evaluate_bar (se_elapsed env) ''conservative'' (st0\<lparr>pst_entry_price := ps_avg_cost p\<rparr>) ts
          (b_open x) (b_high x) (b_low x) = (dec, st1)" by force
      then have "fst acc' = br\<lparr>br_protections := dset (br_protections br) key st1\<rparr>"
        using assms Some b bar by (auto simp: scan_protection_def k Let_def)
      then show ?thesis by (auto simp: k)
    qed
  qed
qed

lemma scan_protection_chronicle:
  "scan_protection env ts keyed acc = Inr acc' \<Longrightarrow> chronicle (fst acc') = chronicle (fst acc)"
  using scan_protection_parts[of env ts keyed acc acc'] by auto

lemma confirm_protection_chronicle [simp]: "chronicle (fst (confirm_protection env ex evs hit acc)) = chronicle (fst acc)"
  by (simp add: confirm_protection_def split: prod.splits)

lemma confirm_all_chronicle: "chronicle (fst (fold (confirm_protection env ex evs) hits acc)) = chronicle (fst acc)"
  by (induction hits arbitrary: acc) simp_all

lemma process_protections_chronicle:
  assumes "process_protections env ts br = Inr (decisions, br')"
  shows "chronicle br' = chronicle br"
proof -
  obtain br1 hits where s: "foldE (scan_protection env ts) (br_protections br) (br, []) = Inr (br1, hits)"
    using assms by (auto simp: process_protections_def bindE_Inr_iff)
  have c1: "chronicle (fst (br1, hits)) = chronicle br" using s
    by (rule foldE_invariant) (use scan_protection_chronicle in auto)
  show ?thesis
  proof (cases "hits = []")
    case True
    then show ?thesis using assms s c1 by (simp add: process_protections_def)
  next
    case False
    let ?orders = "map (\<lambda>(key, symbol, side, d). market_intent symbol ''target_quantity'' (Fin 0) (pd_reason d) (Some ts) side) hits"
    let ?ov = "foldl (\<lambda>m (key, symbol, side, d). dset m key (pd_price d)) [] hits"
    obtain deferred br2 where e: "execute env ts ?ov ?orders br1 = Inr (deferred, br2)"
      using assms s False by (auto simp: process_protections_def bindE_Inr_iff Let_def)
    let ?c = "confirm_protection env (drop (length (br_executions br1)) (br_executions br2)) (drop (length (lg_events (br_ledger br1))) (lg_events (br_ledger br2)))"
    have "br' = fst (fold ?c hits (br2, []))"
      using assms s False e by (simp add: process_protections_def Let_def split: prod.splits)
    then show ?thesis using confirm_all_chronicle[of _ _ _ _ "(br2, [])"] execute_chronicle[OF e] c1 by simp
  qed
qed

lemma liquidate_chronicle:
  assumes "liquidate_if_insolvent env ts br = Inr (dead, br')"
  shows "br_equity_curve br' = br_equity_curve br" "dead \<longleftrightarrow> br_bankrupt br'"
proof -
  have "br_equity_curve br' = br_equity_curve br \<and> (dead \<longleftrightarrow> br_bankrupt br')"
  proof (cases "br_bankrupt br")
    case False
    show ?thesis using assms False
    proof (cases rule: liquidate_parts)
      case (solvent v)
      then show ?thesis using mark_all_chronicle[of "\<lambda>k. mark_position env ts" br v br'] False
        by (auto simp: mark_to_market_def chronicle_def)
    next
      case (liquidated v br1 orders ov deferred br2 total br3 deficit event)
      have "chronicle br2 = chronicle br"
        using execute_chronicle[OF liquidated(5)] mark_all_chronicle[OF liquidated(1)[unfolded mark_to_market_def]] by simp
      moreover have "chronicle br3 = chronicle br2"
        using mark_all_chronicle[OF liquidated(7)[unfolded mark_to_market_def]] by (simp split: if_splits)
      ultimately show ?thesis using liquidated(3) by (auto simp: liquidated(8) chronicle_def)
    qed
  qed (use assms in \<open>auto simp: liquidate_if_insolvent_def\<close>)
  then show "br_equity_curve br' = br_equity_curve br" "dead \<longleftrightarrow> br_bankrupt br'" by simp_all
qed

lemma record_equity_chronicle:
  assumes "record_equity env ts br = Inr br'"
  shows "map eq_time (br_equity_curve br') = map eq_time (br_equity_curve br) @ [se_time_iso env ts]" "br_bankrupt br' = br_bankrupt br"
  using assms by (auto simp: record_equity_def bindE_Inr_iff Let_def mark_to_market_def chronicle_def dest!: mark_all_chronicle)

section \<open>One equity point per bar\<close>

lemma drop_cancelled_chronicle [simp]: "chronicle (rn_broker (drop_cancelled rn)) = chronicle (rn_broker rn)"
  using drop_cancelled_broker[of rn] by auto

lemma callbacks_chronicle:
  "opening_callback st name data rn = Inr rn' \<Longrightarrow> chronicle (rn_broker rn') = chronicle (rn_broker rn)"
  "closing_callback st name rn = Inr rn' \<Longrightarrow> chronicle (rn_broker rn') = chronicle (rn_broker rn)"
  by (auto simp: opening_callback_def closing_callback_def bindE_Inr_iff dest!: invoke_broker)

lemma open_bar_chronicle:
  assumes "open_bar st ts rn = Inr rn'"
  shows "chronicle (rn_broker rn') = chronicle (rn_broker rn)"
proof -
  obtain rn1 rn2 rn3 rn4 where p: "fill_pending st ts (clock_to ts False rn) = Inr rn1"
    "opening_callback st ''before_trading_start'' None (rn1\<lparr>rn_opening := []\<rparr>) = Inr rn2"
    "scheduled_callbacks st ts rn2 = Inr rn3" "rebalance_callback st rn3 = Inr rn4" "fill_opening st ts rn4 = Inr rn'"
    using assms by (auto simp: open_bar_def bindE_Inr_iff)
  have "chronicle (rn_broker rn1) = chronicle (rn_broker rn)"
    using p(1) execute_chronicle by (auto simp: fill_pending_def bindE_Inr_iff split: if_splits)
  moreover have "chronicle (rn_broker rn3) = chronicle (rn_broker rn2)"
    using p(3) unfolding scheduled_callbacks_def
    by (rule foldE_invariant) (use callbacks_chronicle(1) in \<open>auto split: if_splits\<close>)
  moreover have "chronicle (rn_broker rn4) = chronicle (rn_broker rn3)"
    using p(4) by (auto simp: rebalance_callback_def bindE_Inr_iff split: if_splits dest!: callbacks_chronicle(1))
  moreover have "chronicle (rn_broker rn') = chronicle (rn_broker rn4)"
    using p(5) execute_chronicle by (auto simp: fill_opening_def bindE_Inr_iff split: if_splits)
  ultimately show ?thesis using callbacks_chronicle(1)[OF p(2)] by simp
qed

lemma finish_bar_times:
  assumes "finish_bar st ts rn = Inr rn'"
  shows "map eq_time (br_equity_curve (rn_broker rn')) = map eq_time (br_equity_curve (rn_broker rn)) @ [rd_time_iso (st_rendering st) ts]"
    "br_bankrupt (rn_broker rn') = br_bankrupt (rn_broker rn)" "rn_previous rn' = Some ts"
proof -
  obtain br where r: "record_equity (runner_env st rn) ts (rn_broker rn) = Inr br" "rn' = rn\<lparr>rn_broker := br, rn_previous := Some ts\<rparr>"
    using assms by (auto simp: finish_bar_def bindE_Inr_iff)
  show "map eq_time (br_equity_curve (rn_broker rn')) = map eq_time (br_equity_curve (rn_broker rn)) @ [rd_time_iso (st_rendering st) ts]"
    "br_bankrupt (rn_broker rn') = br_bankrupt (rn_broker rn)" "rn_previous rn' = Some ts"
    using record_equity_chronicle[OF r(1)] by (simp_all add: r(2) runner_env_def portal_env_def)
qed

lemma close_bar_times:
  assumes "close_bar st ts rn = Inr rn'"
  shows "map eq_time (br_equity_curve (rn_broker rn')) = map eq_time (br_equity_curve (rn_broker rn)) @ [rd_time_iso (st_rendering st) ts]"
    "rn_previous rn' = Some ts"
proof -
  have "map eq_time (br_equity_curve (rn_broker rn')) = map eq_time (br_equity_curve (rn_broker rn)) @ [rd_time_iso (st_rendering st) ts] \<and>
      rn_previous rn' = Some ts"
    using assms
  proof (rule close_bar_parts)
    fix dead br
    assume l: "liquidate_if_insolvent (runner_env st (clock_to ts True rn)) ts (rn_broker rn) = Inr (dead, br)"
      and d: "dead \<Longrightarrow> finish_bar st ts (take_logs (on_context (\<lambda>cx. snd (flush_orders cx))
          ((clock_to ts True rn)\<lparr>rn_broker := br, rn_pending := []\<rparr>))) = Inr rn'"
      and c: "\<not> dead \<Longrightarrow> \<exists>rn2 rn3. closing_callback st ''handle_data'' ((clock_to ts True rn)\<lparr>rn_broker := br\<rparr>) = Inr rn2 \<and>
          closing_callback st ''after_trading_end'' rn2 = Inr rn3 \<and> finish_bar st ts (take_logs rn3) = Inr rn'"
    show ?thesis
    proof (cases dead)
      case True
      then show ?thesis using finish_bar_times[OF d] liquidate_chronicle(1)[OF l] by simp
    next
      case False
      then obtain rn2 rn3 where p: "closing_callback st ''handle_data'' ((clock_to ts True rn)\<lparr>rn_broker := br\<rparr>) = Inr rn2"
        "closing_callback st ''after_trading_end'' rn2 = Inr rn3" "finish_bar st ts (take_logs rn3) = Inr rn'" using c by blast
      have "chronicle (rn_broker rn3) = chronicle br" using callbacks_chronicle(2)[OF p(1)] callbacks_chronicle(2)[OF p(2)] by simp
      then show ?thesis using finish_bar_times[OF p(3)] liquidate_chronicle(1)[OF l] by (simp add: chronicle_def)
    qed
  qed
  then show "map eq_time (br_equity_curve (rn_broker rn')) = map eq_time (br_equity_curve (rn_broker rn)) @ [rd_time_iso (st_rendering st) ts]"
    "rn_previous rn' = Some ts" by simp_all
qed

lemma run_bar_times:
  assumes "run_bar st ts rn = Inr rn'"
  shows "map eq_time (br_equity_curve (rn_broker rn')) = map eq_time (br_equity_curve (rn_broker rn)) @ [rd_time_iso (st_rendering st) ts] \<and>
     rn_previous rn' = Some ts"
proof (cases "br_bankrupt (rn_broker rn)")
  case True
  then have "finish_bar st ts (clock_to ts True (on_context (\<lambda>cx. cx\<lparr>cx_current_dt := Some ts\<rparr>) rn)) = Inr rn'"
    using assms by (simp add: run_bar_def Let_def)
  from finish_bar_times[OF this] show ?thesis by simp
next
  case False
  then obtain rn1 rn2 where p: "open_bar st ts (on_context (\<lambda>cx. cx\<lparr>cx_current_dt := Some ts\<rparr>) rn) = Inr rn1"
    "guard_positions st ts rn1 = Inr rn2" "close_bar st ts rn2 = Inr rn'"
    using assms by (auto simp: run_bar_def Let_def bindE_Inr_iff)
  have "chronicle (rn_broker rn2) = chronicle (rn_broker rn1)"
    using p(2) by (auto simp: guard_positions_def bindE_Inr_iff dest!: process_protections_chronicle)
  then have "chronicle (rn_broker rn2) = chronicle (rn_broker rn)" using open_bar_chronicle[OF p(1)] by simp
  then show ?thesis using close_bar_times[OF p(3)] by (simp add: chronicle_def)
qed

lemma run_bars_times:
  assumes "foldE (run_bar st) tss rn = Inr rn'"
  shows "map eq_time (br_equity_curve (rn_broker rn')) = map eq_time (br_equity_curve (rn_broker rn)) @ map (rd_time_iso (st_rendering st)) tss"
  using assms
proof (induction tss arbitrary: rn)
  case (Cons ts tss)
  then obtain rn1 where "run_bar st ts rn = Inr rn1" "foldE (run_bar st) tss rn1 = Inr rn'" by (auto simp: bindE_Inr_iff)
  then show ?case using Cons.IH run_bar_times by fastforce
qed simp

text \<open>C15: A backtest that returns has valued the account at every bar of its range, once and in order,
  also on the bars after a bankruptcy: the times of the equity curve are exactly the bars of the
  portal between the start and the end date.\<close>

theorem equity_curve_complete:
  assumes "run st start_date end_date (runner_init capital leverage commission slippage rules pt) = Inr rn'"
  shows "map eq_time (br_equity_curve (rn_broker rn')) =
     map (rd_time_iso (st_rendering st)) (backtest_range start_date end_date (timestamps pt))"
proof -
  have "foldE (run_bar st) (backtest_range start_date end_date (timestamps pt))
      ((runner_init capital leverage commission slippage rules pt)\<lparr>rn_previous := None, rn_pending := []\<rparr>) = Inr rn'"
    using assms by (auto simp: run_def Let_def runner_init_def split: if_splits)
  from run_bars_times[OF this] show ?thesis by (simp add: runner_init_def broker_init_def)
qed

section \<open>Bankruptcy is final\<close>

lemma record_equity_frame:
  assumes "record_equity env ts br = Inr br'"
  shows "br_executions br' = br_executions br" "br_ledger br' = br_ledger br" "br_cash br' = br_cash br"
    "br_book br' = br_book br" "br_bankrupt br' = br_bankrupt br"
proof -
  obtain v br1 where m: "mark_all (\<lambda>k. mark_position env ts) br = Inr (v, br1)"
    using assms by (auto simp: record_equity_def bindE_Inr_iff mark_to_market_def)
  then show "br_executions br' = br_executions br" "br_ledger br' = br_ledger br" "br_cash br' = br_cash br"
    "br_book br' = br_book br" "br_bankrupt br' = br_bankrupt br"
    using assms mark_all_frame[OF m] mark_all_chronicle[OF m]
    by (auto simp: record_equity_def mark_to_market_def Let_def chronicle_def)
qed

lemma bankrupt_bar:
  assumes "run_bar st ts rn = Inr rn'" and "br_bankrupt (rn_broker rn)"
  shows "br_bankrupt (rn_broker rn')" "br_executions (rn_broker rn') = br_executions (rn_broker rn)"
    "br_ledger (rn_broker rn') = br_ledger (rn_broker rn)" "br_cash (rn_broker rn') = br_cash (rn_broker rn)"
    "br_book (rn_broker rn') = br_book (rn_broker rn)" "rn_pending rn' = rn_pending rn"
    "cx_orders (sw_context (rn_world rn')) = cx_orders (sw_context (rn_world rn))" "rn_logs rn' = rn_logs rn"
proof -
  have f: "finish_bar st ts (clock_to ts True (on_context (\<lambda>cx. cx\<lparr>cx_current_dt := Some ts\<rparr>) rn)) = Inr rn'"
    using assms by (simp add: run_bar_def Let_def)
  obtain br' where r: "record_equity (runner_env st (clock_to ts True (on_context (\<lambda>cx. cx\<lparr>cx_current_dt := Some ts\<rparr>) rn))) ts (rn_broker rn) = Inr br'"
      "rn' = (clock_to ts True (on_context (\<lambda>cx. cx\<lparr>cx_current_dt := Some ts\<rparr>) rn))\<lparr>rn_broker := br', rn_previous := Some ts\<rparr>"
    using f by (auto simp: finish_bar_def bindE_Inr_iff)
  show "br_bankrupt (rn_broker rn')" "br_executions (rn_broker rn') = br_executions (rn_broker rn)"
    "br_ledger (rn_broker rn') = br_ledger (rn_broker rn)" "br_cash (rn_broker rn') = br_cash (rn_broker rn)"
    "br_book (rn_broker rn') = br_book (rn_broker rn)" "rn_pending rn' = rn_pending rn"
    "cx_orders (sw_context (rn_world rn')) = cx_orders (sw_context (rn_world rn))" "rn_logs rn' = rn_logs rn"
    using record_equity_frame[OF r(1)] assms(2) by (simp_all add: r(2) clock_to_def on_context_def)
qed

text \<open>C19: Nothing trades after bankruptcy: on every further bar, whatever the strategy would do, no
  handler runs, no order is executed or queued, and cash, executions, ledger and closed trades stay
  as they were when the account was closed.\<close>

theorem bankruptcy_is_final:
  assumes "foldE (run_bar st) tss rn = Inr rn'" and "br_bankrupt (rn_broker rn)"
  shows "br_bankrupt (rn_broker rn') \<and> br_executions (rn_broker rn') = br_executions (rn_broker rn) \<and>
     br_ledger (rn_broker rn') = br_ledger (rn_broker rn) \<and> br_cash (rn_broker rn') = br_cash (rn_broker rn) \<and>
     br_book (rn_broker rn') = br_book (rn_broker rn) \<and> rn_pending rn' = rn_pending rn \<and>
     cx_orders (sw_context (rn_world rn')) = cx_orders (sw_context (rn_world rn)) \<and> rn_logs rn' = rn_logs rn"
  using assms(1) by (rule foldE_invariant) (use assms(2) bankrupt_bar in auto)

section \<open>A run that succeeds\<close>

text \<open>A strategy with no handlers over the portal of two AAPL bars.\<close>

definition idle_setting :: setting where
  "idle_setting = \<lparr>st_rendering = demo_rendering, st_describe = (\<lambda>_. []),
     st_program = \<lparr>pg_handler = (\<lambda>_. None), pg_schedules = [], pg_strategy_type = ''single'', pg_driving_frequency = ''1m''\<rparr>\<rparr>"

lemma idle_invoke: "invoke idle_setting name data rn = Inr rn"
  by (simp add: invoke_def idle_setting_def)

lemma idle_bar:
  assumes "br_positions (rn_broker rn) = []" "br_protections (rn_broker rn) = []" "br_bankrupt (rn_broker rn) = False"
    "flt (Fin 0) (br_cash (rn_broker rn))" "rn_pending rn = []" "cx_orders (sw_context (rn_world rn)) = []"
    "cx_cancelled (sw_context (rn_world rn)) = {}"
  shows "\<exists>rn'. run_bar idle_setting ts rn = Inr rn'"
proof -
  let ?rn = "on_context (\<lambda>cx. cx\<lparr>cx_current_dt := Some ts\<rparr>) rn"
  have m: "mark_to_market env t (rn_broker rn) = Inr (br_cash (rn_broker rn), (rn_broker rn)\<lparr>br_positions := [], br_total_value := br_cash (rn_broker rn)\<rparr>)" for env t
    using assms(1) by (simp add: mark_to_market_def mark_all_def Let_def)
  have s: "pg_schedules (st_program idle_setting) = []" "pg_strategy_type (st_program idle_setting) = ''single''"
    by (simp_all add: idle_setting_def)
  let ?c = "\<lambda>r. rn_broker r = rn_broker rn \<and> rn_pending r = [] \<and> cx_orders (sw_context (rn_world r)) = [] \<and> cx_cancelled (sw_context (rn_world r)) = {}"
  have o: "opening_callback idle_setting name data r = Inr (take_opening (drop_cancelled r))"
    "closing_callback idle_setting name r = Inr (take_pending (drop_cancelled r))" for name data r
    by (simp_all add: opening_callback_def closing_callback_def idle_invoke)
  have open1: "\<exists>rn1. open_bar idle_setting ts ?rn = Inr rn1 \<and> ?c rn1"
    using assms s by (simp add: open_bar_def fill_pending_def o scheduled_callbacks_def rebalance_callback_def fill_opening_def
        clock_to_def on_context_def take_opening_def flush_orders_def drop_cancelled_def remove_cancelled_orders_def flush_cancelled_order_ids_def)
  then obtain rn1 where r1: "open_bar idle_setting ts ?rn = Inr rn1" "?c rn1" by blast
  obtain rn2 where r2: "guard_positions idle_setting ts rn1 = Inr rn2" "?c rn2"
    using r1(2) assms(2) by (simp add: guard_positions_def process_protections_def sync_statuses_def sync_order_statuses_def
        update_order_statuses_def on_context_def split: prod.split)
  have "\<exists>rn'. close_bar idle_setting ts rn2 = Inr rn'"
    using r2(2) assms(3,4) m
    by (simp add: close_bar_def liquidate_if_insolvent_def o finish_bar_def record_equity_def mark_to_market_def mark_all_def Let_def
        take_logs_def take_pending_def flush_orders_def drop_cancelled_def remove_cancelled_orders_def flush_cancelled_order_ids_def clock_to_def on_context_def)
  then show ?thesis using r1 r2 assms(3) by (auto simp: run_bar_def Let_def)
qed

definition idle_runner :: runner where
  "idle_runner = runner_init (Fin 10000) (Fin 1) (Fin 0) (Fin 0) NoRules demo_portal"

lemma idle_run: "\<exists>rn'. run idle_setting (Some 0) (Some 0) idle_runner = Inr rn'"
proof -
  have r: "backtest_range (Some 0) (Some 0) (timestamps demo_portal) = [0]" by code_simp
  have "\<exists>rn'. run_bar idle_setting 0 (idle_runner\<lparr>rn_previous := None, rn_pending := []\<rparr>) = Inr rn'"
    by (rule idle_bar) (simp_all add: idle_runner_def runner_init_def broker_init_def fresh_context_def)
  then show ?thesis using r by (auto simp: run_def idle_runner_def runner_init_def)
qed

theorem equity_curve_complete_witness:
  "\<exists>rn'. run idle_setting (Some 0) (Some 0) (runner_init (Fin 10000) (Fin 1) (Fin 0) (Fin 0) NoRules demo_portal) = Inr rn' \<and>
     map eq_time (br_equity_curve (rn_broker rn')) = map (rd_time_iso (st_rendering idle_setting)) (backtest_range (Some 0) (Some 0) (timestamps demo_portal))"
proof -
  obtain rn' where r: "run idle_setting (Some 0) (Some 0) (runner_init (Fin 10000) (Fin 1) (Fin 0) (Fin 0) NoRules demo_portal) = Inr rn'"
    using idle_run unfolding idle_runner_def by blast
  from equity_curve_complete[OF r] r show ?thesis by blast
qed

definition dead_runner :: runner where
  "dead_runner = idle_runner\<lparr>rn_broker := (rn_broker idle_runner)\<lparr>br_bankrupt := True\<rparr>\<rparr>"

theorem bankruptcy_is_final_witness:
  "\<exists>rn'. foldE (run_bar idle_setting) [0] dead_runner = Inr rn' \<and> br_bankrupt (rn_broker rn') \<and>
     br_executions (rn_broker rn') = br_executions (rn_broker dead_runner)"
proof -
  have b: "br_bankrupt (rn_broker dead_runner)" by (simp add: dead_runner_def)
  have "\<exists>rn'. foldE (run_bar idle_setting) [0] dead_runner = Inr rn'"
    by (simp add: run_bar_def dead_runner_def finish_bar_def record_equity_def mark_to_market_def mark_all_def Let_def
        idle_runner_def runner_init_def broker_init_def clock_to_def on_context_def)
  then obtain rn' where r: "foldE (run_bar idle_setting) [0] dead_runner = Inr rn'" by blast
  from bankruptcy_is_final[OF r b] r show ?thesis by blast
qed



text \<open>An accepted leverage lies between one and the smaller of the platform's and the strategy's
  limit, and exceeds one only for a strategy that allows leverage; a leverage beyond the limit is
  refused.\<close>

theorem leverage_within_limits:
  assumes "requested_leverage on leverage allowed max_leverage = Inr v"
  shows "fle (Fin 1) v \<and> \<not> flt (pymin PLATFORM_MAX_LEVERAGE max_leverage) v \<and> (flt (Fin 1) v \<longrightarrow> on \<and> allowed) \<and> isfinite v"
  using assms
  by (cases leverage; cases max_leverage)
    (auto simp: requested_leverage_def Let_def pymax_def pymin_def f_or_def PLATFORM_MAX_LEVERAGE_def ftruthy_def split: if_splits)

theorem leverage_within_limits_witness:
  "requested_leverage True (Fin 5) True (Fin 10) = Inr (Fin 5) \<and> fle (Fin 1) (Fin 5)"
  using leverage_within_limits[of True "Fin 5" True "Fin 10" "Fin 5"]
  by (simp add: requested_leverage_def Let_def pymax_def pymin_def f_or_def PLATFORM_MAX_LEVERAGE_def ftruthy_def)



end
