(* ===== verification/LiveSession.thy ===== *)
theory LiveSession
  imports Backtest
begin

text \<open>
  The live session (\<open>services/strategy_v2/runtime.py\<close>, \<open>StrategyV2LiveSession\<close>): bar events, the
  synchronisation with the exchange's positions, protection exits on price ticks, the portfolio-wide
  equity stop of a deployment and the snapshot that survives a restart.  The strategy's handlers, the
  wall clock and the text of timestamps are parameters, as in the backtest.
\<close>

section \<open>Strategy state\<close>

text \<open>What a strategy keeps in its state object: scalars, timestamps, lists, tuples and mappings.\<close>

datatype state_value =
    SvAtom pyval
  | SvTime timestamp
  | SvList "state_value list"
  | SvTuple "state_value list"
  | SvDict "(string \<times> state_value) list"

definition STATE_TAG :: string where
  "STATE_TAG = ''__strategy_v2_type__''"

fun snapshot_state_value :: "(timestamp \<Rightarrow> string) \<Rightarrow> state_value \<Rightarrow> pyval" where
  "snapshot_state_value ts_iso (SvAtom v) = v"
| "snapshot_state_value ts_iso (SvTime t) = PDict [(STATE_TAG, PStr ''timestamp''), (''value'', PStr (ts_iso t))]"
| "snapshot_state_value ts_iso (SvList vs) = PList (map (snapshot_state_value ts_iso) vs)"
| "snapshot_state_value ts_iso (SvTuple vs) = PList (map (snapshot_state_value ts_iso) vs)"
| "snapshot_state_value ts_iso (SvDict d) = PDict (map (\<lambda>(k, v). (k, snapshot_state_value ts_iso v)) d)"

lemma mapE_cong [fundef_cong]:
  assumes "xs = ys" and "\<And>x. x \<in> set ys \<Longrightarrow> f x = g x"
  shows "mapE f xs = mapE g ys"
  using assms(2) unfolding assms(1) by (induction ys) simp_all

lemma dict_entry_smaller [termination_simp]: "(k, v) \<in> set d \<Longrightarrow> size v < size (PDict d)"
  by (induction d) auto

fun restore_state_value :: "(pyval \<Rightarrow> timestamp result) \<Rightarrow> pyval \<Rightarrow> state_value result" where
  "restore_state_value ts_of (PDict d) =
     (if dget d STATE_TAG = Some (PStr ''timestamp'')
      then bindE (ts_of (dget_or d ''value'' PNone)) (\<lambda>t. Inr (SvTime t))
      else bindE (mapE (\<lambda>(k, v). bindE (restore_state_value ts_of v) (\<lambda>x. Inr (k, x))) d) (\<lambda>items. Inr (SvDict items)))"
| "restore_state_value ts_of (PList vs) = bindE (mapE (restore_state_value ts_of) vs) (\<lambda>xs. Inr (SvList xs))"
| "restore_state_value ts_of v = Inr (SvAtom v)"

section \<open>State\<close>

record session =
  ls_world :: strategy_world
  ls_positions :: "(string, position) dict"
  ls_starting_cash :: pyfloat
  ls_available_cash :: pyfloat
  ls_total_value :: pyfloat
  ls_state :: "(string, state_value) dict"
  ls_persist :: bool
  ls_last_processed :: "timestamp option"
  ls_last_schedule_check :: "timestamp option"
  ls_specs :: "(string, protection_spec) dict"
  ls_states :: "(string, protection_state) dict"
  ls_exit_pending :: "string list"
  ls_deployment_risk :: "(string, pyval) dict"
  ls_equity_exit_pending :: bool
  ls_equity_stop_reason :: string

text \<open>A live handler may change the context, the log, the portal caches and the strategy's own state;
  it reads the session.\<close>

type_synonym live_handler =
  "session \<Rightarrow> (string, frame) dict option \<Rightarrow> (string, pyfloat) dict \<Rightarrow>
     strategy_world \<times> (string, state_value) dict \<Rightarrow> (strategy_world \<times> (string, state_value) dict) result"

record live_program =
  lp_handler :: "string \<Rightarrow> live_handler option"
  lp_schedules :: "schedule list"
  lp_strategy_type :: string
  lp_driving_frequency :: string
  lp_describe :: "pyexc \<Rightarrow> string"
  lp_stop_reason :: "(string, state_value) dict \<Rightarrow> string"

text \<open>A new session; whether the strategy's state persists is read from the source and the parameters.\<close>

definition session_init :: "portal \<Rightarrow> pyfloat \<Rightarrow> bool \<Rightarrow> (string, pyval) dict \<Rightarrow> session" where
  "session_init pt capital persist deployment_risk =
     \<lparr>ls_world = \<lparr>sw_context = fresh_context\<lparr>cx_live_cancellation := True\<rparr>, sw_logs = [], sw_portal = pt\<rparr>,
      ls_positions = [], ls_starting_cash = capital, ls_available_cash = capital, ls_total_value = capital,
      ls_state = [], ls_persist = persist, ls_last_processed = None, ls_last_schedule_check = None,
      ls_specs = [], ls_states = [], ls_exit_pending = [], ls_deployment_risk = deployment_risk,
      ls_equity_exit_pending = False, ls_equity_stop_reason = []\<rparr>"

definition add_once :: "'a \<Rightarrow> 'a list \<Rightarrow> 'a list" where
  "add_once x xs = (if x \<in> set xs then xs else xs @ [x])"

definition live_context :: "(context_orders \<Rightarrow> context_orders) \<Rightarrow> session \<Rightarrow> session" where
  "live_context f s = s\<lparr>ls_world := (ls_world s)\<lparr>sw_context := f (sw_context (ls_world s))\<rparr>\<rparr>"

definition call_hook :: "live_handler \<Rightarrow> (string, frame) dict option \<Rightarrow> (string, pyfloat) dict \<Rightarrow> session \<Rightarrow> session result" where
  "call_hook h data prices s =
     bindE (h s data prices (ls_world s, ls_state s)) (\<lambda>(w, state). Inr (s\<lparr>ls_world := w, ls_state := state\<rparr>))"

definition live_invoke :: "live_program \<Rightarrow> string \<Rightarrow> (string, frame) dict option \<Rightarrow> session \<Rightarrow> session result" where
  "live_invoke pg name data s =
     (case lp_handler pg name of
        None \<Rightarrow> Inr s
      | Some h \<Rightarrow>
          (case call_hook h data [] s of
             Inr s' \<Rightarrow> Inr s'
           | Inl (ContractError text) \<Rightarrow> Inl (ContractError text)
           | Inl e \<Rightarrow> Inl (ContractError (''strategyV2.runtimeFailed:'' @ name @ '':'' @ lp_describe pg e))))"

definition capture_protection_intents :: "order_intent list \<Rightarrow> session \<Rightarrow> session" where
  "capture_protection_intents orders s =
     s\<lparr>ls_specs := foldl (\<lambda>d o0. case oi_protection o0 of
           None \<Rightarrow> d
         | Some sp \<Rightarrow> dset d (position_key (oi_symbol o0) (oi_position_side o0)) sp) (ls_specs s) orders\<rparr>"

text \<open>The end of every entry point: the queued orders, their protections, the log.\<close>

definition flush_live :: "session \<Rightarrow> order_intent list \<times> string list \<times> session" where
  "flush_live s =
     (case flush_orders (sw_context (ls_world s)) of (orders, cx) \<Rightarrow>
        let s1 = capture_protection_intents orders (live_context (\<lambda>_. cx) s)
        in (orders, sw_logs (ls_world s1), s1\<lparr>ls_world := (ls_world s1)\<lparr>sw_logs := []\<rparr>\<rparr>))"

section \<open>Bar events\<close>

definition live_schedules :: "live_program \<Rightarrow> timestamp \<Rightarrow> timestamp \<Rightarrow> session \<Rightarrow> session result" where
  "live_schedules pg clock checked s0 =
     foldE (\<lambda>sc s. if schedule_due sc clock (Some checked) ''1m'' then live_invoke pg (sc_callback sc) None s else Inr s)
       (lp_schedules pg) s0"

definition bar_handlers :: "live_program \<Rightarrow> session \<Rightarrow> session result" where
  "bar_handlers pg s =
     bindE (if lp_strategy_type pg = ''portfolio'' \<and> lp_schedules pg = []
            then bindE (panel [] None PNone (sw_portal (ls_world s))) (\<lambda>(data, pt).
                   live_invoke pg ''on_rebalance'' (Some data) (s\<lparr>ls_world := (ls_world s)\<lparr>sw_portal := pt\<rparr>\<rparr>))
            else Inr s) (\<lambda>s1.
       live_invoke pg ''handle_data'' None s1)"

definition at_time :: "timestamp \<Rightarrow> session \<Rightarrow> session" where
  "at_time ts = live_context (\<lambda>cx. cx\<lparr>cx_current_dt := Some ts\<rparr>)"

text \<open>The three places a bar event calls the strategy: the first bar of a day, a due schedule, a new bar.\<close>

definition open_day :: "live_program \<Rightarrow> timestamp \<Rightarrow> session \<Rightarrow> session result" where
  "open_day pg ts s =
     (if (case ls_last_processed s of None \<Rightarrow> True | Some t \<Rightarrow> t < ts \<and> day_of t \<noteq> day_of ts)
      then live_invoke pg ''before_trading_start'' None (at_time ts s) else Inr s)"

definition check_schedules :: "live_program \<Rightarrow> timestamp \<Rightarrow> session \<Rightarrow> session result" where
  "check_schedules pg clock s0 =
     bindE (case ls_last_schedule_check s0 of
              None \<Rightarrow> Inr s0
            | Some checked \<Rightarrow> if checked < clock then live_schedules pg clock checked (at_time clock s0) else Inr s0) (\<lambda>s.
       Inr (s\<lparr>ls_last_schedule_check := Some clock\<rparr>))"

definition bar_advanced :: "timestamp \<Rightarrow> session \<Rightarrow> bool" where
  "bar_advanced ts s = (case ls_last_processed s of None \<Rightarrow> True | Some t \<Rightarrow> t < ts)"

definition process ::
  "live_program \<Rightarrow> portal result \<Rightarrow> timestamp \<Rightarrow> session \<Rightarrow> (order_intent list \<times> string list \<times> timestamp \<times> session) result" where
  "process pg new_portal clock s0 =
     bindE new_portal (\<lambda>pt.
       if timestamps pt = [] then Inl (ContractError ''strategyV2.noMarketData'')
       else
         let ts = last (timestamps pt); advanced = bar_advanced ts s0 in
         bindE (open_day pg ts (s0\<lparr>ls_world := (ls_world s0)\<lparr>sw_portal := set_clock ts True pt\<rparr>\<rparr>)) (\<lambda>s1.
         bindE (check_schedules pg clock s1) (\<lambda>s2.
         bindE (if advanced then bar_handlers pg (at_time ts s2) else Inr s2) (\<lambda>s3.
           let (orders, logs, s4) = flush_live s3
           in Inr (orders, logs, ts, if advanced then s4\<lparr>ls_last_processed := Some ts\<rparr> else s4)))))"

section \<open>Positions of the exchange\<close>

text \<open>\<open>text.rpartition("::")\<close>: the text before the last separator, whether there is one, and the rest.\<close>

definition rpartition_colons :: "string \<Rightarrow> string \<times> bool \<times> string" where
  "rpartition_colons text =
     (case filter (\<lambda>i. take 2 (drop i text) = ''::'') (rev [0..<length text]) of
        [] \<Rightarrow> ([], False, text)
      | i # _ \<Rightarrow> (take i text, True, drop (i + 2) text))"

definition synced_position :: "portal \<Rightarrow> string \<Rightarrow> (string, pyval) dict \<Rightarrow> (string \<times> position) result" where
  "synced_position pt source_key raw =
     (case rpartition_colons source_key of (source_symbol, separator, suffix) \<Rightarrow>
        let suffix_side = (if separator then normalize_position_side suffix else []);
            resolve_symbol = (if suffix_side \<noteq> [] then source_symbol else source_key);
            symbol = (case resolve_key pt (PStr resolve_symbol) PNone of Inl _ \<Rightarrow> resolve_symbol | Inr k \<Rightarrow> k)
        in bindE (to_float (p_or (dget_or raw ''amount'' PNone) (PFloat (Fin 0)))) (\<lambda>amount0.
           bindE (to_float (p_or (dget_or raw ''avg_cost'' PNone) (PFloat (Fin 0)))) (\<lambda>avg_cost.
           bindE (to_float (p_or (dget_or raw ''last_price'' PNone) (PFloat (Fin 0)))) (\<lambda>last_price.
             let side = lower (strip (str_or (dget_or raw ''side'' PNone) ''long''));
                 amount = (if side = ''short'' \<and> flt (Fin 0) amount0 then fneg amount0 else amount0);
                 position_side = str_default suffix_side (normalize_position_side (str_or (dget_or raw ''position_side'' PNone) []))
             in Inr (position_key symbol position_side,
                  \<lparr>ps_symbol = symbol, ps_amount = amount, ps_avg_cost = avg_cost, ps_last_price = last_price,
                   ps_position_side = position_side\<rparr>)))))"

definition synced_positions :: "portal \<Rightarrow> (string, (string, pyval) dict) dict \<Rightarrow> (string, position) dict result" where
  "synced_positions pt positions =
     foldE (\<lambda>(k, raw) d. bindE (synced_position pt k raw) (\<lambda>(key, p). Inr (dset d key p))) positions []"

definition average_moved :: "pyfloat \<Rightarrow> pyfloat \<Rightarrow> bool" where
  "average_moved new_average entry =
     flt (pymax dust (fmul (fabs entry) (fl (1 / 10000000000)))) (fabs (fsub new_average entry))"

definition sync_protection ::
  "timestamp \<Rightarrow> timestamp option \<Rightarrow> (string, protection_spec) dict \<Rightarrow> string \<times> position \<Rightarrow>
     (string, protection_state) dict \<Rightarrow> (string, protection_state) dict" where
  "sync_protection now dt specs keyed states =
     (case keyed of (key, p) \<Rightarrow>
        case dget specs key of
          None \<Rightarrow> states
        | Some sp \<Rightarrow>
            if fle (fabs (ps_amount p)) dust \<or> fle (ps_avg_cost p) (Fin 0) then states
            else
              let side = amount_side (ps_amount p) in
              (case dget states key of
                 None \<Rightarrow> dset states key (state_open key side (ps_avg_cost p) sp (case dt of None \<Rightarrow> now | Some t \<Rightarrow> t))
               | Some st \<Rightarrow>
                   if pst_side st \<noteq> side
                   then dset states key (state_open key side (ps_avg_cost p) sp (case dt of None \<Rightarrow> now | Some t \<Rightarrow> t))
                   else if average_moved (ps_avg_cost p) (pst_entry_price st)
                   then dset states key (apply_scale_in (ps_avg_cost p) (f_or (ps_last_price p) (ps_avg_cost p)) (Some sp) dt st)
                   else states))"

definition drop_closed_exits :: "session \<Rightarrow> session" where
  "drop_closed_exits s =
     (let gone = filter (\<lambda>k. k \<notin> set (dkeys (ls_positions s))) (ls_exit_pending s)
      in s\<lparr>ls_exit_pending := filter (\<lambda>k. k \<notin> set gone) (ls_exit_pending s),
           ls_specs := foldl dpop (ls_specs s) gone, ls_states := foldl dpop (ls_states s) gone\<rparr>)"

definition synchronize_positions ::
  "timestamp \<Rightarrow> (string, (string, pyval) dict) dict \<Rightarrow> pyfloat option \<Rightarrow> pyfloat option \<Rightarrow> session \<Rightarrow> session result" where
  "synchronize_positions now positions available_cash total_value s =
     bindE (synced_positions (sw_portal (ls_world s)) positions) (\<lambda>synced.
       let states = fold (sync_protection now (cx_current_dt (sw_context (ls_world s))) (ls_specs s)) synced (ls_states s);
           s1 = drop_closed_exits (s\<lparr>ls_positions := synced, ls_states := states\<rparr>)
       in Inr (s1\<lparr>ls_available_cash := (case available_cash of None \<Rightarrow> ls_available_cash s1 | Some x \<Rightarrow> x),
                  ls_total_value := (case total_value of None \<Rightarrow> ls_total_value s1 | Some x \<Rightarrow> x)\<rparr>))"

section \<open>Protection exits\<close>

definition tick_protection ::
  "(timestamp \<Rightarrow> timestamp \<Rightarrow> pyfloat) \<Rightarrow> (string, pyfloat) dict \<Rightarrow> timestamp \<Rightarrow> string \<times> protection_state \<Rightarrow>
     session \<times> (string \<times> order_intent) list \<Rightarrow> session \<times> (string \<times> order_intent) list" where
  "tick_protection elapsed prices ts keyed acc =
     (case keyed of (key, st) \<Rightarrow> case acc of (s, exits) \<Rightarrow>
        if key \<in> set (ls_exit_pending s) then acc
        else case dget (ls_positions s) key of
          None \<Rightarrow> acc
        | Some p \<Rightarrow>
            if fle (fabs (ps_amount p)) dust then acc
            else
              (case (case dget prices (ps_symbol p) of None \<Rightarrow> dget prices key | Some x \<Rightarrow> Some x) of
                 None \<Rightarrow> acc
               | Some price \<Rightarrow>
                   (case evaluate_price elapsed ''conservative'' st ts (f_or price (Fin 0)) of (dec, st') \<Rightarrow>
                      let s1 = s\<lparr>ls_states := dset (ls_states s) key st'\<rparr> in
                      (case dec of
                         None \<Rightarrow> (s1, exits)
                       | Some d \<Rightarrow>
                           (live_context (set_last_exit_reason (ps_symbol p) (pd_reason d))
                              (live_context (set_last_exit_reason key (pd_reason d))
                                (s1\<lparr>ls_exit_pending := add_once key (ls_exit_pending s1)\<rparr>)),
                            exits @ [(key, market_intent (ps_symbol p) ''target_quantity'' (Fin 0) (pd_reason d) None (ps_position_side p))])))))"

definition protection_exits ::
  "(timestamp \<Rightarrow> timestamp \<Rightarrow> pyfloat) \<Rightarrow> (string, pyfloat) dict \<Rightarrow> timestamp \<Rightarrow> session \<Rightarrow>
     session \<times> (string \<times> order_intent) list" where
  "protection_exits elapsed prices ts s = fold (tick_protection elapsed prices ts) (ls_states s) (s, [])"

definition evaluate_protections ::
  "(timestamp \<Rightarrow> timestamp \<Rightarrow> pyfloat) \<Rightarrow> (string, pyfloat) dict \<Rightarrow> timestamp \<Rightarrow> session \<Rightarrow>
     order_intent list \<times> session" where
  "evaluate_protections elapsed prices ts s =
     (case protection_exits elapsed prices ts s of (s', exits) \<Rightarrow> (map snd exits, s'))"

definition release_protection_exit :: "string \<Rightarrow> string \<Rightarrow> session \<Rightarrow> session" where
  "release_protection_exit symbol position_side s =
     s\<lparr>ls_exit_pending := removeAll (position_key symbol position_side) (ls_exit_pending s)\<rparr>"

section \<open>Equity stop\<close>

definition TERMINAL_STATUSES :: "string list" where
  "TERMINAL_STATUSES = [''filled'', ''cancelled'', ''canceled'', ''rejected'', ''expired'', ''failed'']"

definition risk_limit :: "session \<Rightarrow> string \<Rightarrow> pyfloat result" where
  "risk_limit s name =
     bindE (to_float (p_or (dget_or (ls_deployment_risk s) name PNone) (PFloat (Fin 0)))) (\<lambda>x. Inr (pymax (Fin 0) x))"

text \<open>The limits are read in a \<open>try\<close> that answers a wrong type or value with no stop.\<close>

definition risk_limits :: "session \<Rightarrow> (pyfloat \<times> pyfloat) option result" where
  "risk_limits s =
     (case bindE (risk_limit s ''equity_take_profit_pct'') (\<lambda>take_profit.
           bindE (risk_limit s ''equity_stop_loss_pct'') (\<lambda>stop_loss. Inr (take_profit, stop_loss))) of
        Inr limits \<Rightarrow> Inr (Some limits)
      | Inl TypeError \<Rightarrow> Inr None
      | Inl (ValueError _) \<Rightarrow> Inr None
      | Inl e \<Rightarrow> Inl e)"

definition equity_stop :: "pyfloat \<times> pyfloat \<Rightarrow> session \<Rightarrow> string" where
  "equity_stop limits s =
     (case limits of (take_profit, stop_loss) \<Rightarrow>
        let start = f_or (ls_starting_cash s) (Fin 0); current = f_or (ls_total_value s) (Fin 0) in
        if fle start (Fin 0) \<or> \<not> isfinite current then []
        else
          let total_return = fsub (fquot current start) (Fin 1) in
          if flt (Fin 0) stop_loss \<and> fle total_return (fneg stop_loss) then ''strategy_equity_stop_loss''
          else if flt (Fin 0) take_profit \<and> fle take_profit total_return then ''strategy_equity_take_profit''
          else [])"

definition order_status_of :: "string \<Rightarrow> context_orders \<Rightarrow> string" where
  "order_status_of reference cx = lower (strip (str_or (dget_or (get_order_status (PStr reference) cx) ''status'' PNone) []))"

definition cancel_working :: "context_orders \<Rightarrow> context_orders" where
  "cancel_working cx0 =
     fold (\<lambda>reference cx. if order_status_of reference cx \<in> set TERMINAL_STATUSES then cx
                          else snd (cancel_order (PStr reference) cx)) (dkeys (cx_statuses cx0)) cx0"

definition open_positions :: "session \<Rightarrow> (string \<times> position) list" where
  "open_positions s = filter (\<lambda>(k, p). \<not> fle (fabs (f_or (ps_amount p) (Fin 0))) dust) (ls_positions s)"

definition close_everything :: "timestamp \<Rightarrow> string \<Rightarrow> session \<Rightarrow> order_intent list \<times> session" where
  "close_everything ts reason s =
     (let s1 = at_time ts (live_context cancel_working s);
          s2 = foldl (\<lambda>s (k, p). live_context (set_last_exit_reason (ps_symbol p) reason) (live_context (set_last_exit_reason k reason) s))
                 s1 (open_positions s1)
      in (map (\<lambda>(k, p). market_intent (ps_symbol p) ''target_quantity'' (Fin 0) reason None (ps_position_side p)) (open_positions s1),
          s2\<lparr>ls_equity_exit_pending := True, ls_equity_stop_reason := reason\<rparr>))"

definition deployment_equity_risk :: "timestamp \<Rightarrow> session \<Rightarrow> (order_intent list \<times> string \<times> session) result" where
  "deployment_equity_risk ts s =
     (if ls_equity_exit_pending s then Inr ([], ls_equity_stop_reason s, s)
      else
        bindE (risk_limits s) (\<lambda>limits.
          let reason = (case limits of None \<Rightarrow> [] | Some l \<Rightarrow> equity_stop l s) in
          Inr (if reason = [] then ([], [], s)
               else case close_everything ts reason s of (orders, s') \<Rightarrow> (orders, reason, s'))))"

text \<open>A source may define a portfolio stop of its own, \<open>_equity_risk_exit\<close>.\<close>

definition strategy_equity_risk ::
  "live_program \<Rightarrow> timestamp \<Rightarrow> session \<Rightarrow> (order_intent list \<times> string list \<times> string \<times> session) result" where
  "strategy_equity_risk pg ts s =
     (case lp_handler pg ''_equity_risk_exit'' of
        None \<Rightarrow> Inr ([], [], [], s)
      | Some h \<Rightarrow>
          bindE (call_hook h None [] (at_time ts s)) (\<lambda>s1.
            let (orders, logs, s2) = flush_live s1; stop_reason = strip (lp_stop_reason pg (ls_state s2))
            in Inr (orders, logs,
                 if stop_reason = [] \<and> orders \<noteq> [] then strip (oi_reason (hd orders)) else stop_reason, s2)))"

definition evaluate_equity_risk ::
  "live_program \<Rightarrow> timestamp \<Rightarrow> session \<Rightarrow> (order_intent list \<times> string list \<times> string \<times> session) result" where
  "evaluate_equity_risk pg ts s =
     bindE (deployment_equity_risk ts s) (\<lambda>(orders, reason, s1).
        if reason \<noteq> [] then Inr (orders, [], reason, s1) else strategy_equity_risk pg ts s1)"

definition usable_prices :: "portal \<Rightarrow> (string, pyval) dict \<Rightarrow> (string, pyfloat) dict" where
  "usable_prices pt prices =
     foldl (\<lambda>d (raw_symbol, raw_price).
        case (resolve_key pt (PStr raw_symbol) PNone, to_float (p_or raw_price (PFloat (Fin 0)))) of
          (Inr symbol, Inr price) \<Rightarrow> if flt (Fin 0) price \<and> isfinite price then dset d symbol price else d
        | _ \<Rightarrow> d) [] prices"

definition evaluate_price_tick ::
  "live_program \<Rightarrow> (string, pyval) dict \<Rightarrow> timestamp \<Rightarrow> session \<Rightarrow> (order_intent list \<times> string list \<times> session) result" where
  "evaluate_price_tick pg prices ts s =
     (case lp_handler pg ''on_price_tick'' of
        None \<Rightarrow> Inr ([], [], s)
      | Some h \<Rightarrow>
          let normalized = usable_prices (sw_portal (ls_world s)) prices in
          if normalized = [] then Inr ([], [], s)
          else bindE (call_hook h None normalized (at_time ts s)) (\<lambda>s1. Inr (flush_live s1)))"

definition release_equity_risk_exit :: "live_program \<Rightarrow> session \<Rightarrow> session result" where
  "release_equity_risk_exit pg s =
     (let s1 = s\<lparr>ls_equity_exit_pending := False, ls_equity_stop_reason := []\<rparr> in
      case lp_handler pg ''_release_equity_risk_exit'' of
        None \<Rightarrow> Inr s1
      | Some h \<Rightarrow> call_hook h None [] s1)"

section \<open>Snapshots\<close>

definition protection_snapshot :: "(timestamp \<Rightarrow> string) \<Rightarrow> session \<Rightarrow> (string, pyval) dict" where
  "protection_snapshot ts_iso s =
     [(''specs'', PDict (map (\<lambda>(k, sp). (k, PDict (spec_metadata sp))) (ls_specs s))),
      (''states'', PDict (map (\<lambda>(k, st). (k, PDict (state_metadata ts_iso st))) (ls_states s))),
      (''exitPending'', PList (map PStr (sort (ls_exit_pending s))))]"

definition stored_time :: "(timestamp \<Rightarrow> string) \<Rightarrow> timestamp option \<Rightarrow> pyval" where
  "stored_time ts_iso t = (case t of None \<Rightarrow> PNone | Some x \<Rightarrow> PStr (ts_iso x))"

definition session_snapshot :: "(timestamp \<Rightarrow> string) \<Rightarrow> session \<Rightarrow> (string, pyval) dict" where
  "session_snapshot ts_iso s =
     (let cx = sw_context (ls_world s) in
     [(''version'', PInt 3), (''protection'', PDict (protection_snapshot ts_iso s))] @
     (if cx_cancelled cx \<noteq> {} then [(''cancelRequests'', PList (map PStr (sorted_list_of_set (cx_cancelled cx))))] else []) @
     (if ls_persist s then
        [(''strategyState'', snapshot_state_value ts_iso (SvDict (ls_state s))),
         (''lastProcessed'', stored_time ts_iso (ls_last_processed s)),
         (''lastScheduleCheck'', stored_time ts_iso (ls_last_schedule_check s)),
         (''orderStatuses'', PDict (map (\<lambda>(k, d). (k, PDict d)) (cx_statuses cx))),
         (''exitReasons'', PDict (map (\<lambda>(k, v). (k, PStr v)) (cx_last_exit_reasons cx)))]
      else []))"

text \<open>\<open>(value or {}).items()\<close> and iteration over a stored value.\<close>

definition items_of :: "pyval \<Rightarrow> (string, pyval) dict result" where
  "items_of v = (case p_or v (PDict []) of PDict d \<Rightarrow> Inr d | _ \<Rightarrow> Inl (AttributeError ''items''))"

definition iter_values :: "pyval \<Rightarrow> pyval list result" where
  "iter_values v = (case v of PList xs \<Rightarrow> Inr xs | PStr t \<Rightarrow> Inr (map (\<lambda>c. PStr [c]) t) | PDict d \<Rightarrow> Inr (map PStr (dkeys d)) | _ \<Rightarrow> Inl TypeError)"

definition restore_protection_snapshot ::
  "(pyval \<Rightarrow> timestamp result) \<Rightarrow> timestamp \<Rightarrow> (string, pyval) dict \<Rightarrow> session \<Rightarrow> session result" where
  "restore_protection_snapshot ts_of now raw s =
     bindE (items_of (dget_or raw ''specs'' PNone)) (\<lambda>spec_items.
     bindE (foldE (\<lambda>(k, item) d. bindE (from_value (spec_source_of item) []) (\<lambda>sp.
              Inr (case sp of None \<Rightarrow> d | Some x \<Rightarrow> dset d k x))) spec_items []) (\<lambda>specs.
     bindE (items_of (dget_or raw ''states'' PNone)) (\<lambda>state_items.
     bindE (foldE (\<lambda>(k, item) d. case item of
                PDict m \<Rightarrow> bindE (from_metadata ts_of now m) (\<lambda>st. Inr (case st of None \<Rightarrow> d | Some x \<Rightarrow> dset d k x))
              | _ \<Rightarrow> Inr d) state_items []) (\<lambda>states.
     bindE (iter_values (p_or (dget_or raw ''exitPending'' PNone) (PList []))) (\<lambda>pending.
       Inr (s\<lparr>ls_specs := specs, ls_states := states,
              ls_exit_pending := remdups (filter (\<lambda>k. k \<in> set (dkeys specs) \<and> k \<in> set (dkeys states)) (map to_str pending))\<rparr>))))))"

definition restored_clock :: "(pyval \<Rightarrow> timestamp result) \<Rightarrow> (string, pyval) dict \<Rightarrow> session \<Rightarrow> session" where
  "restored_clock ts_of raw s =
     (let pick = (\<lambda>name old. if truthy (dget_or raw name PNone) then bindE (ts_of (dget_or raw name PNone)) (\<lambda>t. Inr (Some t)) else Inr old) in
      case (pick ''lastProcessed'' (ls_last_processed s), pick ''lastScheduleCheck'' (ls_last_schedule_check s)) of
        (Inr a, Inr b) \<Rightarrow> s\<lparr>ls_last_processed := a, ls_last_schedule_check := b\<rparr>
      | _ \<Rightarrow> s\<lparr>ls_last_processed := None, ls_last_schedule_check := None\<rparr>)"

definition restore_strategy_state :: "(pyval \<Rightarrow> timestamp result) \<Rightarrow> (string, pyval) dict \<Rightarrow> session \<Rightarrow> session result" where
  "restore_strategy_state ts_of raw s =
     (case dget_or raw ''strategyState'' PNone of
        PDict d \<Rightarrow>
          bindE (restore_state_value ts_of (PDict d)) (\<lambda>v.
            case v of
              SvDict items \<Rightarrow> Inr (s\<lparr>ls_state := foldl (\<lambda>m (k, x). dset m k x) (ls_state s) items\<rparr>)
            | _ \<Rightarrow> Inl (AttributeError ''items''))
      | _ \<Rightarrow> Inr s)"

definition restore_context :: "(string, pyval) dict \<Rightarrow> context_orders \<Rightarrow> context_orders" where
  "restore_context raw cx =
     (let mapping = (\<lambda>name. case dget_or raw name PNone of PDict d \<Rightarrow> d | _ \<Rightarrow> []);
          statuses = concat (map (\<lambda>(k, v). case v of PDict d \<Rightarrow> [(k, d)] | _ \<Rightarrow> []) (mapping ''orderStatuses''))
      in (update_order_statuses statuses cx)
           \<lparr>cx_last_exit_reasons := foldl (\<lambda>m (k, v). dset m k (str_or v [])) [] (mapping ''exitReasons'')\<rparr>)"

definition restore_session_snapshot ::
  "(pyval \<Rightarrow> timestamp result) \<Rightarrow> timestamp \<Rightarrow> (string, pyval) dict \<Rightarrow> session \<Rightarrow> session result" where
  "restore_session_snapshot ts_of now raw s =
     (if raw = [] then Inr s
      else
        bindE (iter_values (dget_or raw ''cancelRequests'' (PList []))) (\<lambda>requests.
        let s1 = live_context (\<lambda>cx. cx\<lparr>cx_cancelled := cx_cancelled cx \<union> set (map to_str requests)\<rparr>) s in
        bindE (case dget_or raw ''protection'' PNone of
                 PDict d \<Rightarrow> restore_protection_snapshot ts_of now d s1
               | _ \<Rightarrow> if ''states'' \<in> set (dkeys raw) \<or> ''specs'' \<in> set (dkeys raw)
                       then restore_protection_snapshot ts_of now raw s1 else Inr s1) (\<lambda>s2.
          if \<not> ls_persist s2 then Inr s2
          else bindE (restore_strategy_state ts_of raw s2) (\<lambda>s3.
                 Inr (restored_clock ts_of raw (live_context (restore_context raw) s3))))))"

end
