(* ===== verification/LiveProps.thy ===== *)
theory LiveProps
  imports LiveSession
begin

text \<open>
  Runs of a live session as paths of its entry points, the invariant of its protection tables, the two
  latches (protection exits, equity stop), the restart through a snapshot, and a worked session.
\<close>

section \<open>Runs of a session\<close>

text \<open>One call from the deployment loop, and the runs they make up.\<close>

datatype live_event =
    LvBar "portal result" timestamp
  | LvSync timestamp "(string, (string, pyval) dict) dict" "pyfloat option" "pyfloat option"
  | LvProtect "(string, pyfloat) dict" timestamp
  | LvEquity timestamp
  | LvPrice "(string, pyval) dict" timestamp
  | LvReleaseProtection string string
  | LvReleaseEquity

definition live_event :: "live_program \<Rightarrow> (timestamp \<Rightarrow> timestamp \<Rightarrow> pyfloat) \<Rightarrow> live_event \<Rightarrow> session \<Rightarrow> session result" where
  "live_event pg elapsed e s =
     (case e of
        LvBar pt clock \<Rightarrow> bindE (process pg pt clock s) (\<lambda>(_, _, _, s'). Inr s')
      | LvSync now positions cash value \<Rightarrow> synchronize_positions now positions cash value s
      | LvProtect prices ts \<Rightarrow> Inr (snd (evaluate_protections elapsed prices ts s))
      | LvEquity ts \<Rightarrow> bindE (evaluate_equity_risk pg ts s) (\<lambda>(_, _, _, s'). Inr s')
      | LvPrice prices ts \<Rightarrow> bindE (evaluate_price_tick pg prices ts s) (\<lambda>(_, _, s'). Inr s')
      | LvReleaseProtection symbol side \<Rightarrow> Inr (release_protection_exit symbol side s)
      | LvReleaseEquity \<Rightarrow> release_equity_risk_exit pg s)"

inductive path :: "('s \<Rightarrow> 'e \<Rightarrow> 's \<Rightarrow> bool) \<Rightarrow> 's \<Rightarrow> ('s \<times> 'e \<times> 's) list \<Rightarrow> 's \<Rightarrow> bool" for step where
  path_nil: "path step s [] s"
| path_step: "step s e s' \<Longrightarrow> path step s' xs s'' \<Longrightarrow> path step s ((s, e, s') # xs) s''"

inductive_simps path_Nil_iff [simp]: "path step s [] s'"
inductive_simps path_Cons_iff [simp]: "path step s (x # xs) s'"

definition live_step :: "live_program \<Rightarrow> (timestamp \<Rightarrow> timestamp \<Rightarrow> pyfloat) \<Rightarrow> session \<Rightarrow> live_event \<Rightarrow> session \<Rightarrow> bool" where
  "live_step pg elapsed s e s' \<longleftrightarrow> live_event pg elapsed e s = Inr s'"

text \<open>
  A latch: what fires sets it, while it is set nothing fires, and only the rearming steps clear it.  A
  run then fires at most once more often than it is rearmed.
\<close>

locale latch =
  fixes step :: "'s \<Rightarrow> 'e \<Rightarrow> 's \<Rightarrow> bool"
    and pending :: "'s \<Rightarrow> bool"
    and fires :: "'s \<times> 'e \<times> 's \<Rightarrow> nat"
    and rearms :: "'s \<times> 'e \<times> 's \<Rightarrow> bool"
  assumes fires_once: "step s e s' \<Longrightarrow> fires (s, e, s') \<le> 1"
    and fires_free: "step s e s' \<Longrightarrow> 0 < fires (s, e, s') \<Longrightarrow> \<not> pending s \<and> pending s'"
    and latched: "step s e s' \<Longrightarrow> pending s \<Longrightarrow> \<not> rearms (s, e, s') \<Longrightarrow> pending s'"
begin

lemma step_balance:
  assumes "step s e s'"
  shows "fires (s, e, s') + of_bool (pending s) \<le> of_bool (rearms (s, e, s')) + (of_bool (pending s') :: nat)"
  using fires_once [OF assms] fires_free [OF assms] latched [OF assms] by (cases "fires (s, e, s')") (auto simp: of_bool_def)

lemma fires_bounded:
  assumes "path step s xs s'"
  shows "sum_list (map fires xs) + of_bool (pending s) \<le> length (filter rearms xs) + (of_bool (pending s') :: nat)"
  using assms
proof (induction rule: path.induct)
  case (path_step s e s' xs s'')
  then show ?case using step_balance [OF path_step.hyps(1)] by (auto split: if_splits)
qed simp

end

subsection \<open>Protection exits fire once\<close>

lemma tick_protection_cases:
  "tick_protection elapsed prices ts (key, st) (s, exits) = (s, exits)
   \<or> (\<exists>st'. tick_protection elapsed prices ts (key, st) (s, exits) = (s\<lparr>ls_states := dset (ls_states s) key st'\<rparr>, exits))
   \<or> (key \<notin> set (ls_exit_pending s) \<and> (\<exists>w st' p reason.
        dget (ls_positions s) key = Some p \<and> \<not> fle (fabs (ps_amount p)) dust \<and>
        tick_protection elapsed prices ts (key, st) (s, exits) =
          (s\<lparr>ls_states := dset (ls_states s) key st', ls_exit_pending := ls_exit_pending s @ [key], ls_world := w\<rparr>,
           exits @ [(key, market_intent (ps_symbol p) ''target_quantity'' (Fin 0) reason None (ps_position_side p))])))"
  by (auto simp: tick_protection_def Let_def add_once_def live_context_def split: option.splits prod.splits)

text \<open>The order that closes the position \<open>p\<close> of a session.\<close>

definition closes :: "order_intent \<Rightarrow> position \<Rightarrow> bool" where
  "closes o0 p \<longleftrightarrow>
     oi_kind o0 = ''target_quantity'' \<and> oi_value o0 = Fin 0 \<and> oi_order_type o0 = ''market''
     \<and> oi_symbol o0 = ps_symbol p \<and> oi_position_side o0 = ps_position_side p"

lemma closes_market [simp]: "closes (market_intent (ps_symbol p) ''target_quantity'' (Fin 0) reason t (ps_position_side p)) p"
  by (simp add: closes_def market_intent_def)

text \<open>What holds of a session and its exits at every point of the loop over the states of \<open>s0\<close>.\<close>

definition fired_from :: "session \<Rightarrow> session \<times> (string \<times> order_intent) list \<Rightarrow> bool" where
  "fired_from s0 acc \<longleftrightarrow> (case acc of (s, exits) \<Rightarrow>
     ls_exit_pending s = ls_exit_pending s0 @ map fst exits
     \<and> distinct (map fst exits) \<and> (\<forall>k \<in> set (map fst exits). k \<notin> set (ls_exit_pending s0))
     \<and> set (map fst exits) \<subseteq> set (dkeys (ls_states s0))
     \<and> (\<forall>x \<in> set exits. \<exists>p. dget (ls_positions s0) (fst x) = Some p \<and> \<not> fle (fabs (ps_amount p)) dust \<and> closes (snd x) p)
     \<and> ls_positions s = ls_positions s0 \<and> ls_specs s = ls_specs s0
     \<and> set (dkeys (ls_states s)) = set (dkeys (ls_states s0)) \<and> (wf_dict (ls_states s0) \<longrightarrow> wf_dict (ls_states s))
     \<and> ls_equity_exit_pending s = ls_equity_exit_pending s0 \<and> ls_equity_stop_reason s = ls_equity_stop_reason s0)"

lemma fired_from_tick:
  assumes "fst x \<in> set (dkeys (ls_states s0))" and "fired_from s0 acc"
  shows "fired_from s0 (tick_protection elapsed prices ts x acc)"
proof -
  obtain key st where x: "x = (key, st)" by (cases x)
  obtain s exits where acc: "acc = (s, exits)" by (cases acc)
  from assms have k: "key \<in> set (dkeys (ls_states s0))" "fired_from s0 (s, exits)" by (simp_all add: x acc)
  show ?thesis
    using tick_protection_cases [of elapsed prices ts key st s exits] unfolding x acc
  proof (elim disjE exE conjE)
    fix w st' p reason
    assume "key \<notin> set (ls_exit_pending s)" "dget (ls_positions s) key = Some p" "\<not> fle (fabs (ps_amount p)) dust"
      and t: "tick_protection elapsed prices ts (key, st) (s, exits) =
        (s\<lparr>ls_states := dset (ls_states s) key st', ls_exit_pending := ls_exit_pending s @ [key], ls_world := w\<rparr>,
         exits @ [(key, market_intent (ps_symbol p) ''target_quantity'' (Fin 0) reason None (ps_position_side p))])"
    then show "fired_from s0 (tick_protection elapsed prices ts (key, st) (s, exits))"
      using k unfolding t fired_from_def by auto
  qed (use k in \<open>auto simp: fired_from_def\<close>)
qed

lemma protection_exits_fired: "fired_from s (protection_exits elapsed prices ts s)"
  unfolding protection_exits_def
proof (rule fold_invariant [where Q = "\<lambda>x. fst x \<in> set (dkeys (ls_states s))"])
  show "fired_from s (s, [])" by (simp add: fired_from_def)
qed (simp add: dkeys_def, rule fired_from_tick)

subsection \<open>What the handlers leave alone\<close>

definition guards_of :: "session \<Rightarrow> (string, position) dict \<times> (string, protection_state) dict \<times> string list \<times> bool \<times> string" where
  "guards_of s = (ls_positions s, ls_states s, ls_exit_pending s, ls_equity_exit_pending s, ls_equity_stop_reason s)"

definition keeps :: "session \<Rightarrow> session \<Rightarrow> bool" where
  "keeps s s' \<longleftrightarrow> guards_of s' = guards_of s
     \<and> set (dkeys (ls_specs s)) \<subseteq> set (dkeys (ls_specs s')) \<and> (wf_dict (ls_specs s) \<longrightarrow> wf_dict (ls_specs s'))"

lemma keeps_refl [simp]: "keeps s s"
  by (simp add: keeps_def)

lemma keeps_trans [trans]: "keeps s t \<Longrightarrow> keeps t u \<Longrightarrow> keeps s u"
  by (auto simp: keeps_def)

lemma keeps_context [simp]: "keeps s (live_context f s)" "keeps s (at_time ts s)"
  by (simp_all add: keeps_def guards_of_def live_context_def at_time_def)

lemma keeps_update [simp]:
  "keeps s (s\<lparr>ls_world := w\<rparr>)" "keeps s (s\<lparr>ls_last_processed := t\<rparr>)" "keeps s (s\<lparr>ls_last_schedule_check := t\<rparr>)"
  by (simp_all add: keeps_def guards_of_def)

lemma keeps_call_hook: "call_hook h data prices s = Inr s' \<Longrightarrow> keeps s s'"
  by (auto simp: call_hook_def bindE_Inr_iff keeps_def guards_of_def)

lemma keeps_invoke: "live_invoke pg name data s = Inr s' \<Longrightarrow> keeps s s'"
  by (auto simp: live_invoke_def dest: keeps_call_hook split: option.splits sum.splits pyexc.splits)

lemma captured_specs_grow:
  "set (dkeys (ls_specs s)) \<subseteq> set (dkeys (ls_specs (capture_protection_intents orders s)))
   \<and> (wf_dict (ls_specs s) \<longrightarrow> wf_dict (ls_specs (capture_protection_intents orders s)))"
proof (induction orders arbitrary: s)
  case (Cons o0 orders)
  show ?case
  proof (cases "oi_protection o0")
    case (Some sp)
    define t where "t = s\<lparr>ls_specs := dset (ls_specs s) (position_key (oi_symbol o0) (oi_position_side o0)) sp\<rparr>"
    have "ls_specs (capture_protection_intents (o0 # orders) s) = ls_specs (capture_protection_intents orders t)"
      by (simp add: capture_protection_intents_def Some t_def)
    moreover have "set (dkeys (ls_specs s)) \<subseteq> set (dkeys (ls_specs t))" "wf_dict (ls_specs s) \<longrightarrow> wf_dict (ls_specs t)"
      by (auto simp: t_def)
    ultimately show ?thesis using Cons.IH [of t] by fastforce
  qed (use Cons.IH [of s] in \<open>simp add: capture_protection_intents_def\<close>)
qed (simp add: capture_protection_intents_def)

lemma capture_guards [simp]: "guards_of (capture_protection_intents orders s) = guards_of s"
  by (simp add: guards_of_def capture_protection_intents_def)

lemma keeps_flush [simp]: "keeps s (snd (snd (flush_live s)))"
proof -
  obtain orders cx where f: "flush_orders (sw_context (ls_world s)) = (orders, cx)" by (cases "flush_orders (sw_context (ls_world s))")
  have "keeps s (live_context (\<lambda>_. cx) s)" by simp
  also have "keeps \<dots> (capture_protection_intents orders (live_context (\<lambda>_. cx) s))"
    using captured_specs_grow by (simp add: keeps_def)
  also have "keeps \<dots> (snd (snd (flush_live s)))" by (simp add: flush_live_def f Let_def)
  finally show ?thesis .
qed

lemma keeps_schedules: "live_schedules pg clock checked s = Inr s' \<Longrightarrow> keeps s s'"
  unfolding live_schedules_def
  by (erule foldE_invariant) (auto intro: keeps_trans dest: keeps_invoke split: if_splits)

lemma keeps_bar_handlers:
  assumes "bar_handlers pg s = Inr s'"
  shows "keeps s s'"
  using assms unfolding bar_handlers_def bindE_Inr_iff
  by (auto simp: bindE_Inr_iff split: if_splits dest!: keeps_invoke intro: keeps_trans [OF keeps_update(1)] keeps_trans)

lemma keeps_open_day: "open_day pg ts s = Inr s' \<Longrightarrow> keeps s s'"
  by (auto simp: open_day_def split: if_splits option.splits dest!: keeps_invoke intro: keeps_trans [OF keeps_context(2)])

lemma keeps_check_schedules:
  assumes "check_schedules pg clock s = Inr s'"
  shows "keeps s s'"
proof -
  from assms obtain t where t: "t = s \<or> (\<exists>checked. live_schedules pg clock checked (at_time clock s) = Inr t)"
    and s': "s' = t\<lparr>ls_last_schedule_check := Some clock\<rparr>"
    by (auto simp: check_schedules_def bindE_Inr_iff split: option.splits if_splits)
  have "keeps s t" using t keeps_schedules keeps_trans keeps_context(2) keeps_refl by blast
  then show ?thesis unfolding s' by (rule keeps_trans) simp
qed

lemma keeps_process:
  assumes "process pg pt clock s = Inr (orders, logs, ts, s')"
  shows "keeps s s'"
proof -
  from assms obtain w s1 s2 s3 where
    s1: "open_day pg ts (s\<lparr>ls_world := w\<rparr>) = Inr s1" and s2: "check_schedules pg clock s1 = Inr s2"
    and s3: "s3 = s2 \<or> bar_handlers pg (at_time ts s2) = Inr s3"
    and s': "s' = snd (snd (flush_live s3)) \<or> s' = (snd (snd (flush_live s3)))\<lparr>ls_last_processed := Some ts\<rparr>"
    unfolding process_def Let_def bindE_Inr_iff
    by (auto simp: bindE_Inr_iff case_prod_beta split: if_splits)
  have "keeps s s1" by (rule keeps_trans [OF keeps_update(1) keeps_open_day [OF s1]])
  also note keeps_check_schedules [OF s2]
  also have "keeps s2 s3" using s3 keeps_bar_handlers keeps_trans keeps_context(2) keeps_refl by blast
  also have "keeps s3 s'" using s' keeps_flush keeps_trans keeps_update(2) by blast
  finally show ?thesis .
qed

lemma keeps_hook_flush:
  assumes "call_hook h data prices (at_time ts s) = Inr t" and "flush_live t = (orders, logs, s')"
  shows "keeps s s'"
proof -
  have "keeps s (at_time ts s)" by simp
  also note keeps_call_hook [OF assms(1)]
  also have "keeps t s'" using keeps_flush [of t] by (simp add: assms(2))
  finally show ?thesis .
qed

lemma keeps_price_tick: "evaluate_price_tick pg prices ts s = Inr (orders, logs, s') \<Longrightarrow> keeps s s'"
  by (auto simp: evaluate_price_tick_def Let_def bindE_Inr_iff split: option.splits if_splits intro: keeps_hook_flush)

lemma note_reasons_world:
  "\<exists>w. foldl (\<lambda>s (k, p). live_context (set_last_exit_reason (ps_symbol p) reason) (live_context (set_last_exit_reason k reason) s)) s ps =
     s\<lparr>ls_world := w\<rparr>"
proof (induction ps arbitrary: s)
  case Nil
  show ?case by (rule exI [of _ "ls_world s"]) simp
next
  case (Cons x ps)
  show ?case
    using Cons.IH [of "live_context (set_last_exit_reason (ps_symbol (snd x)) reason) (live_context (set_last_exit_reason (fst x) reason) s)"]
    by (auto simp: live_context_def case_prod_beta)
qed

lemma close_everything_state:
  "\<exists>w. snd (close_everything ts reason s) = s\<lparr>ls_world := w, ls_equity_exit_pending := True, ls_equity_stop_reason := reason\<rparr>"
  using note_reasons_world [of reason "at_time ts (live_context cancel_working s)" "open_positions (at_time ts (live_context cancel_working s))"]
  by (auto simp: close_everything_def Let_def at_time_def live_context_def)

lemma keeps_strategy_equity: "strategy_equity_risk pg ts s = Inr (orders, logs, reason, s') \<Longrightarrow> keeps s s'"
  by (auto simp: strategy_equity_risk_def bindE_Inr_iff Let_def case_prod_beta split: option.splits
      intro: keeps_hook_flush [OF _ surjective_pairing [THEN trans, OF arg_cong [OF surjective_pairing, where f = "Pair _"]]])

lemma deployment_equity_risk_cases:
  assumes "deployment_equity_risk ts s = Inr (orders, reason, s')"
  obtains (latched) "ls_equity_exit_pending s" "orders = []" "reason = ls_equity_stop_reason s" "s' = s"
  | (idle) "\<not> ls_equity_exit_pending s" "orders = []" "reason = []" "s' = s"
  | (fired) "\<not> ls_equity_exit_pending s" "reason \<noteq> []" "close_everything ts reason s = (orders, s')"
proof (cases "ls_equity_exit_pending s")
  case True
  with assms have "orders = []" "reason = ls_equity_stop_reason s" "s' = s" by (auto simp: deployment_equity_risk_def)
  with True show ?thesis by (rule that(1))
next
  case False
  with assms obtain limits where limits: "risk_limits s = Inr limits"
    by (auto simp: deployment_equity_risk_def bindE_Inr_iff)
  define r where "r = (case limits of None \<Rightarrow> [] | Some l \<Rightarrow> equity_stop l s)"
  have "(if r = [] then ([], [], s) else case close_everything ts r s of (os, t) \<Rightarrow> (os, r, t)) = (orders, reason, s')"
    using assms by (simp only: deployment_equity_risk_def False limits Let_def if_False bindE.simps sum.inject r_def)
  then have "r = [] \<and> orders = [] \<and> reason = [] \<and> s' = s \<or> r \<noteq> [] \<and> reason = r \<and> close_everything ts r s = (orders, s')"
    by (cases "close_everything ts r s") (auto split: if_splits)
  then show ?thesis using False that(2,3) by blast
qed

lemma evaluate_equity_risk_cases:
  assumes "evaluate_equity_risk pg ts s = Inr (orders, logs, reason, s')"
  obtains (latched) "ls_equity_exit_pending s" "ls_equity_stop_reason s \<noteq> []" "orders = []" "logs = []" "reason = ls_equity_stop_reason s" "s' = s"
  | (fired) "\<not> ls_equity_exit_pending s" "reason \<noteq> []" "logs = []" "close_everything ts reason s = (orders, s')"
  | (strategy) "ls_equity_exit_pending s \<Longrightarrow> ls_equity_stop_reason s = []" "strategy_equity_risk pg ts s = Inr (orders, logs, reason, s')"
proof -
  obtain os r t where d: "deployment_equity_risk ts s = Inr (os, r, t)"
    using assms by (cases "deployment_equity_risk ts s") (auto simp: evaluate_equity_risk_def)
  have e: "r \<noteq> [] \<and> orders = os \<and> logs = [] \<and> reason = r \<and> s' = t \<or> r = [] \<and> strategy_equity_risk pg ts t = Inr (orders, logs, reason, s')"
    using assms by (auto simp: evaluate_equity_risk_def d split: if_splits)
  from d show ?thesis
  proof (cases rule: deployment_equity_risk_cases)
    case latched
    show ?thesis
    proof (cases "r = []")
      case True
      then show ?thesis using that(3) e latched by metis
    qed (use that(1) e latched in metis)
  next
    case idle
    then show ?thesis using that(3) e by metis
  next
    case fired
    then show ?thesis using that(2) e by metis
  qed
qed

subsection \<open>Synchronisation\<close>

lemma foldl_dpop_keys: "dkeys (foldl dpop d ks) = filter (\<lambda>k. k \<notin> set ks) (dkeys d)"
  by (induction ks arbitrary: d) (auto simp: filter_filter intro: filter_cong)

lemma sync_protection_keys:
  "set (dkeys states) \<subseteq> set (dkeys (sync_protection now dt specs x states))
   \<and> set (dkeys (sync_protection now dt specs x states)) \<subseteq> set (dkeys states) \<union> set (dkeys specs)
   \<and> (wf_dict states \<longrightarrow> wf_dict (sync_protection now dt specs x states))"
  by (cases x) (auto simp: sync_protection_def Let_def dest: dget_Some_key split: option.splits)

lemma fold_sync_keys:
  "set (dkeys states) \<subseteq> set (dkeys (fold (sync_protection now dt specs) ps states))
   \<and> set (dkeys (fold (sync_protection now dt specs) ps states)) \<subseteq> set (dkeys states) \<union> set (dkeys specs)
   \<and> (wf_dict states \<longrightarrow> wf_dict (fold (sync_protection now dt specs) ps states))"
proof (induction ps arbitrary: states)
  case (Cons x ps)
  let ?t = "sync_protection now dt specs x states"
  show ?case using sync_protection_keys [of states now dt specs x] Cons.IH [of ?t] by auto
qed simp

lemma synchronize_positions_result:
  assumes "synchronize_positions now positions cash value s = Inr s'"
  obtains synced where "synced_positions (sw_portal (ls_world s)) positions = Inr synced" "ls_positions s' = synced"
    "ls_exit_pending s' = filter (\<lambda>k. k \<in> set (dkeys synced)) (ls_exit_pending s)"
    "dkeys (ls_specs s') = filter (\<lambda>k. k \<in> set (dkeys synced) \<or> k \<notin> set (ls_exit_pending s)) (dkeys (ls_specs s))"
    "dkeys (ls_states s') = filter (\<lambda>k. k \<in> set (dkeys synced) \<or> k \<notin> set (ls_exit_pending s))
       (dkeys (fold (sync_protection now (cx_current_dt (sw_context (ls_world s))) (ls_specs s)) synced (ls_states s)))"
    "ls_equity_exit_pending s' = ls_equity_exit_pending s" "ls_equity_stop_reason s' = ls_equity_stop_reason s"
proof -
  from assms obtain synced where sy: "synced_positions (sw_portal (ls_world s)) positions = Inr synced"
    by (auto simp: synchronize_positions_def bindE_Inr_iff)
  show thesis
    by (rule that [OF sy]) (use assms in \<open>auto simp: synchronize_positions_def sy Let_def drop_closed_exits_def foldl_dpop_keys
      intro: filter_cong\<close>)
qed

subsection \<open>Invariant and latches\<close>

definition session_ok :: "session \<Rightarrow> bool" where
  "session_ok s \<longleftrightarrow> wf_dict (ls_specs s) \<and> wf_dict (ls_states s) \<and> distinct (ls_exit_pending s)
     \<and> set (ls_exit_pending s) \<subseteq> set (dkeys (ls_states s)) \<and> set (dkeys (ls_states s)) \<subseteq> set (dkeys (ls_specs s))"

lemma session_ok_keeps: "keeps s s' \<Longrightarrow> session_ok s \<Longrightarrow> session_ok s'"
  by (auto simp: keeps_def guards_of_def session_ok_def)

lemma live_step_cases:
  assumes "live_step pg elapsed s e s'"
  obtains (handlers) "keeps s s'" "\<And>p t. e \<noteq> LvProtect p t" "\<And>n p c v. e \<noteq> LvSync n p c v"
  | (sync) now positions cash "value" where "e = LvSync now positions cash value" "synchronize_positions now positions cash value s = Inr s'"
  | (protect) prices ts exits where "e = LvProtect prices ts" "protection_exits elapsed prices ts s = (s', exits)"
  | (stop) ts reason orders where "e = LvEquity ts" "\<not> ls_equity_exit_pending s" "close_everything ts reason s = (orders, s')"
  | (release) symbol side where "e = LvReleaseProtection symbol side" "s' = release_protection_exit symbol side s"
  | (rearm) "e = LvReleaseEquity" "keeps (s\<lparr>ls_equity_exit_pending := False, ls_equity_stop_reason := []\<rparr>) s'"
proof (cases e)
  case (LvBar pt clock)
  with assms have "keeps s s'" by (auto simp: live_step_def live_event_def bindE_Inr_iff dest: keeps_process)
  then show ?thesis using handlers LvBar by blast
next
  case (LvSync now positions cash "value")
  with assms sync show ?thesis by (simp add: live_step_def live_event_def)
next
  case (LvProtect prices ts)
  with assms have "protection_exits elapsed prices ts s = (s', snd (protection_exits elapsed prices ts s))"
    by (auto simp: live_step_def live_event_def evaluate_protections_def case_prod_beta)
  with LvProtect protect show ?thesis by blast
next
  case (LvEquity ts)
  with assms obtain orders logs reason where "evaluate_equity_risk pg ts s = Inr (orders, logs, reason, s')"
    by (auto simp: live_step_def live_event_def bindE_Inr_iff)
  then show ?thesis
  proof (cases rule: evaluate_equity_risk_cases)
    case latched
    then show ?thesis using handlers LvEquity by auto
  next
    case fired
    then show ?thesis using stop LvEquity by blast
  next
    case strategy
    then show ?thesis using handlers LvEquity keeps_strategy_equity by blast
  qed
next
  case (LvPrice prices ts)
  with assms have "keeps s s'" by (auto simp: live_step_def live_event_def bindE_Inr_iff dest: keeps_price_tick)
  then show ?thesis using handlers LvPrice by blast
next
  case (LvReleaseProtection symbol side)
  with assms release show ?thesis by (simp add: live_step_def live_event_def)
next
  case LvReleaseEquity
  with assms have "keeps (s\<lparr>ls_equity_exit_pending := False, ls_equity_stop_reason := []\<rparr>) s'"
    by (auto simp: live_step_def live_event_def release_equity_risk_exit_def Let_def split: option.splits dest: keeps_call_hook)
  with LvReleaseEquity rearm show ?thesis by blast
qed

lemma session_ok_synchronize:
  assumes "synchronize_positions now positions cash value s = Inr s'" and "session_ok s"
  shows "session_ok s'"
proof -
  from assms(1) obtain synced where r:
    "ls_exit_pending s' = filter (\<lambda>k. k \<in> set (dkeys synced)) (ls_exit_pending s)"
    "dkeys (ls_specs s') = filter (\<lambda>k. k \<in> set (dkeys synced) \<or> k \<notin> set (ls_exit_pending s)) (dkeys (ls_specs s))"
    "dkeys (ls_states s') = filter (\<lambda>k. k \<in> set (dkeys synced) \<or> k \<notin> set (ls_exit_pending s))
       (dkeys (fold (sync_protection now (cx_current_dt (sw_context (ls_world s))) (ls_specs s)) synced (ls_states s)))"
    by (rule synchronize_positions_result)
  show ?thesis
    using assms(2) fold_sync_keys [of "ls_states s" now "cx_current_dt (sw_context (ls_world s))" "ls_specs s" synced]
    unfolding session_ok_def r by auto
qed

lemma session_ok_step:
  assumes "live_step pg elapsed s e s'" and "session_ok s"
  shows "session_ok s'"
  using assms(1)
proof (cases rule: live_step_cases)
  case (protect prices ts exits)
  then show ?thesis using protection_exits_fired [of s elapsed prices ts] assms(2) by (auto simp: session_ok_def fired_from_def)
next
  case (stop ts reason orders)
  then obtain w where "s' = s\<lparr>ls_world := w, ls_equity_exit_pending := True, ls_equity_stop_reason := reason\<rparr>"
    using close_everything_state [of ts reason s] by auto
  then show ?thesis using assms(2) by (simp add: session_ok_def)
next
  case (release symbol side)
  then show ?thesis using assms(2) by (auto simp: session_ok_def release_protection_exit_def distinct_removeAll)
next
  case rearm
  have "session_ok (s\<lparr>ls_equity_exit_pending := False, ls_equity_stop_reason := []\<rparr>)" using assms(2) by (simp add: session_ok_def)
  with rearm(2) show ?thesis by (rule session_ok_keeps)
qed (use assms(2) session_ok_keeps session_ok_synchronize in blast)+

definition protection_fires :: "(timestamp \<Rightarrow> timestamp \<Rightarrow> pyfloat) \<Rightarrow> string \<Rightarrow> session \<times> live_event \<times> session \<Rightarrow> nat" where
  "protection_fires elapsed k x =
     (case x of (s, LvProtect prices ts, _) \<Rightarrow> count_list (map fst (snd (protection_exits elapsed prices ts s))) k | _ \<Rightarrow> 0)"

definition protection_rearms :: "string \<Rightarrow> session \<times> live_event \<times> session \<Rightarrow> bool" where
  "protection_rearms k x =
     (case x of
        (_, LvReleaseProtection symbol side, _) \<Rightarrow> position_key symbol side = k
      | (_, LvSync _ _ _ _, s') \<Rightarrow> k \<notin> set (dkeys (ls_positions s'))
      | _ \<Rightarrow> False)"

definition equity_fires :: "session \<times> live_event \<times> session \<Rightarrow> nat" where
  "equity_fires x =
     (case x of
        (s, LvEquity ts, _) \<Rightarrow> (case deployment_equity_risk ts s of Inr (orders, _, _) \<Rightarrow> of_bool (orders \<noteq> []) | Inl _ \<Rightarrow> 0)
      | _ \<Rightarrow> 0)"

definition equity_rearms :: "session \<times> live_event \<times> session \<Rightarrow> bool" where
  "equity_rearms x = (case x of (_, LvReleaseEquity, _) \<Rightarrow> True | _ \<Rightarrow> False)"

lemma count_list_distinct: "distinct xs \<Longrightarrow> count_list xs x = of_bool (x \<in> set xs)"
  by (induction xs) auto

interpretation protection_latch: latch "live_step pg elapsed" "\<lambda>s. k \<in> set (ls_exit_pending s)" "protection_fires elapsed k" "protection_rearms k"
  for pg elapsed k
proof
  fix s e s' assume step: "live_step pg elapsed s e s'"
  have f: "protection_fires elapsed k (s, LvProtect prices ts, t) = of_bool (k \<in> fst ` set (snd (protection_exits elapsed prices ts s)))" for prices ts t
  proof -
    have "distinct (map fst (snd (protection_exits elapsed prices ts s)))"
      using protection_exits_fired [of s elapsed prices ts] by (simp add: fired_from_def case_prod_beta)
    from count_list_distinct [OF this] show ?thesis by (simp add: protection_fires_def)
  qed
  show "protection_fires elapsed k (s, e, s') \<le> 1"
    by (cases e) (simp_all add: f, simp_all add: protection_fires_def)
  from step show "k \<notin> set (ls_exit_pending s) \<and> k \<in> set (ls_exit_pending s')" if "0 < protection_fires elapsed k (s, e, s')"
  proof (cases rule: live_step_cases)
    case (protect prices ts exits)
    with that have "k \<in> fst ` set exits" by (simp add: f)
    then show ?thesis using protection_exits_fired [of s elapsed prices ts] protect by (auto simp: fired_from_def)
  qed (use that in \<open>auto simp: protection_fires_def split: live_event.splits\<close>)
  from step show "k \<in> set (ls_exit_pending s')" if "k \<in> set (ls_exit_pending s)" "\<not> protection_rearms k (s, e, s')"
  proof (cases rule: live_step_cases)
    case (sync now positions cash "value")
    then show ?thesis using that by (auto simp: protection_rearms_def elim!: synchronize_positions_result)
  next
    case (protect prices ts exits)
    then show ?thesis using protection_exits_fired [of s elapsed prices ts] that by (auto simp: fired_from_def)
  next
    case (stop ts reason orders)
    then show ?thesis using close_everything_state [of ts reason s] that by auto
  next
    case (release symbol side)
    then show ?thesis using that by (auto simp: protection_rearms_def release_protection_exit_def)
  qed (use that in \<open>auto simp: keeps_def guards_of_def\<close>)
qed

interpretation equity_latch: latch "live_step pg elapsed" ls_equity_exit_pending equity_fires equity_rearms for pg elapsed
proof
  fix s e s' assume step: "live_step pg elapsed s e s'"
  show "equity_fires (s, e, s') \<le> 1" by (auto simp: equity_fires_def split: live_event.splits sum.splits)
  show "\<not> ls_equity_exit_pending s \<and> ls_equity_exit_pending s'" if fired: "0 < equity_fires (s, e, s')"
  proof -
    from fired obtain ts orders reason t where e: "e = LvEquity ts" and d: "deployment_equity_risk ts s = Inr (orders, reason, t)" "orders \<noteq> []"
      by (auto simp: equity_fires_def split: live_event.splits sum.splits)
    from d(1) show ?thesis
    proof (cases rule: deployment_equity_risk_cases)
      case fired
      then have "s' = t" using step d by (auto simp: e live_step_def live_event_def evaluate_equity_risk_def)
      then show ?thesis using fired close_everything_state [of ts reason s] by auto
    qed (use d(2) in auto)
  qed
  from step show "ls_equity_exit_pending s'" if "ls_equity_exit_pending s" "\<not> equity_rearms (s, e, s')"
  proof (cases rule: live_step_cases)
    case (sync now positions cash "value")
    then show ?thesis using that by (auto elim!: synchronize_positions_result)
  next
    case (protect prices ts exits)
    then show ?thesis using protection_exits_fired [of s elapsed prices ts] that by (auto simp: fired_from_def)
  next
    case (release symbol side)
    then show ?thesis using that by (auto simp: release_protection_exit_def)
  qed (use that in \<open>auto simp: keeps_def guards_of_def equity_rearms_def\<close>)
qed

subsection \<open>Cancelling what still works\<close>

abbreviation clean_reference :: "string \<Rightarrow> bool" where
  "clean_reference r \<equiv> strip r = r \<and> r \<noteq> []"

abbreviation cancel_if_working :: "string \<Rightarrow> context_orders \<Rightarrow> context_orders" where
  "cancel_if_working r cx \<equiv> (if order_status_of r cx \<in> set TERMINAL_STATUSES then cx else snd (cancel_order (PStr r) cx))"

lemma cancel_order_other:
  assumes "clean_reference r" and "clean_reference q" and "q \<noteq> r"
  shows "order_status_of q (snd (cancel_order (PStr r) cx)) = order_status_of q cx"
  using assms by (simp add: order_status_of_def cancel_order_def get_order_status_def Let_def dget_or_def)

lemma cancel_order_grows: "cx_cancelled cx \<subseteq> cx_cancelled (snd (cancel_order r cx))"
  by (auto simp: cancel_order_def Let_def)

lemma cancel_order_working:
  assumes "clean_reference r" and "order_status_of r cx \<notin> set TERMINAL_STATUSES"
  shows "r \<in> cx_cancelled (snd (cancel_order (PStr r) cx))"
proof -
  let ?d = "dget_or (cx_statuses cx) r []"
  have "lower (strip (str_or (dget_or ?d ''status'' PNone) [])) \<noteq> ''filled''"
  proof (cases "?d = []")
    case True
    then show ?thesis by (simp add: dget_or_def strip_def lstrip_def lower_def)
  next
    case False
    then have "order_status_of r cx = lower (strip (str_or (dget_or ?d ''status'' PNone) []))"
      using assms(1) by (simp add: order_status_of_def get_order_status_def Let_def)
    then show ?thesis using assms(2) by (auto simp: TERMINAL_STATUSES_def)
  qed
  then show ?thesis using assms(1) by (simp add: cancel_order_def Let_def)
qed

lemma fold_cancel_grows: "cx_cancelled cx \<subseteq> cx_cancelled (fold cancel_if_working refs cx)"
proof (induction refs arbitrary: cx)
  case (Cons r refs)
  have "cx_cancelled cx \<subseteq> cx_cancelled (cancel_if_working r cx)" using cancel_order_grows by simp
  also have "\<dots> \<subseteq> cx_cancelled (fold cancel_if_working refs (cancel_if_working r cx))" by (rule Cons.IH)
  finally show ?case by simp
qed simp

lemma fold_cancel_working:
  assumes "\<forall>q \<in> set refs. clean_reference q" and "r \<in> set refs" and "order_status_of r cx \<notin> set TERMINAL_STATUSES"
  shows "r \<in> cx_cancelled (fold cancel_if_working refs cx)"
  using assms
proof (induction refs arbitrary: cx)
  case (Cons q refs)
  show ?case
  proof (cases "q = r")
    case True
    then have "r \<in> cx_cancelled (cancel_if_working q cx)" using cancel_order_working [of r cx] Cons.prems by auto
    then show ?thesis using fold_cancel_grows [of "cancel_if_working q cx" refs] by (auto simp del: if_split)
  next
    case False
    have "order_status_of r (cancel_if_working q cx) = order_status_of r cx"
      using cancel_order_other [of q r cx] Cons.prems False by auto
    then show ?thesis using Cons.IH [of "cancel_if_working q cx"] Cons.prems False by (auto simp del: if_split)
  qed
qed simp

lemma cancel_working_cancels:
  assumes "\<forall>q \<in> set (dkeys (cx_statuses cx)). clean_reference q" and "r \<in> set (dkeys (cx_statuses cx))"
    and "order_status_of r cx \<notin> set TERMINAL_STATUSES"
  shows "r \<in> cx_cancelled (cancel_working cx)"
  using fold_cancel_working [OF assms] by (simp add: cancel_working_def)

lemma note_reasons_cancelled:
  "cx_cancelled (sw_context (ls_world (foldl (\<lambda>s (k, p). live_context (set_last_exit_reason (ps_symbol p) reason)
      (live_context (set_last_exit_reason k reason) s)) s ps))) = cx_cancelled (sw_context (ls_world s))"
  by (induction ps arbitrary: s) (auto simp: live_context_def set_last_exit_reason_def)

lemma close_everything_closes:
  assumes "close_everything ts reason s = (orders, s')"
  shows "list_all2 (\<lambda>x o0. closes o0 (snd x) \<and> oi_reason o0 = reason) (open_positions s) orders"
    and "cx_cancelled (sw_context (ls_world s')) = cx_cancelled (cancel_working (sw_context (ls_world s)))"
proof -
  have o: "open_positions (at_time ts (live_context cancel_working s)) = open_positions s"
    by (simp add: open_positions_def at_time_def live_context_def)
  have os: "orders = map (\<lambda>(k, p). market_intent (ps_symbol p) ''target_quantity'' (Fin 0) reason None (ps_position_side p)) (open_positions s)"
    and s': "cx_cancelled (sw_context (ls_world s')) = cx_cancelled (sw_context (ls_world (at_time ts (live_context cancel_working s))))"
    using assms by (auto simp: close_everything_def Let_def o note_reasons_cancelled)
  show "list_all2 (\<lambda>x o0. closes o0 (snd x) \<and> oi_reason o0 = reason) (open_positions s) orders"
    unfolding os list_all2_map2 case_prod_beta
    by (rule list.rel_refl_strong) (simp add: closes_market, simp add: market_intent_def)
  show "cx_cancelled (sw_context (ls_world s')) = cx_cancelled (cancel_working (sw_context (ls_world s)))"
    by (simp add: s' at_time_def live_context_def)
qed

text \<open>
  C8. When the equity stop of a deployment fires it sends one closing order
  per open position, in their order and with the stop's reason, asks to cancel every order whose status is
  not terminal, and then stays silent: in any later run the stop sends orders at most as often as it is
  released after a failed submission.
\<close>

theorem equity_stop_closes_account:
  assumes "deployment_equity_risk ts s = Inr (orders, reason, s')" and "reason \<noteq> []" and "\<not> ls_equity_exit_pending s"
    and "\<forall>q \<in> set (dkeys (cx_statuses (sw_context (ls_world s)))). clean_reference q"
    and "path (live_step pg elapsed) s' xs s''"
  shows "list_all2 (\<lambda>x o0. closes o0 (snd x) \<and> oi_reason o0 = reason) (open_positions s) orders
    \<and> (\<forall>r \<in> set (dkeys (cx_statuses (sw_context (ls_world s)))).
         order_status_of r (sw_context (ls_world s)) \<in> set TERMINAL_STATUSES \<or> r \<in> cx_cancelled (sw_context (ls_world s')))
    \<and> sum_list (map equity_fires xs) \<le> length (filter equity_rearms xs)"
proof -
  have c: "close_everything ts reason s = (orders, s')"
    using assms(1,2,3) by (cases rule: deployment_equity_risk_cases) auto
  have "ls_equity_exit_pending s'" using close_everything_state [of ts reason s] by (auto simp: c)
  then have "sum_list (map equity_fires xs) \<le> length (filter equity_rearms xs)"
    using equity_latch.fires_bounded [OF assms(5)] by (auto simp: of_bool_def split: if_splits)
  then show ?thesis
    using close_everything_closes [OF c] cancel_working_cancels [OF assms(4)] by auto
qed

text \<open>
  C7. In every run of a live session the protection exits sent for a
  position are at most one more than the times its exit was released after a rejection or the position was
  found closed by a synchronisation, and each exit is a market order that takes a held position to zero.
\<close>

theorem protection_exit_at_most_once:
  assumes "path (live_step pg elapsed) s xs s'"
  shows "sum_list (map (protection_fires elapsed k) xs) \<le> 1 + length (filter (protection_rearms k) xs)
    \<and> (\<forall>(t, e, t') \<in> set xs. \<forall>prices ts. e = LvProtect prices ts \<longrightarrow>
         (\<forall>o0 \<in> set (fst (evaluate_protections elapsed prices ts t)).
            \<exists>k p. dget (ls_positions t) k = Some p \<and> \<not> fle (fabs (ps_amount p)) dust \<and> closes o0 p
              \<and> k \<notin> set (ls_exit_pending t)))"
proof (intro conjI ballI)
  show "sum_list (map (protection_fires elapsed k) xs) \<le> 1 + length (filter (protection_rearms k) xs)"
    using protection_latch.fires_bounded [OF assms, of k] by (auto simp: of_bool_def split: if_splits)
  fix x assume "x \<in> set xs"
  have f: "\<exists>k p. dget (ls_positions t) k = Some p \<and> \<not> fle (fabs (ps_amount p)) dust \<and> closes o0 p \<and> k \<notin> set (ls_exit_pending t)"
    if "o0 \<in> set (fst (evaluate_protections elapsed prices ts t))" for o0 prices ts t
    using that protection_exits_fired [of t elapsed prices ts]
    by (fastforce simp: evaluate_protections_def fired_from_def case_prod_beta)
  show "case x of (t, e, t') \<Rightarrow> \<forall>prices ts. e = LvProtect prices ts \<longrightarrow>
         (\<forall>o0 \<in> set (fst (evaluate_protections elapsed prices ts t)).
            \<exists>k p. dget (ls_positions t) k = Some p \<and> \<not> fle (fabs (ps_amount p)) dust \<and> closes o0 p
              \<and> k \<notin> set (ls_exit_pending t))"
    using f by (auto split: prod.splits)
qed

lemma session_ok_init: "session_ok (session_init pt capital persist risk)"
  by (simp add: session_ok_def session_init_def dkeys_def)


section \<open>A restart\<close>

text \<open>Values that survive a snapshot: no tuples, and no mapping that uses the reserved tag.\<close>

lemma state_entry_smaller [termination_simp]: "(k, v) \<in> set d \<Longrightarrow> size v < size (SvDict d)"
  by (induction d) auto

fun storable :: "state_value \<Rightarrow> bool" where
  "storable (SvAtom v) = (case v of PList _ \<Rightarrow> False | PDict _ \<Rightarrow> False | _ \<Rightarrow> True)"
| "storable (SvTime t) = True"
| "storable (SvList vs) = list_all storable vs"
| "storable (SvTuple vs) = False"
| "storable (SvDict d) = (STATE_TAG \<notin> set (dkeys d) \<and> list_all (\<lambda>(k, v). storable v) d)"

lemma restore_snapshot_value:
  assumes "\<And>t. ts_of (PStr (ts_iso t)) = Inr t" and "storable v"
  shows "restore_state_value ts_of (snapshot_state_value ts_iso v) = Inr v"
  using assms(2)
proof (induction v)
  case (SvAtom v)
  then show ?case by (cases v) auto
next
  case (SvTime t)
  then show ?case by (simp add: dget_or_def dget_def assms(1) STATE_TAG_def)
next
  case (SvList vs)
  then have "mapE (restore_state_value ts_of) (map (snapshot_state_value ts_iso) vs) = Inr vs"
    by (auto simp: mapE_Inr_iff list_all2_map1 list_all_iff intro: list.rel_refl_strong)
  then show ?case by simp
next
  case (SvDict d)
  let ?m = "map (\<lambda>(k, v). (k, snapshot_state_value ts_iso v)) d"
  have "dkeys ?m = dkeys d" by (simp add: dkeys_def case_prod_beta comp_def)
  then have "dget ?m STATE_TAG = None" using SvDict.prems by (simp add: dget_None_iff)
  moreover have "mapE (\<lambda>(k, v). bindE (restore_state_value ts_of v) (\<lambda>x. Inr (k, x))) ?m = Inr d"
    unfolding mapE_Inr_iff list_all2_map1
    using SvDict by (auto simp: list_all_iff case_prod_beta bindE_Inr_iff intro!: list.rel_refl_strong)
  ultimately show ?case by simp
qed simp

lemma foldE_puts:
  assumes "\<And>k v. (k, v) \<in> set d \<Longrightarrow> f (g (k, v)) = (\<lambda>m. Inr (dset m k v))"
  shows "foldE f (map g d) m = Inr (dupdate m d)"
  using assms by (induction d arbitrary: m) (auto simp: dupdate_def)

lemma dupdate_new: "wf_dict (m @ d) \<Longrightarrow> dupdate m d = m @ d"
proof (induction d arbitrary: m)
  case (Cons x d)
  have "dset m (fst x) (snd x) = m @ [x]" if "fst x \<notin> set (dkeys m)"
    using that by (induction m) (auto simp: dkeys_def)
  then show ?case using Cons.IH [of "m @ [x]"] Cons.prems by (auto simp: dupdate_def dkeys_def)
qed (simp add: dupdate_def)

lemma dupdate_fresh [simp]: "wf_dict d \<Longrightarrow> dupdate [] d = d"
  using dupdate_new [of "[]" d] by simp

lemma items_of_PDict [simp]: "items_of (PDict d) = Inr d"
  by (simp add: items_of_def p_or_def)

lemma iter_values_p_or [simp]: "iter_values (p_or (PList xs) (PList [])) = Inr xs"
  by (simp add: iter_values_def p_or_def)

definition protections_ok :: "session \<Rightarrow> bool" where
  "protections_ok s \<longleftrightarrow> session_ok s \<and> (\<forall>x \<in> set (ls_specs s). wf_spec (snd x) \<and> enabled (snd x)) \<and> (\<forall>x \<in> set (ls_states s). wf_state (snd x))"

lemma restore_protections:
  assumes "\<And>t. ts_of (PStr (ts_iso t)) = Inr t" and "\<And>t. ts_iso t \<noteq> []" and "protections_ok s"
  shows "restore_protection_snapshot ts_of now (protection_snapshot ts_iso s) s0 =
    Inr (s0\<lparr>ls_specs := ls_specs s, ls_states := ls_states s, ls_exit_pending := sort (ls_exit_pending s)\<rparr>)"
proof -
  let ?spec = "\<lambda>(k, item) d. bindE (from_value (spec_source_of item) []) (\<lambda>sp. Inr (case sp of None \<Rightarrow> d | Some x \<Rightarrow> dset d k x))"
  let ?state = "\<lambda>(k, item) d. case item of
      PDict m \<Rightarrow> bindE (from_metadata ts_of now m) (\<lambda>st. Inr (case st of None \<Rightarrow> d | Some x \<Rightarrow> dset d k x)) | _ \<Rightarrow> Inr d"
  have ok: "wf_dict (ls_specs s)" "wf_dict (ls_states s)" "distinct (ls_exit_pending s)"
    "set (ls_exit_pending s) \<subseteq> set (dkeys (ls_states s))" "set (dkeys (ls_states s)) \<subseteq> set (dkeys (ls_specs s))"
    "\<forall>x \<in> set (ls_specs s). wf_spec (snd x) \<and> enabled (snd x)" "\<forall>x \<in> set (ls_states s). wf_state (snd x)"
    using assms(3) by (auto simp: protections_ok_def session_ok_def)
  have "foldE ?spec (map (\<lambda>(k, sp). (k, PDict (spec_metadata sp))) (ls_specs s)) [] = Inr (ls_specs s)"
    using ok(1,6) from_value_spec_metadata [OF _ source_map_metadata]
    by (subst foldE_puts) (auto simp: spec_source_of_def fun_eq_iff)
  moreover have "foldE ?state (map (\<lambda>(k, st). (k, PDict (state_metadata ts_iso st))) (ls_states s)) [] = Inr (ls_states s)"
    using ok(2,7) state_metadata_restores [OF _ assms(1,2)]
    by (subst foldE_puts) (auto simp: fun_eq_iff)
  moreover have "remdups (filter (\<lambda>k. k \<in> set (dkeys (ls_specs s)) \<and> k \<in> set (dkeys (ls_states s))) (sort (ls_exit_pending s))) = sort (ls_exit_pending s)"
    using ok(3,4,5) by (subst filter_True) (auto intro: distinct_remdups_id)
  ultimately show ?thesis
    by (simp add: restore_protection_snapshot_def protection_snapshot_def dget_or_def dget_def comp_def)
qed

definition context_ok :: "context_orders \<Rightarrow> bool" where
  "context_ok cx \<longleftrightarrow> (\<forall>q \<in> set (dkeys (cx_statuses cx)). clean_reference q) \<and> wf_dict (cx_statuses cx)
     \<and> wf_dict (cx_last_exit_reasons cx) \<and> finite (cx_cancelled cx)"

definition fresh_session :: "session \<Rightarrow> bool" where
  "fresh_session s \<longleftrightarrow> ls_state s = [] \<and> ls_last_processed s = None \<and> ls_last_schedule_check s = None
     \<and> cx_statuses (sw_context (ls_world s)) = [] \<and> cx_cancelled (sw_context (ls_world s)) = {}"

lemma foldl_puts: "foldl (\<lambda>m (k, x). dset m k x) m d = dupdate m d"
  by (induction d arbitrary: m) (auto simp: dupdate_def)

lemma restore_context_snapshot:
  assumes "context_ok cx" and "cx_statuses cx0 = []"
    and "dget_or raw ''orderStatuses'' PNone = PDict (map (\<lambda>(k, d). (k, PDict d)) (cx_statuses cx))"
    and "dget_or raw ''exitReasons'' PNone = PDict (map (\<lambda>(k, v). (k, PStr v)) (cx_last_exit_reasons cx))"
  shows "restore_context raw cx0 = cx0\<lparr>cx_statuses := cx_statuses cx, cx_last_exit_reasons := cx_last_exit_reasons cx\<rparr>"
proof -
  have c: "concat (map (\<lambda>(k, v). case v of PDict d \<Rightarrow> [(k, d)] | _ \<Rightarrow> []) (map (\<lambda>(k, d). (k, PDict d)) xs)) = xs" for xs :: "(string, (string, pyval) dict) dict"
    by (induction xs) auto
  have "foldl (\<lambda>d (reference, raw). if strip reference = [] then d else dset d (strip reference) raw) m xs = dupdate m xs"
    if "\<forall>q \<in> set (dkeys xs). clean_reference q" for m and xs :: "(string, (string, pyval) dict) dict"
    using that by (induction xs arbitrary: m) (auto simp: dupdate_def dkeys_def)
  then have st: "update_order_statuses (cx_statuses cx) cx0 = cx0\<lparr>cx_statuses := cx_statuses cx\<rparr>"
    using assms(1,2) by (simp add: update_order_statuses_def context_ok_def)
  have "foldl (\<lambda>m (k, v). dset m k (str_or v [])) m (map (\<lambda>(k, v). (k, PStr v)) xs) = dupdate m xs" for m and xs :: "(string, string) dict"
    by (induction xs arbitrary: m) (auto simp: dupdate_def)
  then show ?thesis
    using assms(1) by (simp add: restore_context_def assms(3,4) c st Let_def context_ok_def del: map_map)
qed

lemma restored_clock_snapshot:
  assumes "\<And>t. ts_of (PStr (ts_iso t)) = Inr t" and "\<And>t. ts_iso t \<noteq> []"
    and "ls_last_processed s0 = None" and "ls_last_schedule_check s0 = None"
    and "dget_or raw ''lastProcessed'' PNone = stored_time ts_iso a" and "dget_or raw ''lastScheduleCheck'' PNone = stored_time ts_iso b"
  shows "restored_clock ts_of raw s0 = s0\<lparr>ls_last_processed := a, ls_last_schedule_check := b\<rparr>"
  using assms(1-4) by (cases a; cases b) (simp_all add: restored_clock_def assms(5,6) stored_time_def Let_def)

lemma live_context_persist [simp]: "ls_persist (live_context f s) = ls_persist s"
  by (simp add: live_context_def)


section \<open>A position closed elsewhere\<close>

lemma dget_foldl_dpop: "k \<notin> set ks \<Longrightarrow> dget (foldl dpop d ks) k = dget d k"
  using dict.look_remove_all [of d ks k] by simp

text \<open>
  C40. A position that is closed outside its protection (no exit is
  pending for it) keeps its protection state: when a synchronisation finds it gone and a later one finds a
  new position under the same key, on the same side and at the same average cost, the new position is
  guarded with the old opening time and the old extremes.
\<close>

theorem reopened_position_inherits_state:
  assumes "dget (ls_specs s) k = Some sp" and "dget (ls_states s) k = Some st" and "k \<notin> set (ls_exit_pending s)"
    and "synchronize_positions now1 [] cash1 value1 s = Inr s1"
    and "synchronize_positions now2 positions cash2 value2 s1 = Inr s2"
    and "synced_positions (sw_portal (ls_world s1)) positions = Inr [(k, p)]"
    and "\<not> fle (fabs (ps_amount p)) dust" and "pst_side st = amount_side (ps_amount p)"
    and "\<not> average_moved (ps_avg_cost p) (pst_entry_price st)"
  shows "dget (ls_positions s1) k = None \<and> dget (ls_positions s2) k = Some p \<and> dget (ls_states s2) k = Some st"
proof -
  have s1: "ls_positions s1 = []" "dget (ls_specs s1) k = Some sp" "dget (ls_states s1) k = Some st" "ls_exit_pending s1 = []"
    using assms(1-4)
    by (auto simp: synchronize_positions_def synced_positions_def drop_closed_exits_def Let_def dget_foldl_dpop dkeys_def)
  have "sync_protection now2 (cx_current_dt (sw_context (ls_world s1))) (ls_specs s1) (k, p) (ls_states s1) = ls_states s1"
    using assms(7-9) s1(2,3) by (simp add: sync_protection_def Let_def)
  then show ?thesis
    using assms(5) s1 by (auto simp: synchronize_positions_def assms(6) drop_closed_exits_def Let_def dget_Cons)
qed

section \<open>A worked session\<close>

definition demo_key :: string where
  "demo_key = ''Crypto:BTC/USDT''"

definition demo_held :: position where
  "demo_held = \<lparr>ps_symbol = demo_key, ps_amount = Fin 1, ps_avg_cost = Fin 100, ps_last_price = Fin 100, ps_position_side = []\<rparr>"

definition demo_session :: session where
  "demo_session =
     \<lparr>ls_world = \<lparr>sw_context = demo_context\<lparr>cx_statuses := [(''o1'', [(''status'', PStr ''submitted'')]), (''o2'', [(''status'', PStr ''filled'')])]\<rparr>,
        sw_logs = [], sw_portal = demo_portal\<rparr>,
      ls_positions = [(demo_key, demo_held)], ls_starting_cash = Fin 1000, ls_available_cash = Fin 500, ls_total_value = Fin 500,
      ls_state = [(''cycles'', SvAtom (PInt 3)), (''seen'', SvList [SvTime 60])], ls_persist = True,
      ls_last_processed = Some 60, ls_last_schedule_check = None,
      ls_specs = [(demo_key, example_spec)], ls_states = [(demo_key, example_state)], ls_exit_pending = [],
      ls_deployment_risk = [(''equity_stop_loss_pct'', PFloat (Fin (1 / 4)))],
      ls_equity_exit_pending = False, ls_equity_stop_reason = []\<rparr>"

definition demo_live :: live_program where
  "demo_live = \<lparr>lp_handler = \<lambda>_. None, lp_schedules = [], lp_strategy_type = ''single'', lp_driving_frequency = ''1m'',
     lp_describe = \<lambda>_. [], lp_stop_reason = \<lambda>_. []\<rparr>"

definition demo_tick :: "session \<Rightarrow> session" where
  "demo_tick s = snd (evaluate_protections (\<lambda>_ _. Fin 0) [(demo_key, Fin 90)] 60 s)"

definition demo_path :: "(session \<times> live_event \<times> session) list" where
  "demo_path =
     (let s1 = demo_tick demo_session; s2 = demo_tick s1; s3 = release_protection_exit demo_key [] s2; s4 = demo_tick s3;
          tick = LvProtect [(demo_key, Fin 90)] 60
      in [(demo_session, tick, s1), (s1, tick, s2), (s2, LvReleaseProtection demo_key [], s3), (s3, tick, s4)])"

lemma demo_path_run: "path (live_step demo_live (\<lambda>_ _. Fin 0)) demo_session demo_path (snd (snd (last demo_path)))"
  by (simp add: demo_path_def Let_def live_step_def live_event_def demo_tick_def)

theorem protection_exit_at_most_once_witness:
  "sum_list (map (protection_fires (\<lambda>_ _. Fin 0) demo_key) demo_path) = 2 \<and> length (filter (protection_rearms demo_key) demo_path) = 1
   \<and> sum_list (map (protection_fires (\<lambda>_ _. Fin 0) demo_key) demo_path) \<le> 1 + length (filter (protection_rearms demo_key) demo_path)"
proof (intro conjI)
  show "sum_list (map (protection_fires (\<lambda>_ _. Fin 0) demo_key) demo_path) = 2" by code_simp
  show "length (filter (protection_rearms demo_key) demo_path) = 1" by code_simp
qed (use protection_exit_at_most_once [OF demo_path_run, of demo_key] in blast)


theorem equity_stop_closes_account_witness:
  "\<exists>orders s'. deployment_equity_risk 60 demo_session = Inr (orders, ''strategy_equity_stop_loss'', s')
     \<and> length orders = 1 \<and> ''o1'' \<in> cx_cancelled (sw_context (ls_world s'))
     \<and> equity_fires (s', LvEquity 120, s') \<le> 0"
proof -
  have r: "risk_limits demo_session = Inr (Some (Fin 0, Fin (1 / 4)))" by code_simp
  have e: "equity_stop (Fin 0, Fin (1 / 4)) demo_session = ''strategy_equity_stop_loss''" by code_simp
  obtain orders s' where c: "close_everything 60 ''strategy_equity_stop_loss'' demo_session = (orders, s')"
    by (cases "close_everything 60 ''strategy_equity_stop_loss'' demo_session")
  have np: "\<not> ls_equity_exit_pending demo_session" by (simp add: demo_session_def)
  have d: "deployment_equity_risk 60 demo_session = Inr (orders, ''strategy_equity_stop_loss'', s')"
    by (simp add: deployment_equity_risk_def np r e c)
  have pend: "ls_equity_exit_pending s'" "ls_equity_stop_reason s' = ''strategy_equity_stop_loss''"
    using close_everything_state [of 60 "''strategy_equity_stop_loss''" demo_session] by (auto simp: c)
  have refs: "dkeys (cx_statuses (sw_context (ls_world demo_session))) = [''o1'', ''o2'']" by code_simp
  have clean: "\<forall>q \<in> set (dkeys (cx_statuses (sw_context (ls_world demo_session)))). clean_reference q" by code_simp
  have st: "order_status_of ''o1'' (sw_context (ls_world demo_session)) \<notin> set TERMINAL_STATUSES" by code_simp
  have "path (live_step demo_live (\<lambda>_ _. Fin 0)) s' [(s', LvEquity 120, s')] s'"
    by (simp add: live_step_def live_event_def evaluate_equity_risk_def deployment_equity_risk_def pend)
  from equity_stop_closes_account [OF d _ np clean this]
  have "list_all2 (\<lambda>x o0. closes o0 (snd x) \<and> oi_reason o0 = ''strategy_equity_stop_loss'') (open_positions demo_session) orders"
    "''o1'' \<in> cx_cancelled (sw_context (ls_world s'))" "equity_fires (s', LvEquity 120, s') \<le> 0"
    using st by (auto simp: refs equity_rearms_def)
  moreover have "length (open_positions demo_session) = 1" by code_simp
  ultimately show ?thesis using d by (auto dest: list_all2_lengthD)
qed

definition demo_restart :: session where
  "demo_restart = demo_session\<lparr>ls_world := \<lparr>sw_context = demo_context, sw_logs = [], sw_portal = demo_portal\<rparr>, ls_state := [],
     ls_last_processed := None, ls_specs := [], ls_states := [], ls_positions := []\<rparr>"


lemma not_average_moved_same: "\<not> average_moved (Fin x) (Fin x)"
proof -
  have "\<not> flt (pymax dust y) (Fin 0)" for y
    using dust_pos by (cases y) (auto simp: pymax_def dust_Fin)
  moreover have "fsub (Fin x) (Fin x) = Fin 0" by (simp add: fsub_def)
  ultimately show ?thesis by (simp add: average_moved_def)
qed

definition demo_sync :: "(string, (string, pyval) dict) dict" where
  "demo_sync = [(demo_key, [(''amount'', PFloat (Fin 1)), (''avg_cost'', PFloat (Fin 100)), (''last_price'', PFloat (Fin 95))])]"

theorem reopened_position_inherits_state_witness:
  "\<exists>s1 s2. synchronize_positions 0 [] None None demo_session = Inr s1 \<and> synchronize_positions 600 demo_sync None None s1 = Inr s2
     \<and> dget (ls_positions s1) demo_key = None \<and> dget (ls_states s2) demo_key = Some example_state"
proof -
  have sy: "synced_positions demo_portal demo_sync = Inr [(demo_key, demo_held\<lparr>ps_last_price := Fin 95\<rparr>)]" by code_simp
  obtain s1 where s1: "synchronize_positions 0 [] None None demo_session = Inr s1" "ls_world s1 = ls_world demo_session"
    by (simp add: synchronize_positions_def synced_positions_def drop_closed_exits_def Let_def)
  have w: "sw_portal (ls_world s1) = demo_portal" by (simp add: s1(2) demo_session_def)
  obtain s2 where s2: "synchronize_positions 600 demo_sync None None s1 = Inr s2"
    by (simp add: synchronize_positions_def w sy)
  have "dget (ls_positions s1) demo_key = None \<and> dget (ls_positions s2) demo_key = Some (demo_held\<lparr>ps_last_price := Fin 95\<rparr>)
    \<and> dget (ls_states s2) demo_key = Some example_state"
  proof (rule reopened_position_inherits_state [OF _ _ _ s1(1) s2])
    show "dget (ls_specs demo_session) demo_key = Some example_spec" "dget (ls_states demo_session) demo_key = Some example_state"
      "demo_key \<notin> set (ls_exit_pending demo_session)"
      by (simp_all add: demo_session_def dget_Cons)
    show "synced_positions (sw_portal (ls_world s1)) demo_sync = Inr [(demo_key, demo_held\<lparr>ps_last_price := Fin 95\<rparr>)]" by (simp add: w sy)
    show "\<not> fle (fabs (ps_amount (demo_held\<lparr>ps_last_price := Fin 95\<rparr>))) dust" by code_simp
    show "pst_side example_state = amount_side (ps_amount (demo_held\<lparr>ps_last_price := Fin 95\<rparr>))" by code_simp
    have "ps_avg_cost (demo_held\<lparr>ps_last_price := Fin 95\<rparr>) = Fin 100" "pst_entry_price example_state = Fin 100" by code_simp+
    then show "\<not> average_moved (ps_avg_cost (demo_held\<lparr>ps_last_price := Fin 95\<rparr>)) (pst_entry_price example_state)"
      using not_average_moved_same [of 100] by simp
  qed
  with s1 s2 show ?thesis by blast
qed

end
