(* ===== verification/CurveSampling.thy ===== *)
theory CurveSampling
  imports PyVal
begin

text \<open>
  Thinning of a stored equity curve (\<open>services/strategy_v2/curve_sampling.py\<close>): the points that carry the risk
  picture are kept, the rest is spread evenly over the free slots.
\<close>

section \<open>Model\<close>

record curve_point =
  cp_value :: pyfloat
  cp_drawdown :: "pyfloat option"

record curve_scan =
  cs_peak :: pyfloat
  cs_peak_index :: nat
  cs_worst :: pyfloat
  cs_worst_pair :: "nat \<times> nat"
  cs_low :: pyfloat
  cs_low_index :: nat
  cs_high :: pyfloat
  cs_high_index :: nat
  cs_saved_worst :: pyfloat
  cs_saved_index :: nat
  cs_first_insolvent :: "nat option"

definition scan_init :: "pyfloat \<Rightarrow> curve_scan" where
  "scan_init initial =
     \<lparr>cs_peak = initial, cs_peak_index = 0, cs_worst = Fin 0, cs_worst_pair = (0, 0), cs_low = PInf, cs_low_index = 0,
      cs_high = NInf, cs_high_index = 0, cs_saved_worst = Fin 0, cs_saved_index = 0, cs_first_insolvent = None\<rparr>"

text \<open>The five observations of one point, in the order of the loop body.\<close>

definition see_extremes :: "nat \<Rightarrow> pyfloat \<Rightarrow> curve_scan \<Rightarrow> curve_scan" where
  "see_extremes i v sc =
     (let sc1 = (if flt v (cs_low sc) then sc\<lparr>cs_low := v, cs_low_index := i\<rparr> else sc)
      in if flt (cs_high sc1) v then sc1\<lparr>cs_high := v, cs_high_index := i\<rparr> else sc1)"

definition see_drawdown :: "nat \<Rightarrow> pyfloat \<Rightarrow> curve_scan \<Rightarrow> curve_scan" where
  "see_drawdown i v sc =
     (let sc1 = (if fle (cs_peak sc) (Fin 0) \<or> flt (cs_peak sc) v then sc\<lparr>cs_peak := v, cs_peak_index := i\<rparr> else sc);
          drawdown = (if flt (Fin 0) (cs_peak sc1) then fmul (fsub (fquot v (cs_peak sc1)) (Fin 1)) (Fin 100) else Fin 0)
      in if flt drawdown (cs_worst sc1) then sc1\<lparr>cs_worst := drawdown, cs_worst_pair := (cs_peak_index sc1, i)\<rparr> else sc1)"

definition see_saved :: "nat \<Rightarrow> curve_point \<Rightarrow> curve_scan \<Rightarrow> curve_scan" where
  "see_saved i p sc =
     (case cp_drawdown p of
        None \<Rightarrow> sc
      | Some d \<Rightarrow> if flt d (cs_saved_worst sc) then sc\<lparr>cs_saved_worst := d, cs_saved_index := i\<rparr> else sc)"

definition see_insolvent :: "nat \<Rightarrow> pyfloat \<Rightarrow> curve_scan \<Rightarrow> curve_scan" where
  "see_insolvent i v sc =
     (if fle v (Fin 0) \<and> cs_first_insolvent sc = None then sc\<lparr>cs_first_insolvent := Some i\<rparr> else sc)"

definition scan_point :: "nat \<times> curve_point \<Rightarrow> curve_scan \<Rightarrow> curve_scan" where
  "scan_point x sc =
     (case x of (i, p) \<Rightarrow>
        if \<not> isfinite (cp_value p) then sc
        else see_insolvent i (cp_value p) (see_saved i p (see_drawdown i (cp_value p) (see_extremes i (cp_value p) sc))))"

definition scan_curve :: "pyfloat \<Rightarrow> curve_point list \<Rightarrow> curve_scan" where
  "scan_curve initial items = fold scan_point (enumerate 0 items) (scan_init initial)"

definition required_points :: "nat \<Rightarrow> curve_scan \<Rightarrow> nat list" where
  "required_points n sc =
     remdups ([0, n - 1, fst (cs_worst_pair sc), snd (cs_worst_pair sc), cs_low_index sc, cs_high_index sc, cs_saved_index sc] @
       (case cs_first_insolvent sc of None \<Rightarrow> [] | Some i \<Rightarrow> [i - 1, i]))"

definition pick :: "nat list \<Rightarrow> int \<Rightarrow> nat result" where
  "pick candidates k = (if 0 \<le> k \<and> k < int (length candidates) then Inr (candidates ! nat k) else Inl IndexError)"

text \<open>Evenly spread picks: the quotient of two ints is the nearest float, its product with the index is a
  float product, and \<open>round\<close> takes halves to even.\<close>

definition spread_points :: "nat \<Rightarrow> nat list \<Rightarrow> nat list result" where
  "spread_points slots candidates =
     (if slots = 1 then Inl ZeroDivisionError
      else let step = fl ((of_nat (length candidates) - 1) / (of_nat slots - 1)) in
        mapE (\<lambda>i. bindE (fround (fmul (fl (of_nat i)) step)) (pick candidates)) [0..<slots])"

definition sample_equity_curve :: "curve_point list \<Rightarrow> nat \<Rightarrow> pyfloat \<Rightarrow> curve_point list result" where
  "sample_equity_curve items limit initial =
     (if length items \<le> limit then Inr items
      else if limit < 10 then Inl (ValueError ''Equity curve sampling requires at least ten points'')
      else
        let required = required_points (length items) (scan_curve initial items);
            candidates = filter (\<lambda>i. i \<notin> set required) [0..<length items]
        in bindE (spread_points (limit - length required) candidates) (\<lambda>picked.
             Inr (map (\<lambda>i. items ! i) (sort (remdups (required @ picked))))))"

section \<open>The scan\<close>

lemma fold_enumerate_snoc:
  "fold f (enumerate 0 (xs @ [x])) s = f (length xs, x) (fold f (enumerate 0 xs) s)"
  by (simp add: enumerate_append_eq)

text \<open>What the scan knows after a prefix: where the lowest and the highest finite value and the first
  non-positive one are, and that every index it holds lies in the prefix.\<close>

abbreviation finite_point :: "curve_point \<Rightarrow> bool" where
  "finite_point p \<equiv> isfinite (cp_value p)"

definition low_ok :: "curve_point list \<Rightarrow> curve_scan \<Rightarrow> bool" where
  "low_ok xs sc \<longleftrightarrow>
     (if list_ex finite_point xs
      then cs_low_index sc < length xs \<and> cp_value (xs ! cs_low_index sc) = cs_low sc
        \<and> (\<forall>p \<in> set xs. finite_point p \<longrightarrow> fle (cs_low sc) (cp_value p))
      else cs_low sc = PInf)"

definition high_ok :: "curve_point list \<Rightarrow> curve_scan \<Rightarrow> bool" where
  "high_ok xs sc \<longleftrightarrow>
     (if list_ex finite_point xs
      then cs_high_index sc < length xs \<and> cp_value (xs ! cs_high_index sc) = cs_high sc
        \<and> (\<forall>p \<in> set xs. finite_point p \<longrightarrow> fle (cp_value p) (cs_high sc))
      else cs_high sc = NInf)"

definition insolvency_ok :: "curve_point list \<Rightarrow> curve_scan \<Rightarrow> bool" where
  "insolvency_ok xs sc \<longleftrightarrow>
     (case cs_first_insolvent sc of
        None \<Rightarrow> \<forall>p \<in> set xs. finite_point p \<longrightarrow> \<not> fle (cp_value p) (Fin 0)
      | Some i \<Rightarrow> i < length xs \<and> finite_point (xs ! i) \<and> fle (cp_value (xs ! i)) (Fin 0)
          \<and> (\<forall>j < i. finite_point (xs ! j) \<longrightarrow> \<not> fle (cp_value (xs ! j)) (Fin 0)))"

definition indexes_below :: "nat \<Rightarrow> curve_scan \<Rightarrow> bool" where
  "indexes_below n sc \<longleftrightarrow>
     cs_peak_index sc < n \<and> fst (cs_worst_pair sc) < n \<and> snd (cs_worst_pair sc) < n \<and> cs_low_index sc < n
     \<and> cs_high_index sc < n \<and> cs_saved_index sc < n \<and> (case cs_first_insolvent sc of None \<Rightarrow> True | Some i \<Rightarrow> i < n)"

lemma indexes_below_see:
  assumes "indexes_below m sc" and "i < m"
  shows "indexes_below m (see_extremes i v sc)" "indexes_below m (see_drawdown i v sc)" "indexes_below m (see_saved i p sc)"
    "indexes_below m (see_insolvent i v sc)"
  using assms
  by (simp_all add: indexes_below_def see_extremes_def see_drawdown_def see_saved_def see_insolvent_def Let_def split: option.split)

lemma indexes_below_point:
  assumes "indexes_below n sc" and "n \<le> m" and "i < m"
  shows "indexes_below m (scan_point (i, p) sc)"
proof -
  have "indexes_below m sc" using assms(1,2) by (auto simp: indexes_below_def split: option.splits)
  then show ?thesis using assms(3) by (simp add: scan_point_def indexes_below_see)
qed

lemma scan_indexes: "indexes_below (max 1 (length xs)) (scan_curve initial xs)"
proof (induction xs rule: rev_induct)
  case Nil
  show ?case by (simp add: scan_curve_def indexes_below_def scan_init_def)
next
  case (snoc x xs)
  then show ?case unfolding scan_curve_def fold_enumerate_snoc by (rule indexes_below_point) auto
qed

lemma extremes_frame [simp]:
  "cs_low (see_insolvent i v (see_saved i p (see_drawdown i v sc))) = cs_low sc"
  "cs_low_index (see_insolvent i v (see_saved i p (see_drawdown i v sc))) = cs_low_index sc"
  "cs_high (see_insolvent i v (see_saved i p (see_drawdown i v sc))) = cs_high sc"
  "cs_high_index (see_insolvent i v (see_saved i p (see_drawdown i v sc))) = cs_high_index sc"
  "cs_first_insolvent (see_insolvent i v (see_saved i p (see_drawdown i v (see_extremes i v sc)))) =
     (if fle v (Fin 0) \<and> cs_first_insolvent sc = None then Some i else cs_first_insolvent sc)"
  by (auto simp: see_insolvent_def see_saved_def see_drawdown_def see_extremes_def Let_def split: option.splits)

lemma scan_point_finite:
  assumes "finite_point p"
  shows "scan_point (i, p) sc =
    see_insolvent i (cp_value p) (see_saved i p (see_drawdown i (cp_value p) (see_extremes i (cp_value p) sc)))"
  using assms by (simp add: scan_point_def)

lemma scan_low: "low_ok xs (scan_curve initial xs)"
proof (induction xs rule: rev_induct)
  case Nil
  show ?case by (simp add: scan_curve_def low_ok_def scan_init_def)
next
  case (snoc p xs)
  let ?sc = "scan_curve initial xs"
  have step: "scan_curve initial (xs @ [p]) = scan_point (length xs, p) ?sc" by (simp add: scan_curve_def fold_enumerate_snoc)
  show ?case
  proof (cases "finite_point p")
    case False
    then show ?thesis using snoc by (auto simp: step scan_point_def low_ok_def nth_append)
  next
    case True
    then have e: "cs_low (scan_point (length xs, p) ?sc) = (if flt (cp_value p) (cs_low ?sc) then cp_value p else cs_low ?sc)"
      "cs_low_index (scan_point (length xs, p) ?sc) = (if flt (cp_value p) (cs_low ?sc) then length xs else cs_low_index ?sc)"
      by (simp_all add: scan_point_finite see_extremes_def Let_def)
    have refl: "fle (cp_value p) (cp_value p)" "flt (cp_value p) PInf" using True by (cases "cp_value p"; simp)+
    have tr: "flt (cp_value p) (cs_low ?sc) \<Longrightarrow> fle (cs_low ?sc) v \<Longrightarrow> fle (cp_value p) v" for v
      using flt_imp_fle fle_trans by blast
    have tot: "\<not> flt (cp_value p) (cs_low ?sc) \<Longrightarrow> list_ex finite_point xs \<Longrightarrow> fle (cs_low ?sc) (cp_value p)"
      using snoc True by (cases "cp_value p"; cases "cs_low ?sc") (auto simp: low_ok_def list_ex_iff)
    show ?thesis
      using snoc True refl tr tot by (auto simp: step low_ok_def e nth_append list_ex_iff split: if_splits)
  qed
qed

lemma scan_high: "high_ok xs (scan_curve initial xs)"
proof (induction xs rule: rev_induct)
  case Nil
  show ?case by (simp add: scan_curve_def high_ok_def scan_init_def)
next
  case (snoc p xs)
  let ?sc = "scan_curve initial xs"
  have step: "scan_curve initial (xs @ [p]) = scan_point (length xs, p) ?sc" by (simp add: scan_curve_def fold_enumerate_snoc)
  show ?case
  proof (cases "finite_point p")
    case False
    then show ?thesis using snoc by (auto simp: step scan_point_def high_ok_def nth_append)
  next
    case True
    then have e: "cs_high (scan_point (length xs, p) ?sc) = (if flt (cs_high ?sc) (cp_value p) then cp_value p else cs_high ?sc)"
      "cs_high_index (scan_point (length xs, p) ?sc) = (if flt (cs_high ?sc) (cp_value p) then length xs else cs_high_index ?sc)"
      by (simp_all add: scan_point_finite see_extremes_def Let_def)
    have refl: "fle (cp_value p) (cp_value p)" "flt NInf (cp_value p)" using True by (cases "cp_value p"; simp)+
    have tr: "flt (cs_high ?sc) (cp_value p) \<Longrightarrow> fle v (cs_high ?sc) \<Longrightarrow> fle v (cp_value p)" for v
      using flt_imp_fle fle_trans by blast
    have tot: "\<not> flt (cs_high ?sc) (cp_value p) \<Longrightarrow> list_ex finite_point xs \<Longrightarrow> fle (cp_value p) (cs_high ?sc)"
      using snoc True by (cases "cp_value p"; cases "cs_high ?sc") (auto simp: high_ok_def list_ex_iff)
    show ?thesis
      using snoc True refl tr tot by (auto simp: step high_ok_def e nth_append list_ex_iff split: if_splits)
  qed
qed

lemma scan_insolvency: "insolvency_ok xs (scan_curve initial xs)"
proof (induction xs rule: rev_induct)
  case Nil
  show ?case by (simp add: scan_curve_def insolvency_ok_def scan_init_def)
next
  case (snoc p xs)
  let ?sc = "scan_curve initial xs"
  have step: "scan_curve initial (xs @ [p]) = scan_point (length xs, p) ?sc" by (simp add: scan_curve_def fold_enumerate_snoc)
  have e: "cs_first_insolvent (scan_point (length xs, p) ?sc) =
    (if finite_point p \<and> fle (cp_value p) (Fin 0) \<and> cs_first_insolvent ?sc = None then Some (length xs) else cs_first_insolvent ?sc)"
    by (cases "finite_point p") (simp_all add: scan_point_finite, simp add: scan_point_def)
  show ?case
    using snoc unfolding step insolvency_ok_def e
    by (cases "cs_first_insolvent ?sc") (auto simp: nth_append)
qed

section \<open>Spreading the rest\<close>

lemma rnd_upper:
  assumes "1 \<le> q"
  shows "rnd q \<le> q + q / 2 ^ 53"
proof -
  have q: "0 < q" using assms by simp
  have "0 \<le> ilog2 q"
  proof (rule ccontr)
    assume "\<not> 0 \<le> ilog2 q"
    then have "pow2 (ilog2 q + 1) \<le> pow2 0" by (intro pow2_mono) simp
    then show False using ilog2_bounds [OF q] assms by simp
  qed
  then have u: "uexp q = ilog2 q - 52" using q by (simp add: uexp_def)
  have "2 * of_int (rne (q / pow2 (uexp q))) - 1 \<le> 2 * (q / pow2 (uexp q))" by (rule rne_bounds(1))
  then have "2 * rnd q \<le> 2 * q + pow2 (uexp q)" using pow2_pos [of "uexp q"] by (simp add: rnd_def field_simps)
  moreover have "pow2 (uexp q) = pow2 (ilog2 q) / 2 ^ 52" using pow2_diff [of "ilog2 q" 52] by (simp add: u pow2_int)
  moreover have "pow2 (ilog2 q) \<le> q" using ilog2_bounds [OF q] by simp
  ultimately show ?thesis by simp
qed

lemma fl_Fin_rnd: "\<bar>rnd x\<bar> < pow2 1024 \<Longrightarrow> fl x = Fin (rnd x)"
  by (cases rule: fl_cases [of x]) auto

lemma fl_eighths:
  assumes "\<bar>n\<bar> < 2 ^ 53"
  shows "fl (of_int n / 8) = Fin (of_int n / 8)"
proof -
  have e: "(of_int n / 8 :: rat) = of_int n * pow2 (- 3)" by (simp add: pow2_def)
  have r: "rnd (of_int n / 8) = of_int n / 8" unfolding e by (rule rnd_fixed [OF assms]) simp
  have "of_int \<bar>n\<bar> < (of_int (2 ^ 53) :: rat)" using assms of_int_less_iff by blast
  then have "\<bar>of_int n / 8 :: rat\<bar> < pow2 53" by (simp add: pow2_def)
  also have "\<dots> \<le> pow2 1024" by (rule pow2_mono) simp
  finally show ?thesis using fl_Fin_rnd [of "of_int n / 8"] by (simp add: r)
qed

lemma step_float:
  fixes q :: rat
  assumes "1 \<le> q" and "q \<le> 2 ^ 50"
  obtains r where "fl q = Fin r" and "0 \<le> r" and "r \<le> q + q / 2 ^ 53"
proof -
  have r: "0 \<le> rnd q" "rnd q \<le> q + q / 2 ^ 53" using assms rnd_upper [of q] by (simp_all add: rnd_nonneg)
  have "rnd q < 2 ^ 51" using r(2) assms(2) by simp
  also have "(2 ^ 51 :: rat) = pow2 51" by (simp add: pow2_def)
  also have "\<dots> \<le> pow2 1024" by (rule pow2_mono) simp
  finally have "fl q = Fin (rnd q)" using r(1) by (intro fl_Fin_rnd) simp
  then show thesis using r by (rule that)
qed

lemma scaled_back: "d \<noteq> 0 \<Longrightarrow> d * (a / d + a / d / m) = a + a / (m :: rat)"
  by (simp add: distrib_left)

lemma round_in_range:
  assumes "2 \<le> s" and "s \<le> c" and "c < 2 ^ 50" and "i < s"
  shows "\<exists>k. fround (fmul (fl (of_nat i)) (fl ((of_nat c - 1) / (of_nat s - 1)))) = Inr k \<and> 0 \<le> k \<and> k < int c"
proof -
  let ?q = "(of_nat c - 1) / (of_nat s - 1) :: rat"
  have s1: "(1::rat) \<le> of_nat s - 1" and sc: "(of_nat s :: rat) \<le> of_nat c" using assms(1,2) by (simp_all add: le_diff_eq)
  have cs: "(of_nat c :: rat) < 2 ^ 50"
    using assms(3) of_nat_less_iff [where 'a = rat, of c "2 ^ 50"] by simp
  have q1: "1 \<le> ?q" using s1 sc by (simp add: le_divide_eq)
  have "?q \<le> of_nat c - 1" using s1 sc by (simp add: divide_le_eq mult_le_cancel_left1)
  then have "?q \<le> 2 ^ 50" using cs by simp
  with q1 obtain r where r: "fl ?q = Fin r" "0 \<le> r" "r \<le> ?q + ?q / 2 ^ 53" by (rule step_float)
  have i: "(of_nat i :: rat) \<le> of_nat s - 1" using assms(4) by (simp add: le_diff_eq flip: of_nat_Suc)
  have fi: "fl (of_nat i) = Fin (of_nat i)" using fl_small_int [of "int i"] assms by simp
  define y where "y = (of_int (8 * (int c - 1) + 1) / 8 :: rat)"
  have "of_nat i * r \<le> (of_nat s - 1) * (?q + ?q / 2 ^ 53)" using i r by (intro mult_mono) simp_all
  also have "\<dots> = (of_nat c - 1) + (of_nat c - 1) / 2 ^ 53" by (rule scaled_back) (use s1 in simp)
  also have "\<dots> \<le> y" using cs by (simp add: y_def field_simps)
  finally have "fle (fl (of_nat i * r)) (Fin y)"
    using fl_le_b64 [of y "of_nat i * r"] fl_eighths [of "8 * (int c - 1) + 1"] assms by (simp add: y_def)
  moreover have "fle (Fin 0) (fl (of_nat i * r))" using r(2) by (intro fl_nonneg) simp
  ultimately obtain z where z: "fl (of_nat i * r) = Fin z" "0 \<le> z" "z \<le> y" by (cases "fl (of_nat i * r)") auto
  have "rne z \<le> rne y" using z(3) by (rule rne_mono)
  moreover have "rne y = int c - 1"
    using rne_bounds [of y] by (simp add: y_def)
  ultimately have "rne z < int c" "0 \<le> rne z" using z(2) rne_ge_of_int [of 0 z] by simp_all
  then show ?thesis by (simp add: fi r(1) z(1))
qed

lemma spread_points_total:
  assumes "2 \<le> slots" and "slots \<le> length candidates" and "length candidates < 2 ^ 50"
  shows "\<exists>picked. spread_points slots candidates = Inr picked \<and> length picked = slots \<and> set picked \<subseteq> set candidates"
proof -
  let ?f = "\<lambda>i. bindE (fround (fmul (fl (of_nat i)) (fl ((of_nat (length candidates) - 1) / (of_nat slots - 1))))) (pick candidates)"
  have "\<exists>x. ?f i = Inr x \<and> x \<in> set candidates" if "i \<in> set [0..<slots]" for i
    using round_in_range [OF assms, of i] that by (auto simp: pick_def)
  then obtain g where g: "\<And>i. i \<in> set [0..<slots] \<Longrightarrow> ?f i = Inr (g i) \<and> g i \<in> set candidates" by metis
  have "mapE ?f [0..<slots] = Inr (map g [0..<slots])"
    unfolding mapE_Inr_iff list_all2_map2 by (rule list.rel_refl_strong) (use g in blast)
  moreover have "set (map g [0..<slots]) \<subseteq> set candidates" using g by auto
  ultimately show ?thesis
    using assms(1) by (intro exI [of _ "map g [0..<slots]"]) (simp add: spread_points_def Let_def)
qed

lemma set_required_points:
  "set (required_points n sc) = {0, n - 1, fst (cs_worst_pair sc), snd (cs_worst_pair sc), cs_low_index sc, cs_high_index sc, cs_saved_index sc}
     \<union> (case cs_first_insolvent sc of None \<Rightarrow> {} | Some i \<Rightarrow> {i - 1, i})"
  unfolding required_points_def set_remdups by (cases "cs_first_insolvent sc") auto

lemma distinct_required_points: "distinct (required_points n sc)"
  unfolding required_points_def by (rule distinct_remdups)

lemma required_points_bounds:
  assumes "indexes_below n sc"
  shows "set (required_points n sc) \<subseteq> {..<n} \<and> length (required_points n sc) \<le> 9"
proof -
  have "length (required_points n sc) \<le> length ([0, n - 1, fst (cs_worst_pair sc), snd (cs_worst_pair sc), cs_low_index sc, cs_high_index sc,
      cs_saved_index sc] @ (case cs_first_insolvent sc of None \<Rightarrow> [] | Some i \<Rightarrow> [i - 1, i]))"
    unfolding required_points_def by (rule length_remdups_leq)
  also have "\<dots> \<le> 9" by (simp split: option.split)
  finally have "length (required_points n sc) \<le> 9" .
  moreover have "set (required_points n sc) \<subseteq> {..<n}"
    using assms unfolding set_required_points indexes_below_def by (cases "cs_first_insolvent sc") auto
  ultimately show ?thesis by blast
qed

lemma sample_equity_curve_total:
  assumes "11 \<le> limit" and "limit < length items" and "length items < 2 ^ 50"
  obtains idx where "sample_equity_curve items limit initial = Inr (map (\<lambda>i. items ! i) idx)" and "sorted idx" and "distinct idx"
    and "length idx \<le> limit" and "set idx \<subseteq> {..<length items}"
    and "set (required_points (length items) (scan_curve initial items)) \<subseteq> set idx"
proof -
  let ?n = "length items"
  define required where "required = required_points ?n (scan_curve initial items)"
  define candidates where "candidates = filter (\<lambda>i. i \<notin> set required) [0..<?n]"
  have "max 1 ?n = ?n" using assms by simp
  then have b: "set required \<subseteq> {..<?n}" "length required \<le> 9"
    using required_points_bounds [of ?n "scan_curve initial items"] scan_indexes [of items initial] by (simp_all add: required_def)
  have d: "distinct required" by (simp add: required_def distinct_required_points)
  have "set candidates = {..<?n} - set required" "distinct candidates" by (auto simp: candidates_def)
  then have "length candidates = ?n - length required"
    using b(1) d by (metis card_Diff_subset card_lessThan distinct_card finite_set)
  then have "2 \<le> limit - length required" "limit - length required \<le> length candidates" "length candidates < 2 ^ 50"
    using assms b(2) by simp_all
  from spread_points_total [OF this] obtain picked where
    p: "spread_points (limit - length required) candidates = Inr picked" "length picked = limit - length required" "set picked \<subseteq> set candidates"
    by blast
  show thesis
  proof (rule that [of "sort (remdups (required @ picked))"])
    show "sample_equity_curve items limit initial = Inr (map (\<lambda>i. items ! i) (sort (remdups (required @ picked))))"
      using assms p(1) by (simp add: sample_equity_curve_def Let_def required_def candidates_def)
    have "length (remdups (required @ picked)) \<le> length (required @ picked)" by (rule length_remdups_leq)
    then show "length (sort (remdups (required @ picked))) \<le> limit" using p(2) b(2) assms(1) by simp
    show "set (sort (remdups (required @ picked))) \<subseteq> {..<?n}" using b(1) p(3) by (auto simp: candidates_def)
    show "set (required_points ?n (scan_curve initial items)) \<subseteq> set (sort (remdups (required @ picked)))" by (simp add: required_def)
  qed simp_all
qed

text \<open>
  C26. Sampling a long curve to at least eleven points always succeeds: it
  answers at most that many of the stored points, in order, keeps the first and the last one, a lowest and a
  highest finite value, and the first insolvent point with the point before it.
\<close>

theorem sampled_curve_keeps_risk:
  assumes "11 \<le> limit" and "limit < length items" and "length items < 2 ^ 50"
  shows "\<exists>idx. sample_equity_curve items limit initial = Inr (map (\<lambda>i. items ! i) idx)
    \<and> sorted idx \<and> distinct idx \<and> length idx \<le> limit \<and> set idx \<subseteq> {..<length items} \<and> {0, length items - 1} \<subseteq> set idx
    \<and> (\<forall>p \<in> set items. isfinite (cp_value p) \<longrightarrow>
         (\<exists>i \<in> set idx. fle (cp_value (items ! i)) (cp_value p)) \<and> (\<exists>i \<in> set idx. fle (cp_value p) (cp_value (items ! i))))
    \<and> (\<forall>i < length items. isfinite (cp_value (items ! i)) \<and> fle (cp_value (items ! i)) (Fin 0)
         \<and> (\<forall>j < i. isfinite (cp_value (items ! j)) \<longrightarrow> \<not> fle (cp_value (items ! j)) (Fin 0)) \<longrightarrow> {i - 1, i} \<subseteq> set idx)"
proof -
  let ?sc = "scan_curve initial items"
  obtain idx where idx: "sample_equity_curve items limit initial = Inr (map (\<lambda>i. items ! i) idx)" "sorted idx" "distinct idx"
    "length idx \<le> limit" "set idx \<subseteq> {..<length items}" "set (required_points (length items) ?sc) \<subseteq> set idx"
    by (rule sample_equity_curve_total [OF assms])
  have ends: "{0, length items - 1, cs_low_index ?sc, cs_high_index ?sc} \<subseteq> set idx" using idx(6) by (auto simp: set_required_points)
  have low: "\<exists>i \<in> set idx. fle (cp_value (items ! i)) (cp_value p)" if "p \<in> set items" "finite_point p" for p
  proof -
    have "list_ex finite_point items" using that by (auto simp: list_ex_iff)
    then have "fle (cp_value (items ! cs_low_index ?sc)) (cp_value p)" using scan_low [of items initial] that by (simp add: low_ok_def)
    then show ?thesis using ends by blast
  qed
  have high: "\<exists>i \<in> set idx. fle (cp_value p) (cp_value (items ! i))" if "p \<in> set items" "finite_point p" for p
  proof -
    have "list_ex finite_point items" using that by (auto simp: list_ex_iff)
    then have "fle (cp_value p) (cp_value (items ! cs_high_index ?sc))" using scan_high [of items initial] that by (simp add: high_ok_def)
    then show ?thesis using ends by blast
  qed
  have first: "{i - 1, i} \<subseteq> set idx"
    if "i < length items" "finite_point (items ! i)" "fle (cp_value (items ! i)) (Fin 0)"
      "\<forall>j < i. finite_point (items ! j) \<longrightarrow> \<not> fle (cp_value (items ! j)) (Fin 0)" for i
  proof -
    have "cs_first_insolvent ?sc = Some i"
    proof (cases "cs_first_insolvent ?sc")
      case None
      then show ?thesis using scan_insolvency [of items initial] that nth_mem [OF that(1)] by (simp add: insolvency_ok_def)
    next
      case (Some k)
      then have "k < length items" "finite_point (items ! k)" "fle (cp_value (items ! k)) (Fin 0)"
        "\<forall>j < k. finite_point (items ! j) \<longrightarrow> \<not> fle (cp_value (items ! j)) (Fin 0)"
        using scan_insolvency [of items initial] by (simp_all add: insolvency_ok_def)
      then have "k = i" using that by (metis linorder_neqE_nat)
      then show ?thesis using Some by simp
    qed
    then show ?thesis using idx(6) by (simp add: set_required_points)
  qed
  show ?thesis
    by (rule exI [of _ idx]) (use idx(1-5) ends low high first in simp)
qed

section \<open>A worked curve\<close>

definition demo_curve :: "curve_point list" where
  "demo_curve =
     map (\<lambda>(i, v). \<lparr>cp_value = Fin v, cp_drawdown = (if i = (7 :: nat) then Some (Fin (- 99)) else None)\<rparr>)
       (enumerate 0 [4, 8, 6, - 1, - 8, 64, - 16, 32, 32, 32, 32, 32])"

theorem sampled_curve_keeps_risk_witness:
  "\<exists>idx. sample_equity_curve demo_curve 11 (Fin 4) = Inr (map (\<lambda>i. demo_curve ! i) idx) \<and> length idx \<le> 11 \<and> {0, 11} \<subseteq> set idx
     \<and> {2, 3} \<subseteq> set idx"
proof -
  have n: "length demo_curve = 12" by (simp add: demo_curve_def)
  obtain idx where idx: "sample_equity_curve demo_curve 11 (Fin 4) = Inr (map (\<lambda>i. demo_curve ! i) idx)" "length idx \<le> 11"
    "{0, length demo_curve - 1} \<subseteq> set idx"
    "\<forall>i < length demo_curve. isfinite (cp_value (demo_curve ! i)) \<and> fle (cp_value (demo_curve ! i)) (Fin 0)
       \<and> (\<forall>j < i. isfinite (cp_value (demo_curve ! j)) \<longrightarrow> \<not> fle (cp_value (demo_curve ! j)) (Fin 0)) \<longrightarrow> {i - 1, i} \<subseteq> set idx"
    using sampled_curve_keeps_risk [of 11 demo_curve "Fin 4"] n by auto
  have "fle (cp_value (demo_curve ! 3)) (Fin 0)" "isfinite (cp_value (demo_curve ! 3))"
    "\<not> fle (cp_value (demo_curve ! 0)) (Fin 0)" "\<not> fle (cp_value (demo_curve ! 1)) (Fin 0)" "\<not> fle (cp_value (demo_curve ! 2)) (Fin 0)"
    by code_simp+
  then have "{2, 3} \<subseteq> set idx" using spec [OF idx(4), of 3] n by (simp add: less_Suc_eq numeral_3_eq_3 numeral_2_eq_2)
  then show ?thesis using idx(1-3) n by auto
qed

text \<open>The smallest limit the code admits is ten.  When nine points are required the one free slot makes the
  spacing divide by zero, so the call raises instead of answering ten points.\<close>

lemmas demo_floats =
  fl_eighths [of 0, simplified] fl_eighths [of 8, simplified] fl_eighths [of 6, simplified] fl_eighths [of "- 1", simplified]
  fl_eighths [of "- 8", simplified] fl_eighths [of "- 2", simplified] fl_eighths [of 4, simplified] fl_eighths [of "- 9", simplified]
  fl_eighths [of "- 16", simplified] fl_eighths [of "- 10", simplified] fl_eighths [of "- 4", simplified]
  fl_eighths [of "- 200", simplified] fl_eighths [of "- 900", simplified] fl_eighths [of "- 1600", simplified]
  fl_eighths [of "- 1000", simplified] fl_eighths [of "- 400", simplified]

lemma demo_scan_steps:
  "scan_point (0, \<lparr>cp_value = Fin 4, cp_drawdown = None\<rparr>)
     (curve_scan.make (Fin 4) 0 (Fin 0) (0, 0) (PInf) 0 (NInf) 0 (Fin 0) 0 None) =
     curve_scan.make (Fin 4) 0 (Fin 0) (0, 0) (Fin 4) 0 (Fin 4) 0 (Fin 0) 0 None"
  "scan_point (1, \<lparr>cp_value = Fin 8, cp_drawdown = None\<rparr>)
     (curve_scan.make (Fin 4) 0 (Fin 0) (0, 0) (Fin 4) 0 (Fin 4) 0 (Fin 0) 0 None) =
     curve_scan.make (Fin 8) 1 (Fin 0) (0, 0) (Fin 4) 0 (Fin 8) 1 (Fin 0) 0 None"
  "scan_point (2, \<lparr>cp_value = Fin 6, cp_drawdown = None\<rparr>)
     (curve_scan.make (Fin 8) 1 (Fin 0) (0, 0) (Fin 4) 0 (Fin 8) 1 (Fin 0) 0 None) =
     curve_scan.make (Fin 8) 1 (Fin (-25)) (1, 2) (Fin 4) 0 (Fin 8) 1 (Fin 0) 0 None"
  "scan_point (3, \<lparr>cp_value = Fin (- 1), cp_drawdown = None\<rparr>)
     (curve_scan.make (Fin 8) 1 (Fin (-25)) (1, 2) (Fin 4) 0 (Fin 8) 1 (Fin 0) 0 None) =
     curve_scan.make (Fin 8) 1 (Fin (- (225 / 2))) (1, 3) (Fin (-1)) 3 (Fin 8) 1 (Fin 0) 0 (Some 3)"
  "scan_point (4, \<lparr>cp_value = Fin (- 8), cp_drawdown = None\<rparr>)
     (curve_scan.make (Fin 8) 1 (Fin (- (225 / 2))) (1, 3) (Fin (-1)) 3 (Fin 8) 1 (Fin 0) 0 (Some 3)) =
     curve_scan.make (Fin 8) 1 (Fin (-200)) (1, 4) (Fin (-8)) 4 (Fin 8) 1 (Fin 0) 0 (Some 3)"
  "scan_point (5, \<lparr>cp_value = Fin 64, cp_drawdown = None\<rparr>)
     (curve_scan.make (Fin 8) 1 (Fin (-200)) (1, 4) (Fin (-8)) 4 (Fin 8) 1 (Fin 0) 0 (Some 3)) =
     curve_scan.make (Fin 64) 5 (Fin (-200)) (1, 4) (Fin (-8)) 4 (Fin 64) 5 (Fin 0) 0 (Some 3)"
  "scan_point (6, \<lparr>cp_value = Fin (- 16), cp_drawdown = None\<rparr>)
     (curve_scan.make (Fin 64) 5 (Fin (-200)) (1, 4) (Fin (-8)) 4 (Fin 64) 5 (Fin 0) 0 (Some 3)) =
     curve_scan.make (Fin 64) 5 (Fin (-200)) (1, 4) (Fin (-16)) 6 (Fin 64) 5 (Fin 0) 0 (Some 3)"
  "scan_point (7, \<lparr>cp_value = Fin 32, cp_drawdown = Some (Fin (- 99))\<rparr>)
     (curve_scan.make (Fin 64) 5 (Fin (-200)) (1, 4) (Fin (-16)) 6 (Fin 64) 5 (Fin 0) 0 (Some 3)) =
     curve_scan.make (Fin 64) 5 (Fin (-200)) (1, 4) (Fin (-16)) 6 (Fin 64) 5 (Fin (-99)) 7 (Some 3)"
  "scan_point (8, \<lparr>cp_value = Fin 32, cp_drawdown = None\<rparr>)
     (curve_scan.make (Fin 64) 5 (Fin (-200)) (1, 4) (Fin (-16)) 6 (Fin 64) 5 (Fin (-99)) 7 (Some 3)) =
     curve_scan.make (Fin 64) 5 (Fin (-200)) (1, 4) (Fin (-16)) 6 (Fin 64) 5 (Fin (-99)) 7 (Some 3)"
  "scan_point (9, \<lparr>cp_value = Fin 32, cp_drawdown = None\<rparr>)
     (curve_scan.make (Fin 64) 5 (Fin (-200)) (1, 4) (Fin (-16)) 6 (Fin 64) 5 (Fin (-99)) 7 (Some 3)) =
     curve_scan.make (Fin 64) 5 (Fin (-200)) (1, 4) (Fin (-16)) 6 (Fin 64) 5 (Fin (-99)) 7 (Some 3)"
  "scan_point (10, \<lparr>cp_value = Fin 32, cp_drawdown = None\<rparr>)
     (curve_scan.make (Fin 64) 5 (Fin (-200)) (1, 4) (Fin (-16)) 6 (Fin 64) 5 (Fin (-99)) 7 (Some 3)) =
     curve_scan.make (Fin 64) 5 (Fin (-200)) (1, 4) (Fin (-16)) 6 (Fin 64) 5 (Fin (-99)) 7 (Some 3)"
  "scan_point (11, \<lparr>cp_value = Fin 32, cp_drawdown = None\<rparr>)
     (curve_scan.make (Fin 64) 5 (Fin (-200)) (1, 4) (Fin (-16)) 6 (Fin 64) 5 (Fin (-99)) 7 (Some 3)) =
     curve_scan.make (Fin 64) 5 (Fin (-200)) (1, 4) (Fin (-16)) 6 (Fin 64) 5 (Fin (-99)) 7 (Some 3)"
  by (simp_all add: curve_scan.make_def scan_point_def see_insolvent_def see_saved_def see_drawdown_def see_extremes_def fsub_def demo_floats Let_def)

lemma demo_scan: "scan_curve (Fin 4) demo_curve = curve_scan.make (Fin 64) 5 (Fin (-200)) (1, 4) (Fin (-16)) 6 (Fin 64) 5 (Fin (-99)) 7 (Some 3)"
proof -
  have "scan_init (Fin 4) = curve_scan.make (Fin 4) 0 (Fin 0) (0, 0) (PInf) 0 (NInf) 0 (Fin 0) 0 None" by (simp add: scan_init_def curve_scan.make_def)
  moreover have "enumerate 0 demo_curve =
   [(0, \<lparr>cp_value = Fin 4, cp_drawdown = None\<rparr>),
    (1, \<lparr>cp_value = Fin 8, cp_drawdown = None\<rparr>),
    (2, \<lparr>cp_value = Fin 6, cp_drawdown = None\<rparr>),
    (3, \<lparr>cp_value = Fin (- 1), cp_drawdown = None\<rparr>),
    (4, \<lparr>cp_value = Fin (- 8), cp_drawdown = None\<rparr>),
    (5, \<lparr>cp_value = Fin 64, cp_drawdown = None\<rparr>),
    (6, \<lparr>cp_value = Fin (- 16), cp_drawdown = None\<rparr>),
    (7, \<lparr>cp_value = Fin 32, cp_drawdown = Some (Fin (- 99))\<rparr>),
    (8, \<lparr>cp_value = Fin 32, cp_drawdown = None\<rparr>),
    (9, \<lparr>cp_value = Fin 32, cp_drawdown = None\<rparr>),
    (10, \<lparr>cp_value = Fin 32, cp_drawdown = None\<rparr>),
    (11, \<lparr>cp_value = Fin 32, cp_drawdown = None\<rparr>)]"
    by (simp add: demo_curve_def eval_nat_numeral)
  ultimately show ?thesis by (simp only: scan_curve_def fold_simps demo_scan_steps)
qed

lemma sampling_to_ten_points_raises: "sample_equity_curve demo_curve 10 (Fin 4) = Inl ZeroDivisionError"
proof -
  have "length (required_points 12 (scan_curve (Fin 4) demo_curve)) = 9" by (simp add: required_points_def demo_scan curve_scan.make_def)
  moreover have "length demo_curve = 12" by (simp add: demo_curve_def)
  ultimately show ?thesis by (simp add: sample_equity_curve_def spread_points_def)
qed

end
