(* ===== verification/FloatRepr.thy ===== *)
theory FloatRepr
  imports PyVal
begin

text \<open>
  The decimal a float prints as, and \<open>utils/numeric_precision.py\<close> on floats.  Seventeen significant digits
  always read back as the float they come from, so the shortest rendering does too, and the decimal value of a
  printed float is monotone.
\<close>

section \<open>Powers of ten\<close>

lemma pow10_powi: "pow10 e = 10 powi e"
  by (simp add: pow10_def power_int_def field_simps)

lemma pow10_pos [simp]: "0 < pow10 e"
  by (simp add: pow10_powi)

lemma pow10_nonneg [simp]: "0 \<le> pow10 e"
  by (simp add: less_imp_le)

lemma pow10_nonzero [simp]: "pow10 e \<noteq> 0"
  using pow10_pos [of e] by linarith

lemma pow10_add: "pow10 (a + b) = pow10 a * pow10 b"
  by (simp add: pow10_powi power_int_add)

lemma pow10_mono: "a \<le> b \<Longrightarrow> pow10 a \<le> pow10 b"
  by (simp add: pow10_powi power_int_increasing)

lemma ilog10_up_bounds:
  assumes "pow10 (e - int n) \<le> x" and "x < pow10 (e + int n + 1)"
  shows "pow10 (ilog10_up n x e) \<le> x \<and> x < pow10 (ilog10_up n x e + 1)"
  using assms
proof (induction n arbitrary: e)
  case (Suc n)
  show ?case
  proof (cases "pow10 (e + 1) \<le> x")
    case True
    have "pow10 (e + 1 - int n) \<le> x" using pow10_mono [of "e + 1 - int n" "e + 1"] True by linarith
    moreover have "x < pow10 (e + 1 + int n + 1)" using Suc.prems(2) by (simp add: algebra_simps)
    ultimately show ?thesis using Suc.IH [of "e + 1"] True by simp
  next
    case False
    show ?thesis
    proof (cases "x < pow10 e")
      case True
      have "x < pow10 (e - 1 + int n + 1)" using pow10_mono [of e "e + int n"] True by (simp add: algebra_simps)
      moreover have "pow10 (e - 1 - int n) \<le> x" using Suc.prems(1) by (simp add: algebra_simps)
      ultimately show ?thesis using Suc.IH [of "e - 1"] True False by simp
    next
      case f: False
      then show ?thesis using False by simp
    qed
  qed
qed simp

lemma pow10_le_pow2: "0 \<le> q \<Longrightarrow> pow10 (3 * q) \<le> pow2 (10 * q)" "q \<le> 0 \<Longrightarrow> pow10 (28 * q) \<le> pow2 (93 * q)"
  and pow2_le_pow10: "0 \<le> q \<Longrightarrow> pow2 (93 * q) \<le> pow10 (28 * q)" "q \<le> 0 \<Longrightarrow> pow2 (10 * q) \<le> pow10 (3 * q)"
proof -
  have p: "pow10 (a * int n) = (10 ^ nat a) ^ n" "pow2 (a * int n) = (2 ^ nat a) ^ n" if "0 \<le> a" for a n
    using that by (simp_all add: pow10_def pow2_def nat_mult_distrib power_mult)
  have m: "pow10 (- a) = 1 / pow10 a" "pow2 (- a) = 1 / pow2 a" for a
    by (simp_all add: pow10_powi pow2_powi power_int_minus field_simps)
  have a: "pow10 (3 * int n) \<le> pow2 (10 * int n)" for n using p [of 3 n] p [of 10 n] by (simp add: power_mono)
  have b: "pow2 (93 * int n) \<le> pow10 (28 * int n)" for n using p [of 93 n] p [of 28 n] by (simp add: power_mono)
  show "0 \<le> q \<Longrightarrow> pow10 (3 * q) \<le> pow2 (10 * q)" "0 \<le> q \<Longrightarrow> pow2 (93 * q) \<le> pow10 (28 * q)"
    using a [of "nat q"] b [of "nat q"] by simp_all
  show "pow10 (28 * q) \<le> pow2 (93 * q)" "pow2 (10 * q) \<le> pow10 (3 * q)" if "q \<le> 0"
    using a [of "nat (- q)"] b [of "nat (- q)"] that m [of "28 * - q"] m [of "93 * - q"] m [of "3 * - q"] m [of "10 * - q"]
    by (simp_all add: frac_le)
qed

lemma pow2_small:
  assumes "0 \<le> r"
  shows "pow10 (3 * (r div 10)) \<le> pow2 r" and "pow2 r \<le> pow10 (r div 3 + 1)"
proof -
  have "pow10 (3 * (r div 10)) \<le> pow2 (10 * (r div 10))" using pow10_le_pow2(1) assms by simp
  also have "\<dots> \<le> pow2 r" by (rule pow2_mono) (use assms in linarith)
  finally show "pow10 (3 * (r div 10)) \<le> pow2 r" .
  have "pow2 r \<le> pow2 (3 * (r div 3 + 1))" by (rule pow2_mono) presburger
  also have "\<dots> \<le> pow10 (r div 3 + 1)"
  proof -
    obtain n where n: "r div 3 + 1 = int n" using assms by (metis int_nat_eq div_int_pos_iff zero_le_numeral add_nonneg_nonneg zero_le_one)
    have "(8 :: rat) ^ n \<le> 10 ^ n" by (rule power_mono) simp_all
    moreover have "pow2 (3 * int n) = 8 ^ n" by (simp add: pow2_def nat_mult_distrib power_mult)
    ultimately show ?thesis by (simp add: n pow10_powi power_int_def)
  qed
  finally show "pow2 r \<le> pow10 (r div 3 + 1)" .
qed

lemma decimal_guess:
  fixes k :: int
  assumes "- 1074 \<le> k" and "k \<le> 1023" and e: "e = k * 30103 div 100000"
  shows "pow10 (e - 5) \<le> pow2 k" and "pow2 (k + 1) \<le> pow10 (e + 6)"
proof -
  define R where "R = k * 30103 mod 100000"
  have "e * 100000 + R = k * 30103" unfolding e R_def by (rule div_mult_mod_eq)
  moreover have "0 \<le> R" "R < 100000" by (simp_all add: R_def)
  ultimately have d: "e * 100000 \<le> k * 30103" "k * 30103 < e * 100000 + 100000" by linarith+
  show "pow10 (e - 5) \<le> pow2 k"
  proof (cases "0 \<le> k")
    case True
    define q r where "q = k div 10" and "r = k mod 10"
    have k: "k = 10 * q + r" "0 \<le> r" "r < 10" "0 \<le> q" using True by (simp_all add: q_def r_def)
    have "pow10 (e - 5) \<le> pow10 (3 * q)" by (rule pow10_mono) (use d k assms in linarith)
    also have "\<dots> \<le> pow2 (10 * q)" by (rule pow10_le_pow2(1) [OF k(4)])
    also have "\<dots> \<le> pow2 k" by (rule pow2_mono) (use k in linarith)
    finally show ?thesis .
  next
    case False
    define q r where "q = k div 93" and "r = k mod 93"
    have k: "k = 93 * q + r" "0 \<le> r" "r < 93" "q \<le> 0" using False by (simp_all add: q_def r_def)
    have "pow10 (e - 5) \<le> pow10 (28 * q + 3 * (r div 10))" by (rule pow10_mono) (use d k assms in linarith)
    also have "\<dots> \<le> pow2 (93 * q) * pow2 r"
      unfolding pow10_add by (rule mult_mono) (use pow10_le_pow2(2) [OF k(4)] pow2_small(1) [OF k(2)] in \<open>simp_all add: less_imp_le\<close>)
    finally show ?thesis by (simp add: k(1) pow2_add)
  qed
  show "pow2 (k + 1) \<le> pow10 (e + 6)"
  proof (cases "0 \<le> k + 1")
    case True
    define q r where "q = (k + 1) div 93" and "r = (k + 1) mod 93"
    have k: "k + 1 = 93 * q + r" "0 \<le> r" "r < 93" "0 \<le> q" using True by (simp_all add: q_def r_def)
    have "pow2 (k + 1) \<le> pow10 (28 * q) * pow10 (r div 3 + 1)"
      unfolding k(1) pow2_add by (rule mult_mono) (use pow2_le_pow10(1) [OF k(4)] pow2_small(2) [OF k(2)] in \<open>simp_all add: less_imp_le\<close>)
    also have "\<dots> = pow10 (28 * q + (r div 3 + 1))" by (simp only: pow10_add)
    also have "\<dots> \<le> pow10 (e + 6)" by (rule pow10_mono) (use d k assms in linarith)
    finally show ?thesis .
  next
    case False
    define q r where "q = (k + 1) div 10" and "r = (k + 1) mod 10"
    have k: "k + 1 = 10 * q + r" "0 \<le> r" "r < 10" "q \<le> 0" using False by (simp_all add: q_def r_def)
    have "pow2 (k + 1) \<le> pow10 (3 * q) * pow10 (r div 3 + 1)"
      unfolding k(1) pow2_add by (rule mult_mono) (use pow2_le_pow10(2) [OF k(4)] pow2_small(2) [OF k(2)] in \<open>simp_all add: less_imp_le\<close>)
    also have "\<dots> = pow10 (3 * q + (r div 3 + 1))" by (simp only: pow10_add)
    also have "\<dots> \<le> pow10 (e + 6)" by (rule pow10_mono) (use d k assms in linarith)
    finally show ?thesis .
  qed
qed

lemma dec_exp_bounds:
  assumes "0 < x" and "- 1074 \<le> ilog2 x" and "ilog2 x \<le> 1023"
  shows "pow10 (dec_exp x) \<le> x" and "x < pow10 (dec_exp x + 1)"
proof -
  let ?e = "ilog2 x * 30103 div 100000"
  have "pow10 (?e - int 5) \<le> x" "x < pow10 (?e + int 5 + 1)"
    using decimal_guess [OF assms(2,3) refl] ilog2_bounds [OF assms(1)] by (simp_all add: add.commute)
  from ilog10_up_bounds [OF this] show "pow10 (dec_exp x) \<le> x" "x < pow10 (dec_exp x + 1)" by (simp_all add: dec_exp_def)
qed

section \<open>Seventeen digits read back\<close>

lemma rne_near:
  assumes "\<bar>y - of_int n\<bar> < 1 / 2"
  shows "rne y = n"
proof -
  have "y - of_int n < 1 / 2" "of_int n - y < 1 / 2" using assms by linarith+
  then show ?thesis by (intro rne_unique) linarith+
qed

lemma rnd_near_grid:
  assumes "x = of_int n * pow2 (uexp y)" and "\<bar>y - x\<bar> < pow2 (uexp y - 1)"
  shows "rnd y = x"
proof -
  let ?u = "pow2 (uexp y)"
  have "y / ?u - of_int n = (y - x) / ?u" by (simp add: assms(1) diff_divide_distrib)
  then have "\<bar>y / ?u - of_int n\<bar> = \<bar>y - x\<bar> / ?u" by (simp add: abs_divide)
  also have "\<dots> < pow2 (uexp y - 1) / ?u" using assms(2) by (simp add: divide_strict_right_mono)
  also have "\<dots> = 1 / 2" by (simp add: pow2_diff [symmetric]) (simp add: pow2_def)
  finally show ?thesis using rne_near by (simp add: rnd_def assms(1))
qed

lemma grid_gap:
  fixes a b :: int
  assumes "of_int a * pow2 u < of_int b * pow2 u"
  shows "pow2 u \<le> of_int b * pow2 u - of_int a * pow2 u"
proof -
  have "(of_int a :: rat) < of_int b" using assms by (simp add: mult_less_cancel_right_pos)
  then have "(1 :: rat) \<le> of_int b - of_int a" by (metis of_int_less_iff of_int_diff of_int_1 of_int_le_iff zless_iff_Suc_zadd zless_imp_add1_zle le_diff_eq add.commute)
  then have "1 * pow2 u \<le> (of_int b - of_int a) * pow2 u" by (rule mult_right_mono) simp
  then show ?thesis by (simp add: left_diff_distrib)
qed

lemma rnd_near:
  assumes x: "0 < x" "rnd x = x" and near: "\<bar>y - x\<bar> < x / 2 ^ 54"
  shows "rnd y = x"
proof -
  define k where "k = ilog2 x"
  define u where "u = max (k - 52) (- 1074)"
  have ux: "uexp x = u" using x(1) by (simp add: uexp_def u_def k_def)
  obtain n where n: "x = of_int n * pow2 u" using x(2) unfolding rnd_def ux by metis
  have kb: "pow2 k \<le> x" "x < pow2 (k + 1)" using ilog2_bounds [OF x(1)] by (simp_all add: k_def)
  have p54: "pow2 (a - 54) = pow2 a / 2 ^ 54" for a by (simp add: pow2_diff) (simp add: pow2_def)
  have small: "\<bar>y - x\<bar> < pow2 (k - 53)"
  proof -
    have "x / 2 ^ 54 < pow2 (k + 1) / 2 ^ 54" using kb(2) by (simp add: divide_strict_right_mono)
    then show ?thesis using near p54 [of "k + 1"] by simp
  qed
  have hk: "pow2 (k - 1) = pow2 k / 2" by (simp add: pow2_diff pow2_def [of 1])
  have half: "pow2 (k - 53) \<le> x / 2" using pow2_mono [of "k - 53" "k - 1"] kb(1) hk by simp
  then have y: "0 < y" using small x(1) by linarith
  have uk: "k - 52 \<le> u" by (simp add: u_def)
  have same: ?thesis if "uexp y = u"
  proof (rule rnd_near_grid [of x n])
    have "pow2 (k - 53) \<le> pow2 (u - 1)" by (rule pow2_mono) (use uk in simp)
    then show "\<bar>y - x\<bar> < pow2 (uexp y - 1)" unfolding that using small by linarith
  qed (use n that in simp)
  have k74: "- 1074 \<le> k"
  proof -
    have "pow2 (- 1074) \<le> pow2 u" by (rule pow2_mono) (simp add: u_def)
    moreover have "of_int 0 * pow2 u < of_int n * pow2 u" using x(1) n by simp
    from grid_gap [OF this] have "pow2 u \<le> x" by (simp add: n)
    ultimately have "pow2 (- 1074) < pow2 (k + 1)" using kb(2) by linarith
    then show ?thesis by simp
  qed
  have above: False if "k < ilog2 y"
  proof -
    have "pow2 (k + 1) \<le> y" using pow2_mono [of "k + 1" "ilog2 y"] ilog2_bounds [OF y] that by linarith
    moreover obtain m where m: "pow2 (k + 1) = of_int m * pow2 u"
    proof -
      have "0 \<le> k + 1 - u" using k74 by (simp add: u_def)
      then obtain m where "pow2 (k + 1 - u) = of_int m" using pow2_int_exists by blast
      then show ?thesis using that [of m] by (simp add: pow2_diff field_simps)
    qed
    have "pow2 u \<le> pow2 (k + 1) - x" using grid_gap [of n u m] kb(2) m n by simp
    ultimately have "pow2 u \<le> y - x" by linarith
    then show False using small pow2_mono [OF uk] pow2_mono [of "k - 53" "k - 52"] by linarith
  qed
  show ?thesis
  proof (cases "uexp y = u")
    case False
    then have ky: "ilog2 y < k" using above y by (cases "ilog2 y = k") (force simp: uexp_def u_def)+
    have u: "u = k - 52" "- 1074 < u" using False ky y by (auto simp: uexp_def u_def)
    have yk: "y < pow2 k" using pow2_mono [of "ilog2 y + 1" k] ilog2_bounds [OF y] ky by linarith
    have "x = pow2 k"
    proof (rule ccontr)
      assume "x \<noteq> pow2 k"
      moreover have pk: "pow2 k = of_int (2 ^ 52) * pow2 u" by (simp add: u pow2_diff) (simp add: pow2_def)
      ultimately have "of_int (2 ^ 52) * pow2 u < of_int n * pow2 u" using kb(1) n by simp
      from grid_gap [OF this] have "pow2 u \<le> x - pow2 k" by (simp add: n pk)
      then have "pow2 (k - 52) \<le> x - pow2 k" by (simp add: u(1))
      then show False using small yk pow2_mono [of "k - 53" "k - 52"] by linarith
    qed
    moreover have "pow2 (k - 1) \<le> y"
      using small half kb(1) hk by linarith
    then have "ilog2 y = k - 1" by (rule ilog2_unique) (use yk in simp)
    then have uy: "uexp y = k - 53" using u y by (simp add: uexp_def)
    have "\<bar>y - x\<bar> < pow2 (uexp y - 1)"
      using near calculation p54 [of k] by (simp add: uy)
    moreover have "x = of_int (2 ^ 53) * pow2 (uexp y)"
      using \<open>x = pow2 k\<close> by (simp add: uy pow2_diff) (simp add: pow2_def)
    ultimately show ?thesis using rnd_near_grid by blast
  qed (rule same)
qed

lemma dec_digits_value:
  assumes "0 < x" and "- 1074 \<le> ilog2 x" and "ilog2 x \<le> 1023" and "dec_digits 17 x = (m, e)"
  shows "\<bar>of_int m * pow10 e - x\<bar> < x / 2 ^ 54"
proof -
  define d where "d = dec_exp x - 16"
  define r where "r = rne (x / pow10 d)"
  have t: "(10 :: rat) ^ 16 * pow10 d \<le> x"
    using dec_exp_bounds(1) [OF assms(1-3)] pow10_add [of d 16] by (simp add: d_def pow10_def [of 16])
  have v: "of_int m * pow10 e = of_int r * pow10 d"
  proof (cases "r = 10 ^ 17")
    case True
    then have "m = 10 ^ 16" "e = d + 1" using assms(4) by (simp_all add: dec_digits_def Let_def r_def d_def)
    then show ?thesis by (simp add: True pow10_add) (simp add: pow10_def)
  next
    case False
    then have "m = r" "e = d" using assms(4) by (auto simp: dec_digits_def Let_def r_def d_def)
    then show ?thesis by simp
  qed
  have "\<bar>of_int r - x / pow10 d\<bar> \<le> 1 / 2" using rne_bounds(1,2) [of "x / pow10 d"] unfolding r_def by linarith
  then have "\<bar>of_int r - x / pow10 d\<bar> * pow10 d \<le> 1 / 2 * pow10 d" by (rule mult_right_mono) simp
  moreover have "\<bar>of_int r - x / pow10 d\<bar> * pow10 d = \<bar>of_int r * pow10 d - x\<bar>"
  proof -
    have "\<bar>of_int r - x / pow10 d\<bar> * pow10 d = \<bar>(of_int r - x / pow10 d) * pow10 d\<bar>" by (simp add: abs_mult)
    moreover have "(of_int r - x / pow10 d) * pow10 d = of_int r * pow10 d - x" by (simp add: left_diff_distrib)
    ultimately show ?thesis by simp
  qed
  ultimately have "\<bar>of_int r * pow10 d - x\<bar> \<le> pow10 d / 2" by simp
  moreover have "pow10 d / 2 < x / 2 ^ 54" using t assms(1) by (simp add: field_simps)
  ultimately show ?thesis by (simp add: v)
qed

lemma shortest_reads_back:
  assumes "\<And>m e. dec_digits (n + k) x = (m, e) \<Longrightarrow> rnd (of_int m * pow10 e) = x"
  shows "case shortest k n x of (m, e) \<Rightarrow> rnd (of_int m * pow10 e) = x"
  using assms
proof (induction k arbitrary: n)
  case 0
  then show ?case by (auto split: prod.split)
next
  case (Suc k)
  obtain m e where d: "dec_digits n x = (m, e)" by (cases "dec_digits n x")
  show ?case
  proof (cases "rnd (of_int m * pow10 e) = x")
    case True
    then show ?thesis by (simp add: d)
  next
    case False
    then show ?thesis using Suc.IH [of "Suc n"] Suc.prems by (simp add: d)
  qed
qed

text \<open>The decimal \<open>Decimal(str(x))\<close> of a float.\<close>

definition decimal_value :: "rat \<Rightarrow> rat" where
  "decimal_value x = (if x = 0 then 0 else case shortest 16 1 \<bar>x\<bar> of (m, e) \<Rightarrow> sgn x * (of_int m * pow10 e))"

lemma b64_range:
  assumes "fl x = Fin x" and "x \<noteq> 0"
  shows "rnd \<bar>x\<bar> = \<bar>x\<bar>" and "- 1074 \<le> ilog2 \<bar>x\<bar>" and "ilog2 \<bar>x\<bar> \<le> 1023"
proof -
  have r: "rnd x = x" "\<bar>x\<bar> < pow2 1024" using assms(1) by (cases rule: fl_cases [of x]; simp)+
  show r': "rnd \<bar>x\<bar> = \<bar>x\<bar>" using r(1) by (simp add: abs_if)
  show "ilog2 \<bar>x\<bar> \<le> 1023" using ilog2_less_iff [of "\<bar>x\<bar>" 1024] r(2) assms(2) by simp
  show "- 1074 \<le> ilog2 \<bar>x\<bar>"
  proof -
    let ?u = "uexp \<bar>x\<bar>"
    obtain n where n: "\<bar>x\<bar> = of_int n * pow2 ?u" using r' unfolding rnd_def by metis
    have "of_int 0 * pow2 ?u < of_int n * pow2 ?u" using n assms(2) by (metis mult_zero_left of_int_0 zero_less_abs_iff)
    from grid_gap [OF this] have "pow2 ?u \<le> \<bar>x\<bar>" using n by simp
    moreover have "pow2 (- 1074) \<le> pow2 ?u" by (rule pow2_mono) (simp add: uexp_def)
    moreover have "\<bar>x\<bar> < pow2 (ilog2 \<bar>x\<bar> + 1)" using ilog2_bounds [of "\<bar>x\<bar>"] assms(2) by simp
    ultimately have "pow2 (- 1074) < pow2 (ilog2 \<bar>x\<bar> + 1)" by linarith
    then show ?thesis by simp
  qed
qed

lemma decimal_value_reads_back:
  assumes "fl x = Fin x"
  shows "rnd (decimal_value x) = x"
proof (cases "x = 0")
  case False
  note b = b64_range [OF assms False]
  have p: "0 < \<bar>x\<bar>" using False by simp
  have "rnd (of_int m * pow10 e) = \<bar>x\<bar>" if "dec_digits 17 \<bar>x\<bar> = (m, e)" for m e
    by (rule rnd_near [OF p b(1) dec_digits_value [OF p b(2,3) that]])
  then have s: "case shortest 16 1 \<bar>x\<bar> of (m, e) \<Rightarrow> rnd (of_int m * pow10 e) = \<bar>x\<bar>"
    using shortest_reads_back [of 1 16 "\<bar>x\<bar>"] by simp
  obtain m e where me: "shortest 16 1 \<bar>x\<bar> = (m, e)" by (cases "shortest 16 1 \<bar>x\<bar>")
  then have r: "rnd (of_int m * pow10 e) = \<bar>x\<bar>" using s by simp
  have d: "decimal_value x = sgn x * (of_int m * pow10 e)" unfolding decimal_value_def me using False by simp
  show ?thesis
  proof (cases "0 < x")
    case True
    then show ?thesis using r by (simp add: d)
  next
    case f: False
    then have "rnd (- (of_int m * pow10 e)) = x" using r False by (simp add: rnd_minus)
    then show ?thesis using f False by (simp add: d)
  qed
qed (simp add: decimal_value_def)

lemma decimal_value_mono:
  assumes "fl x = Fin x" and "fl y = Fin y" and "x \<le> y"
  shows "decimal_value x \<le> decimal_value y"
proof (rule ccontr)
  assume "\<not> decimal_value x \<le> decimal_value y"
  then have "rnd (decimal_value y) \<le> rnd (decimal_value x)" by (intro rnd_mono) simp
  then have "y \<le> x" using decimal_value_reads_back assms(1,2) by simp
  then show False using assms(3) \<open>\<not> decimal_value x \<le> decimal_value y\<close> by simp
qed

lemma decimal_value_nonneg: "fl x = Fin x \<Longrightarrow> 0 \<le> x \<Longrightarrow> 0 \<le> decimal_value x"
  using decimal_value_mono [of 0 x] by (simp add: decimal_value_def)

section \<open>Numbers of generated grids\<close>

definition round_half_away :: "rat \<Rightarrow> int" where
  "round_half_away x = (if 0 \<le> x then \<lfloor>x + 1 / 2\<rfloor> else - \<lfloor>- x + 1 / 2\<rfloor>)"

text \<open>\<open>clean_generated_number(value)\<close> with its twelve places: the decimal context has 28 digits, and a value too
  large to be quantised in them is taken as it is.\<close>

fun clean_generated_number :: "pyfloat \<Rightarrow> pyfloat" where
  "clean_generated_number (Fin x) =
     (let number = decimal_value x;
          n = round_half_away (number * 10 ^ 12);
          cleaned = (if \<bar>n\<bar> < 10 ^ 28 then of_int n / 10 ^ 12 else number)
      in if cleaned = 0 then Fin 0 else fl cleaned)"
| "clean_generated_number a = a"

lemma round_half_away_mono: "0 \<le> x \<Longrightarrow> x \<le> y \<Longrightarrow> round_half_away x \<le> round_half_away y"
  by (simp add: round_half_away_def floor_mono)

lemma round_half_away_nonneg: "0 \<le> x \<Longrightarrow> 0 \<le> round_half_away x"
  by (simp add: round_half_away_def)

lemma clean_mono:
  assumes "fl x = Fin x" and "fl y = Fin y" and "0 \<le> x" and "x \<le> y"
  shows "fle (clean_generated_number (Fin x)) (clean_generated_number (Fin y))"
proof -
  define c where "c = (\<lambda>x. let number = decimal_value x; n = round_half_away (number * 10 ^ 12)
    in if \<bar>n\<bar> < 10 ^ 28 then of_int n / 10 ^ 12 else number)"
  have g: "clean_generated_number (Fin z) = fl (c z)" for z by (simp add: c_def Let_def)
  define a b where "a = decimal_value x * 10 ^ 12" and "b = decimal_value y * 10 ^ 12"
  have ab: "0 \<le> a" "a \<le> b" using decimal_value_nonneg [OF assms(1,3)] decimal_value_mono [OF assms(1,2,4)] by (simp_all add: a_def b_def)
  have r: "0 \<le> round_half_away a" "round_half_away a \<le> round_half_away b" using round_half_away_nonneg round_half_away_mono ab by simp_all
  have near: "of_int (round_half_away b) - 1 / 2 \<le> b" using ab by (simp add: round_half_away_def) linarith
  have c: "c x = (if \<bar>round_half_away a\<bar> < 10 ^ 28 then of_int (round_half_away a) / 10 ^ 12 else a / 10 ^ 12)"
    "c y = (if \<bar>round_half_away b\<bar> < 10 ^ 28 then of_int (round_half_away b) / 10 ^ 12 else b / 10 ^ 12)"
    by (simp_all add: c_def Let_def a_def b_def)
  have "c x \<le> c y"
  proof (cases "round_half_away b < 10 ^ 28")
    case True
    then have "(of_int (round_half_away a) :: rat) \<le> of_int (round_half_away b)" "\<bar>round_half_away a\<bar> < 10 ^ 28" "\<bar>round_half_away b\<bar> < 10 ^ 28"
      using r by simp_all
    then show ?thesis unfolding c by (simp only: if_True divide_right_mono zero_le_power zero_le_numeral)
  next
    case False
    then have big: "\<not> \<bar>round_half_away b\<bar> < 10 ^ 28" "(10 ^ 28 :: rat) \<le> of_int (round_half_away b)" using r by simp_all
    show ?thesis
    proof (cases "round_half_away a < 10 ^ 28")
      case True
      then have "round_half_away a \<le> 10 ^ 28 - 1" by simp
      then have "(of_int (round_half_away a) :: rat) \<le> of_int (10 ^ 28 - 1)" by (simp only: of_int_le_iff)
      then have "of_int (round_half_away a) \<le> b" using near big(2) by simp
      moreover have "\<bar>round_half_away a\<bar> < 10 ^ 28" using True r(1) by simp
      ultimately show ?thesis unfolding c using big(1) by (simp only: if_True if_False divide_right_mono zero_le_power zero_le_numeral)
    next
      case a: False
      then have "\<not> \<bar>round_half_away a\<bar> < 10 ^ 28" by simp
      then show ?thesis unfolding c using big(1) ab(2) by (simp only: if_False divide_right_mono zero_le_power zero_le_numeral)
    qed
  qed
  then show ?thesis by (simp only: g fl_mono)
qed

end
