(* ===== verification/GridPlan.thy ===== *)
theory GridPlan
  imports FloatRepr
begin

text \<open>
  The plan of the grid robot before it trades: its configuration (\<open>services/grid/config.py\<close>), the boundary lines
  and cells (\<open>services/grid/levels.py\<close>) and the checks before a start (\<open>services/grid/validator.py\<close>).  The power
  function of the geometric spacing belongs to the C library and is a parameter; the texts of the verdicts
  are constructors with the numbers they print.
\<close>

section \<open>Lines and cells\<close>

record grid_cell =
  gc_index :: nat
  gc_lower :: pyfloat
  gc_upper :: pyfloat

definition line_at :: "pyfloat \<Rightarrow> pyfloat \<Rightarrow> nat \<Rightarrow> pyfloat result" where
  "line_at lo step i = bindE (float_of_int (int i)) (\<lambda>x. Inr (clean_generated_number (fadd lo (fmul step x))))"

definition geometric_line_at :: "(pyfloat \<Rightarrow> pyfloat \<Rightarrow> pyfloat result) \<Rightarrow> pyfloat \<Rightarrow> pyfloat \<Rightarrow> nat \<Rightarrow> pyfloat result" where
  "geometric_line_at fpow lo ratio i =
     bindE (float_of_int (int i)) (\<lambda>x. bindE (fpow ratio x) (\<lambda>p. Inr (clean_generated_number (fmul lo p))))"

definition pin_ends :: "pyfloat \<Rightarrow> pyfloat \<Rightarrow> pyfloat list \<Rightarrow> pyfloat list" where
  "pin_ends lo hi lines = lines[0 := clean_generated_number lo, length lines - 1 := clean_generated_number hi]"

definition generate_levels ::
  "(pyfloat \<Rightarrow> pyfloat \<Rightarrow> pyfloat result) \<Rightarrow> pyfloat \<Rightarrow> pyfloat \<Rightarrow> int \<Rightarrow> string \<Rightarrow> pyfloat list result" where
  "generate_levels fpow lo hi grid_count mode =
     (let n = nat (max 2 (if grid_count = 0 then 2 else grid_count)) in
      if fle hi lo then Inr []
      else if lower mode = ''geometric'' \<and> flt (Fin 0) lo \<and> flt lo hi
      then bindE (float_of_int (int n - 1)) (\<lambda>m. bindE (fdiv hi lo) (\<lambda>b. bindE (fdiv (Fin 1) m) (\<lambda>e. bindE (fpow b e) (\<lambda>ratio.
        bindE (mapE (geometric_line_at fpow lo ratio) [0..<n]) (\<lambda>lines. Inr (pin_ends lo hi lines))))))
      else bindE (float_of_int (int n - 1)) (\<lambda>m. bindE (fdiv (fsub hi lo) m) (\<lambda>step.
        bindE (mapE (line_at lo step) [0..<n]) (\<lambda>lines. Inr (pin_ends lo hi lines)))))"

definition cell_at :: "pyfloat list \<Rightarrow> nat \<Rightarrow> grid_cell" where
  "cell_at lines i = \<lparr>gc_index = i, gc_lower = lines ! i, gc_upper = lines ! (i + 1)\<rparr>"

definition generate_cells :: "pyfloat list \<Rightarrow> grid_cell list" where
  "generate_cells lines =
     (if length lines < 2 then []
      else map (cell_at lines) (filter (\<lambda>i. flt (lines ! i) (lines ! (i + 1))) [0..<length lines - 1]))"

section \<open>Configuration\<close>

text \<open>\<open>_float\<close>, \<open>_int\<close> and \<open>_pct\<close>: what cannot be read counts as the default; a value too large for a
  conversion is not caught.\<close>

definition cfg_float :: "pyval \<Rightarrow> pyfloat \<Rightarrow> pyfloat result" where
  "cfg_float v dflt = (case to_float v of Inl OverflowError \<Rightarrow> Inl OverflowError | Inl _ \<Rightarrow> Inr dflt | Inr x \<Rightarrow> Inr x)"

definition cfg_int :: "pyval \<Rightarrow> int \<Rightarrow> int result" where
  "cfg_int v dflt = (case to_int v of Inl OverflowError \<Rightarrow> Inl OverflowError | Inl _ \<Rightarrow> Inr dflt | Inr n \<Rightarrow> Inr n)"

definition cfg_pct :: "pyval \<Rightarrow> pyfloat \<Rightarrow> pyfloat result" where
  "cfg_pct v dflt = bindE (cfg_float v dflt) (\<lambda>x. if flt (Fin 1) x then fdiv x (Fin 100) else Inr (pymax (Fin 0) x))"

definition either_key :: "pydict \<Rightarrow> string \<Rightarrow> string \<Rightarrow> pyval" where
  "either_key bp a b = p_or (pget bp a) (pget bp b)"

definition known_word :: "string \<Rightarrow> string list \<Rightarrow> string" where
  "known_word w ws = (if w \<in> set ws then w else hd ws)"

definition sanitize_grid_bot_params :: "pydict \<Rightarrow> pydict" where
  "sanitize_grid_bot_params bp =
     (if word_of [pget bp ''gridDirection'', pget bp ''grid_direction''] ''long'' = ''neutral''
      then dpop (dset bp ''initialPositionPct'' (PInt 0)) ''initial_position_pct'' else bp)"

record grid_config =
  gb_upper :: pyfloat
  gb_lower :: pyfloat
  gb_count :: int
  gb_amount :: pyfloat
  gb_mode :: string
  gb_direction :: string
  gb_initial_pct :: pyfloat
  gb_order_mode :: string
  gb_boundary :: string
  gb_leverage :: pyfloat
  gb_market_type :: string
  gb_margin_mode :: string
  gb_count_unit :: string
  gb_max_orders :: int
  gb_min_spread :: pyfloat
  gb_frequency :: int
  gb_amount_pct :: pyfloat
  gb_cell_budgets :: "pyfloat list"
  gb_cell_roles :: "string list"

definition cell_values :: "pydict \<Rightarrow> string \<Rightarrow> string \<Rightarrow> pyval list" where
  "cell_values bp a b = (case either_key bp a b of PList vs \<Rightarrow> vs | _ \<Rightarrow> [])"

definition from_trading_config :: "pyval \<Rightarrow> grid_config result" where
  "from_trading_config trading_config =
     (let tc = mapping_of trading_config;
          bp = sanitize_grid_bot_params (mapping_of (pget tc ''bot_params''));
          mt = word_of [pget tc ''market_type''] ''swap''
      in bindE (cfg_float (either_key bp ''upperPrice'' ''upper_price'') (Fin 0)) (\<lambda>upper_price.
         bindE (cfg_float (either_key bp ''lowerPrice'' ''lower_price'') (Fin 0)) (\<lambda>lower_price.
         bindE (mapE (\<lambda>v. cfg_pct v (Fin 0)) (cell_values bp ''cellBudgetPcts'' ''cell_budget_pcts'')) (\<lambda>budgets.
         bindE (cfg_int (either_key bp ''gridCount'' ''grid_count'') 10) (\<lambda>count.
         bindE (cfg_float (either_key bp ''amountPerGrid'' ''amount_per_grid'') (Fin 0)) (\<lambda>amount.
         bindE (cfg_pct (either_key bp ''amountPerGridPct'' ''amount_per_grid_pct'') (Fin 0)) (\<lambda>amount_pct.
         bindE (cfg_pct (either_key bp ''initialPositionPct'' ''initial_position_pct'') (Fin 0)) (\<lambda>initial_pct.
         bindE (cfg_float (pget tc ''leverage'') (Fin 1)) (\<lambda>leverage.
         bindE (cfg_int (either_key bp ''maxOpenOrders'' ''max_open_orders'') 999999) (\<lambda>max_orders.
         bindE (cfg_pct (either_key bp ''minSpreadBetweenOrders'' ''min_spread_between_orders'') (Fin 0)) (\<lambda>min_spread.
         bindE (cfg_int (either_key bp ''orderFrequency'' ''order_frequency'') 0) (\<lambda>frequency.
           Inr \<lparr>gb_upper = upper_price, gb_lower = lower_price, gb_count = max 2 count, gb_amount = amount,
                gb_mode = word_of [pget bp ''gridMode'', pget bp ''grid_mode''] ''arithmetic'',
                gb_direction = known_word (word_of [pget bp ''gridDirection'', pget bp ''grid_direction''] ''long'') [''long'', ''short'', ''neutral''],
                gb_initial_pct = initial_pct,
                gb_order_mode = word_of [pget bp ''orderMode'', pget bp ''order_mode'', pget tc ''order_mode''] ''maker'',
                gb_boundary = known_word (word_of [pget bp ''boundaryAction'', pget bp ''boundary_action''] ''pause'') [''pause'', ''stop_loss'', ''hold''],
                gb_leverage = pymax (Fin 1) leverage,
                gb_market_type = (if mt \<in> {''futures'', ''future'', ''perp'', ''perpetual''} then ''swap'' else mt),
                gb_margin_mode = word_of [pget tc ''margin_mode'', pget tc ''marginMode''] ''cross'',
                gb_count_unit = known_word (word_of [pget bp ''gridCountUnit'', pget bp ''grid_count_unit''] ''lines'') [''lines'', ''cells''],
                gb_max_orders = max 1 max_orders, gb_min_spread = min_spread, gb_frequency = max 0 frequency, gb_amount_pct = amount_pct,
                gb_cell_budgets = budgets,
                gb_cell_roles = map (\<lambda>v. lower (strip (str_or v []))) (cell_values bp ''cellRoles'' ''cell_roles'')\<rparr>))))))))))))"

definition grid_line_count :: "grid_config \<Rightarrow> int" where
  "grid_line_count cfg = (if gb_count_unit cfg = ''cells'' then gb_count cfg + 1 else gb_count cfg)"

definition tradable_cell_count :: "grid_config \<Rightarrow> int" where
  "tradable_cell_count cfg = max 1 (grid_line_count cfg - 1)"

definition effective_bounds :: "grid_config \<Rightarrow> pyval \<Rightarrow> (pyfloat \<times> pyfloat) result" where
  "effective_bounds cfg runtime_params =
     (let rp = mapping_of runtime_params in
      bindE (cfg_float (pget rp ''upperPrice'') (gb_upper cfg)) (\<lambda>u.
      bindE (cfg_float (pget rp ''lowerPrice'') (gb_lower cfg)) (\<lambda>l. Inr (u, l))))"

section \<open>Checks before a start\<close>

definition MIN_GRID_FEE_COVERAGE_MULTIPLIER :: pyfloat where
  "MIN_GRID_FEE_COVERAGE_MULTIPLIER = Fin (5 / 4)"

datatype grid_refusal =
    UpperNotAboveLower
  | AmountNotPositive
  | TooFewCells
  | UnsupportedDirection string
  | InitialPositionOutOfRange
  | SpacingBelowFees pyfloat pyfloat pyfloat pyfloat pyfloat
  | SpacingBelowMinimum pyfloat pyfloat pyfloat pyfloat

definition fee_rate_pct :: "pyfloat \<Rightarrow> pyfloat" where
  "fee_rate_pct fee_rate = fmul (pymax (Fin 0) (f_or fee_rate (Fin 0))) (Fin 100)"

definition real_cell :: "grid_cell \<Rightarrow> bool" where
  "real_cell c \<longleftrightarrow> \<not> fle (f_or (gc_lower c) (Fin 0)) (Fin 0) \<and> \<not> fle (f_or (gc_upper c) (Fin 0)) (f_or (gc_lower c) (Fin 0))"

definition required_gain :: "pyfloat \<Rightarrow> grid_cell \<Rightarrow> pyfloat" where
  "required_gain fee_rate c =
     fmul (fmul (fadd (f_or (gc_lower c) (Fin 0)) (f_or (gc_upper c) (Fin 0))) (pymax (Fin 0) (f_or fee_rate (Fin 0)))) MIN_GRID_FEE_COVERAGE_MULTIPLIER"

definition gross_gain :: "grid_cell \<Rightarrow> pyfloat" where
  "gross_gain c = fsub (f_or (gc_upper c) (Fin 0)) (f_or (gc_lower c) (Fin 0))"

definition fee_margin :: "pyfloat \<Rightarrow> grid_cell \<Rightarrow> pyfloat" where
  "fee_margin fee_rate c = fsub (gross_gain c) (required_gain fee_rate c)"

fun worst_cell :: "pyfloat \<Rightarrow> grid_cell list \<Rightarrow> (pyfloat \<times> grid_cell) option \<Rightarrow> (pyfloat \<times> grid_cell) option" where
  "worst_cell fee_rate [] worst = worst"
| "worst_cell fee_rate (c # cs) worst =
     (if \<not> real_cell c then worst_cell fee_rate cs worst
      else worst_cell fee_rate cs (case worst of
          None \<Rightarrow> Some (fee_margin fee_rate c, c)
        | Some w \<Rightarrow> if flt (fee_margin fee_rate c) (fst w) then Some (fee_margin fee_rate c, c) else worst))"

definition percent_of :: "pyfloat \<Rightarrow> pyfloat \<Rightarrow> pyfloat result" where
  "percent_of a lo = (if flt (Fin 0) lo then bindE (fdiv a lo) (\<lambda>q. Inr (fmul q (Fin 100))) else Inr (Fin 0))"

fun narrow_cell :: "pyfloat \<Rightarrow> grid_cell list \<Rightarrow> grid_refusal option result" where
  "narrow_cell min_spread [] = Inr None"
| "narrow_cell min_spread (c # cs) =
     (if \<not> real_cell c then narrow_cell min_spread cs
      else bindE (fdiv (gross_gain c) (f_or (gc_lower c) (Fin 0))) (\<lambda>spread.
        if flt spread min_spread then Inr (Some (SpacingBelowMinimum (gc_lower c) (gc_upper c) spread min_spread))
        else narrow_cell min_spread cs))"

definition effective_amount :: "grid_config \<Rightarrow> pyfloat \<Rightarrow> pyfloat" where
  "effective_amount cfg initial_capital =
     (if flt (Fin 0) (gb_amount_pct cfg) \<and> flt (Fin 0) initial_capital then fmul initial_capital (gb_amount_pct cfg)
      else f_or (gb_amount cfg) (Fin 0))"

text \<open>The two checks of the spacing, and the warning about a small initial position.\<close>

definition check_spacing :: "grid_config \<Rightarrow> pyfloat \<Rightarrow> grid_cell list \<Rightarrow> grid_refusal option result" where
  "check_spacing cfg fee_rate cells =
     (case worst_cell fee_rate cells None of
        Some (margin, c) \<Rightarrow>
          if fle margin (Fin 0)
          then bindE (percent_of (gross_gain c) (gc_lower c)) (\<lambda>gross_pct.
               bindE (percent_of (required_gain fee_rate c) (gc_lower c)) (\<lambda>required_pct.
                 Inr (Some (SpacingBelowFees (gc_lower c) (gc_upper c) gross_pct required_pct (fee_rate_pct fee_rate)))))
          else if flt (Fin 0) (f_or (gb_min_spread cfg) (Fin 0)) then narrow_cell (f_or (gb_min_spread cfg) (Fin 0)) cells
          else Inr None
      | None \<Rightarrow>
          if flt (Fin 0) (f_or (gb_min_spread cfg) (Fin 0)) then narrow_cell (f_or (gb_min_spread cfg) (Fin 0)) cells
          else Inr None)"

definition position_warnings :: "grid_config \<Rightarrow> pyfloat \<Rightarrow> (pyfloat \<times> pyfloat) list" where
  "position_warnings cfg initial_capital =
     (let amount = effective_amount cfg initial_capital; init_usdt = fmul initial_capital (gb_initial_pct cfg) in
      if flt (Fin 0) initial_capital \<and> flt (Fin 0) (gb_initial_pct cfg) \<and> flt init_usdt (fmul amount (Fin (1 / 2)))
      then [(init_usdt, amount)] else [])"

definition validate_grid_config ::
  "(pyfloat \<Rightarrow> pyfloat \<Rightarrow> pyfloat result) \<Rightarrow> grid_config \<Rightarrow> pyfloat \<Rightarrow> pyfloat \<Rightarrow> (grid_refusal option \<times> (pyfloat \<times> pyfloat) list) result" where
  "validate_grid_config fpow cfg initial_capital fee_rate =
     (if fle (gb_upper cfg) (gb_lower cfg) then Inr (Some UpperNotAboveLower, [])
      else if fle (effective_amount cfg initial_capital) (Fin 0) then Inr (Some AmountNotPositive, [])
      else bindE (generate_levels fpow (gb_lower cfg) (gb_upper cfg) (grid_line_count cfg) (gb_mode cfg)) (\<lambda>lines.
        let cells = generate_cells lines in
        if cells = [] then Inr (Some TooFewCells, [])
        else if gb_direction cfg \<notin> {''long'', ''short'', ''neutral''} then Inr (Some (UnsupportedDirection (gb_direction cfg)), [])
        else if flt (gb_initial_pct cfg) (Fin 0) \<or> flt (Fin 1) (gb_initial_pct cfg) then Inr (Some InitialPositionOutOfRange, [])
        else bindE (check_spacing cfg fee_rate cells) (\<lambda>refusal.
          Inr (refusal, if refusal = None then position_warnings cfg initial_capital else []))))"

definition validate_for_executor ::
  "(pyfloat \<Rightarrow> pyfloat \<Rightarrow> pyfloat result) \<Rightarrow> pyval \<Rightarrow> pyfloat \<Rightarrow> grid_refusal option result" where
  "validate_for_executor fpow trading_config initial_capital =
     bindE (from_trading_config trading_config) (\<lambda>cfg.
     bindE (validate_grid_config fpow cfg initial_capital (fl (1 / 1000))) (\<lambda>verdict. Inr (fst verdict)))"

section \<open>The lines of an arithmetic grid\<close>

lemma fle_zero_fmul: "fle (Fin 0) a \<Longrightarrow> fle (Fin 0) b \<Longrightarrow> a \<noteq> PInf \<Longrightarrow> b \<noteq> PInf \<Longrightarrow> fle (Fin 0) (fmul a b)"
  by (cases a; cases b) (auto intro: fl_nonneg)

lemma fadd_mono: "fle a b \<Longrightarrow> fle (fadd (Fin x) a) (fadd (Fin x) b)"
  by (cases a; cases b) (auto intro: fl_mono)

lemma fadd_ge: "fl x = Fin x \<Longrightarrow> fle (Fin 0) a \<Longrightarrow> fle (Fin x) (fadd (Fin x) a)"
  using fadd_mono [of "Fin 0" a x] by simp

lemma clean_fle:
  assumes "fle a b" and "fle (Fin 0) a" and "is_b64 a" and "is_b64 b"
  shows "fle (clean_generated_number a) (clean_generated_number b)"
proof (cases b)
  case (Fin y)
  then obtain x where x: "a = Fin x" using assms(1,2) by (cases a) auto
  then show ?thesis using clean_mono [of x y] assms Fin by (simp del: clean_generated_number.simps)
next
  case PInf
  have "clean_generated_number a \<noteq> NaN" using assms(2) by (cases a) (simp_all add: Let_def)
  then show ?thesis using PInf by simp
qed (use assms(1,2) in \<open>auto dest: fle_trans\<close>)

lemma small_float_of_int: "\<bar>n\<bar> < 2 ^ 53 \<Longrightarrow> float_of_int n = Inr (Fin (of_int n))"
  by (simp add: float_of_int_def fl_small_int)

text \<open>The bounds of a grid that is generated, its step, and its lines as a function of their number.\<close>

definition grid_bounds :: "rat \<Rightarrow> rat \<Rightarrow> nat \<Rightarrow> bool" where
  "grid_bounds lo hi n \<longleftrightarrow> fl lo = Fin lo \<and> fl hi = Fin hi \<and> 0 \<le> lo \<and> lo < hi \<and> 2 \<le> n \<and> n < 2 ^ 53"

definition grid_step :: "rat \<Rightarrow> rat \<Rightarrow> nat \<Rightarrow> pyfloat" where
  "grid_step lo hi n = fquot (fsub (Fin hi) (Fin lo)) (Fin (of_nat n - 1))"

definition raw_line :: "rat \<Rightarrow> rat \<Rightarrow> nat \<Rightarrow> nat \<Rightarrow> pyfloat" where
  "raw_line lo hi n i = fadd (Fin lo) (fmul (grid_step lo hi n) (Fin (of_nat i)))"

lemma grid_step_finite:
  assumes "grid_bounds lo hi n"
  shows "\<exists>s. grid_step lo hi n = Fin s \<and> 0 \<le> s"
proof -
  have b: "fl hi = Fin hi" "0 \<le> lo" "lo < hi" "2 \<le> n" using assms by (simp_all add: grid_bounds_def)
  have d: "fle (Fin 0) (fl (hi - lo))" "fle (fl (hi - lo)) (Fin hi)" using b(2,3) fl_nonneg fl_le_b64 [OF b(1)] by simp_all
  then obtain w where w: "fl (hi - lo) = Fin w" "0 \<le> w" "fl w = Fin w" by (cases "fl (hi - lo)") (auto simp: fl_fl)
  have c: "1 \<le> (of_nat n - 1 :: rat)" using b(4) by (simp add: of_nat_diff)
  have "w / (of_nat n - 1) \<le> w" using mult_left_mono [OF c w(2)] c by (simp add: divide_le_eq)
  then have "fle (fl (w / (of_nat n - 1))) (Fin w)" by (rule fl_le_b64 [OF w(3)])
  moreover have "fle (Fin 0) (fl (w / (of_nat n - 1)))" by (rule fl_nonneg) (use w(2) c in simp)
  ultimately show ?thesis using w(1) by (cases "fl (w / (of_nat n - 1))") (auto simp: grid_step_def fsub_Fin)
qed

lemma raw_line_mono:
  assumes "grid_bounds lo hi n" and "i \<le> j"
  shows "fle (raw_line lo hi n i) (raw_line lo hi n j)"
proof -
  obtain s where s: "grid_step lo hi n = Fin s" "0 \<le> s" using grid_step_finite [OF assms(1)] by blast
  have "s * of_nat i \<le> s * of_nat j" using s(2) assms(2) by (simp add: mult_left_mono)
  then show ?thesis unfolding raw_line_def s(1) by (intro fadd_mono) (simp add: fl_mono)
qed

lemma raw_line_0: "grid_bounds lo hi n \<Longrightarrow> raw_line lo hi n 0 = Fin lo"
  using grid_step_finite by (fastforce simp: raw_line_def grid_bounds_def)

lemma raw_line_nonneg: "grid_bounds lo hi n \<Longrightarrow> fle (Fin 0) (raw_line lo hi n i)"
  using raw_line_mono [of lo hi n 0 i] fle_trans [of "Fin 0" "Fin lo" "raw_line lo hi n i"] by (simp add: raw_line_0 grid_bounds_def)

lemma line_mono:
  "grid_bounds lo hi n \<Longrightarrow> i \<le> j \<Longrightarrow>
     fle (clean_generated_number (raw_line lo hi n i)) (clean_generated_number (raw_line lo hi n j))"
  by (intro clean_fle raw_line_mono raw_line_nonneg) (simp_all add: raw_line_def)

lemma lines_of:
  assumes "grid_bounds lo hi n"
  shows "mapE (line_at (Fin lo) (grid_step lo hi n)) [0..<n] = Inr (map (\<lambda>i. clean_generated_number (raw_line lo hi n i)) [0..<n])"
proof -
  have "line_at (Fin lo) (grid_step lo hi n) i = Inr (clean_generated_number (raw_line lo hi n i))" if "i < n" for i
  proof -
    have "\<bar>int i\<bar> < 2 ^ 53" using that assms by (simp add: grid_bounds_def)
    then show ?thesis by (simp add: line_at_def small_float_of_int raw_line_def)
  qed
  then show ?thesis unfolding mapE_Inr_iff by (simp add: list_all2_conv_all_nth)
qed

lemma arithmetic_levels:
  assumes "grid_bounds lo hi n" and "n = nat (max 2 (if count = 0 then 2 else count))" and "lower mode \<noteq> ''geometric''"
  shows "generate_levels fpow (Fin lo) (Fin hi) count mode =
    Inr (pin_ends (Fin lo) (Fin hi) (map (\<lambda>i. clean_generated_number (raw_line lo hi n i)) [0..<n]))"
proof -
  have b: "lo < hi" "2 \<le> n" "n < 2 ^ 53" using assms(1) by (simp_all add: grid_bounds_def)
  have "float_of_int (int n - 1) = Inr (Fin (of_nat n - 1))"
    using small_float_of_int [of "int n - 1"] b(2,3) by (simp add: of_nat_diff)
  moreover have "fdiv (fsub (Fin hi) (Fin lo)) (Fin (of_nat n - 1)) = Inr (grid_step lo hi n)"
    using b(2) by (simp add: fdiv_def grid_step_def)
  ultimately show ?thesis
    using b(1) assms(3) lines_of [OF assms(1)] by (simp add: generate_levels_def Let_def assms(2) [symmetric])
qed

text \<open>
  C37. The lines of an arithmetic grid are as many as asked for, start at the lower and end at
  the upper bound, and do not decrease before the last one, whatever the roundings of the step, the sums and
  the decimal cleaning; so the cells follow one another without overlap, each with a lower line below its upper
  line.
\<close>

theorem grid_cells_ordered:
  assumes "grid_bounds lo hi n" and "n = nat (max 2 (if count = 0 then 2 else count))" and "lower mode \<noteq> ''geometric''"
  shows "\<exists>lines. generate_levels fpow (Fin lo) (Fin hi) count mode = Inr lines
    \<and> length lines = n \<and> hd lines = clean_generated_number (Fin lo) \<and> last lines = clean_generated_number (Fin hi)
    \<and> sorted_wrt fle (butlast lines)
    \<and> sorted_wrt (\<lambda>c d. fle (gc_upper c) (gc_lower d)) (generate_cells lines)
    \<and> (\<forall>c \<in> set (generate_cells lines). flt (gc_lower c) (gc_upper c) \<and> gc_lower c = lines ! gc_index c \<and> gc_upper c = lines ! (gc_index c + 1))"
proof -
  define raw where "raw = map (\<lambda>i. clean_generated_number (raw_line lo hi n i)) [0..<n]"
  define lines where "lines = pin_ends (Fin lo) (Fin hi) raw"
  have n: "2 \<le> n" using assms(1) by (simp add: grid_bounds_def)
  have len: "length lines = n" by (simp add: lines_def pin_ends_def raw_def)
  have at: "lines ! i = clean_generated_number (raw_line lo hi n i)" if "i < n - 1" for i
    using that raw_line_0 [OF assms(1)] by (auto simp: lines_def pin_ends_def raw_def nth_list_update)
  have mono: "fle (lines ! i) (lines ! j)" if "i \<le> j" "j < n - 1" for i j
    using at [of i] at [of j] line_mono [OF assms(1) that(1)] that by simp
  have ends: "hd lines = clean_generated_number (Fin lo)" "last lines = clean_generated_number (Fin hi)"
    using n len by (simp_all add: hd_conv_nth last_conv_nth lines_def pin_ends_def raw_def nth_list_update)
  have s1: "sorted_wrt fle (butlast lines)"
    using mono len by (simp add: sorted_wrt_iff_nth_less nth_butlast)
  have s2: "sorted_wrt (\<lambda>c d. fle (gc_upper c) (gc_lower d)) (generate_cells lines)"
  proof -
    have "sorted_wrt (\<lambda>i j. fle (lines ! (i + 1)) (lines ! j)) (filter (\<lambda>i. flt (lines ! i) (lines ! (i + 1))) [0..<n - 1])"
      by (rule sorted_wrt_filter) (simp add: sorted_wrt_iff_nth_less mono)
    then show ?thesis using n by (simp add: generate_cells_def len sorted_wrt_map cell_at_def)
  qed
  have "generate_levels fpow (Fin lo) (Fin hi) count mode = Inr lines"
    using arithmetic_levels [OF assms] by (simp add: lines_def raw_def)
  then show ?thesis using len ends s1 s2 by (intro exI [of _ lines]) (auto simp: generate_cells_def cell_at_def)
qed

section \<open>Accepted grids\<close>

lemma f_or_zero: "f_or a (Fin 0) = a"
  by (cases a) (auto simp: f_or_def ftruthy_def)

lemma worst_cell_falls:
  assumes "\<forall>c \<in> set cells. real_cell c \<longrightarrow> fee_margin fee c \<noteq> NaN" and "fst w \<noteq> NaN"
  shows "\<exists>w'. worst_cell fee cells (Some w) = Some w' \<and> fle (fst w') (fst w)"
  using assms
proof (induction cells arbitrary: w)
  case Nil
  then show ?case by (simp add: fle_refl_iff)
next
  case (Cons a cells)
  then have ok: "\<forall>c \<in> set cells. real_cell c \<longrightarrow> fee_margin fee c \<noteq> NaN" by simp
  show ?case
  proof (cases "real_cell a \<and> flt (fee_margin fee a) (fst w)")
    case True
    then obtain w' where "worst_cell fee cells (Some (fee_margin fee a, a)) = Some w'" "fle (fst w') (fee_margin fee a)"
      using Cons.IH [OF ok, of "(fee_margin fee a, a)"] Cons.prems(1) by auto
    then show ?thesis using True flt_imp_fle fle_trans by auto
  next
    case False
    then show ?thesis using Cons.IH [OF ok Cons.prems(2)] by auto
  qed
qed

lemma worst_cell_min:
  assumes "\<forall>c \<in> set cells. real_cell c \<longrightarrow> fee_margin fee c \<noteq> NaN" and "pred_option (\<lambda>w. fst w \<noteq> NaN) worst"
    and "c \<in> set cells" and "real_cell c"
  shows "\<exists>w. worst_cell fee cells worst = Some w \<and> fle (fst w) (fee_margin fee c)"
  using assms
proof (induction cells arbitrary: worst)
  case (Cons a cells)
  then have ok: "\<forall>c \<in> set cells. real_cell c \<longrightarrow> fee_margin fee c \<noteq> NaN" by simp
  define next' where "next' = (case worst of None \<Rightarrow> Some (fee_margin fee a, a)
      | Some w \<Rightarrow> if flt (fee_margin fee a) (fst w) then Some (fee_margin fee a, a) else worst)"
  have w: "worst_cell fee (a # cells) worst = worst_cell fee cells (if real_cell a then next' else worst)"
    by (simp add: next'_def)
  have n: "pred_option (\<lambda>w. fst w \<noteq> NaN) next'" if "real_cell a"
    using that Cons.prems(1,2) by (auto simp: next'_def split: option.split)
  show ?case
  proof (cases "a = c")
    case True
    then have m: "fee_margin fee c \<noteq> NaN" "real_cell a" using Cons.prems(1,4) by simp_all
    have "\<exists>v. next' = Some v \<and> fst v \<noteq> NaN \<and> fle (fst v) (fee_margin fee c)"
      using m(1) True Cons.prems(2) by (auto simp: next'_def not_flt_iff fle_refl_iff split: option.split)
    then obtain v where v: "next' = Some v" "fst v \<noteq> NaN" "fle (fst v) (fee_margin fee c)" by blast
    then show ?thesis unfolding w using worst_cell_falls [OF ok v(2)] m(2) fle_trans by force
  next
    case False
    then show ?thesis unfolding w using Cons.IH [OF ok _ _ Cons.prems(4)] Cons.prems(2,3) n by simp
  qed
qed simp

lemma narrow_cell_none:
  "narrow_cell spread cells = Inr None \<Longrightarrow> c \<in> set cells \<Longrightarrow> real_cell c \<Longrightarrow>
     \<exists>q. fdiv (gross_gain c) (f_or (gc_lower c) (Fin 0)) = Inr q \<and> \<not> flt q spread"
  by (induction spread cells rule: narrow_cell.induct) (auto simp: bindE_Inr_iff split: if_splits)


text \<open>A concrete grid: four lines between 100 and 130.\<close>

definition demo_grid :: grid_config where
  "demo_grid =
     \<lparr>gb_upper = Fin 130, gb_lower = Fin 100, gb_count = 4, gb_amount = Fin 50, gb_mode = ''arithmetic'', gb_direction = ''long'',
      gb_initial_pct = Fin 0, gb_order_mode = ''maker'', gb_boundary = ''pause'', gb_leverage = Fin 1, gb_market_type = ''spot'',
      gb_margin_mode = ''cross'', gb_count_unit = ''lines'', gb_max_orders = 999999, gb_min_spread = Fin 0, gb_frequency = 0,
      gb_amount_pct = Fin 0, gb_cell_budgets = [], gb_cell_roles = []\<rparr>"

lemma demo_bounds: "grid_bounds 100 130 4"
  by (simp add: grid_bounds_def)

lemma demo_clean:
  "clean_generated_number (Fin 100) = Fin 100" "clean_generated_number (Fin 110) = Fin 110" "clean_generated_number (Fin 120) = Fin 120"
  "clean_generated_number (Fin 130) = Fin 130"
  by code_simp+

lemma demo_raw:
  "raw_line 100 130 4 0 = Fin 100" "raw_line 100 130 4 1 = Fin 110" "raw_line 100 130 4 2 = Fin 120" "raw_line 100 130 4 3 = Fin 130"
  by (simp_all add: raw_line_def grid_step_def fsub_Fin)

lemma demo_upt: "[0..<4] = [0, 1, 2, 3 :: nat]"
  by code_simp

lemma demo_grid_lines:
  "generate_levels fpow (gb_lower demo_grid) (gb_upper demo_grid) (grid_line_count demo_grid) (gb_mode demo_grid) =
     Inr [Fin 100, Fin 110, Fin 120, Fin 130]"
proof -
  have "lower ''arithmetic'' \<noteq> ''geometric''" by code_simp
  then have "generate_levels fpow (Fin 100) (Fin 130) 4 ''arithmetic'' =
      Inr (pin_ends (Fin 100) (Fin 130) (map (\<lambda>i. clean_generated_number (raw_line 100 130 4 i)) [0..<4]))"
    by (intro arithmetic_levels [OF demo_bounds]) simp_all
  moreover have "pin_ends (Fin 100) (Fin 130) (map (\<lambda>i. clean_generated_number (raw_line 100 130 4 i)) [0..<4]) = [Fin 100, Fin 110, Fin 120, Fin 130]"
    unfolding demo_upt pin_ends_def by (simp only: list.map demo_raw demo_clean) simp
  ultimately show ?thesis by (simp add: demo_grid_def grid_line_count_def)
qed

theorem grid_cells_ordered_witness:
  "\<exists>lines. generate_levels (\<lambda>_ _. Inl OverflowError) (Fin 100) (Fin 130) 4 ''arithmetic'' = Inr lines \<and> length lines = 4
     \<and> sorted_wrt (\<lambda>c d. fle (gc_upper c) (gc_lower d)) (generate_cells lines)"
proof -
  have "lower ''arithmetic'' \<noteq> ''geometric''" by code_simp
  then show ?thesis using grid_cells_ordered [OF demo_bounds, of 4 "''arithmetic''"] by auto
qed

lemma demo_cells:
  "generate_cells [Fin 100, Fin 110, Fin 120, Fin 130] =
     [\<lparr>gc_index = 0, gc_lower = Fin 100, gc_upper = Fin 110\<rparr>, \<lparr>gc_index = Suc 0, gc_lower = Fin 110, gc_upper = Fin 120\<rparr>,
      \<lparr>gc_index = 2, gc_lower = Fin 120, gc_upper = Fin 130\<rparr>]"
  by code_simp

text \<open>With a commission of 1/64 the margins are exact binary fractions.\<close>

lemma demo_margins:
  "fee_margin (Fin (1 / 64)) \<lparr>gc_index = 0, gc_lower = Fin 100, gc_upper = Fin 110\<rparr> = Fin (755 / 128)"
  "fee_margin (Fin (1 / 64)) \<lparr>gc_index = Suc 0, gc_lower = Fin 110, gc_upper = Fin 120\<rparr> = Fin (705 / 128)"
  "fee_margin (Fin (1 / 64)) \<lparr>gc_index = 2, gc_lower = Fin 120, gc_upper = Fin 130\<rparr> = Fin (655 / 128)"
  by code_simp+

lemma demo_accepted: "validate_grid_config fpow demo_grid (Fin 0) (Fin (1 / 64)) = Inr (None, [])"
proof -
  let ?cells = "generate_cells [Fin 100, Fin 110, Fin 120, Fin 130]"
  have "list_all real_cell ?cells" unfolding demo_cells by code_simp
  then have "check_spacing demo_grid (Fin (1 / 64)) ?cells = Inr None"
    by (simp add: demo_cells check_spacing_def demo_margins demo_grid_def f_or_zero)
  moreover have "?cells \<noteq> []" by (simp add: demo_cells)
  ultimately show ?thesis
    using demo_grid_lines [of fpow] by (simp add: validate_grid_config_def Let_def)
      (simp add: demo_grid_def effective_amount_def position_warnings_def f_or_zero)
qed


end
