(* ===== verification/VirtualFill.thy ===== *)
theory VirtualFill
  imports PyVal
begin

text \<open>
  One virtual fill of a signal-only strategy, without the tables: the fill transition, the fill prices of
  market and limit orders (\<open>services/virtual_trading.py\<close>) and the execution-cost policy
  (\<open>services/virtual_execution_costs.py\<close>, with the venue names of
  \<open>services/live_trading/capabilities.py\<close>).
\<close>

section \<open>Actions and symbols\<close>

definition ENTRY_ACTIONS :: "string list" where
  "ENTRY_ACTIONS = [''open_long'', ''add_long'', ''open_short'', ''add_short'']"

definition EXIT_ACTIONS :: "string list" where
  "EXIT_ACTIONS = [''reduce_long'', ''close_long'', ''reduce_short'', ''close_short'']"

definition buys :: "string \<Rightarrow> bool" where
  "buys action \<longleftrightarrow> lower (strip action) \<in> {''open_long'', ''add_long'', ''reduce_short'', ''close_short''}"

definition canonical_symbol :: "pyval \<Rightarrow> string" where
  "canonical_symbol value =
     (let text0 = strip (str_or value []);
          text = (if CHR '':'' \<in> set text0 then snd (split_once (CHR '':'') text0) else text0)
      in upper (takeWhile (\<lambda>c. c \<noteq> CHR ''@'') text))"

section \<open>The fill transition\<close>

record virtual_fill_transition =
  ft_quantity :: pyfloat
  ft_size :: pyfloat
  ft_entry :: pyfloat
  ft_gross :: pyfloat
  ft_status :: string

definition calculate_virtual_fill ::
  "string \<Rightarrow> pyfloat \<Rightarrow> pyfloat \<Rightarrow> pyfloat \<Rightarrow> pyfloat \<Rightarrow> virtual_fill_transition result" where
  "calculate_virtual_fill action requested_quantity fill_price current_size current_entry_price =
     (let normalized = lower (strip action);
          requested = pymax (Fin 0) (f_or requested_quantity (Fin 0));
          price = pymax (Fin 0) (f_or fill_price (Fin 0));
          size = pymax (Fin 0) (f_or current_size (Fin 0));
          entry = pymax (Fin 0) (f_or current_entry_price (Fin 0));
          refused = (\<lambda>status. \<lparr>ft_quantity = Fin 0, ft_size = size, ft_entry = entry, ft_gross = Fin 0, ft_status = status\<rparr>)
      in if normalized \<in> set ENTRY_ACTIONS then
           if fle requested (Fin 0) \<or> fle price (Fin 0) then Inr (refused ''rejected'')
           else let next_size = fadd size requested in
             bindE (fdiv (fadd (fmul size entry) (fmul requested price)) next_size) (\<lambda>next_entry.
               Inr \<lparr>ft_quantity = requested, ft_size = next_size, ft_entry = next_entry, ft_gross = Fin 0, ft_status = ''filled''\<rparr>)
         else if normalized \<in> set EXIT_ACTIONS then
           if fle size (Fin 0) \<or> fle price (Fin 0) then Inr (refused ''no_position'')
           else let quantity = (if fle requested (Fin 0) then size else pymin size requested);
                    gross = (if endswith normalized ''_short'' then fmul (fsub entry price) quantity else fmul (fsub price entry) quantity)
             in Inr \<lparr>ft_quantity = quantity, ft_size = pymax (Fin 0) (fsub size quantity), ft_entry = entry, ft_gross = gross,
                     ft_status = ''filled''\<rparr>
         else Inr (refused ''rejected''))"

section \<open>Fill prices\<close>

definition virtual_fill_price :: "string \<Rightarrow> pyfloat \<Rightarrow> pyfloat \<Rightarrow> pyfloat" where
  "virtual_fill_price action reference_price slippage_rate =
     (let multiplier = (if buys action then fadd (Fin 1) slippage_rate else fsub (Fin 1) slippage_rate)
      in pymax (Fin 0) (fmul (f_or reference_price (Fin 0)) multiplier))"

definition calculate_virtual_limit_fill_price :: "string \<Rightarrow> pyfloat \<Rightarrow> pyfloat \<Rightarrow> pyfloat \<Rightarrow> pyfloat option" where
  "calculate_virtual_limit_fill_price action limit_price market_price slippage_rate =
     (let limit_value = pymax (Fin 0) (f_or limit_price (Fin 0));
          market_value = pymax (Fin 0) (f_or market_price (Fin 0))
      in if fle limit_value (Fin 0) \<or> fle market_value (Fin 0) then None
         else if buys action then
           if flt limit_value market_value then None
           else Some (pymin limit_value (virtual_fill_price action market_value slippage_rate))
         else if flt market_value limit_value then None
         else Some (pymax limit_value (virtual_fill_price action market_value slippage_rate)))"

section \<open>Execution costs\<close>

text \<open>The venues and their aliases; none has an alias.\<close>

definition crypto_venues :: "(string \<times> string list) list" where
  "crypto_venues = [(''binance'', []), (''okx'', []), (''bitget'', []), (''bybit'', []), (''gate'', []), (''htx'', [])]"

definition canonical_exchange_id :: "string \<Rightarrow> string" where
  "canonical_exchange_id exchange_id =
     (let raw = lower (strip exchange_id) in
      if raw \<in> set (map fst crypto_venues) then raw
      else (case find (\<lambda>v. raw \<in> set (snd v)) crypto_venues of None \<Rightarrow> raw | Some v \<Rightarrow> fst v))"

definition venue_market_type :: "string \<Rightarrow> string" where
  "venue_market_type market_type =
     (let mt = lower (strip (str_default market_type ''swap'')) in
      if mt \<in> {''futures'', ''future'', ''perp'', ''perpetual''} then ''swap'' else mt)"

definition VIRTUAL_SLIPPAGE_RATE :: pyfloat where
  "VIRTUAL_SLIPPAGE_RATE = fl (5 / 10000)"

definition VIRTUAL_COMMISSION_RATE :: pyfloat where
  "VIRTUAL_COMMISSION_RATE = fl (5 / 10000)"

record cost_policy =
  cp_exchange_id :: string
  cp_market_type :: string
  cp_leverage :: pyfloat
  cp_commission_rate :: pyfloat
  cp_slippage_rate :: pyfloat
  cp_liquidity_role :: string

definition commission_for :: "cost_policy \<Rightarrow> pyfloat \<Rightarrow> pyfloat \<Rightarrow> pyfloat" where
  "commission_for cp quantity fill_price =
     fmul (fmul (pymax (Fin 0) (f_or quantity (Fin 0))) (pymax (Fin 0) (f_or fill_price (Fin 0)))) (cp_commission_rate cp)"

definition slippage_quote_for :: "cost_policy \<Rightarrow> pyfloat \<Rightarrow> pyfloat \<Rightarrow> pyfloat \<Rightarrow> pyfloat" where
  "slippage_quote_for cp quantity reference_price fill_price =
     fmul (pymax (Fin 0) (f_or quantity (Fin 0))) (fabs (fsub (f_or fill_price (Fin 0)) (f_or reference_price (Fin 0))))"

fun first_text :: "pyval list \<Rightarrow> string" where
  "first_text [] = []"
| "first_text (v # vs) = (let t = strip (str_or v []) in if t \<noteq> [] then t else first_text vs)"

text \<open>Values that are not numbers are passed over; an integer too large for a float is not caught.\<close>

fun positive_float :: "pyval list \<Rightarrow> pyfloat \<Rightarrow> pyfloat result" where
  "positive_float [] dflt = Inr dflt"
| "positive_float (v # vs) dflt =
     (case to_float v of
        Inl OverflowError \<Rightarrow> Inl OverflowError
      | Inl _ \<Rightarrow> positive_float vs dflt
      | Inr number \<Rightarrow> if flt (Fin 0) number then Inr number else positive_float vs dflt)"

definition resolve_virtual_execution_cost_policy ::
  "pydict \<Rightarrow> pydict \<Rightarrow> pydict \<Rightarrow> pydict \<Rightarrow> pydict \<Rightarrow> cost_policy result" where
  "resolve_virtual_execution_cost_policy payload order_row strategy exchange_config trading_config =
     (let sizing = mapping_of (pget payload ''sizing'');
          exchange_id = canonical_exchange_id (first_text
            [pget payload ''exchange_id'', pget order_row ''exchange_id'', pget trading_config ''exchange_id'', pget exchange_config ''exchange_id'']);
          market_type = venue_market_type (first_text
            [pget payload ''market_type'', pget order_row ''market_type'', pget strategy ''market_type'', pget trading_config ''market_type'',
             pget exchange_config ''market_type'', PStr ''spot''])
      in bindE (positive_float
            [pget payload ''leverage'', pget sizing ''leverage'', pget strategy ''leverage'', pget trading_config ''leverage'',
             pget exchange_config ''leverage''] (Fin 1)) (\<lambda>leverage.
         Inr \<lparr>cp_exchange_id = exchange_id, cp_market_type = market_type, cp_leverage = leverage,
              cp_commission_rate = VIRTUAL_COMMISSION_RATE, cp_slippage_rate = VIRTUAL_SLIPPAGE_RATE, cp_liquidity_role = ''taker''\<rparr>))"

end
