(* ===== verification/Signals.thy ===== *)
theory Signals
  imports PyVal
begin

text \<open>
  Canonical strategy signals (\<open>services/strategy_runtime/signals.py\<close>): the eight actions, what they
  say of side, position side and reduce-only, the signal record with its normalisation, and the
  fields an order intent takes from it.
\<close>

section \<open>Actions\<close>

definition CANONICAL_SIGNAL_ACTIONS :: "string list" where
  "CANONICAL_SIGNAL_ACTIONS =
     [''open_long'', ''close_long'', ''open_short'', ''close_short'', ''add_long'', ''add_short'', ''reduce_long'', ''reduce_short'']"

definition normalize_signal_action :: "pyval \<Rightarrow> string result" where
  "normalize_signal_action action =
     (let value = lower (strip (str_or action [])) in
      if value \<notin> set CANONICAL_SIGNAL_ACTIONS then Inl (ValueError (''Unsupported signal action: '' @ to_str action)) else Inr value)"

definition signal_side :: "pyval \<Rightarrow> string result" where
  "signal_side action =
     bindE (normalize_signal_action action) (\<lambda>a.
       Inr (if a \<in> {''open_long'', ''add_long'', ''close_short'', ''reduce_short''} then ''buy'' else ''sell''))"

definition signal_position_side :: "pyval \<Rightarrow> string result" where
  "signal_position_side action =
     bindE (normalize_signal_action action) (\<lambda>a.
       Inr (if contains a ''long'' then ''long'' else if contains a ''short'' then ''short'' else []))"

definition signal_reduce_only :: "pyval \<Rightarrow> bool result" where
  "signal_reduce_only action =
     bindE (normalize_signal_action action) (\<lambda>a. Inr (startswith a ''close_'' \<or> startswith a ''reduce_''))"

definition signal_market_type :: "pyval \<Rightarrow> string" where
  "signal_market_type v =
     (let mt = lower (strip (str_or v ''swap'')) in
      if mt \<in> {''future'', ''futures'', ''perp'', ''perpetual''} then ''swap''
      else if mt \<in> {''spot'', ''swap''} then mt else ''swap'')"

definition float_default :: "pyval \<Rightarrow> pyfloat \<Rightarrow> pyfloat" where
  "float_default v d = (case to_float v of Inl _ \<Rightarrow> d | Inr x \<Rightarrow> x)"

section \<open>The signal\<close>

record strategy_signal =
  sg_timestamp :: pyval
  sg_strategy_id :: int
  sg_run_id :: int
  sg_symbol :: string
  sg_action :: string
  sg_market_type :: string
  sg_amount :: pyfloat
  sg_quote_amount :: pyfloat
  sg_price_hint :: pyfloat
  sg_confidence :: pyfloat
  sg_reason :: string
  sg_enter_tag :: string
  sg_exit_tag :: string
  sg_source :: string
  sg_metadata :: "(string, pyval) dict"
  sg_portfolio_id :: string
  sg_universe_id :: string
  sg_rebalance_group_id :: string
  sg_target_weight :: "pyfloat option"
  sg_target_notional :: "pyfloat option"
  sg_target_position_qty :: "pyfloat option"

text \<open>The constructor: the arguments the callers pass, every other field at its default, normalised.\<close>

definition mk_signal ::
  "pyval \<Rightarrow> int \<Rightarrow> int \<Rightarrow> pyval \<Rightarrow> pyval \<Rightarrow> pyval \<Rightarrow> pyval \<Rightarrow> pyval \<Rightarrow> pyval \<Rightarrow> pyval \<Rightarrow> pyval \<Rightarrow>
     (string, pyval) dict \<Rightarrow> strategy_signal result" where
  "mk_signal ts strategy_id run_id symbol action market_type amount quote_amount price_hint reason source metadata =
     bindE (normalize_signal_action action) (\<lambda>a.
       Inr \<lparr>sg_timestamp = ts, sg_strategy_id = strategy_id, sg_run_id = run_id, sg_symbol = strip (str_or symbol []),
            sg_action = a, sg_market_type = signal_market_type market_type, sg_amount = float_default amount (Fin 0),
            sg_quote_amount = float_default quote_amount (Fin 0), sg_price_hint = float_default price_hint (Fin 0),
            sg_confidence = Fin 0, sg_reason = strip (str_or reason []), sg_enter_tag = [], sg_exit_tag = [],
            sg_source = str_default (strip (str_or source ''strategy'')) ''strategy'', sg_metadata = metadata,
            sg_portfolio_id = [], sg_universe_id = [], sg_rebalance_group_id = [], sg_target_weight = None,
            sg_target_notional = None, sg_target_position_qty = None\<rparr>)"

definition metadata_word :: "strategy_signal \<Rightarrow> string \<Rightarrow> string" where
  "metadata_word sg name = lower (strip (str_or (dget_or (sg_metadata sg) name PNone) []))"

definition sg_order_type :: "strategy_signal \<Rightarrow> string" where
  "sg_order_type sg =
     (let explicit = metadata_word sg ''order_type''; algo = metadata_word sg ''execution_algo'' in
      if explicit \<in> {''market'', ''limit''} then explicit
      else if algo = ''market'' then ''market''
      else if algo \<in> {''limit'', ''limit_then_market'', ''maker'', ''maker_then_market''} then ''limit''
      else if flt (Fin 0) (sg_price_hint sg) then ''limit'' else ''market'')"

definition sg_execution_algo :: "strategy_signal \<Rightarrow> string" where
  "sg_execution_algo sg =
     (let explicit = metadata_word sg ''execution_algo'' in
      if explicit \<in> {''market'', ''limit'', ''limit_then_market'', ''maker'', ''maker_then_market''} then explicit
      else sg_order_type sg)"

definition validate_signal :: "strategy_signal \<Rightarrow> unit result" where
  "validate_signal sg =
     (if sg_symbol sg = [] then Inl (ValueError ''symbol is required'')
      else if flt (sg_amount sg) (Fin 0) then Inl (ValueError ''amount cannot be negative'')
      else if flt (sg_quote_amount sg) (Fin 0) then Inl (ValueError ''quote_amount cannot be negative'')
      else if sg_market_type sg = ''spot'' \<and> contains (sg_action sg) ''short''
        then Inl (ValueError ''spot market does not support short signals'')
      else Inr ())"

definition optional_float :: "pyfloat option \<Rightarrow> pyval" where
  "optional_float x = (case x of None \<Rightarrow> PNone | Some v \<Rightarrow> PFloat v)"

definition to_signal_dict :: "strategy_signal \<Rightarrow> (string, pyval) dict result" where
  "to_signal_dict sg =
     bindE (signal_side (PStr (sg_action sg))) (\<lambda>side.
     bindE (signal_position_side (PStr (sg_action sg))) (\<lambda>position_side.
     bindE (signal_reduce_only (PStr (sg_action sg))) (\<lambda>reduce_only.
       Inr [(''timestamp'', sg_timestamp sg), (''strategy_id'', PInt (sg_strategy_id sg)), (''strategy_run_id'', PInt (sg_run_id sg)),
            (''symbol'', PStr (sg_symbol sg)), (''market_type'', PStr (sg_market_type sg)), (''action'', PStr (sg_action sg)),
            (''side'', PStr side), (''position_side'', PStr position_side), (''reduce_only'', PBool reduce_only),
            (''order_type'', PStr (sg_order_type sg)), (''amount'', PFloat (sg_amount sg)), (''quote_amount'', PFloat (sg_quote_amount sg)),
            (''price_hint'', PFloat (sg_price_hint sg)), (''confidence'', PFloat (sg_confidence sg)), (''reason'', PStr (sg_reason sg)),
            (''enter_tag'', PStr (sg_enter_tag sg)), (''exit_tag'', PStr (sg_exit_tag sg)), (''source'', PStr (sg_source sg)),
            (''metadata'', PDict (sg_metadata sg)), (''portfolio_id'', PStr (sg_portfolio_id sg)), (''universe_id'', PStr (sg_universe_id sg)),
            (''rebalance_group_id'', PStr (sg_rebalance_group_id sg)), (''target_weight'', optional_float (sg_target_weight sg)),
            (''target_notional'', optional_float (sg_target_notional sg)),
            (''target_position_qty'', optional_float (sg_target_position_qty sg))])))"

text \<open>What an order intent takes from a signal.\<close>

record intent_fields =
  if_symbol :: string
  if_side :: string
  if_market_type :: string
  if_position_side :: string
  if_reduce_only :: bool
  if_order_type :: string
  if_quantity :: pyfloat
  if_notional :: pyfloat
  if_limit_price :: pyfloat
  if_execution_algo :: string
  if_payload :: "(string, pyval) dict"

definition signal_notional :: "strategy_signal \<Rightarrow> pyfloat \<Rightarrow> pyfloat" where
  "signal_notional sg leverage =
     (let n0 = sg_quote_amount sg;
          n1 = (if fle n0 (Fin 0) \<and> flt (Fin 0) (sg_amount sg) \<and> flt (Fin 0) (sg_price_hint sg)
                then fmul (sg_amount sg) (sg_price_hint sg) else n0)
      in if sg_market_type sg \<noteq> ''spot'' \<and> flt (Fin 0) n1 then fmul n1 (pymax (Fin 1) leverage) else n1)"

definition to_order_intent_kwargs :: "strategy_signal \<Rightarrow> pyfloat \<Rightarrow> intent_fields result" where
  "to_order_intent_kwargs sg leverage =
     bindE (signal_side (PStr (sg_action sg))) (\<lambda>side.
     bindE (signal_position_side (PStr (sg_action sg))) (\<lambda>position_side.
     bindE (signal_reduce_only (PStr (sg_action sg))) (\<lambda>reduce_only.
     bindE (to_signal_dict sg) (\<lambda>payload.
       Inr \<lparr>if_symbol = sg_symbol sg, if_side = side, if_market_type = sg_market_type sg, if_position_side = position_side,
            if_reduce_only = reduce_only, if_order_type = sg_order_type sg, if_quantity = fabs (sg_amount sg),
            if_notional = fabs (signal_notional sg leverage),
            if_limit_price = (if sg_order_type sg = ''limit'' then sg_price_hint sg else Fin 0),
            if_execution_algo = sg_execution_algo sg, if_payload = payload\<rparr>))))"

section \<open>Script orders\<close>

definition script_order_action :: "(string, pyval) dict \<Rightarrow> string result" where
  "script_order_action order =
     (let intent = lower (strip (str_or (dget_or order ''intent'' PNone) [])) in
      if intent = [] then Inl (ValueError ''script order intent must use a canonical signal action'')
      else normalize_signal_action (PStr intent))"

definition from_script_order ::
  "(string, pyval) dict \<Rightarrow> pyval \<Rightarrow> int \<Rightarrow> int \<Rightarrow> string \<Rightarrow> string \<Rightarrow> string \<Rightarrow> strategy_signal result" where
  "from_script_order order ts strategy_id run_id symbol market_type source =
     bindE (script_order_action order) (\<lambda>action.
       let base0 = float_default (dget_or order ''script_base_qty'' PNone) (Fin 0);
           base_quantity = (if fle base0 (Fin 0) then float_default (dget_or order ''amount'' PNone) (Fin 0) else base0)
       in mk_signal ts strategy_id run_id (PStr symbol) (PStr action) (PStr market_type) (PFloat base_quantity)
            (PFloat (float_default (dget_or order ''script_quote_amount'' PNone) (Fin 0)))
            (PFloat (float_default (dget_or order ''price'' PNone) (Fin 0)))
            (PStr (str_or (dget_or order ''reason'' PNone) [])) (PStr source)
            (filter (\<lambda>x. fst x \<notin> {''amount'', ''price'', ''reason''}) order))"

section \<open>Facts\<close>

lemma normalize_signal_action_canonical:
  assumes "a \<in> set CANONICAL_SIGNAL_ACTIONS"
  shows "normalize_signal_action (PStr a) = Inr a"
proof -
  have "list_all (\<lambda>a. normalize_signal_action (PStr a) = Inr a) CANONICAL_SIGNAL_ACTIONS" by code_simp
  then show ?thesis using assms by (auto simp: list_all_iff)
qed

lemma normalize_signal_action_range: "normalize_signal_action v = Inr a \<Longrightarrow> a \<in> set CANONICAL_SIGNAL_ACTIONS"
  by (auto simp: normalize_signal_action_def Let_def split: if_splits)

text \<open>An exit never adds to a position: a reduce-only action trades against its position side.\<close>

lemma reduce_only_against_side:
  assumes "signal_reduce_only v = Inr r" and "signal_side v = Inr side" and "signal_position_side v = Inr ps"
  shows "r \<longleftrightarrow> (side, ps) \<in> {(''sell'', ''long''), (''buy'', ''short'')}"
proof -
  from assms(1) obtain a where a: "normalize_signal_action v = Inr a" by (auto simp: signal_reduce_only_def bindE_Inr_iff)
  have "list_all (\<lambda>a. startswith a ''close_'' \<or> startswith a ''reduce_'' \<longleftrightarrow>
     ((if a \<in> {''open_long'', ''add_long'', ''close_short'', ''reduce_short''} then ''buy'' else ''sell''),
      (if contains a ''long'' then ''long'' else if contains a ''short'' then ''short'' else []))
       \<in> {(''sell'', ''long''), (''buy'', ''short'')}) CANONICAL_SIGNAL_ACTIONS"
    by code_simp
  then show ?thesis
    using assms normalize_signal_action_range [OF a]
    by (auto simp: signal_reduce_only_def signal_side_def signal_position_side_def a list_all_iff)
qed

lemma to_order_intent_kwargs_total:
  assumes "sg_action sg \<in> set CANONICAL_SIGNAL_ACTIONS"
  shows "\<exists>kw. to_order_intent_kwargs sg leverage = Inr kw"
  using normalize_signal_action_canonical [OF assms]
  by (simp add: to_order_intent_kwargs_def to_signal_dict_def signal_side_def signal_position_side_def signal_reduce_only_def)

end
