(* ===== verification/OrderGateway.thy ===== *)
theory OrderGateway
  imports Signals
begin

text \<open>
  The order queue of live sessions (\<open>services/strategy_v2/live_execution.py\<close> and
  \<open>services/strategy_runtime/order_intents.py\<close>): validation, the fencing token of the runtime lease,
  idempotency keys, order intents, the AI rejection latch and the insertion of pending orders.

  The two tables are lists of rows with the unique indexes of \<open>migrations/init.sql\<close>: an insert that
  meets an existing key changes nothing but uses up a number of the sequence.  The digest of a signal, the
  AI decision and the failures of the database that the code handles are parameters.
\<close>

section \<open>Requests\<close>

record live_order_request =
  rq_strategy_id :: int
  rq_run_id :: int
  rq_user_id :: int
  rq_symbol :: string
  rq_action :: string
  rq_quantity :: pyfloat
  rq_reference_price :: pyfloat
  rq_signal_timestamp :: int
  rq_market_type :: string
  rq_execution_mode :: string
  rq_leverage :: pyfloat
  rq_margin_mode :: string
  rq_reason :: string
  rq_notification_config :: "(string, pyval) dict"
  rq_order_type :: string
  rq_execution_algo :: string
  rq_limit_price :: pyfloat
  rq_maker_wait_sec :: pyfloat
  rq_maker_offset_bps :: pyfloat
  rq_protection :: "(string, pyval) dict"
  rq_sizing :: "(string, pyval) dict"
  rq_client_order_id :: string
  rq_ai_decision_filter :: bool
  rq_strategy_type :: string
  rq_fencing_token :: int

definition validate_request :: "live_order_request \<Rightarrow> live_order_request result" where
  "validate_request rq =
     (let is_close_all = (rq_action rq \<in> {''close_long'', ''close_short''} \<and> rq_quantity rq = Fin 0) in
      if rq_strategy_id rq \<le> 0 \<or> rq_user_id rq \<le> 0 then Inl (ValueError ''strategyV2.invalidRuntimeIdentity'')
      else if rq_run_id rq \<le> 0 then Inl (ValueError ''strategyV2.invalidRunIdentity'')
      else if rq_symbol rq = [] then Inl (ValueError ''strategyV2.orderSymbolRequired'')
      else if rq_action rq \<notin> set CANONICAL_SIGNAL_ACTIONS then Inl (ValueError ''strategyV2.orderActionUnsupported'')
      else if (fle (rq_quantity rq) (Fin 0) \<and> \<not> is_close_all) \<or> fle (rq_reference_price rq) (Fin 0)
        then Inl (ValueError ''strategyV2.invalidOrderSize'')
      else if rq_execution_mode rq \<notin> {''signal'', ''live''} then Inl (ValueError ''strategyV2.invalidExecutionMode'')
      else if rq_market_type rq = ''spot'' \<and> contains (rq_action rq) ''short'' then Inl (ValueError ''strategyV2.spotShortUnsupported'')
      else if rq_order_type rq \<notin> {''market'', ''limit''} then Inl (ValueError ''strategyV2.orderTypeUnsupported'')
      else if rq_execution_algo rq \<notin> {''market'', ''limit'', ''maker_then_market''}
        then Inl (ValueError ''strategyV2.executionAlgoUnsupported'')
      else if rq_execution_algo rq = ''limit'' \<and> fle (rq_limit_price rq) (Fin 0) then Inl (ValueError ''strategyV2.limitPriceRequired'')
      else Inr rq)"

section \<open>The AI rejection latch\<close>

type_synonym fingerprint = "string \<times> string \<times> string"

record gateway =
  gw_latches :: "(int, fingerprint set) dict"
  gw_cycle :: "(int, fingerprint set) dict"

definition ai_signal_fingerprint :: "live_order_request \<Rightarrow> fingerprint" where
  "ai_signal_fingerprint rq = (strip (rq_symbol rq), lower (strip (rq_action rq)), strip (rq_reason rq))"

definition begin_signal_cycle :: "int \<Rightarrow> gateway \<Rightarrow> gateway" where
  "begin_signal_cycle run gw = (if run \<le> 0 then gw else gw\<lparr>gw_cycle := dset (gw_cycle gw) run {}\<rparr>)"

definition finish_signal_cycle :: "int \<Rightarrow> gateway \<Rightarrow> gateway" where
  "finish_signal_cycle run gw =
     (if run \<le> 0 then gw
      else case dget (gw_cycle gw) run of
        None \<Rightarrow> gw
      | Some seen \<Rightarrow>
          let remaining = dget_or (gw_latches gw) run {} \<inter> seen in
          \<lparr>gw_latches = (if remaining \<noteq> {} then dset (gw_latches gw) run remaining else dpop (gw_latches gw) run),
           gw_cycle = dpop (gw_cycle gw) run\<rparr>)"

definition clear_signal_state :: "int \<Rightarrow> gateway \<Rightarrow> gateway" where
  "clear_signal_state run gw = \<lparr>gw_latches = dpop (gw_latches gw) run, gw_cycle = dpop (gw_cycle gw) run\<rparr>"

definition is_ai_rejection_latched :: "live_order_request \<Rightarrow> gateway \<Rightarrow> bool \<times> gateway" where
  "is_ai_rejection_latched rq gw =
     (let fp = ai_signal_fingerprint rq in
      (fp \<in> dget_or (gw_latches gw) (rq_run_id rq) {},
       case dget (gw_cycle gw) (rq_run_id rq) of
         None \<Rightarrow> gw
       | Some seen \<Rightarrow> gw\<lparr>gw_cycle := dset (gw_cycle gw) (rq_run_id rq) (insert fp seen)\<rparr>))"

definition latch_ai_rejection :: "live_order_request \<Rightarrow> gateway \<Rightarrow> gateway" where
  "latch_ai_rejection rq gw =
     gw\<lparr>gw_latches := dset (gw_latches gw) (rq_run_id rq)
          (insert (ai_signal_fingerprint rq) (dget_or (gw_latches gw) (rq_run_id rq) {}))\<rparr>"

section \<open>Tables\<close>

record intent_row =
  it_id :: int
  it_run :: int
  it_strategy :: int
  it_key :: string
  it_fields :: intent_fields
  it_status :: string
  it_client :: string
  it_fencing :: int

record pending_row =
  po_id :: int
  po_user :: int
  po_strategy :: int
  po_symbol :: string
  po_signal_type :: string
  po_signal_ts :: int
  po_market_type :: string
  po_order_type :: string
  po_amount :: pyfloat
  po_price :: pyfloat
  po_execution_mode :: string
  po_status :: string
  po_payload :: "(string, pyval) dict"
  po_run :: int
  po_intent :: int
  po_key :: string
  po_fencing :: int

record runtime_lease =
  le_strategy :: int
  le_token :: int
  le_expires :: timestamp

record order_db =
  db_intents :: "intent_row list"
  db_pending :: "pending_row list"
  db_next_intent :: int
  db_next_pending :: int
  db_leases :: "runtime_lease list"
  db_events :: "(int \<times> int \<times> string \<times> string) list"

definition insert_intent :: "intent_row \<Rightarrow> order_db \<Rightarrow> int \<times> order_db" where
  "insert_intent r db =
     (let n = db_next_intent db; db1 = db\<lparr>db_next_intent := n + 1\<rparr> in
      if \<exists>x \<in> set (db_intents db). it_run x = it_run r \<and> it_key x = it_key r then (0, db1)
      else (n, db1\<lparr>db_intents := db_intents db @ [r\<lparr>it_id := n\<rparr>]\<rparr>))"

definition insert_pending :: "pending_row \<Rightarrow> order_db \<Rightarrow> int \<times> order_db" where
  "insert_pending r db =
     (let n = db_next_pending db; db1 = db\<lparr>db_next_pending := n + 1\<rparr> in
      if \<exists>x \<in> set (db_pending db). po_key x = po_key r then (0, db1)
      else (n, db1\<lparr>db_pending := db_pending db @ [r\<lparr>po_id := n\<rparr>]\<rparr>))"

definition pending_id :: "string \<Rightarrow> order_db \<Rightarrow> int option" where
  "pending_id key db =
     (case find (\<lambda>x. po_key x = key) (db_pending db) of
        None \<Rightarrow> None
      | Some r \<Rightarrow> if po_id r = 0 then None else Some (po_id r))"

definition assert_runtime_fence :: "timestamp \<Rightarrow> live_order_request \<Rightarrow> order_db \<Rightarrow> unit result" where
  "assert_runtime_fence now rq db =
     (if rq_fencing_token rq \<le> 0 then Inr ()
      else if \<exists>l \<in> set (db_leases db). le_strategy l = rq_strategy_id rq \<and> le_token l = rq_fencing_token rq \<and> now \<le> le_expires l
      then Inr () else Inl (RuntimeError ''strategyRuntime.staleFencingToken''))"

section \<open>Work in flight\<close>

definition ACTIVE_PENDING_STATUSES :: "string list" where
  "ACTIVE_PENDING_STATUSES = [''pending'', ''processing'', ''sent'', ''syncing'', ''reconciling'']"

definition position_lane :: "string \<Rightarrow> string" where
  "position_lane action =
     (let signal = lower (strip action) in
      if endswith signal ''_long'' then ''long'' else if endswith signal ''_short'' then ''short'' else [])"

definition lane_actions :: "string \<Rightarrow> string list" where
  "lane_actions lane =
     (if lane = ''long'' then [''open_long'', ''add_long'', ''reduce_long'', ''close_long'']
      else [''open_short'', ''add_short'', ''reduce_short'', ''close_short''])"

definition grid_level_request :: "live_order_request \<Rightarrow> bool" where
  "grid_level_request rq \<longleftrightarrow>
     lower (strip (rq_execution_mode rq)) = ''signal'' \<and> lower (strip (rq_strategy_type rq)) = ''grid''
     \<and> lower (strip (rq_order_type rq)) = ''limit'' \<and> strip (rq_client_order_id rq) \<noteq> []"

definition has_inflight :: "live_order_request \<Rightarrow> order_db \<Rightarrow> bool" where
  "has_inflight rq db =
     (let lane = position_lane (rq_action rq) in
      if grid_level_request rq \<or> lane = [] then False
      else \<exists>r \<in> set (db_pending db). po_strategy r = rq_strategy_id rq \<and> po_symbol r = rq_symbol rq
             \<and> po_signal_type r \<in> set (lane_actions lane) \<and> po_status r \<in> set ACTIVE_PENDING_STATUSES)"

section \<open>Idempotency keys\<close>

definition build_signal_idempotency_key ::
  "((string, pyval) dict \<Rightarrow> string) \<Rightarrow> int \<Rightarrow> int \<Rightarrow> string \<Rightarrow> string \<Rightarrow> int \<Rightarrow> (string, pyval) dict option \<Rightarrow> string" where
  "build_signal_idempotency_key digest run strategy symbol signal_type signal_ts discriminator =
     (let base = ''run:'' @ show_int run @ '':strategy:'' @ show_int strategy @ '':'' @ symbol @ '':'' @ signal_type @ '':'' @ show_int signal_ts in
      case discriminator of
        None \<Rightarrow> take 180 base
      | Some d \<Rightarrow> take 163 base @ '':'' @ digest d)"

definition signal_discriminator :: "live_order_request \<Rightarrow> (string, pyval) dict" where
  "signal_discriminator rq =
     [(''quantity'', PFloat (rq_quantity rq)), (''reference_price'', PFloat (rq_reference_price rq)), (''reason'', PStr (rq_reason rq)),
      (''order_type'', PStr (rq_order_type rq)), (''execution_algo'', PStr (rq_execution_algo rq)),
      (''limit_price'', PFloat (rq_limit_price rq)), (''protection'', PDict (rq_protection rq)), (''sizing'', PDict (rq_sizing rq))]"

definition client_reference :: "live_order_request \<Rightarrow> string" where
  "client_reference rq = take 100 (strip (rq_client_order_id rq))"

definition order_key :: "((string, pyval) dict \<Rightarrow> string) \<Rightarrow> live_order_request \<Rightarrow> string" where
  "order_key digest rq =
     take 180 (if client_reference rq \<noteq> []
       then ''run:'' @ show_int (rq_run_id rq) @ '':strategy:'' @ show_int (rq_strategy_id rq) @ '':client:'' @ client_reference rq
       else build_signal_idempotency_key digest (rq_run_id rq) (rq_strategy_id rq) (rq_symbol rq) (rq_action rq)
              (rq_signal_timestamp rq) (Some (signal_discriminator rq)))"

section \<open>Order intents\<close>

record intent_result =
  in_id :: int
  in_key :: string
  in_status :: string
  in_existing :: bool

text \<open>The failures of the database the service handles: a lookup that finds nothing, an insert that
  leaves an unsaved intent.\<close>

record db_faults =
  ft_lookup :: bool
  ft_insert :: bool

definition get_by_key :: "db_faults \<Rightarrow> int \<Rightarrow> string \<Rightarrow> order_db \<Rightarrow> intent_result option" where
  "get_by_key ft run key db =
     (if ft_lookup ft then None
      else map_option (\<lambda>r. \<lparr>in_id = it_id r, in_key = str_default (it_key r) key, in_status = it_status r, in_existing = True\<rparr>)
        (find (\<lambda>x. it_run x = run \<and> it_key x = key) (db_intents db)))"

text \<open>\<open>INSERT ... ON CONFLICT DO NOTHING\<close> answers no identifier when the key is taken; the row is then
  read back.\<close>

definition store_intent :: "intent_row \<Rightarrow> order_db \<Rightarrow> intent_result \<times> order_db" where
  "store_intent row db =
     (case insert_intent row db of (n, db1) \<Rightarrow>
        if n > 0
        then (\<lparr>in_id = n, in_key = it_key row, in_status = ''intent_created'', in_existing = False\<rparr>,
              db1\<lparr>db_events := db_events db1 @ [(it_strategy row, it_run row, ''order_intent_created'',
                ''Order intent created: '' @ if_side (it_fields row) @ '' '' @ if_symbol (it_fields row))]\<rparr>)
        else
          (case find (\<lambda>x. it_run x = it_run row \<and> it_key x = it_key row) (db_intents db1) of
             None \<Rightarrow> (\<lparr>in_id = 0, in_key = it_key row, in_status = ''intent_created'', in_existing = True\<rparr>, db1)
           | Some r \<Rightarrow> (\<lparr>in_id = it_id r, in_key = it_key row, in_status = str_default (it_status r) ''intent_created'', in_existing = True\<rparr>, db1)))"

definition create_intent ::
  "db_faults \<Rightarrow> int \<Rightarrow> int \<Rightarrow> string \<Rightarrow> intent_fields \<Rightarrow> string \<Rightarrow> int \<Rightarrow> order_db \<Rightarrow> intent_result result \<times> order_db" where
  "create_intent ft strategy run key0 kw client fencing db =
     (let key = take 180 (strip key0);
          row = \<lparr>it_id = 0, it_run = run, it_strategy = strategy, it_key = key, it_fields = kw,
                 it_status = ''intent_created'', it_client = take 100 client, it_fencing = max 0 fencing\<rparr>;
          fresh = (if ft_insert ft then (\<lparr>in_id = 0, in_key = key, in_status = ''ephemeral'', in_existing = False\<rparr>, db)
                   else store_intent row db)
      in if key = [] then (Inl (ValueError ''idempotency_key is required''), db)
         else case get_by_key ft run key db of
           Some existing \<Rightarrow> if in_id existing > 0 then (Inr existing, db) else (Inr (fst fresh), snd fresh)
         | None \<Rightarrow> (Inr (fst fresh), snd fresh))"

definition signal_ts :: "pyval \<Rightarrow> int" where
  "signal_ts v = (case to_int (p_or v (PInt 0)) of Inl _ \<Rightarrow> 0 | Inr n \<Rightarrow> n)"

definition create_from_signal ::
  "((string, pyval) dict \<Rightarrow> string) \<Rightarrow> db_faults \<Rightarrow> int \<Rightarrow> int \<Rightarrow> strategy_signal \<Rightarrow> string \<Rightarrow> pyfloat \<Rightarrow> order_db \<Rightarrow>
     intent_result result \<times> order_db" where
  "create_from_signal digest ft strategy run sg key0 leverage db =
     (case bindE (validate_signal sg) (\<lambda>_. bindE (to_signal_dict sg) (\<lambda>d. bindE (to_order_intent_kwargs sg leverage) (\<lambda>kw. Inr (d, kw)))) of
        Inl e \<Rightarrow> (Inl e, db)
      | Inr (d, kw) \<Rightarrow>
          let key = str_default (strip key0) (build_signal_idempotency_key digest
                (if sg_run_id sg = 0 then run else sg_run_id sg) (if sg_strategy_id sg = 0 then strategy else sg_strategy_id sg)
                (sg_symbol sg) (sg_action sg) (signal_ts (sg_timestamp sg)) (Some d))
          in create_intent ft strategy run key kw [] 0 db)"

section \<open>Submission\<close>

definition request_signal :: "live_order_request \<Rightarrow> strategy_signal result" where
  "request_signal rq =
     mk_signal (PInt (rq_signal_timestamp rq)) (rq_strategy_id rq) (rq_run_id rq) (PStr (rq_symbol rq)) (PStr (rq_action rq))
       (PStr (rq_market_type rq)) (PFloat (rq_quantity rq)) (PFloat (Fin 0)) (PFloat (rq_reference_price rq)) (PStr (rq_reason rq))
       (PStr ''strategy_v2'') []"

definition order_payload :: "string \<Rightarrow> int \<Rightarrow> live_order_request \<Rightarrow> (string, pyval) dict" where
  "order_payload key intent rq =
     [(''strategy_id'', PInt (rq_strategy_id rq)), (''strategy_run_id'', PInt (rq_run_id rq)), (''order_intent_id'', PInt intent),
      (''idempotency_key'', PStr key), (''symbol'', PStr (rq_symbol rq)), (''signal_type'', PStr (rq_action rq)),
      (''market_type'', PStr (rq_market_type rq)), (''amount'', PFloat (rq_quantity rq)),
      (''price'', PFloat (f_or (rq_limit_price rq) (rq_reference_price rq))), (''ref_price'', PFloat (rq_reference_price rq)),
      (''leverage'', PFloat (rq_leverage rq)), (''margin_mode'', PStr (rq_margin_mode rq)), (''execution_mode'', PStr (rq_execution_mode rq)),
      (''notification_config'', PDict (rq_notification_config rq)), (''signal_ts'', PInt (rq_signal_timestamp rq)),
      (''reason'', PStr (rq_reason rq)), (''order_type'', PStr (rq_order_type rq)), (''execution_algo'', PStr (rq_execution_algo rq)),
      (''limit_price'', PFloat (rq_limit_price rq)), (''maker_wait_sec'', PFloat (rq_maker_wait_sec rq)),
      (''maker_offset_bps'', PFloat (rq_maker_offset_bps rq)), (''protection'', PDict (rq_protection rq)), (''sizing'', PDict (rq_sizing rq)),
      (''client_order_id'', PStr (client_reference rq)), (''ai_decision_filter'', PBool (rq_ai_decision_filter rq)),
      (''runtime_fencing_token'', PInt (rq_fencing_token rq))]"

definition enqueue_order :: "string \<Rightarrow> int \<Rightarrow> live_order_request \<Rightarrow> order_db \<Rightarrow> int option \<times> order_db" where
  "enqueue_order key intent rq db =
     (case insert_pending
        \<lparr>po_id = 0, po_user = rq_user_id rq, po_strategy = rq_strategy_id rq, po_symbol = rq_symbol rq, po_signal_type = rq_action rq,
         po_signal_ts = rq_signal_timestamp rq, po_market_type = rq_market_type rq, po_order_type = rq_order_type rq,
         po_amount = rq_quantity rq, po_price = f_or (rq_limit_price rq) (rq_reference_price rq), po_execution_mode = rq_execution_mode rq,
         po_status = ''pending'', po_payload = order_payload key intent rq, po_run = rq_run_id rq, po_intent = intent, po_key = key,
         po_fencing = max 0 (rq_fencing_token rq)\<rparr> db of
        (n, db1) \<Rightarrow> (if n \<noteq> 0 then Some n else pending_id key db1, db1))"

definition reject_intent :: "int \<Rightarrow> order_db \<Rightarrow> order_db" where
  "reject_intent intent db =
     db\<lparr>db_intents := map (\<lambda>r. if it_id r = intent then r\<lparr>it_status := ''ai_rejected''\<rparr> else r) (db_intents db)\<rparr>"

type_synonym gateway_state = "gateway \<times> order_db"

text \<open>From the stored intent on: a rejected intent stays rejected, a live one answers its pending order,
  and otherwise the AI filter decides and the order is queued.\<close>

definition dispatch_intent ::
  "(live_order_request \<Rightarrow> int \<Rightarrow> bool result) \<Rightarrow> string \<Rightarrow> live_order_request \<Rightarrow> intent_result \<Rightarrow> gateway_state \<Rightarrow>
     int option result \<times> gateway_state" where
  "dispatch_intent decide key rq intent st =
     (case st of (gw, db) \<Rightarrow>
        if in_existing intent \<and> in_status intent = ''ai_rejected'' then (Inr None, st)
        else if in_existing intent \<and> in_status intent \<notin> {''failed'', ''cancelled'', ''rejected''} \<and> pending_id key db \<noteq> None
        then (Inr (pending_id key db), st)
        else if in_id intent \<le> 0 then (Inl (RuntimeError ''strategyV2.orderIntentPersistenceFailed''), st)
        else
          let queue = (case enqueue_order key (in_id intent) rq db of (answer, db1) \<Rightarrow> (Inr answer, (gw, db1))) in
          if rq_execution_mode rq = ''live'' \<and> rq_ai_decision_filter rq
          then (case decide rq (in_id intent) of
                  Inl e \<Rightarrow> (Inl e, st)
                | Inr True \<Rightarrow> queue
                | Inr False \<Rightarrow> (Inr None, (latch_ai_rejection rq gw, reject_intent (in_id intent) db)))
          else queue)"

definition submit ::
  "((string, pyval) dict \<Rightarrow> string) \<Rightarrow> (live_order_request \<Rightarrow> int \<Rightarrow> bool result) \<Rightarrow> db_faults \<Rightarrow> timestamp \<Rightarrow>
     live_order_request \<Rightarrow> gateway_state \<Rightarrow> int option result \<times> gateway_state" where
  "submit digest decide ft now rq st =
     (case st of (gw, db) \<Rightarrow>
        case bindE (validate_request rq) (\<lambda>_. assert_runtime_fence now rq db) of
          Inl e \<Rightarrow> (Inl e, st)
        | Inr _ \<Rightarrow>
            let filtered = (rq_execution_mode rq = ''live'' \<and> rq_ai_decision_filter rq);
                latched = (filtered \<and> fst (is_ai_rejection_latched rq gw));
                gw1 = (if filtered then snd (is_ai_rejection_latched rq gw) else gw);
                key = order_key digest rq
            in if latched then (Inr None, (gw1, db))
               else case bindE (request_signal rq) (\<lambda>sg. to_order_intent_kwargs sg (rq_leverage rq)) of
                 Inl e \<Rightarrow> (Inl e, (gw1, db))
               | Inr kw \<Rightarrow>
                   (case create_intent ft (rq_strategy_id rq) (rq_run_id rq) key kw (client_reference rq) (rq_fencing_token rq) db of
                      (Inl e, db1) \<Rightarrow> (Inl e, (gw1, db1))
                    | (Inr intent, db1) \<Rightarrow> dispatch_intent decide key rq intent (gw1, db1)))"

section \<open>Idempotency\<close>

definition queue_ok :: "order_db \<Rightarrow> bool" where
  "queue_ok db \<longleftrightarrow> distinct (map po_key (db_pending db)) \<and> (\<forall>r \<in> set (db_pending db). 0 < po_id r) \<and> 0 < db_next_pending db"

text \<open>Everything that happens to the two tables between two calls: submissions of any request, new
  statuses written by the dispatcher, new leases, and the signal cycles.\<close>

inductive gateway_step ::
  "((string, pyval) dict \<Rightarrow> string) \<Rightarrow> (live_order_request \<Rightarrow> int \<Rightarrow> bool result) \<Rightarrow> gateway_state \<Rightarrow> gateway_state \<Rightarrow> bool"
  for digest decide where
  submitted: "submit digest decide ft now rq st = (r, st') \<Longrightarrow> gateway_step digest decide st st'"
| progressed: "gateway_step digest decide (gw, db)
     (gw, db\<lparr>db_pending := map (\<lambda>r. r\<lparr>po_status := f r\<rparr>) (db_pending db), db_intents := map (\<lambda>r. r\<lparr>it_status := g r\<rparr>) (db_intents db)\<rparr>)"
| leased: "gateway_step digest decide (gw, db) (gw, db\<lparr>db_leases := ls\<rparr>)"
| began: "gateway_step digest decide (gw, db) (begin_signal_cycle run gw, db)"
| finished: "gateway_step digest decide (gw, db) (finish_signal_cycle run gw, db)"
| cleared: "gateway_step digest decide (gw, db) (clear_signal_state run gw, db)"

lemma store_intent_pending:
  "db_pending (snd (store_intent row db)) = db_pending db \<and> db_next_pending (snd (store_intent row db)) = db_next_pending db"
  by (simp add: store_intent_def insert_intent_def Let_def split: option.split)

lemma create_intent_pending:
  "db_pending (snd (create_intent ft strategy run key kw client fencing db)) = db_pending db
   \<and> db_next_pending (snd (create_intent ft strategy run key kw client fencing db)) = db_next_pending db"
  using store_intent_pending by (simp add: create_intent_def Let_def split: option.split)

text \<open>What a submission does to the queue: nothing, or one new row under its own new key.\<close>

definition queue_grows :: "string \<Rightarrow> order_db \<Rightarrow> order_db \<Rightarrow> bool" where
  "queue_grows key db db' \<longleftrightarrow>
     db_next_pending db \<le> db_next_pending db' \<and>
     (db_pending db' = db_pending db
      \<or> (key \<notin> set (map po_key (db_pending db))
          \<and> (\<exists>r. db_pending db' = db_pending db @ [r] \<and> po_key r = key \<and> po_id r = db_next_pending db) \<and> db_next_pending db < db_next_pending db'))"

lemma queue_grows_refl [simp]: "queue_grows key db db"
  by (simp add: queue_grows_def)

lemma enqueue_order_grows:
  assumes "enqueue_order key intent rq db = (answer, db')"
  shows "queue_grows key db db'"
  using assms by (auto simp: enqueue_order_def insert_pending_def Let_def queue_grows_def split: if_splits)

lemma find_key_append: "key \<notin> set (map po_key xs) \<Longrightarrow> find (\<lambda>x. po_key x = key) (xs @ ys) = find (\<lambda>x. po_key x = key) ys"
  by (induction xs) auto

lemma enqueue_order_answer:
  assumes "enqueue_order key intent rq db = (answer, db')" and "queue_ok db"
  shows "answer = pending_id key db'"
proof (cases "key \<in> set (map po_key (db_pending db))")
  case True
  then show ?thesis using assms(1) by (auto simp: enqueue_order_def insert_pending_def Let_def split: if_splits)
next
  case False
  have "db_next_pending db \<noteq> 0" using assms(2) by (simp add: queue_ok_def)
  then show ?thesis using assms(1) False
    by (auto simp: enqueue_order_def insert_pending_def Let_def pending_id_def find_key_append split: if_splits)
qed

lemma dispatch_intent_grows:
  assumes "dispatch_intent decide key rq intent (gw, db) = (r, (gw', db'))"
  shows "queue_grows key db db'"
proof -
  obtain answer db1 where e: "enqueue_order key (in_id intent) rq db = (answer, db1)" by (cases "enqueue_order key (in_id intent) rq db")
  have "db' = db \<or> db' = db1 \<or> db' = reject_intent (in_id intent) db"
    using assms by (auto simp: dispatch_intent_def e Let_def split: if_splits sum.splits bool.splits)
  moreover have "queue_grows key db (reject_intent (in_id intent) db)" by (simp add: queue_grows_def reject_intent_def)
  ultimately show ?thesis using enqueue_order_grows [OF e] by auto
qed

lemma dispatch_intent_answer:
  assumes "dispatch_intent decide key rq intent (gw, db) = (Inr (Some n), (gw', db'))" and "queue_ok db"
  shows "pending_id key db' = Some n"
proof -
  obtain answer db1 where e: "enqueue_order key (in_id intent) rq db = (answer, db1)" by (cases "enqueue_order key (in_id intent) rq db")
  show ?thesis
    using assms(1) enqueue_order_answer [OF e assms(2)]
    by (auto simp: dispatch_intent_def e Let_def split: if_splits sum.splits bool.splits)
qed

lemma submit_parts:
  assumes "submit digest decide ft now rq (gw, db) = (r, (gw', db'))"
  shows "(db_pending db' = db_pending db \<and> db_next_pending db' = db_next_pending db \<and> (\<forall>n. r \<noteq> Inr (Some n)))
    \<or> (\<exists>gw1 db1 intent. db_pending db1 = db_pending db \<and> db_next_pending db1 = db_next_pending db
         \<and> dispatch_intent decide (order_key digest rq) rq intent (gw1, db1) = (r, (gw', db')))"
proof -
  define answer db1 where "answer kw = fst (create_intent ft (rq_strategy_id rq) (rq_run_id rq) (order_key digest rq) kw (client_reference rq)
      (rq_fencing_token rq) db)" and "db1 kw = snd (create_intent ft (rq_strategy_id rq) (rq_run_id rq) (order_key digest rq) kw
      (client_reference rq) (rq_fencing_token rq) db)" for kw
  then have c: "create_intent ft (rq_strategy_id rq) (rq_run_id rq) (order_key digest rq) kw (client_reference rq)
      (rq_fencing_token rq) db = (answer kw, db1 kw)" for kw
    by simp
  have "db_pending (db1 kw) = db_pending db" "db_next_pending (db1 kw) = db_next_pending db" for kw
    using create_intent_pending [of ft "rq_strategy_id rq" "rq_run_id rq" "order_key digest rq" kw "client_reference rq" "rq_fencing_token rq" db]
    by (simp_all add: c)
  then show ?thesis
    using assms by (auto simp: submit_def c Let_def split: sum.splits if_splits)
qed

lemma submit_grows:
  assumes "submit digest decide ft now rq (gw, db) = (r, (gw', db'))"
  shows "queue_grows (order_key digest rq) db db'"
  using submit_parts [OF assms] by (auto simp: queue_grows_def dest!: dispatch_intent_grows)

lemma submit_answer:
  assumes "submit digest decide ft now rq (gw, db) = (Inr (Some n), (gw', db'))" and "queue_ok db"
  shows "pending_id (order_key digest rq) db' = Some n"
proof -
  from submit_parts [OF assms(1)] obtain gw1 db1 intent where d: "db_pending db1 = db_pending db" "db_next_pending db1 = db_next_pending db"
    "dispatch_intent decide (order_key digest rq) rq intent (gw1, db1) = (Inr (Some n), (gw', db'))"
    by blast
  then show ?thesis using dispatch_intent_answer [OF d(3)] assms(2) by (simp add: queue_ok_def)
qed

lemma queue_grows_ok: "queue_grows key db db' \<Longrightarrow> queue_ok db \<Longrightarrow> queue_ok db'"
  by (auto simp: queue_grows_def queue_ok_def)

lemma find_some_append: "find P xs = Some x \<Longrightarrow> find P (xs @ ys) = Some x"
  by (induction xs) auto

lemma pending_id_grows:
  assumes "queue_grows key' db db'" and "pending_id key db = Some n"
  shows "pending_id key db' = Some n"
proof -
  from assms(2) obtain r where r: "find (\<lambda>x. po_key x = key) (db_pending db) = Some r" by (auto simp: pending_id_def split: option.splits)
  then show ?thesis using assms by (auto simp: queue_grows_def pending_id_def find_some_append [OF r])
qed

lemma find_map_keys:
  "(\<And>r. po_key (h r) = po_key r) \<Longrightarrow> find (\<lambda>x. po_key x = key) (map h xs) = map_option h (find (\<lambda>x. po_key x = key) xs)"
  by (induction xs) auto

lemma gateway_step_queue:
  assumes "gateway_step digest decide st st'" and "queue_ok (snd st)"
  shows "queue_ok (snd st') \<and> (pending_id key (snd st) = Some n \<longrightarrow> pending_id key (snd st') = Some n)"
  using assms
proof (cases rule: gateway_step.cases)
  case (submitted ft now rq r)
  obtain gw db gw' db' where st: "st = (gw, db)" "st' = (gw', db')" by (cases st; cases st')
  from submitted have "queue_grows (order_key digest rq) db db'" using submit_grows by (simp add: st)
  then show ?thesis using assms(2) queue_grows_ok pending_id_grows by (fastforce simp: st)
next
  case (progressed gw db g f)
  have "po_key \<circ> (\<lambda>r. r\<lparr>po_status := f r\<rparr>) = po_key" by (simp add: comp_def)
  then show ?thesis
    using assms(2) progressed
    by (auto simp: queue_ok_def pending_id_def find_map_keys split: option.splits if_splits)
qed (use assms(2) in \<open>simp_all add: queue_ok_def pending_id_def\<close>)

lemma gateway_run_queue:
  assumes "(gateway_step digest decide)\<^sup>*\<^sup>* st st'" and "queue_ok (snd st)"
  shows "queue_ok (snd st') \<and> (pending_id key (snd st) = Some n \<longrightarrow> pending_id key (snd st') = Some n)"
  using assms by (induction rule: rtranclp_induct) (use gateway_step_queue in blast)+

lemma length_filter_key: "length (filter (\<lambda>r. po_key r = k) xs) = count_list (map po_key xs) k"
  by (induction xs) auto

lemma count_list_once: "distinct xs \<Longrightarrow> x \<in> set xs \<Longrightarrow> count_list xs x = 1"
  by (induction xs) auto

lemma pending_id_in: "pending_id key db = Some n \<Longrightarrow> key \<in> set (map po_key (db_pending db))"
  by (auto simp: pending_id_def find_Some_iff split: option.splits)


definition demo_request :: live_order_request where
  "demo_request =
     \<lparr>rq_strategy_id = 7, rq_run_id = 3, rq_user_id = 1, rq_symbol = ''BTC/USDT'', rq_action = ''open_long'', rq_quantity = Fin 2,
      rq_reference_price = Fin 100, rq_signal_timestamp = 1700000000, rq_market_type = ''swap'', rq_execution_mode = ''live'',
      rq_leverage = Fin 1, rq_margin_mode = ''cross'', rq_reason = ''cross'', rq_notification_config = [], rq_order_type = ''market'',
      rq_execution_algo = ''market'', rq_limit_price = Fin 0, rq_maker_wait_sec = Fin 0, rq_maker_offset_bps = Fin 0,
      rq_protection = [], rq_sizing = [], rq_client_order_id = ''entry-1'', rq_ai_decision_filter = False, rq_strategy_type = [],
      rq_fencing_token = 0\<rparr>"

definition empty_db :: order_db where
  "empty_db = \<lparr>db_intents = [], db_pending = [], db_next_intent = 1, db_next_pending = 1, db_leases = [], db_events = []\<rparr>"

abbreviation no_faults :: db_faults where
  "no_faults \<equiv> \<lparr>ft_lookup = False, ft_insert = False\<rparr>"

definition demo_queue :: gateway_state where
  "demo_queue = snd (submit (\<lambda>_. []) (\<lambda>_ _. Inr True) no_faults 0 demo_request (\<lparr>gw_latches = [], gw_cycle = []\<rparr>, empty_db))"

definition demo_failed :: gateway_state where
  "demo_failed = (fst demo_queue, (snd demo_queue)\<lparr>db_pending := map (\<lambda>r. r\<lparr>po_status := ''failed''\<rparr>) (db_pending (snd demo_queue)),
     db_intents := map (\<lambda>r. r\<lparr>it_status := ''failed''\<rparr>) (db_intents (snd demo_queue))\<rparr>)"


section \<open>What the intent says of the order\<close>

text \<open>The signal of a request carries no metadata and the request's reference price as its price hint, so the
  stored intent of every accepted request, a market order included, is a limit order at the reference price.\<close>

lemma stored_intent_is_limit:
  assumes "validate_request rq = Inr rq" and "rq_reference_price rq \<noteq> NaN"
    and "bindE (request_signal rq) (\<lambda>sg. to_order_intent_kwargs sg (rq_leverage rq)) = Inr kw"
  shows "if_order_type kw = ''limit'' \<and> if_execution_algo kw = ''limit'' \<and> if_limit_price kw = rq_reference_price rq"
proof -
  have "\<not> fle (rq_reference_price rq) (Fin 0)"
    using assms(1) by (auto simp: validate_request_def Let_def split: if_splits)
  then have p: "flt (Fin 0) (rq_reference_price rq)" using assms(2) by (cases "rq_reference_price rq") auto
  have e: "lower (strip []) = []" by code_simp
  from assms(3) p show ?thesis
    by (auto simp: request_signal_def mk_signal_def bindE_Inr_iff to_order_intent_kwargs_def sg_order_type_def sg_execution_algo_def
        metadata_word_def dget_or_def float_default_def Let_def e)
qed

text \<open>The AI latch: a rejected signal stays rejected, without touching the tables, while its fingerprint is
  latched.\<close>

lemma latched_request_not_submitted:
  assumes "ai_signal_fingerprint rq \<in> dget_or (gw_latches gw) (rq_run_id rq) {}"
    and "rq_execution_mode rq = ''live''" and "rq_ai_decision_filter rq"
  shows "snd (snd (submit digest decide ft now rq (gw, db))) = db \<and> (\<forall>n. fst (submit digest decide ft now rq (gw, db)) \<noteq> Inr (Some n))"
  using assms by (auto simp: submit_def is_ai_rejection_latched_def Let_def split: sum.split)

lemma finish_signal_cycle_keeps_seen:
  assumes "fp \<in> dget_or (gw_latches gw) run {}" and "dget (gw_cycle gw) run = Some seen" and "fp \<in> seen" and "0 < run"
  shows "fp \<in> dget_or (gw_latches (finish_signal_cycle run gw)) run {}"
  using assms by (auto simp: finish_signal_cycle_def Let_def dget_or_def)

lemma finish_signal_cycle_releases:
  assumes "dget (gw_cycle gw) run = Some seen" and "fp \<notin> seen" and "0 < run"
  shows "fp \<notin> dget_or (gw_latches (finish_signal_cycle run gw)) run {}"
  using assms by (auto simp: finish_signal_cycle_def Let_def dget_or_def)

end
