(* ===== verification/VirtualLedger.thy ===== *)
theory VirtualLedger
  imports VirtualFill OrderGateway
begin

text \<open>
  The virtual account of signal-only strategies (\<open>services/virtual_trading.py\<close>): orders, positions,
  trades and the account row of a strategy, over the queue of \<open>OrderGateway\<close>.

  A table is the list of its rows, a transaction a function from the database to a result and the new
  database: an exception rolls everything back.  \<open>DECIMAL\<close> columns hold exact values or NaN; how the driver
  writes a float into a statement and how a value is fitted into a \<open>DECIMAL(p, s)\<close> column belong to the
  database and are parameters, as is the session of an exchange calendar.  JSON columns hold the decoded
  value.  Timestamps that no condition reads are left out, and texts fit their columns.
\<close>

section \<open>The database\<close>

record virtual_env =
  ve_param :: "pyfloat \<Rightarrow> pyfloat"
  ve_column :: "nat \<Rightarrow> nat \<Rightarrow> pyfloat \<Rightarrow> pyfloat result"
  ve_session :: "string \<Rightarrow> bool result"

definition store :: "virtual_env \<Rightarrow> nat \<Rightarrow> nat \<Rightarrow> pyfloat \<Rightarrow> pyfloat result" where
  "store ve p s x = ve_column ve p s (ve_param ve x)"

text \<open>\<open>float(column or 0.0)\<close> and the operators of the statements: \<open>+\<close>, \<open>SUM\<close>, \<open>GREATEST\<close> and
  \<open>LEAST\<close>, where NaN counts as larger than every number.\<close>

fun column_float :: "pyfloat \<Rightarrow> pyfloat" where
  "column_float (Fin x) = fl x"
| "column_float a = a"

fun sql_add :: "pyfloat \<Rightarrow> pyfloat \<Rightarrow> pyfloat" where
  "sql_add (Fin x) (Fin y) = Fin (x + y)"
| "sql_add a b = fadd a b"

definition sql_sum :: "pyfloat list \<Rightarrow> pyfloat" where
  "sql_sum xs = foldr sql_add xs (Fin 0)"

definition sql_greater :: "pyfloat \<Rightarrow> pyfloat \<Rightarrow> bool" where
  "sql_greater a b \<longleftrightarrow> (a = NaN \<and> b \<noteq> NaN) \<or> flt b a"

definition greatest :: "pyfloat \<Rightarrow> pyfloat \<Rightarrow> pyfloat" where
  "greatest a b = (if sql_greater b a then b else a)"

definition least :: "pyfloat \<Rightarrow> pyfloat \<Rightarrow> pyfloat" where
  "least a b = (if sql_greater a b then b else a)"

record strategy_row =
  sr_id :: int
  sr_user :: int
  sr_execution_mode :: string
  sr_initial_capital :: pyval
  sr_exchange_config :: pyval
  sr_trading_config :: pyval
  sr_market_type :: pyval
  sr_leverage :: pyval
  sr_market_category :: pyval

record virtual_account =
  va_strategy :: int
  va_user :: int
  va_initial_cash :: pyfloat
  va_cash_balance :: pyfloat
  va_realized_pnl :: pyfloat
  va_total_commission :: pyfloat

record virtual_order =
  vo_id :: int
  vo_user :: int
  vo_strategy :: int
  vo_run :: int
  vo_pending :: int
  vo_intent :: int
  vo_symbol :: string
  vo_side :: string
  vo_action :: string
  vo_order_type :: string
  vo_requested_qty :: pyfloat
  vo_fill_qty :: pyfloat
  vo_reference_price :: pyfloat
  vo_limit_price :: pyfloat
  vo_fill_price :: pyfloat
  vo_exchange_id :: string
  vo_market_type :: string
  vo_leverage :: pyfloat
  vo_commission_rate :: pyfloat
  vo_commission_quote :: pyfloat
  vo_slippage_rate :: pyfloat
  vo_slippage_quote :: pyfloat
  vo_status :: string
  vo_reason :: string

record virtual_position =
  vp_id :: int
  vp_user :: int
  vp_strategy :: int
  vp_run :: int
  vp_symbol :: string
  vp_key :: string
  vp_side :: string
  vp_size :: pyfloat
  vp_entry_price :: pyfloat
  vp_current_price :: pyfloat
  vp_highest_price :: pyfloat
  vp_lowest_price :: pyfloat
  vp_unrealized_pnl :: pyfloat
  vp_pnl_percent :: pyfloat
  vp_market_type :: string

record virtual_trade =
  vx_id :: int
  vx_user :: int
  vx_strategy :: int
  vx_run :: int
  vx_order :: int
  vx_pending :: int
  vx_intent :: int
  vx_symbol :: string
  vx_key :: string
  vx_type :: string
  vx_side :: string
  vx_price :: pyfloat
  vx_amount :: pyfloat
  vx_value :: pyfloat
  vx_commission :: pyfloat
  vx_commission_quote :: pyfloat
  vx_profit :: pyfloat
  vx_close_reason :: string
  vx_matched_entry_price :: pyfloat
  vx_account_equity :: pyfloat
  vx_market_type :: string
  vx_exchange_id :: string
  vx_leverage :: pyfloat
  vx_reference_price :: pyfloat
  vx_commission_rate :: pyfloat
  vx_slippage_rate :: pyfloat
  vx_slippage_quote :: pyfloat

record order_fill =
  of_intent :: int
  of_run :: int
  of_strategy :: int
  of_exchange_order :: string
  of_fill_id :: string
  of_side :: string
  of_position_side :: string
  of_price :: pyfloat
  of_quantity :: pyfloat
  of_notional :: pyfloat
  of_fee :: pyfloat
  of_commission_quote :: pyfloat

text \<open>The columns of \<open>pending_orders\<close> that its insert leaves at their defaults.\<close>

record queue_columns =
  qc_attempts :: int
  qc_max_attempts :: int
  qc_last_error :: string
  qc_dispatch_note :: string
  qc_exchange_id :: string
  qc_exchange_order_id :: string
  qc_filled :: pyfloat
  qc_avg_price :: pyfloat

definition queue_defaults :: queue_columns where
  "queue_defaults =
     \<lparr>qc_attempts = 0, qc_max_attempts = 10, qc_last_error = [], qc_dispatch_note = [], qc_exchange_id = [],
      qc_exchange_order_id = [], qc_filled = Fin 0, qc_avg_price = Fin 0\<rparr>"

record virtual_db =
  vd_queue :: order_db
  vd_columns :: "(int, queue_columns) dict"
  vd_strategies :: "strategy_row list"
  vd_accounts :: "virtual_account list"
  vd_orders :: "virtual_order list"
  vd_positions :: "virtual_position list"
  vd_trades :: "virtual_trade list"
  vd_fills :: "order_fill list"
  vd_next_order :: int
  vd_next_position :: int
  vd_next_trade :: int

type_synonym 'a transaction = "virtual_db \<Rightarrow> ('a \<times> virtual_db) result"

definition columns_of :: "virtual_db \<Rightarrow> int \<Rightarrow> queue_columns" where
  "columns_of db n = dget_or (vd_columns db) n queue_defaults"

text \<open>\<open>UPDATE pending_orders SET ... WHERE id = n AND guard\<close>, and the same for an intent.\<close>

definition update_pending :: "int \<Rightarrow> (pending_row \<Rightarrow> bool) \<Rightarrow> string \<Rightarrow> virtual_db \<Rightarrow> virtual_db" where
  "update_pending n guard status db =
     db\<lparr>vd_queue := (vd_queue db)\<lparr>db_pending :=
       map (\<lambda>r. if po_id r = n \<and> guard r then r\<lparr>po_status := status\<rparr> else r) (db_pending (vd_queue db))\<rparr>\<rparr>"

definition update_intent :: "int \<Rightarrow> (intent_row \<Rightarrow> bool) \<Rightarrow> string \<Rightarrow> virtual_db \<Rightarrow> virtual_db" where
  "update_intent n guard status db =
     db\<lparr>vd_queue := (vd_queue db)\<lparr>db_intents :=
       map (\<lambda>r. if it_id r = n \<and> guard r then r\<lparr>it_status := status\<rparr> else r) (db_intents (vd_queue db))\<rparr>\<rparr>"

definition set_columns :: "int \<Rightarrow> (queue_columns \<Rightarrow> queue_columns) \<Rightarrow> virtual_db \<Rightarrow> virtual_db" where
  "set_columns n f db =
     (if \<exists>r \<in> set (db_pending (vd_queue db)). po_id r = n
      then db\<lparr>vd_columns := dset (vd_columns db) n (f (columns_of db n))\<rparr> else db)"

section \<open>Reading an order\<close>

record virtual_request =
  vq_order :: int
  vq_strategy :: int
  vq_user :: int
  vq_action :: string
  vq_side :: string
  vq_symbol :: string
  vq_key :: string
  vq_quantity :: pyfloat
  vq_reference :: pyfloat
  vq_order_type :: string
  vq_limit :: pyfloat
  vq_forced :: pyfloat
  vq_sizing :: pydict
  vq_run :: int
  vq_intent :: int

definition read_identity :: "pydict \<Rightarrow> pydict \<Rightarrow> (int \<times> int \<times> int) result" where
  "read_identity order_row payload =
     (if word_of [pget order_row ''execution_mode'', pget payload ''execution_mode''] [] \<noteq> ''signal''
        \<or> word_of [pget payload ''execution_mode''] ''signal'' \<noteq> ''signal''
      then Inl (ValueError ''virtualTrading.signalModeRequired'')
      else
      bindE (int_of [pget order_row ''id'']) (\<lambda>order_id.
      bindE (int_of [pget payload ''strategy_id'', pget order_row ''strategy_id'']) (\<lambda>strategy_id.
      bindE (int_of [pget order_row ''user_id'', pget payload ''user_id'']) (\<lambda>user_id.
        if order_id \<le> 0 \<or> strategy_id \<le> 0 \<or> user_id \<le> 0 then Inl (ValueError ''virtualTrading.invalidIdentity'')
        else Inr (order_id, strategy_id, user_id)))))"

definition read_action :: "pydict \<Rightarrow> pydict \<Rightarrow> string result" where
  "read_action order_row payload =
     (let action = word_of [pget payload ''signal_type'', pget order_row ''signal_type''] [] in
      if action \<notin> set ENTRY_ACTIONS \<union> set EXIT_ACTIONS then Inl (ValueError ''virtualTrading.unsupportedAction'') else Inr action)"

definition action_side :: "string \<Rightarrow> string" where
  "action_side action = (if endswith action ''_short'' then ''short'' else ''long'')"

definition read_virtual_request :: "pydict \<Rightarrow> pydict \<Rightarrow> virtual_request result" where
  "read_virtual_request order_row payload =
     (let symbol = strip (to_str (first_of [pget payload ''symbol'', pget order_row ''symbol'', PStr []]));
          order_type = word_of [pget payload ''order_type'', pget order_row ''order_type''] ''market''
      in bindE (read_identity order_row payload) (\<lambda>identity.
         bindE (read_action order_row payload) (\<lambda>action.
         bindE (float_of [pget payload ''amount'', pget order_row ''amount'']) (\<lambda>quantity.
         bindE (float_of [pget payload ''ref_price'', pget payload ''price'', pget order_row ''price'']) (\<lambda>reference.
         bindE (float_of [pget payload ''limit_price'', if order_type = ''limit'' then pget payload ''price'' else PFloat (Fin 0)]) (\<lambda>limit_price.
         bindE (float_of [pget payload ''_virtual_fill_price'']) (\<lambda>forced.
         bindE (int_of [pget payload ''strategy_run_id'', pget order_row ''strategy_run_id'']) (\<lambda>run.
         bindE (int_of [pget payload ''order_intent_id'', pget order_row ''order_intent_id'']) (\<lambda>intent.
           Inr \<lparr>vq_order = fst identity, vq_strategy = fst (snd identity), vq_user = snd (snd identity), vq_action = action,
                vq_side = action_side action, vq_symbol = symbol, vq_key = canonical_symbol (PStr symbol), vq_quantity = quantity,
                vq_reference = reference, vq_order_type = order_type, vq_limit = limit_price, vq_forced = forced,
                vq_sizing = mapping_of (pget payload ''sizing''), vq_run = run, vq_intent = intent\<rparr>)))))))))"

definition calendar_markets :: "string list" where
  "calendar_markets = [''USStock'', ''HKStock'', ''AStock'', ''CNStock'']"

definition is_equity_market_open :: "virtual_env \<Rightarrow> string \<Rightarrow> bool result" where
  "is_equity_market_open ve market =
     (let m = strip market in if m \<notin> set calendar_markets then Inr True else ve_session ve m)"

section \<open>Writing a fill\<close>

definition load_strategy :: "virtual_request \<Rightarrow> virtual_db \<Rightarrow> strategy_row result" where
  "load_strategy rq db =
     (case find (\<lambda>s. sr_id s = vq_strategy rq \<and> sr_user s = vq_user rq) (vd_strategies db) of
        None \<Rightarrow> Inl (ValueError ''virtualTrading.strategyNotFound'')
      | Some st \<Rightarrow>
          if lower (strip (str_default (sr_execution_mode st) ''signal'')) \<noteq> ''signal''
          then Inl (ValueError ''virtualTrading.liveStrategyRejected'') else Inr st)"

definition strategy_dict :: "strategy_row \<Rightarrow> pydict" where
  "strategy_dict st = [(''market_type'', sr_market_type st), (''leverage'', sr_leverage st)]"

definition unique_violation :: pyexc where
  "unique_violation = RuntimeError ''UniqueViolation''"

definition ensure_account :: "virtual_env \<Rightarrow> virtual_request \<Rightarrow> pyfloat \<Rightarrow> virtual_db \<Rightarrow> virtual_db result" where
  "ensure_account ve rq initial_cash db =
     bindE (store ve 24 8 initial_cash) (\<lambda>cash.
       Inr (if \<exists>a \<in> set (vd_accounts db). va_strategy a = vq_strategy rq then db
            else db\<lparr>vd_accounts := vd_accounts db @ [\<lparr>va_strategy = vq_strategy rq, va_user = vq_user rq, va_initial_cash = cash,
                   va_cash_balance = cash, va_realized_pnl = Fin 0, va_total_commission = Fin 0\<rparr>]\<rparr>))"

definition account_of :: "int \<Rightarrow> virtual_db \<Rightarrow> virtual_account option" where
  "account_of sid db = find (\<lambda>a. va_strategy a = sid) (vd_accounts db)"

definition account_float :: "(virtual_account \<Rightarrow> pyfloat) \<Rightarrow> virtual_account option \<Rightarrow> pyfloat" where
  "account_float field a = (case a of None \<Rightarrow> Fin 0 | Some r \<Rightarrow> column_float (field r))"

text \<open>Both inserts into the virtual orders: the open order and the executed one differ in the fill columns.\<close>

definition insert_virtual_order ::
  "virtual_env \<Rightarrow> virtual_request \<Rightarrow> cost_policy \<Rightarrow> pyfloat \<times> pyfloat \<times> pyfloat \<times> pyfloat \<Rightarrow> string \<Rightarrow> string \<Rightarrow> int transaction" where
  "insert_virtual_order ve rq cp fill status reason db =
     bindE (store ve 24 10 (vq_quantity rq)) (\<lambda>requested.
     bindE (store ve 24 10 (vq_reference rq)) (\<lambda>reference.
     bindE (store ve 24 10 (vq_limit rq)) (\<lambda>limit_price.
     bindE (store ve 12 4 (cp_leverage cp)) (\<lambda>leverage.
     bindE (store ve 14 10 (cp_commission_rate cp)) (\<lambda>commission_rate.
     bindE (store ve 14 10 (cp_slippage_rate cp)) (\<lambda>slippage_rate.
       if \<exists>o' \<in> set (vd_orders db). vo_pending o' = vq_order rq then Inl unique_violation
       else let n = vd_next_order db in
         Inr (n, db\<lparr>vd_next_order := n + 1, vd_orders := vd_orders db @
           [\<lparr>vo_id = n, vo_user = vq_user rq, vo_strategy = vq_strategy rq, vo_run = vq_run rq, vo_pending = vq_order rq,
             vo_intent = vq_intent rq, vo_symbol = vq_symbol rq, vo_side = vq_side rq, vo_action = vq_action rq,
             vo_order_type = vq_order_type rq, vo_requested_qty = requested, vo_fill_qty = fst fill, vo_reference_price = reference,
             vo_limit_price = limit_price, vo_fill_price = fst (snd fill), vo_exchange_id = cp_exchange_id cp,
             vo_market_type = cp_market_type cp, vo_leverage = leverage, vo_commission_rate = commission_rate,
             vo_commission_quote = fst (snd (snd fill)), vo_slippage_rate = slippage_rate, vo_slippage_quote = snd (snd (snd fill)),
             vo_status = status, vo_reason = reason\<rparr>]\<rparr>)))))))"

definition update_virtual_order ::
  "virtual_env \<Rightarrow> virtual_request \<Rightarrow> int \<Rightarrow> pyfloat \<times> pyfloat \<times> pyfloat \<times> pyfloat \<Rightarrow> string \<Rightarrow> virtual_db \<Rightarrow> virtual_db result" where
  "update_virtual_order ve rq n fill status db =
     bindE (store ve 24 10 (vq_reference rq)) (\<lambda>reference.
       Inr (db\<lparr>vd_orders := map (\<lambda>o'. if vo_id o' = n \<and> vo_status o' = ''open''
          then o'\<lparr>vo_fill_qty := fst fill, vo_reference_price := reference, vo_fill_price := fst (snd fill),
                 vo_commission_quote := fst (snd (snd fill)), vo_slippage_quote := snd (snd (snd fill)), vo_status := status\<rparr>
          else o') (vd_orders db)\<rparr>))"

definition at_leg :: "virtual_request \<Rightarrow> virtual_position \<Rightarrow> bool" where
  "at_leg rq p \<longleftrightarrow> vp_strategy p = vq_strategy rq \<and> vp_key p = vq_key rq \<and> vp_side p = vq_side rq"

definition position_of :: "virtual_request \<Rightarrow> virtual_db \<Rightarrow> virtual_position option" where
  "position_of rq db = find (at_leg rq) (vd_positions db)"

definition position_float :: "(virtual_position \<Rightarrow> pyfloat) \<Rightarrow> virtual_position option \<Rightarrow> pyfloat" where
  "position_float field p = (case p of None \<Rightarrow> Fin 0 | Some r \<Rightarrow> column_float (field r))"

definition leg_pnl :: "string \<Rightarrow> pyfloat \<Rightarrow> pyfloat \<Rightarrow> pyfloat \<Rightarrow> pyfloat" where
  "leg_pnl side entry price sz = (if side = ''short'' then fmul (fsub entry price) sz else fmul (fsub price entry) sz)"

definition lowered :: "pyfloat \<Rightarrow> pyfloat \<Rightarrow> pyfloat" where
  "lowered low price = (if \<not> sql_greater low (Fin 0) then price else least low price)"

definition save_position ::
  "virtual_env \<Rightarrow> virtual_request \<Rightarrow> virtual_fill_transition \<Rightarrow> pyfloat \<Rightarrow> string \<Rightarrow> virtual_db \<Rightarrow> virtual_db result" where
  "save_position ve rq t fill_price market_type db =
     bindE (store ve 24 10 (ft_size t)) (\<lambda>sz.
     bindE (store ve 24 10 (ft_entry t)) (\<lambda>entry.
     bindE (store ve 24 10 fill_price) (\<lambda>price.
     bindE (store ve 24 8 (leg_pnl (vq_side rq) (ft_entry t) fill_price (ft_size t))) (\<lambda>unrealized.
       let n = vd_next_position db; db1 = db\<lparr>vd_next_position := n + 1\<rparr> in
       Inr (if \<exists>p \<in> set (vd_positions db). at_leg rq p
         then db1\<lparr>vd_positions := map (\<lambda>p. if at_leg rq p
                then p\<lparr>vp_run := vq_run rq, vp_symbol := vq_symbol rq, vp_size := sz, vp_entry_price := entry, vp_current_price := price,
                      vp_highest_price := greatest (vp_highest_price p) price, vp_lowest_price := lowered (vp_lowest_price p) price,
                      vp_unrealized_pnl := unrealized, vp_market_type := market_type\<rparr>
                else p) (vd_positions db)\<rparr>
         else db1\<lparr>vd_positions := vd_positions db @
                [\<lparr>vp_id = n, vp_user = vq_user rq, vp_strategy = vq_strategy rq, vp_run = vq_run rq, vp_symbol = vq_symbol rq,
                  vp_key = vq_key rq, vp_side = vq_side rq, vp_size = sz, vp_entry_price = entry, vp_current_price = price,
                  vp_highest_price = price, vp_lowest_price = price, vp_unrealized_pnl = unrealized, vp_pnl_percent = Fin 0,
                  vp_market_type = market_type\<rparr>]\<rparr>)))))"

definition book_position ::
  "virtual_env \<Rightarrow> virtual_request \<Rightarrow> virtual_fill_transition \<Rightarrow> pyfloat \<Rightarrow> string \<Rightarrow> virtual_db \<Rightarrow> virtual_db result" where
  "book_position ve rq t fill_price market_type db =
     (if ft_status t = ''filled'' \<and> flt (fl (1 / 10 ^ 12)) (ft_size t) then save_position ve rq t fill_price market_type db
      else if ft_status t = ''filled'' then Inr (db\<lparr>vd_positions := filter (\<lambda>p. \<not> at_leg rq p) (vd_positions db)\<rparr>)
      else Inr db)"

definition update_account :: "virtual_env \<Rightarrow> int \<Rightarrow> pyfloat \<Rightarrow> pyfloat \<Rightarrow> virtual_db \<Rightarrow> virtual_db result" where
  "update_account ve sid realized commission db =
     bindE (mapE (\<lambda>a. if va_strategy a \<noteq> sid then Inr a
         else bindE (ve_column ve 24 8 (sql_add (va_initial_cash a) (ve_param ve realized))) (\<lambda>cash.
              bindE (store ve 24 8 realized) (\<lambda>r.
              bindE (store ve 24 8 commission) (\<lambda>c.
                Inr (a\<lparr>va_cash_balance := cash, va_realized_pnl := r, va_total_commission := c\<rparr>))))) (vd_accounts db)) (\<lambda>accounts.
       Inr (db\<lparr>vd_accounts := accounts\<rparr>))"

definition unrealized_total :: "int \<Rightarrow> virtual_db \<Rightarrow> pyfloat" where
  "unrealized_total sid db =
     column_float (sql_sum (map vp_unrealized_pnl (filter (\<lambda>p. vp_strategy p = sid) (vd_positions db))))"

section \<open>Executing an order\<close>

definition insert_trade ::
  "virtual_env \<Rightarrow> virtual_request \<Rightarrow> cost_policy \<Rightarrow> int \<Rightarrow> virtual_fill_transition \<Rightarrow> pyfloat \<Rightarrow> pyfloat \<Rightarrow> pyfloat \<Rightarrow> pyfloat \<Rightarrow> pyfloat \<Rightarrow>
     string \<Rightarrow> virtual_db \<Rightarrow> virtual_db result" where
  "insert_trade ve rq cp order t fill_price commission slippage equity matched reason db =
     bindE (store ve 24 10 fill_price) (\<lambda>price.
     bindE (store ve 24 10 (ft_quantity t)) (\<lambda>amount.
     bindE (store ve 24 8 (fmul (ft_quantity t) fill_price)) (\<lambda>value.
     bindE (store ve 24 8 commission) (\<lambda>fee.
     bindE (store ve 24 8 (ft_gross t)) (\<lambda>profit.
     bindE (store ve 24 10 matched) (\<lambda>entry.
     bindE (store ve 24 8 equity) (\<lambda>account_equity.
     bindE (store ve 12 4 (cp_leverage cp)) (\<lambda>leverage.
     bindE (store ve 24 10 (vq_reference rq)) (\<lambda>reference.
     bindE (store ve 14 10 (cp_commission_rate cp)) (\<lambda>commission_rate.
     bindE (store ve 14 10 (cp_slippage_rate cp)) (\<lambda>slippage_rate.
     bindE (store ve 24 8 slippage) (\<lambda>slippage_quote.
       if \<exists>x \<in> set (vd_trades db). vx_order x = order \<or> vx_pending x = vq_order rq then Inl unique_violation
       else let n = vd_next_trade db in
         Inr (db\<lparr>vd_next_trade := n + 1, vd_trades := vd_trades db @
           [\<lparr>vx_id = n, vx_user = vq_user rq, vx_strategy = vq_strategy rq, vx_run = vq_run rq, vx_order = order, vx_pending = vq_order rq,
             vx_intent = vq_intent rq, vx_symbol = vq_symbol rq, vx_key = vq_key rq, vx_type = vq_action rq, vx_side = vq_side rq,
             vx_price = price, vx_amount = amount, vx_value = value, vx_commission = fee, vx_commission_quote = fee, vx_profit = profit,
             vx_close_reason = reason, vx_matched_entry_price = entry, vx_account_equity = account_equity,
             vx_market_type = cp_market_type cp, vx_exchange_id = cp_exchange_id cp, vx_leverage = leverage,
             vx_reference_price = reference, vx_commission_rate = commission_rate, vx_slippage_rate = slippage_rate,
             vx_slippage_quote = slippage_quote\<rparr>]\<rparr>)))))))))))))"

text \<open>The unique index on the fills covers exchange, credential and fill identifier; the first two are
  \<open>'virtual'\<close> and 0 in every row written here.\<close>

definition virtual_fill_id :: "int \<Rightarrow> string" where
  "virtual_fill_id order = ''virtual:'' @ show_int order"

definition insert_fill ::
  "virtual_env \<Rightarrow> virtual_request \<Rightarrow> int \<Rightarrow> virtual_fill_transition \<Rightarrow> pyfloat \<Rightarrow> pyfloat \<Rightarrow> virtual_db \<Rightarrow> virtual_db result" where
  "insert_fill ve rq order t fill_price commission db =
     bindE (store ve 28 12 fill_price) (\<lambda>price.
     bindE (store ve 28 12 (ft_quantity t)) (\<lambda>quantity.
     bindE (store ve 28 12 (fmul (ft_quantity t) fill_price)) (\<lambda>notional.
     bindE (store ve 28 12 commission) (\<lambda>fee.
       let fill_id = virtual_fill_id order in
       Inr (if \<exists>f \<in> set (vd_fills db). of_fill_id f = fill_id then db
         else db\<lparr>vd_fills := vd_fills db @
           [\<lparr>of_intent = vq_intent rq, of_run = vq_run rq, of_strategy = vq_strategy rq, of_exchange_order = show_int order,
             of_fill_id = fill_id, of_side = (if vq_action rq \<in> {''open_long'', ''add_long'', ''reduce_short'', ''close_short''} then ''buy'' else ''sell''),
             of_position_side = vq_side rq, of_price = price, of_quantity = quantity, of_notional = notional, of_fee = fee,
             of_commission_quote = fee\<rparr>]\<rparr>)))))"

definition complete_order :: "virtual_env \<Rightarrow> virtual_request \<Rightarrow> virtual_fill_transition \<Rightarrow> pyfloat \<Rightarrow> virtual_db \<Rightarrow> virtual_db result" where
  "complete_order ve rq t fill_price db =
     bindE (store ve 20 8 (ft_quantity t)) (\<lambda>filled.
     bindE (store ve 20 8 fill_price) (\<lambda>avg_price.
       let db1 = set_columns (vq_order rq) (\<lambda>c. c\<lparr>qc_filled := filled, qc_avg_price := avg_price\<rparr>)
                   (update_pending (vq_order rq) (\<lambda>_. True) ''filled'' db)
       in Inr (if vq_intent rq > 0 then update_intent (vq_intent rq) (\<lambda>_. True) ''filled'' db1 else db1)))"

definition existing_result :: "virtual_order \<Rightarrow> pydict" where
  "existing_result o' =
     [(''virtual_order_id'', PInt (vo_id o')), (''status'', PStr (str_default (vo_status o') ''filled'')),
      (''fill_quantity'', PFloat (column_float (vo_fill_qty o'))), (''fill_price'', PFloat (column_float (vo_fill_price o'))),
      (''idempotent'', PBool True)]"

definition deferred_result :: "virtual_request \<Rightarrow> cost_policy \<Rightarrow> int \<Rightarrow> pyfloat \<Rightarrow> bool \<Rightarrow> pydict" where
  "deferred_result rq cp order equity market_open =
     [(''virtual_order_id'', PInt order), (''status'', PStr ''open''), (''fill_quantity'', PFloat (Fin 0)), (''fill_price'', PFloat (Fin 0)),
      (''limit_price'', PFloat (vq_limit rq)), (''commission'', PFloat (Fin 0)), (''commission_rate'', PFloat (cp_commission_rate cp)),
      (''slippage_rate'', PFloat (cp_slippage_rate cp)), (''slippage_quote'', PFloat (Fin 0)), (''exchange_id'', PStr (cp_exchange_id cp)),
      (''market_type'', PStr (cp_market_type cp)), (''leverage'', PFloat (cp_leverage cp)), (''account_equity'', PFloat equity),
      (''deferred_reason'', PStr (if \<not> market_open then ''market_closed'' else ''limit_not_reached'')), (''idempotent'', PBool False)]"

definition filled_result ::
  "cost_policy \<Rightarrow> int \<Rightarrow> virtual_fill_transition \<Rightarrow> pyfloat \<Rightarrow> pyfloat \<Rightarrow> pyfloat \<Rightarrow> pyfloat \<Rightarrow> pydict" where
  "filled_result cp order t fill_price commission slippage equity =
     [(''virtual_order_id'', PInt order), (''status'', PStr (ft_status t)), (''fill_quantity'', PFloat (ft_quantity t)),
      (''fill_price'', PFloat fill_price), (''gross_realized_pnl'', PFloat (ft_gross t)), (''commission'', PFloat commission),
      (''commission_rate'', PFloat (cp_commission_rate cp)), (''slippage_rate'', PFloat (cp_slippage_rate cp)),
      (''slippage_quote'', PFloat slippage), (''exchange_id'', PStr (cp_exchange_id cp)), (''market_type'', PStr (cp_market_type cp)),
      (''leverage'', PFloat (cp_leverage cp)), (''account_equity'', PFloat equity), (''idempotent'', PBool False)]"

text \<open>The order row of a fill: the open row found for the pending order, or a new one.\<close>

definition book_order ::
  "virtual_env \<Rightarrow> virtual_request \<Rightarrow> cost_policy \<Rightarrow> virtual_order option \<Rightarrow> virtual_fill_transition \<Rightarrow> pyfloat \<Rightarrow> pyfloat \<Rightarrow> pyfloat \<Rightarrow> string \<Rightarrow>
     int transaction" where
  "book_order ve rq cp existing t fill_price commission slippage reason db =
     bindE (store ve 24 10 (ft_quantity t)) (\<lambda>quantity.
     bindE (store ve 24 10 fill_price) (\<lambda>price.
     bindE (store ve 24 8 commission) (\<lambda>fee.
     bindE (store ve 24 8 slippage) (\<lambda>slip.
       case existing of
         Some o' \<Rightarrow> bindE (update_virtual_order ve rq (vo_id o') (quantity, price, fee, slip) (ft_status t) db) (\<lambda>db1. Inr (vo_id o', db1))
       | None \<Rightarrow> insert_virtual_order ve rq cp (quantity, price, fee, slip) (ft_status t) reason db))))"

definition reason_of :: "pydict \<Rightarrow> string \<Rightarrow> string" where
  "reason_of payload dflt = take 255 (str_or (pget payload ''reason'') dflt)"

text \<open>The rows of a fill: the trade, the fill, and the pending order with its intent.\<close>

definition record_fill ::
  "virtual_env \<Rightarrow> virtual_request \<Rightarrow> cost_policy \<Rightarrow> int \<Rightarrow> virtual_fill_transition \<Rightarrow> pyfloat \<Rightarrow> pyfloat \<Rightarrow> pyfloat \<Rightarrow> pyfloat \<Rightarrow> pyfloat \<Rightarrow>
     pydict \<Rightarrow> virtual_db \<Rightarrow> virtual_db result" where
  "record_fill ve rq cp order t fill_price commission slippage equity matched payload db =
     (if ft_status t = ''filled''
      then bindE (insert_trade ve rq cp order t fill_price commission slippage equity matched
             (if vq_action rq \<in> set EXIT_ACTIONS then reason_of payload ''indicator_signal'' else []) db) (\<lambda>db1.
           bindE (insert_fill ve rq order t fill_price commission db1) (complete_order ve rq t fill_price))
      else Inr db)"

definition settle_fill ::
  "virtual_env \<Rightarrow> virtual_request \<Rightarrow> cost_policy \<Rightarrow> virtual_order option \<Rightarrow> pyfloat \<Rightarrow> pyfloat \<Rightarrow> pydict \<Rightarrow> pydict transaction" where
  "settle_fill ve rq cp existing fill_price initial_cash payload db =
     (let account = account_of (vq_strategy rq) db; position = position_of rq db in
      bindE (calculate_virtual_fill (vq_action rq) (vq_quantity rq) fill_price
               (position_float vp_size position) (position_float vp_entry_price position)) (\<lambda>t.
      let commission = commission_for cp (ft_quantity t) fill_price;
          slippage = slippage_quote_for cp (ft_quantity t) (vq_reference rq) fill_price;
          realized = fsub (fadd (account_float va_realized_pnl account) (ft_gross t)) commission;
          total_commission = fadd (account_float va_total_commission account) commission
      in bindE (book_order ve rq cp existing t fill_price commission slippage (reason_of payload []) db) (\<lambda>(order, db1).
         bindE (book_position ve rq t fill_price (cp_market_type cp) db1) (\<lambda>db2.
         bindE (update_account ve (vq_strategy rq) realized total_commission db2) (\<lambda>db3.
         let equity = fadd (fadd initial_cash realized) (unrealized_total (vq_strategy rq) db3) in
         bindE (record_fill ve rq cp order t fill_price commission slippage equity (position_float vp_entry_price position) payload db3) (\<lambda>db6.
           Inr (filled_result cp order t fill_price commission slippage equity, db6)))))))"

definition open_order ::
  "virtual_env \<Rightarrow> virtual_request \<Rightarrow> cost_policy \<Rightarrow> pyfloat \<Rightarrow> bool \<Rightarrow> pydict \<Rightarrow> pydict transaction" where
  "open_order ve rq cp initial_cash market_open payload db =
     bindE (insert_virtual_order ve rq cp (Fin 0, Fin 0, Fin 0, Fin 0) ''open'' (reason_of payload []) db) (\<lambda>(order, db1).
       Inr (deferred_result rq cp order (case account_of (vq_strategy rq) db of
           None \<Rightarrow> initial_cash | Some a \<Rightarrow> if ftruthy (va_initial_cash a) then column_float (va_initial_cash a) else initial_cash) market_open, db1))"

definition run_virtual_order ::
  "virtual_env \<Rightarrow> virtual_request \<Rightarrow> strategy_row \<Rightarrow> cost_policy \<Rightarrow> bool \<Rightarrow> virtual_order option \<Rightarrow> pydict \<Rightarrow> pydict transaction" where
  "run_virtual_order ve rq st cp market_open existing payload db =
     bindE (float_of [sr_initial_capital st, pget (vq_sizing rq) ''initial_capital'']) (\<lambda>initial_cash.
     bindE (ensure_account ve rq initial_cash db) (\<lambda>db1.
       let fill_price = f_or (vq_forced rq) (virtual_fill_price (vq_action rq) (vq_reference rq) (cp_slippage_rate cp)) in
       if \<not> market_open \<or> (vq_order_type rq = ''limit'' \<and> fle (vq_forced rq) (Fin 0))
       then (case (if market_open then calculate_virtual_limit_fill_price (vq_action rq) (vq_limit rq) (vq_reference rq) (cp_slippage_rate cp)
                   else None) of
               None \<Rightarrow> open_order ve rq cp initial_cash market_open payload db1
             | Some immediate_fill \<Rightarrow> settle_fill ve rq cp existing immediate_fill initial_cash payload db1)
       else settle_fill ve rq cp existing fill_price initial_cash payload db1))"

definition execute_virtual_signal_order :: "virtual_env \<Rightarrow> pydict \<Rightarrow> pydict \<Rightarrow> pydict transaction" where
  "execute_virtual_signal_order ve order_row payload db =
     bindE (read_virtual_request order_row payload) (\<lambda>rq.
     bindE (load_strategy rq db) (\<lambda>st.
     bindE (resolve_virtual_execution_cost_policy payload order_row (strategy_dict st) (mapping_of (sr_exchange_config st))
              (mapping_of (sr_trading_config st))) (\<lambda>cp.
     bindE (is_equity_market_open ve (strip (str_or (sr_market_category st) []))) (\<lambda>market_open.
       case find (\<lambda>o'. vo_pending o' = vq_order rq) (vd_orders db) of
         None \<Rightarrow> run_virtual_order ve rq st cp market_open None payload db
       | Some o' \<Rightarrow>
           if market_open \<and> flt (Fin 0) (vq_forced rq) \<and> lower (strip (vo_status o')) = ''open''
           then run_virtual_order ve rq st cp market_open (Some o') payload db
           else Inr (existing_result o', db)))))"

section \<open>Settling, cancelling, matching, marking\<close>

definition pending_dict :: "virtual_db \<Rightarrow> pending_row \<Rightarrow> pydict" where
  "pending_dict db r =
     [(''id'', PInt (po_id r)), (''user_id'', PInt (po_user r)), (''strategy_id'', PInt (po_strategy r)), (''symbol'', PStr (po_symbol r)),
      (''signal_type'', PStr (po_signal_type r)), (''signal_ts'', PInt (po_signal_ts r)), (''market_type'', PStr (po_market_type r)),
      (''order_type'', PStr (po_order_type r)), (''amount'', PFloat (po_amount r)), (''price'', PFloat (po_price r)),
      (''execution_mode'', PStr (po_execution_mode r)), (''status'', PStr (po_status r)), (''payload_json'', PDict (po_payload r)),
      (''strategy_run_id'', PInt (po_run r)), (''order_intent_id'', PInt (po_intent r)), (''idempotency_key'', PStr (po_key r)),
      (''runtime_fencing_token'', PInt (po_fencing r)), (''attempts'', PInt (qc_attempts (columns_of db (po_id r)))),
      (''exchange_id'', PStr (qc_exchange_id (columns_of db (po_id r)))),
      (''exchange_order_id'', PStr (qc_exchange_order_id (columns_of db (po_id r))))]"

definition pending_row_of :: "int \<Rightarrow> virtual_db \<Rightarrow> pending_row option" where
  "pending_row_of n db = find (\<lambda>r. po_id r = n) (db_pending (vd_queue db))"

definition settle_virtual_pending_order :: "virtual_env \<Rightarrow> int \<Rightarrow> pydict transaction" where
  "settle_virtual_pending_order ve n db =
     (if n \<le> 0 then Inl (ValueError ''virtualTrading.invalidIdentity'')
      else case pending_row_of n db of
        None \<Rightarrow> Inl (ValueError ''virtualTrading.pendingOrderNotFound'')
      | Some r \<Rightarrow> execute_virtual_signal_order ve (pending_dict db r) (po_payload r) db)"

definition TERMINAL_INTENTS :: "string list" where
  "TERMINAL_INTENTS = [''filled'', ''cancelled'', ''rejected'', ''failed'', ''expired'']"

definition cancel_virtual_order :: "int \<Rightarrow> int \<Rightarrow> int \<Rightarrow> virtual_db \<Rightarrow> virtual_db" where
  "cancel_virtual_order pending order intent db =
     (let db1 = db\<lparr>vd_orders := map (\<lambda>o'. if vo_id o' = order \<and> vo_status o' = ''open'' then o'\<lparr>vo_status := ''cancelled''\<rparr> else o') (vd_orders db)\<rparr>;
          db2 = update_pending pending (\<lambda>r. po_status r \<in> {''pending'', ''processing'', ''sent'', ''syncing''}) ''cancelled'' db1
      in if intent > 0 then update_intent intent (\<lambda>r. it_status r \<notin> set TERMINAL_INTENTS) ''cancelled'' db2 else db2)"

definition open_orders :: "int \<Rightarrow> int \<Rightarrow> virtual_db \<Rightarrow> virtual_order list" where
  "open_orders sid run db =
     filter (\<lambda>o'. vo_strategy o' = sid \<and> vo_status o' = ''open'' \<and> (run = 0 \<or> vo_run o' = run)) (vd_orders db)"

definition cancel_virtual_limit_orders :: "int \<Rightarrow> int \<Rightarrow> virtual_db \<Rightarrow> nat \<times> virtual_db" where
  "cancel_virtual_limit_orders sid run db =
     (let rows = open_orders sid run db
      in (length rows, foldl (\<lambda>d o'. cancel_virtual_order (vo_pending o') (vo_id o') (vo_intent o') d) db rows))"

type_synonym price_map = "(string \<times> pyval) list"

fun match_prices :: "price_map \<Rightarrow> (string, pyfloat) dict \<Rightarrow> (string, pyfloat) dict result" where
  "match_prices [] acc = Inr acc"
| "match_prices ((sym', price) # ps) acc =
     (if canonical_symbol (PStr sym') = [] then match_prices ps acc
      else bindE (float_of [price]) (\<lambda>x.
        match_prices ps (if flt (Fin 0) x then dset acc (canonical_symbol (PStr sym')) x else acc)))"

text \<open>The rows the matcher reads: open orders with their queue entry and strategy, by identifier.\<close>

definition match_rows :: "int \<Rightarrow> int \<Rightarrow> virtual_db \<Rightarrow> (virtual_order \<times> pending_row \<times> strategy_row) list" where
  "match_rows sid run db =
     concat (map (\<lambda>o'. case (pending_row_of (vo_pending o') db, find (\<lambda>s. sr_id s = vo_strategy o') (vd_strategies db)) of
         (Some r, Some s) \<Rightarrow> [(o', r, s)]
       | _ \<Rightarrow> []) (sort_key vo_id (open_orders sid run db)))"

definition match_fill_price :: "virtual_order \<Rightarrow> string \<Rightarrow> pyfloat \<Rightarrow> pyfloat option" where
  "match_fill_price o' order_type market_price =
     (if order_type = ''market''
      then if flt (Fin 0) market_price
        then Some (virtual_fill_price (vo_action o') market_price (column_float (vo_slippage_rate o'))) else None
      else calculate_virtual_limit_fill_price (vo_action o') (column_float (vo_limit_price o')) market_price
             (column_float (vo_slippage_rate o')))"

definition match_payload :: "virtual_order \<Rightarrow> string \<Rightarrow> pyfloat \<Rightarrow> pyfloat \<Rightarrow> pydict \<Rightarrow> pydict" where
  "match_payload o' order_type market_price fill_price payload =
     dupdate payload
       [(''strategy_id'', PInt (vo_strategy o')), (''strategy_run_id'', PInt (vo_run o')), (''order_intent_id'', PInt (vo_intent o')),
        (''execution_mode'', PStr ''signal''), (''signal_type'', PStr (vo_action o')), (''symbol'', PStr (vo_symbol o')),
        (''amount'', PFloat (column_float (vo_requested_qty o'))), (''order_type'', PStr order_type),
        (''limit_price'', PFloat (column_float (vo_limit_price o'))), (''ref_price'', PFloat market_price),
        (''_virtual_fill_price'', PFloat fill_price)]"

definition match_order_row :: "virtual_order \<Rightarrow> string \<Rightarrow> pydict" where
  "match_order_row o' order_type =
     [(''id'', PInt (vo_pending o')), (''user_id'', PInt (vo_user o')), (''strategy_id'', PInt (vo_strategy o')),
      (''strategy_run_id'', PInt (vo_run o')), (''order_intent_id'', PInt (vo_intent o')), (''execution_mode'', PStr ''signal''),
      (''signal_type'', PStr (vo_action o')), (''symbol'', PStr (vo_symbol o')), (''amount'', PFloat (column_float (vo_requested_qty o'))),
      (''order_type'', PStr order_type)]"

text \<open>One row of the matcher, in its own transaction: what it appends to the answer.\<close>

definition match_one ::
  "virtual_env \<Rightarrow> (string, pyfloat) dict \<Rightarrow> virtual_order \<times> pending_row \<times> strategy_row \<Rightarrow> pydict list transaction" where
  "match_one ve prices row db =
     (case row of (o', r, s) \<Rightarrow>
        let payload = po_payload r;
            order_type = lower (strip (str_default (vo_order_type o') ''limit''))
        in if truthy (pget payload ''strategy_cancel_requested'')
           then Inr ([], cancel_virtual_order (vo_pending o') (vo_id o') (vo_intent o') db)
           else bindE (is_equity_market_open ve (strip (to_str (first_of [sr_market_category s, pget payload ''market_category'', PStr []])))) (\<lambda>is_open.
             if \<not> is_open then Inr ([], db)
             else let market_price = dget_or prices (canonical_symbol (PStr (vo_symbol o'))) (Fin 0) in
               case match_fill_price o' order_type market_price of
                 None \<Rightarrow> Inr ([], db)
               | Some fill_price \<Rightarrow>
                   bindE (execute_virtual_signal_order ve (match_order_row o' order_type)
                            (match_payload o' order_type market_price fill_price payload) db) (\<lambda>(answer, db1). Inr ([answer], db1))))"

text \<open>The rows are committed one by one: an exception ends the loop and keeps what was written before.\<close>

fun match_loop ::
  "virtual_env \<Rightarrow> (string, pyfloat) dict \<Rightarrow> (virtual_order \<times> pending_row \<times> strategy_row) list \<Rightarrow> pydict list \<Rightarrow> virtual_db \<Rightarrow>
     pydict list result \<times> virtual_db" where
  "match_loop ve prices [] matched db = (Inr matched, db)"
| "match_loop ve prices (row # rows) matched db =
     (case match_one ve prices row db of
        Inl e \<Rightarrow> (Inl e, db)
      | Inr (answers, db1) \<Rightarrow> match_loop ve prices rows (matched @ answers) db1)"

definition match_virtual_limit_orders ::
  "virtual_env \<Rightarrow> int \<Rightarrow> price_map \<Rightarrow> int \<Rightarrow> virtual_db \<Rightarrow> pydict list result \<times> virtual_db" where
  "match_virtual_limit_orders ve sid prices run db =
     (case match_prices prices [] of
        Inl e \<Rightarrow> (Inl e, db)
      | Inr normalized \<Rightarrow> if normalized = [] then (Inr [], db) else match_loop ve normalized (match_rows sid run db) [] db)"

text \<open>Prices for marking: two prices for one symbol that differ make the symbol ambiguous.\<close>

definition prices_differ :: "pyfloat \<Rightarrow> pyfloat \<Rightarrow> bool" where
  "prices_differ previous price \<longleftrightarrow>
     flt (pymax (fl (1 / 10 ^ 10)) (fmul (fabs previous) (fl (1 / 10 ^ 10)))) (fabs (fsub previous price))"

fun mark_prices :: "price_map \<Rightarrow> (string, pyfloat) dict \<times> string set \<Rightarrow> ((string, pyfloat) dict \<times> string set) result" where
  "mark_prices [] acc = Inr acc"
| "mark_prices ((k, raw) # ps) (prices, ambiguous) =
     (let symbol_key = canonical_symbol (PStr k) in
      case float_of [raw] of
        Inl OverflowError \<Rightarrow> Inl OverflowError
      | Inl _ \<Rightarrow> mark_prices ps (prices, ambiguous)
      | Inr price \<Rightarrow>
          if symbol_key = [] \<or> fle price (Fin 0) then mark_prices ps (prices, ambiguous)
          else case dget prices symbol_key of
            Some previous \<Rightarrow>
              if prices_differ previous price then mark_prices ps (prices, insert symbol_key ambiguous)
              else mark_prices ps (dset prices symbol_key price, ambiguous)
          | None \<Rightarrow> mark_prices ps (dset prices symbol_key price, ambiguous))"

definition mark_one :: "virtual_env \<Rightarrow> (string, pyfloat) dict \<Rightarrow> virtual_position \<Rightarrow> (virtual_position \<times> nat) result" where
  "mark_one ve prices p =
     (case dget prices (canonical_symbol (PStr (vp_key p))) of
        None \<Rightarrow> Inr (p, 0)
      | Some current_price \<Rightarrow>
          let sz = pymax (Fin 0) (column_float (vp_size p));
              entry = pymax (Fin 0) (column_float (vp_entry_price p))
          in if \<not> ftruthy current_price then Inr (p, 0)
             else if fle sz (fl (1 / 10 ^ 12)) \<or> fle entry (Fin 0) then Inr (p, 0)
             else let unrealized = leg_pnl (lower (strip (str_default (vp_side p) ''long''))) entry current_price sz;
                      notional = fmul entry sz
               in bindE (if flt (Fin 0) notional then bindE (fdiv unrealized notional) (\<lambda>q. Inr (fmul q (Fin 100))) else Inr (Fin 0)) (\<lambda>pct.
                  bindE (store ve 24 10 current_price) (\<lambda>price.
                  bindE (store ve 24 8 unrealized) (\<lambda>u.
                  bindE (store ve 14 6 pct) (\<lambda>pc.
                    Inr (p\<lparr>vp_current_price := price,
                           vp_highest_price := greatest (vp_highest_price p) price, vp_lowest_price := lowered (vp_lowest_price p) price,
                           vp_unrealized_pnl := u, vp_pnl_percent := pc\<rparr>, 1))))))"

definition mark_virtual_positions :: "virtual_env \<Rightarrow> int \<Rightarrow> price_map \<Rightarrow> int \<Rightarrow> nat transaction" where
  "mark_virtual_positions ve sid prices run db =
     bindE (mark_prices prices ([], {})) (\<lambda>(seen, ambiguous).
        let normalized = filter (\<lambda>p. fst p \<notin> ambiguous) seen in
        if normalized = [] then Inr (0, db)
        else bindE (mapE (\<lambda>p. if vp_strategy p = sid \<and> (run = 0 \<or> vp_run p = run) then mark_one ve normalized p else Inr (p, 0)) (vd_positions db)) (\<lambda>rows.
          Inr (sum_list (map snd rows), db\<lparr>vd_positions := map fst rows\<rparr>)))"

section \<open>Listings\<close>

definition list_virtual_positions :: "int \<Rightarrow> string \<Rightarrow> virtual_db \<Rightarrow> virtual_position list" where
  "list_virtual_positions sid symbol' db =
     (let symbol_key = (if symbol' = [] then [] else canonical_symbol (PStr symbol')) in
      rev (sort_key vp_id (filter (\<lambda>p. vp_strategy p = sid \<and> (symbol_key = [] \<or> vp_key p = symbol_key)) (vd_positions db))))"

definition list_virtual_trades :: "int \<Rightarrow> virtual_db \<Rightarrow> virtual_trade list" where
  "list_virtual_trades sid db = rev (sort_key vx_id (filter (\<lambda>x. vx_strategy x = sid) (vd_trades db)))"

text \<open>The limit orders of the operations screen, each with its queue row.\<close>

definition list_virtual_limit_orders :: "int \<Rightarrow> string \<Rightarrow> int \<Rightarrow> virtual_db \<Rightarrow> (virtual_order \<times> pending_row option) list" where
  "list_virtual_limit_orders sid status limit' db =
     (let normalized = lower (strip status);
          row_limit = max 1 (min (if limit' = 0 then 200 else limit') 500);
          rows = rev (sort_key vo_id (filter (\<lambda>o'. vo_strategy o' = sid \<and> vo_order_type o' = ''limit''
            \<and> (normalized \<in> {''all'', ''any''} \<or> vo_status o' = str_default normalized ''open'')) (vd_orders db)))
      in map (\<lambda>o'. (o', pending_row_of (vo_pending o') db)) (take (nat row_limit) rows))"

text \<open>The equity after every trade, from the initial capital to the mark of the open positions; \<open>created\<close> is
  the creation time of a trade row in seconds, \<open>now\<close> the clock.\<close>

definition build_virtual_equity_curve :: "(virtual_trade \<Rightarrow> int) \<Rightarrow> int \<Rightarrow> int \<Rightarrow> pyfloat \<Rightarrow> virtual_db \<Rightarrow> (int \<times> pyfloat) list" where
  "build_virtual_equity_curve created now sid initial_capital db =
     (let rows = sort_key vx_id (filter (\<lambda>x. vx_strategy x = sid) (vd_trades db));
          unrealized = unrealized_total sid db;
          equity_of = (\<lambda>x. fround_to 2 (if ftruthy (vx_account_equity x) then column_float (vx_account_equity x) else initial_capital));
          curve = (case rows of [] \<Rightarrow> [] | first # _ \<Rightarrow> (created first, fround_to 2 initial_capital) # map (\<lambda>x. (created x, equity_of x)) rows);
          latest = fadd (fadd initial_capital (account_float va_realized_pnl (account_of sid db))) unrealized
      in if curve = [] \<or> flt (fl (1 / 10 ^ 12)) (fabs unrealized) then curve @ [(now, fround_to 2 latest)] else curve)"

end
