(* ===== verification/VirtualProps.thy ===== *)
theory VirtualProps
  imports VirtualLedger
begin

text \<open>
  What the virtual ledger keeps: every pending order is executed at most once, its trade and its fill stand
  beside a filled order row and nowhere else, rows that have left the state \<open>open\<close> never change, and
  nothing is filled while the market is closed.
\<close>

section \<open>What each statement leaves alone\<close>

named_theorems ledger_frame \<open>the tables a statement does not write\<close>

definition orders_part :: "virtual_db \<Rightarrow> virtual_order list \<times> virtual_trade list \<times> order_fill list \<times> int" where
  "orders_part db = (vd_orders db, vd_trades db, vd_fills db, vd_next_order db)"

lemma update_pending_frame [ledger_frame]:
  "orders_part (update_pending n g s db) = orders_part db" "vd_positions (update_pending n g s db) = vd_positions db"
  "vd_accounts (update_pending n g s db) = vd_accounts db" "vd_strategies (update_pending n g s db) = vd_strategies db"
  by (simp_all add: update_pending_def orders_part_def)

lemma update_intent_frame [ledger_frame]:
  "orders_part (update_intent n h s db) = orders_part db" "vd_positions (update_intent n h s db) = vd_positions db"
  "vd_accounts (update_intent n h s db) = vd_accounts db" "vd_strategies (update_intent n h s db) = vd_strategies db"
  by (simp_all add: update_intent_def orders_part_def)

lemma set_columns_frame [ledger_frame]:
  "orders_part (set_columns n f db) = orders_part db" "vd_positions (set_columns n f db) = vd_positions db"
  "vd_accounts (set_columns n f db) = vd_accounts db" "vd_strategies (set_columns n f db) = vd_strategies db"
  by (simp_all add: set_columns_def orders_part_def)

lemma ensure_account_frame [ledger_frame]:
  "ensure_account ve rq cash db = Inr db' \<Longrightarrow> orders_part db' = orders_part db"
  "ensure_account ve rq cash db = Inr db' \<Longrightarrow> vd_positions db' = vd_positions db"
  "ensure_account ve rq cash db = Inr db' \<Longrightarrow> vd_queue db' = vd_queue db"
  by (auto simp: ensure_account_def orders_part_def bindE_Inr_iff split: if_splits)

lemma book_position_frame [ledger_frame]:
  "book_position ve rq t price mt db = Inr db' \<Longrightarrow> orders_part db' = orders_part db"
  "book_position ve rq t price mt db = Inr db' \<Longrightarrow> vd_queue db' = vd_queue db"
  by (auto simp: book_position_def save_position_def orders_part_def bindE_Inr_iff Let_def split: if_splits)

lemma update_account_frame [ledger_frame]:
  "update_account ve sid realized commission db = Inr db' \<Longrightarrow> orders_part db' = orders_part db"
  "update_account ve sid realized commission db = Inr db' \<Longrightarrow> vd_positions db' = vd_positions db"
  "update_account ve sid realized commission db = Inr db' \<Longrightarrow> vd_queue db' = vd_queue db"
  by (auto simp: update_account_def orders_part_def bindE_Inr_iff)

lemma complete_order_frame [ledger_frame]:
  "complete_order ve rq t price db = Inr db' \<Longrightarrow> orders_part db' = orders_part db"
  "complete_order ve rq t price db = Inr db' \<Longrightarrow> vd_positions db' = vd_positions db"
  by (auto simp: complete_order_def bindE_Inr_iff Let_def ledger_frame split: if_splits)

lemma insert_virtual_order_effect:
  assumes "insert_virtual_order ve rq cp fill status reason db = Inr (n, db')"
  obtains row where "vo_id row = vd_next_order db" "vo_pending row = vq_order rq" "vo_status row = status" "n = vd_next_order db"
    "vq_order rq \<notin> vo_pending ` set (vd_orders db)"
    "orders_part db' = (vd_orders db @ [row], vd_trades db, vd_fills db, vd_next_order db + 1)"
    "vd_positions db' = vd_positions db" "vd_accounts db' = vd_accounts db" "vd_queue db' = vd_queue db"
  by (rule that [of "last (vd_orders db')"])
    (use assms in \<open>auto simp: insert_virtual_order_def orders_part_def bindE_Inr_iff Let_def split: if_splits\<close>)

lemma insert_trade_effect:
  assumes "insert_trade ve rq cp order t price commission slippage equity matched reason db = Inr db'"
  obtains x where "vx_order x = order" "vx_pending x = vq_order rq" "order \<notin> vx_order ` set (vd_trades db)"
    "vq_order rq \<notin> vx_pending ` set (vd_trades db)"
    "orders_part db' = (vd_orders db, vd_trades db @ [x], vd_fills db, vd_next_order db)" "vd_positions db' = vd_positions db"
    "vd_accounts db' = vd_accounts db"
  by (rule that [of "last (vd_trades db')"])
    (use assms in \<open>auto simp: insert_trade_def orders_part_def bindE_Inr_iff Let_def split: if_splits\<close>)

lemma insert_fill_effect:
  assumes "insert_fill ve rq order t price commission db = Inr db'"
  obtains f where "of_fill_id f = virtual_fill_id order"
    "orders_part db' = (vd_orders db, vd_trades db,
       (if virtual_fill_id order \<in> of_fill_id ` set (vd_fills db) then vd_fills db else vd_fills db @ [f]), vd_next_order db)"
    "vd_positions db' = vd_positions db" "vd_accounts db' = vd_accounts db"
proof (cases "virtual_fill_id order \<in> of_fill_id ` set (vd_fills db)")
  case True
  then have "db' = db" using assms by (auto simp: insert_fill_def bindE_Inr_iff Let_def image_iff)
  moreover from True obtain f :: order_fill where "virtual_fill_id order = of_fill_id f" by (rule imageE)
  ultimately show ?thesis using True by (intro that [of f]) (simp_all add: orders_part_def)
next
  case False
  then have "\<forall>f \<in> set (vd_fills db). of_fill_id f \<noteq> virtual_fill_id order" by (metis imageI)
  then have "of_fill_id (last (vd_fills db')) = virtual_fill_id order \<and> vd_fills db' = vd_fills db @ [last (vd_fills db')]
      \<and> vd_orders db' = vd_orders db \<and> vd_trades db' = vd_trades db \<and> vd_next_order db' = vd_next_order db
      \<and> vd_positions db' = vd_positions db \<and> vd_accounts db' = vd_accounts db"
    using assms by (auto simp: insert_fill_def bindE_Inr_iff Let_def)
  then show ?thesis using False by (intro that [of "last (vd_fills db')"]) (simp_all add: orders_part_def)
qed

section \<open>The effect of an execution\<close>

text \<open>A filled order leaves one trade and one fill under its identifiers, any other status none.\<close>

definition trade_recorded ::
  "int \<Rightarrow> int \<Rightarrow> string \<Rightarrow> virtual_trade list \<Rightarrow> order_fill list \<Rightarrow> virtual_trade list \<Rightarrow> order_fill list \<Rightarrow> bool" where
  "trade_recorded pending order status ts fs ts' fs' \<longleftrightarrow>
     (if status = ''filled''
      then \<exists>x f. vx_order x = order \<and> vx_pending x = pending \<and> order \<notin> vx_order ` set ts \<and> pending \<notin> vx_pending ` set ts
             \<and> of_fill_id f = virtual_fill_id order \<and> ts' = ts @ [x]
             \<and> fs' = (if virtual_fill_id order \<in> of_fill_id ` set fs then fs else fs @ [f])
      else ts' = ts \<and> fs' = fs)"

inductive ledger_effect ::
  "int \<Rightarrow> virtual_order list \<times> virtual_trade list \<times> order_fill list \<times> int \<Rightarrow>
     virtual_order list \<times> virtual_trade list \<times> order_fill list \<times> int \<Rightarrow> bool"
  for pending where
  unchanged: "ledger_effect pending P P"
| placed: "vo_id row = k \<Longrightarrow> vo_pending row = pending \<Longrightarrow> vo_status row \<in> {''open'', ''filled'', ''no_position'', ''rejected''} \<Longrightarrow>
    pending \<notin> vo_pending ` set os \<Longrightarrow> trade_recorded pending k (vo_status row) ts fs ts' fs' \<Longrightarrow>
    ledger_effect pending (os, ts, fs, k) (os @ [row], ts', fs', k + 1)"
| closed: "o' \<in> set os \<Longrightarrow> vo_pending o' = pending \<Longrightarrow> vo_status o' = ''open'' \<Longrightarrow> status \<in> {''filled'', ''no_position'', ''rejected'', ''cancelled''} \<Longrightarrow>
    (\<And>r. vo_id (upd r) = vo_id r \<and> vo_pending (upd r) = vo_pending r \<and> vo_status (upd r) = status) \<Longrightarrow>
    trade_recorded pending (vo_id o') status ts fs ts' fs' \<Longrightarrow>
    ledger_effect pending (os, ts, fs, k)
      (map (\<lambda>r. if vo_id r = vo_id o' \<and> vo_status r = ''open'' then upd r else r) os, ts', fs', k)"

lemma calculate_virtual_fill_status:
  "calculate_virtual_fill a q p s e = Inr t \<Longrightarrow> ft_status t \<in> {''filled'', ''no_position'', ''rejected''}"
  by (auto simp: calculate_virtual_fill_def Let_def bindE_Inr_iff split: if_splits)

lemma book_order_effect:
  assumes "book_order ve rq cp existing t price commission slippage reason db = Inr (n, db')"
    and "ft_status t \<in> {''filled'', ''no_position'', ''rejected''}"
    and "\<And>o'. existing = Some o' \<Longrightarrow> o' \<in> set (vd_orders db) \<and> vo_pending o' = vq_order rq \<and> vo_status o' = ''open''"
    and "trade_recorded (vq_order rq) n (ft_status t) (vd_trades db') (vd_fills db') ts fs"
  shows "ledger_effect (vq_order rq) (orders_part db) (vd_orders db', ts, fs, vd_next_order db')"
proof (cases existing)
  case None
  with assms(1) obtain fill where "insert_virtual_order ve rq cp fill (ft_status t) reason db = Inr (n, db')"
    by (auto simp: book_order_def bindE_Inr_iff)
  then obtain row where row: "vo_id row = vd_next_order db" "vo_pending row = vq_order rq" "vo_status row = ft_status t" "n = vd_next_order db"
    "vq_order rq \<notin> vo_pending ` set (vd_orders db)"
    "orders_part db' = (vd_orders db @ [row], vd_trades db, vd_fills db, vd_next_order db + 1)"
    by (rule insert_virtual_order_effect)
  from row assms(2,4) show ?thesis
    unfolding orders_part_def by (auto intro!: ledger_effect.placed)
next
  case (Some o')
  with assms(1) obtain fill where n: "n = vo_id o'" and u: "update_virtual_order ve rq n fill (ft_status t) db = Inr db'"
    by (auto simp: book_order_def bindE_Inr_iff)
  from u obtain ref where db': "db' = db\<lparr>vd_orders := map (\<lambda>r. if vo_id r = n \<and> vo_status r = ''open''
      then r\<lparr>vo_fill_qty := fst fill, vo_reference_price := ref, vo_fill_price := fst (snd fill), vo_commission_quote := fst (snd (snd fill)),
             vo_slippage_quote := snd (snd (snd fill)), vo_status := ft_status t\<rparr> else r) (vd_orders db)\<rparr>"
    unfolding update_virtual_order_def bindE_Inr_iff by blast
  let ?upd = "\<lambda>r. r\<lparr>vo_fill_qty := fst fill, vo_reference_price := ref, vo_fill_price := fst (snd fill), vo_commission_quote := fst (snd (snd fill)),
             vo_slippage_quote := snd (snd (snd fill)), vo_status := ft_status t\<rparr>"
  have "ledger_effect (vq_order rq) (vd_orders db, vd_trades db, vd_fills db, vd_next_order db)
      (map (\<lambda>r. if vo_id r = vo_id o' \<and> vo_status r = ''open'' then ?upd r else r) (vd_orders db), ts, fs, vd_next_order db)"
  proof (rule ledger_effect.closed [where status = "ft_status t"])
    show "o' \<in> set (vd_orders db)" "vo_pending o' = vq_order rq" "vo_status o' = ''open''" using assms(3) [OF Some] by simp_all
    show "ft_status t \<in> {''filled'', ''no_position'', ''rejected'', ''cancelled''}" using assms(2) by blast
    show "trade_recorded (vq_order rq) (vo_id o') (ft_status t) (vd_trades db) (vd_fills db) ts fs" using assms(4) by (simp add: db' n)
  qed simp
  then show ?thesis by (simp add: orders_part_def db' n)
qed

lemma settle_fill_cases:
  assumes "settle_fill ve rq cp existing price cash payload db = Inr (answer, db')"
  obtains t n db1 db2 db3 realized total equity where
    "calculate_virtual_fill (vq_action rq) (vq_quantity rq) price (position_float vp_size (position_of rq db))
       (position_float vp_entry_price (position_of rq db)) = Inr t"
    "book_order ve rq cp existing t price (commission_for cp (ft_quantity t) price)
       (slippage_quote_for cp (ft_quantity t) (vq_reference rq) price) (reason_of payload []) db = Inr (n, db1)"
    "book_position ve rq t price (cp_market_type cp) db1 = Inr db2"
    "update_account ve (vq_strategy rq) realized total db2 = Inr db3"
    "record_fill ve rq cp n t price (commission_for cp (ft_quantity t) price)
       (slippage_quote_for cp (ft_quantity t) (vq_reference rq) price) equity (position_float vp_entry_price (position_of rq db)) payload db3 = Inr db'"
    "dget answer ''status'' = Some (PStr (ft_status t))"
    "answer = filled_result cp n t price (commission_for cp (ft_quantity t) price) (slippage_quote_for cp (ft_quantity t) (vq_reference rq) price) equity"
  using assms by (auto simp: settle_fill_def Let_def bindE_Inr_iff case_prod_beta filled_result_def dget_Cons)

lemma settle_fill_effect:
  assumes "settle_fill ve rq cp existing price cash payload db = Inr (answer, db')"
    and "\<And>o'. existing = Some o' \<Longrightarrow> o' \<in> set (vd_orders db) \<and> vo_pending o' = vq_order rq \<and> vo_status o' = ''open''"
  shows "ledger_effect (vq_order rq) (orders_part db) (orders_part db')"
proof -
  let ?c = "\<lambda>t. commission_for cp (ft_quantity t) price" and ?s = "\<lambda>t. slippage_quote_for cp (ft_quantity t) (vq_reference rq) price"
    and ?m = "position_float vp_entry_price (position_of rq db)"
  obtain t n db1 db2 db3 realized total equity where
    t: "calculate_virtual_fill (vq_action rq) (vq_quantity rq) price (position_float vp_size (position_of rq db)) ?m = Inr t"
    and o: "book_order ve rq cp existing t price (?c t) (?s t) (reason_of payload []) db = Inr (n, db1)"
    and p: "book_position ve rq t price (cp_market_type cp) db1 = Inr db2"
    and a: "update_account ve (vq_strategy rq) realized total db2 = Inr db3"
    and f: "record_fill ve rq cp n t price (?c t) (?s t) equity ?m payload db3 = Inr db'"
    using assms(1) by (rule settle_fill_cases)
  have same: "orders_part db3 = orders_part db1"
    using book_position_frame(1) [OF p] update_account_frame(1) [OF a] by simp
  have st: "ft_status t \<in> {''filled'', ''no_position'', ''rejected''}" by (rule calculate_virtual_fill_status [OF t])
  have rec: "trade_recorded (vq_order rq) n (ft_status t) (vd_trades db1) (vd_fills db1) (vd_trades db') (vd_fills db')
      \<and> vd_orders db' = vd_orders db1 \<and> vd_next_order db' = vd_next_order db1"
  proof (cases "ft_status t = ''filled''")
    case True
    then obtain db4 db5 reason where 4: "insert_trade ve rq cp n t price (?c t) (?s t) equity ?m reason db3 = Inr db4"
      and 5: "insert_fill ve rq n t price (?c t) db4 = Inr db5" and 6: "complete_order ve rq t price db5 = Inr db'"
      using f by (auto simp: record_fill_def bindE_Inr_iff)
    obtain x where x: "vx_order x = n" "vx_pending x = vq_order rq" "n \<notin> vx_order ` set (vd_trades db3)"
      "vq_order rq \<notin> vx_pending ` set (vd_trades db3)"
      "orders_part db4 = (vd_orders db3, vd_trades db3 @ [x], vd_fills db3, vd_next_order db3)"
      by (rule insert_trade_effect [OF 4])
    obtain g where g: "of_fill_id g = virtual_fill_id n"
      "orders_part db5 = (vd_orders db4, vd_trades db4,
         (if virtual_fill_id n \<in> of_fill_id ` set (vd_fills db4) then vd_fills db4 else vd_fills db4 @ [g]), vd_next_order db4)"
      by (rule insert_fill_effect [OF 5])
    have "orders_part db' = orders_part db5" by (rule complete_order_frame(1) [OF 6])
    then have e: "vd_orders db' = vd_orders db1" "vd_next_order db' = vd_next_order db1" "vd_trades db' = vd_trades db1 @ [x]"
      "vd_fills db' = (if virtual_fill_id n \<in> of_fill_id ` set (vd_fills db1) then vd_fills db1 else vd_fills db1 @ [g])"
      using x(5) g(2) same by (simp_all add: orders_part_def)
    have "vd_trades db3 = vd_trades db1" using same by (simp add: orders_part_def)
    with x(1-4) g(1) have "trade_recorded (vq_order rq) n ''filled'' (vd_trades db1) (vd_fills db1) (vd_trades db') (vd_fills db')"
      unfolding trade_recorded_def e by (intro iffD2 [OF if_P] exI [of _ x] exI [of _ g]) simp_all
    then show ?thesis using True e(1,2) by simp
  next
    case False
    then show ?thesis using f same by (simp add: record_fill_def trade_recorded_def orders_part_def)
  qed
  have "ledger_effect (vq_order rq) (orders_part db) (vd_orders db1, vd_trades db', vd_fills db', vd_next_order db1)"
    by (rule book_order_effect [OF o st assms(2)]) (use rec in simp_all)
  then show ?thesis using rec by (simp add: orders_part_def)
qed

section \<open>The ledger invariant\<close>

definition order_statuses :: "string set" where
  "order_statuses = {''open'', ''filled'', ''no_position'', ''rejected'', ''cancelled''}"

fun ledger_ok :: "virtual_order list \<times> virtual_trade list \<times> order_fill list \<times> int \<Rightarrow> bool" where
  "ledger_ok (os, ts, fs, k) \<longleftrightarrow>
     distinct (map vo_id os) \<and> distinct (map vo_pending os) \<and> (\<forall>o' \<in> set os. vo_id o' < k \<and> vo_status o' \<in> order_statuses)
     \<and> distinct (map vx_order ts) \<and> distinct (map vx_pending ts)
     \<and> (\<lambda>x. (vx_order x, vx_pending x)) ` set ts = (\<lambda>o'. (vo_id o', vo_pending o')) ` {o' \<in> set os. vo_status o' = ''filled''}
     \<and> distinct (map of_fill_id fs) \<and> of_fill_id ` set fs = virtual_fill_id ` vo_id ` {o' \<in> set os. vo_status o' = ''filled''}"

text \<open>A row that is not open is not touched; an open one keeps its identifiers.\<close>

definition row_kept :: "virtual_order \<Rightarrow> virtual_order \<Rightarrow> bool" where
  "row_kept r r' \<longleftrightarrow> vo_id r' = vo_id r \<and> vo_pending r' = vo_pending r \<and> (vo_status r = ''open'' \<or> r' = r)"

lemma row_kept_refl [simp]: "row_kept r r"
  by (simp add: row_kept_def)

lemma row_kept_trans: "row_kept a b \<Longrightarrow> row_kept b c \<Longrightarrow> row_kept a c"
  by (auto simp: row_kept_def)

fun ledger_grows :: "virtual_order list \<times> virtual_trade list \<times> order_fill list \<times> int \<Rightarrow>
    virtual_order list \<times> virtual_trade list \<times> order_fill list \<times> int \<Rightarrow> bool" where
  "ledger_grows (os, ts, fs, k) (os', ts', fs', k') \<longleftrightarrow>
     (\<forall>r \<in> set os. \<exists>r' \<in> set os'. row_kept r r') \<and> (\<exists>more. ts' = ts @ more) \<and> (\<exists>more. fs' = fs @ more)"

lemma ledger_grows_refl: "ledger_grows P P"
  by (cases P) (auto intro: row_kept_refl)

lemma ledger_grows_trans:
  assumes "ledger_grows P Q" and "ledger_grows Q R"
  shows "ledger_grows P R"
proof -
  obtain os ts fs k os' ts' fs' k' os'' ts'' fs'' k'' where e: "P = (os, ts, fs, k)" "Q = (os', ts', fs', k')" "R = (os'', ts'', fs'', k'')"
    by (cases P; cases Q; cases R)
  have "\<forall>r \<in> set os. \<exists>r' \<in> set os''. row_kept r r'"
    using assms row_kept_trans unfolding e ledger_grows.simps by meson
  then show ?thesis using assms by (auto simp: e)
qed

lemma virtual_fill_id_inj: "virtual_fill_id a = virtual_fill_id b \<longleftrightarrow> a = b"
  unfolding virtual_fill_id_def by (metis append_eq_append_conv parse_int_show_int option.inject)

text \<open>Recording a trade for an order that becomes filled keeps the correspondence.\<close>

lemma trade_recorded_ok:
  assumes "trade_recorded pending order status ts fs ts' fs'"
    and "distinct (map vx_order ts)" "distinct (map vx_pending ts)" "distinct (map of_fill_id fs)"
    and "(\<lambda>x. (vx_order x, vx_pending x)) ` set ts = (\<lambda>o'. (vo_id o', vo_pending o')) ` F"
    and "of_fill_id ` set fs = virtual_fill_id ` vo_id ` F"
    and "F' = (if status = ''filled'' then insert r F else F)" "vo_id r = order" "vo_pending r = pending"
  shows "distinct (map vx_order ts')" "distinct (map vx_pending ts')" "distinct (map of_fill_id fs')"
    "(\<lambda>x. (vx_order x, vx_pending x)) ` set ts' = (\<lambda>o'. (vo_id o', vo_pending o')) ` F'"
    "of_fill_id ` set fs' = virtual_fill_id ` vo_id ` F'"
proof -
  have "distinct (map vx_order ts') \<and> distinct (map vx_pending ts') \<and> distinct (map of_fill_id fs')
    \<and> (\<lambda>x. (vx_order x, vx_pending x)) ` set ts' = (\<lambda>o'. (vo_id o', vo_pending o')) ` F'
    \<and> of_fill_id ` set fs' = virtual_fill_id ` vo_id ` F'"
  proof (cases "status = ''filled''")
    case True
    with assms(1) have "\<exists>x f. vx_order x = order \<and> vx_pending x = pending \<and> order \<notin> vx_order ` set ts \<and> pending \<notin> vx_pending ` set ts
      \<and> of_fill_id f = virtual_fill_id order \<and> ts' = ts @ [x] \<and> fs' = (if virtual_fill_id order \<in> of_fill_id ` set fs then fs else fs @ [f])"
      unfolding trade_recorded_def by simp
    then obtain x f where x: "vx_order x = order" "vx_pending x = pending" "order \<notin> vx_order ` set ts" "pending \<notin> vx_pending ` set ts"
      "of_fill_id f = virtual_fill_id order" "ts' = ts @ [x]"
      "fs' = (if virtual_fill_id order \<in> of_fill_id ` set fs then fs else fs @ [f])"
      by blast
    have F': "F' = insert r F" using assms(7) True by simp
    have "order \<notin> vo_id ` F"
    proof
      assume "order \<in> vo_id ` F"
      then obtain q where "q \<in> F" "vo_id q = order" by auto
      then have "(order, vo_pending q) \<in> (\<lambda>x. (vx_order x, vx_pending x)) ` set ts" using assms(5) by (metis (mono_tags, lifting) imageI)
      then show False using x(3) by auto
    qed
    then have "virtual_fill_id order \<notin> of_fill_id ` set fs" using assms(6) virtual_fill_id_inj by auto
    then have "fs' = fs @ [f]" and new: "of_fill_id f \<notin> of_fill_id ` set fs" using x(5,7) by simp_all
    then show ?thesis using x(1-6) assms(2-6) F' assms(8,9) by (simp add: assms(5,6) image_Un)
  next
    case False
    then show ?thesis using assms by (simp add: trade_recorded_def)
  qed
  then show "distinct (map vx_order ts')" "distinct (map vx_pending ts')" "distinct (map of_fill_id fs')"
    "(\<lambda>x. (vx_order x, vx_pending x)) ` set ts' = (\<lambda>o'. (vo_id o', vo_pending o')) ` F'"
    "of_fill_id ` set fs' = virtual_fill_id ` vo_id ` F'"
    by blast+
qed

lemma trade_recorded_grows:
  "trade_recorded pending order status ts fs ts' fs' \<Longrightarrow> (\<exists>more. ts' = ts @ more) \<and> (\<exists>more. fs' = fs @ more)"
  by (auto simp: trade_recorded_def split: if_splits)

lemma ledger_effect_ok:
  assumes "ledger_effect pending P P'" and "ledger_ok P"
  shows "ledger_ok P' \<and> ledger_grows P P'"
  using assms
proof (cases rule: ledger_effect.cases)
  case unchanged
  then show ?thesis using assms(2) ledger_grows_refl by simp
next
  case (placed row k os ts fs ts' fs')
  let ?F = "{r \<in> set os. vo_status r = ''filled''}"
  have F': "{r \<in> set (os @ [row]). vo_status r = ''filled''} = (if vo_status row = ''filled'' then insert row ?F else ?F)" by auto
  have ok: "ledger_ok (os, ts, fs, k)" using assms(2) placed(1) by simp
  then have pre: "distinct (map vx_order ts)" "distinct (map vx_pending ts)" "distinct (map of_fill_id fs)"
    "(\<lambda>x. (vx_order x, vx_pending x)) ` set ts = (\<lambda>r. (vo_id r, vo_pending r)) ` ?F" "of_fill_id ` set fs = virtual_fill_id ` vo_id ` ?F"
    by simp_all
  note rec = trade_recorded_ok [OF placed(7) pre F' placed(3,4)]
  have rows: "distinct (map vo_id (os @ [row]))" "distinct (map vo_pending (os @ [row]))"
    "\<forall>r \<in> set (os @ [row]). vo_id r < k + 1 \<and> vo_status r \<in> order_statuses"
    using ok placed(3-6) by (auto simp: order_statuses_def)
  have "ledger_ok P'" unfolding placed(2) ledger_ok.simps using rows rec by blast
  moreover have "ledger_grows P P'"
    using placed(7) unfolding placed(1,2) by (auto simp: trade_recorded_def split: if_splits intro: row_kept_refl)
  ultimately show ?thesis ..
next
  case (closed o' os status upd ts fs ts' fs' k)
  let ?u = "\<lambda>r. if vo_id r = vo_id o' \<and> vo_status r = ''open'' then upd r else r"
  let ?F = "{r \<in> set os. vo_status r = ''filled''}"
  have ok: "ledger_ok (os, ts, fs, k)" using assms(2) closed(1) by simp
  then have only: "r = o'" if "r \<in> set os" "vo_id r = vo_id o'" for r
    using closed(3) that by (auto simp: distinct_map inj_on_def)
  have upd: "vo_id (upd r) = vo_id r" "vo_pending (upd r) = vo_pending r" "vo_status (upd r) = status" for r using closed(7) by blast+
  have keep: "map vo_id (map ?u os) = map vo_id os" "map vo_pending (map ?u os) = map vo_pending os" by (simp_all add: upd)
  have "{r \<in> set (map ?u os). vo_status r = ''filled''} = (if status = ''filled'' then insert (upd o') ?F else ?F)"
  proof -
    have "r \<in> ?u ` set os \<and> vo_status r = ''filled'' \<longleftrightarrow> r \<in> ?F \<or> (status = ''filled'' \<and> r = upd o')" for r
      using only closed(3,5) upd(3) by (auto simp: image_iff)
    then show ?thesis by auto
  qed
  note F' = this
  have pre: "distinct (map vx_order ts)" "distinct (map vx_pending ts)" "distinct (map of_fill_id fs)"
    "(\<lambda>x. (vx_order x, vx_pending x)) ` set ts = (\<lambda>r. (vo_id r, vo_pending r)) ` ?F" "of_fill_id ` set fs = virtual_fill_id ` vo_id ` ?F"
    using ok by simp_all
  have "vo_id (upd o') = vo_id o'" "vo_pending (upd o') = pending" using upd closed(4) by simp_all
  note rec = trade_recorded_ok [OF closed(8) pre F' this]
  have "\<forall>r \<in> set (map ?u os). vo_id r < k \<and> vo_status r \<in> order_statuses"
    using ok closed(6) by (auto simp: upd order_statuses_def)
  then have "ledger_ok P'" unfolding closed(2) ledger_ok.simps keep using ok rec by simp
  moreover have "ledger_grows P P'"
  proof -
    have "\<exists>r' \<in> set (map ?u os). row_kept r r'" if "r \<in> set os" for r
      using that by (intro bexI [of _ "?u r"]) (simp_all add: row_kept_def upd)
    then show ?thesis unfolding closed(1,2) ledger_grows.simps using trade_recorded_grows [OF closed(8)] by blast
  qed
  ultimately show ?thesis ..
qed

lemma find_SomeD: "find P xs = Some x \<Longrightarrow> x \<in> set xs \<and> P x"
  by (induction xs) (auto split: if_splits)

lemma open_order_effect:
  assumes "open_order ve rq cp cash is_open payload db = Inr (answer, db')"
  shows "ledger_effect (vq_order rq) (orders_part db) (orders_part db')" and "vd_positions db' = vd_positions db"
    and "vd_accounts db' = vd_accounts db" and "vd_queue db' = vd_queue db" and "dget answer ''status'' = Some (PStr ''open'')"
proof -
  from assms obtain n where "insert_virtual_order ve rq cp (Fin 0, Fin 0, Fin 0, Fin 0) ''open'' (reason_of payload []) db = Inr (n, db')"
    and "dget answer ''status'' = Some (PStr ''open'')"
    by (auto simp: open_order_def bindE_Inr_iff case_prod_beta deferred_result_def dget_Cons)
  note i = this
  from i(1) obtain row where row: "vo_id row = vd_next_order db" "vo_pending row = vq_order rq" "vo_status row = ''open''"
    "vq_order rq \<notin> vo_pending ` set (vd_orders db)" "orders_part db' = (vd_orders db @ [row], vd_trades db, vd_fills db, vd_next_order db + 1)"
    "vd_positions db' = vd_positions db" "vd_accounts db' = vd_accounts db" "vd_queue db' = vd_queue db"
    by (rule insert_virtual_order_effect)
  show "ledger_effect (vq_order rq) (orders_part db) (orders_part db')"
    unfolding row(5) unfolding orders_part_def by (rule ledger_effect.placed) (use row in \<open>simp_all add: trade_recorded_def\<close>)
  show "vd_positions db' = vd_positions db" "vd_accounts db' = vd_accounts db" "vd_queue db' = vd_queue db" by fact+
  show "dget answer ''status'' = Some (PStr ''open'')" by (rule i(2))
qed

lemma run_virtual_order_effect:
  assumes "run_virtual_order ve rq st cp is_open existing payload db = Inr (answer, db')"
    and "\<And>o'. existing = Some o' \<Longrightarrow> o' \<in> set (vd_orders db) \<and> vo_pending o' = vq_order rq \<and> vo_status o' = ''open''"
  shows "ledger_effect (vq_order rq) (orders_part db) (orders_part db')"
proof -
  from assms(1) obtain cash db1 where e: "ensure_account ve rq cash db = Inr db1"
    and r: "(\<exists>b. open_order ve rq cp cash b payload db1 = Inr (answer, db')) \<or> (\<exists>price. settle_fill ve rq cp existing price cash payload db1 = Inr (answer, db'))"
    by (auto simp: run_virtual_order_def bindE_Inr_iff Let_def split: if_splits option.splits)
  have "orders_part db1 = orders_part db" by (rule ensure_account_frame(1) [OF e])
  moreover have "vd_orders db1 = vd_orders db" using calculation by (simp add: orders_part_def)
  ultimately show ?thesis using r open_order_effect(1) settle_fill_effect assms(2) by metis
qed

text \<open>A stored status is read back trimmed and in lower case; of the five it can have, only \<open>open\<close> reads so.\<close>

lemma status_is_open: "status \<in> order_statuses \<Longrightarrow> lower (strip status) = ''open'' \<longleftrightarrow> status = ''open''"
proof -
  have "lower (strip ''filled'') = ''filled''" "lower (strip ''no_position'') = ''no_position''" "lower (strip ''rejected'') = ''rejected''"
    "lower (strip ''cancelled'') = ''cancelled''" "lower (strip ''open'') = ''open''"
    by code_simp+
  then show "status \<in> order_statuses \<Longrightarrow> ?thesis" by (auto simp: order_statuses_def)
qed

text \<open>The three ways an execution ends: it answers the row it finds, runs a new order, or fills the open row.\<close>

lemma execute_cases [consumes 1, case_names answered fresh resumed]:
  assumes "execute_virtual_signal_order ve row payload db = Inr (answer, db')"
  obtains (answered) rq o' where "read_virtual_request row payload = Inr rq" "o' \<in> set (vd_orders db)" "vo_pending o' = vq_order rq"
      "answer = existing_result o'" "db' = db"
  | (fresh) rq st cp is_open where "read_virtual_request row payload = Inr rq" "load_strategy rq db = Inr st"
      "is_equity_market_open ve (strip (str_or (sr_market_category st) [])) = Inr is_open" "vq_order rq \<notin> vo_pending ` set (vd_orders db)"
      "run_virtual_order ve rq st cp is_open None payload db = Inr (answer, db')"
  | (resumed) rq st cp o' where "read_virtual_request row payload = Inr rq" "load_strategy rq db = Inr st"
      "is_equity_market_open ve (strip (str_or (sr_market_category st) [])) = Inr True" "o' \<in> set (vd_orders db)" "vo_pending o' = vq_order rq"
      "lower (strip (vo_status o')) = ''open''" "flt (Fin 0) (vq_forced rq)"
      "run_virtual_order ve rq st cp True (Some o') payload db = Inr (answer, db')"
proof -
  from assms obtain rq st cp is_open where b: "read_virtual_request row payload = Inr rq" "load_strategy rq db = Inr st"
    "is_equity_market_open ve (strip (str_or (sr_market_category st) [])) = Inr is_open"
    and c: "(case find (\<lambda>o'. vo_pending o' = vq_order rq) (vd_orders db) of
         None \<Rightarrow> run_virtual_order ve rq st cp is_open None payload db
       | Some o' \<Rightarrow> if is_open \<and> flt (Fin 0) (vq_forced rq) \<and> lower (strip (vo_status o')) = ''open''
           then run_virtual_order ve rq st cp is_open (Some o') payload db else Inr (existing_result o', db)) = Inr (answer, db')"
    unfolding execute_virtual_signal_order_def bindE_Inr_iff by blast
  show ?thesis
  proof (cases "find (\<lambda>o'. vo_pending o' = vq_order rq) (vd_orders db)")
    case None
    then have "vq_order rq \<notin> vo_pending ` set (vd_orders db)" by (auto simp: find_None_iff)
    then show ?thesis using fresh [OF b] c None by simp
  next
    case (Some o')
    then have o': "o' \<in> set (vd_orders db)" "vo_pending o' = vq_order rq" using find_SomeD by fast+
    show ?thesis
    proof (cases "is_open \<and> flt (Fin 0) (vq_forced rq) \<and> lower (strip (vo_status o')) = ''open''")
      case True
      then have "run_virtual_order ve rq st cp True (Some o') payload db = Inr (answer, db')" using c Some by simp
      then show ?thesis using resumed [of rq st o' cp] b o' True by simp
    next
      case False
      then have "answer = existing_result o'" "db' = db" using c Some by (simp_all add: if_not_P)
      then show ?thesis using answered [OF b(1) o'] by simp
    qed
  qed
qed

lemma execute_effect:
  assumes "execute_virtual_signal_order ve row payload db = Inr (answer, db')" and "ledger_ok (orders_part db)"
  shows "\<exists>pending. ledger_effect pending (orders_part db) (orders_part db')"
  using assms(1)
proof (cases rule: execute_cases)
  case (answered rq o')
  then show ?thesis using ledger_effect.unchanged by blast
next
  case (fresh rq st cp is_open)
  then show ?thesis using run_virtual_order_effect [OF fresh(5)] by blast
next
  case (resumed rq st cp o')
  have "vo_status o' = ''open''"
    using assms(2) resumed(4,6) status_is_open unfolding orders_part_def by auto
  then show ?thesis using run_virtual_order_effect [OF resumed(8)] resumed(4,5) by blast
qed

section \<open>Everything that happens to the ledger\<close>

definition ledger_kept :: "virtual_db \<Rightarrow> virtual_db \<Rightarrow> bool" where
  "ledger_kept db db' \<longleftrightarrow>
     (ledger_ok (orders_part db) \<longrightarrow> ledger_ok (orders_part db') \<and> ledger_grows (orders_part db) (orders_part db'))"

lemma ledger_kept_same [simp]: "orders_part db' = orders_part db \<Longrightarrow> ledger_kept db db'"
  by (simp add: ledger_kept_def ledger_grows_refl)

lemma ledger_kept_trans: "ledger_kept a b \<Longrightarrow> ledger_kept b c \<Longrightarrow> ledger_kept a c"
  by (auto simp: ledger_kept_def intro: ledger_grows_trans)

lemma execute_kept:
  "execute_virtual_signal_order ve row payload db = Inr (answer, db') \<Longrightarrow> ledger_kept db db'"
  unfolding ledger_kept_def using execute_effect ledger_effect_ok by blast

lemma cancel_one_kept: "ledger_kept db (cancel_virtual_order pending order intent db)"
proof -
  let ?u = "\<lambda>r. if vo_id r = order \<and> vo_status r = ''open'' then r\<lparr>vo_status := ''cancelled''\<rparr> else r"
  have o: "orders_part (cancel_virtual_order pending order intent db) = (map ?u (vd_orders db), vd_trades db, vd_fills db, vd_next_order db)"
    by (simp add: cancel_virtual_order_def Let_def ledger_frame) (simp add: orders_part_def)
  show ?thesis
  proof (cases "\<exists>r \<in> set (vd_orders db). vo_id r = order \<and> vo_status r = ''open''")
    case True
    then obtain r where r: "r \<in> set (vd_orders db)" "vo_id r = order" "vo_status r = ''open''" by blast
    have "ledger_effect (vo_pending r) (vd_orders db, vd_trades db, vd_fills db, vd_next_order db)
        (map (\<lambda>q. if vo_id q = vo_id r \<and> vo_status q = ''open'' then q\<lparr>vo_status := ''cancelled''\<rparr> else q) (vd_orders db), vd_trades db, vd_fills db, vd_next_order db)"
      by (rule ledger_effect.closed [where status = "''cancelled''"]) (use r in \<open>simp_all add: trade_recorded_def\<close>)
    then have "ledger_effect (vo_pending r) (orders_part db) (orders_part (cancel_virtual_order pending order intent db))"
      by (simp add: o r(2)) (simp add: orders_part_def)
    then show ?thesis unfolding ledger_kept_def using ledger_effect_ok by blast
  next
    case False
    then have "map ?u (vd_orders db) = vd_orders db" by (intro map_idI) auto
    then show ?thesis using o by (simp add: orders_part_def)
  qed
qed

lemma mark_frame:
  "mark_virtual_positions ve sid prices run db = Inr (n, db') \<Longrightarrow> orders_part db' = orders_part db"
  by (auto simp: mark_virtual_positions_def orders_part_def bindE_Inr_iff Let_def case_prod_beta split: if_splits)

text \<open>One step: an operation of the module in an environment of \<open>E\<close>, or any change to the queue, the
  strategies and the columns the dispatcher owns.\<close>

inductive virtual_step :: "(virtual_env \<Rightarrow> bool) \<Rightarrow> virtual_db \<Rightarrow> virtual_db \<Rightarrow> bool" for E where
  executed: "E ve \<Longrightarrow> execute_virtual_signal_order ve row payload db = Inr (answer, db') \<Longrightarrow> virtual_step E db db'"
| settled: "E ve \<Longrightarrow> settle_virtual_pending_order ve n db = Inr (answer, db') \<Longrightarrow> virtual_step E db db'"
| cancelled: "virtual_step E db (snd (cancel_virtual_limit_orders sid run db))"
| matched: "E ve \<Longrightarrow> match_virtual_limit_orders ve sid prices run db = (answer, db') \<Longrightarrow> virtual_step E db db'"
| marked: "E ve \<Longrightarrow> mark_virtual_positions ve sid prices run db = Inr (k, db') \<Longrightarrow> virtual_step E db db'"
| elsewhere: "virtual_step E db (db\<lparr>vd_queue := q, vd_columns := c, vd_strategies := ss\<rparr>)"

text \<open>A relation between databases that executions, single cancellations, markings and changes elsewhere respect
  holds along every run: the matcher, the settlements and the cancellation at a stop are made of these.\<close>

locale ledger_relation =
  fixes keeps :: "virtual_db \<Rightarrow> virtual_db \<Rightarrow> bool" and E :: "virtual_env \<Rightarrow> bool"
  assumes keeps_refl: "keeps db db"
    and keeps_trans: "keeps db db1 \<Longrightarrow> keeps db1 db2 \<Longrightarrow> keeps db db2"
    and keeps_execute: "E ve \<Longrightarrow> execute_virtual_signal_order ve row payload db = Inr (answer, db') \<Longrightarrow> keeps db db'"
    and keeps_cancel: "keeps db (cancel_virtual_order pending order intent db)"
    and keeps_mark: "mark_virtual_positions ve sid prices run db = Inr (k, db') \<Longrightarrow> keeps db db'"
    and keeps_elsewhere: "keeps db (db\<lparr>vd_queue := q, vd_columns := c, vd_strategies := ss\<rparr>)"
begin

lemma keeps_settle: "E ve \<Longrightarrow> settle_virtual_pending_order ve n db = Inr (answer, db') \<Longrightarrow> keeps db db'"
  by (auto simp: settle_virtual_pending_order_def split: if_splits option.splits intro: keeps_execute)

lemma keeps_cancel_fold: "keeps db (foldl (\<lambda>d r. cancel_virtual_order (vo_pending r) (vo_id r) (vo_intent r) d) db rows)"
proof (induction rows arbitrary: db)
  case (Cons r rows)
  show ?case using keeps_trans [OF keeps_cancel Cons.IH] by simp
qed (simp add: keeps_refl)

lemma keeps_cancel_all: "keeps db (snd (cancel_virtual_limit_orders sid run db))"
  by (simp add: cancel_virtual_limit_orders_def Let_def keeps_cancel_fold)

lemma keeps_match_one:
  assumes "E ve" and "match_one ve prices row db = Inr (answers, db')"
  shows "keeps db db'"
proof -
  from assms(2) have "db' = db \<or> (\<exists>p n i. db' = cancel_virtual_order p n i db) \<or> (\<exists>row payload a. execute_virtual_signal_order ve row payload db = Inr (a, db'))"
    by (cases row) (auto simp: match_one_def Let_def bindE_Inr_iff split: if_splits option.splits)
  then show ?thesis using keeps_execute [OF assms(1)] keeps_cancel keeps_refl by auto
qed

lemma keeps_match_loop: "E ve \<Longrightarrow> keeps db (snd (match_loop ve prices rows matched db))"
proof (induction rows arbitrary: db matched)
  case (Cons row rows)
  show ?case
  proof (cases "match_one ve prices row db")
    case (Inr b)
    then obtain answers db1 where b: "match_one ve prices row db = Inr (answers, db1)" by (cases b) simp
    then show ?thesis using keeps_trans [OF keeps_match_one [OF Cons.prems b] Cons.IH [OF Cons.prems]] by simp
  qed (simp add: keeps_refl)
qed (simp add: keeps_refl)

lemma keeps_match: "E ve \<Longrightarrow> keeps db (snd (match_virtual_limit_orders ve sid prices run db))"
  by (auto simp: match_virtual_limit_orders_def keeps_match_loop keeps_refl split: sum.split)

lemma keeps_step: "virtual_step E db db' \<Longrightarrow> keeps db db'"
proof (induction rule: virtual_step.induct)
  case (matched ve sid prices run db answer db')
  then show ?case using keeps_match [of ve db sid prices run] by simp
qed (auto intro: keeps_execute keeps_settle keeps_cancel_all keeps_mark keeps_elsewhere)

lemma keeps_run: "(virtual_step E)\<^sup>*\<^sup>* db db' \<Longrightarrow> keeps db db'"
  by (induction rule: rtranclp_induct) (auto intro: keeps_refl keeps_trans keeps_step)

end

interpretation kept: ledger_relation ledger_kept E for E
  by unfold_locales (auto intro: ledger_kept_trans execute_kept cancel_one_kept dest: mark_frame simp: orders_part_def)

section \<open>Every order is filled at most once\<close>

lemma trades_per_order:
  assumes "ledger_ok (orders_part db)"
  shows "length (filter (\<lambda>x. vx_pending x = n) (vd_trades db)) =
    (if \<exists>r \<in> set (vd_orders db). vo_pending r = n \<and> vo_status r = ''filled'' then 1 else 0)"
proof -
  have d: "distinct (map vx_pending (vd_trades db))"
    and i: "(\<lambda>x. (vx_order x, vx_pending x)) ` set (vd_trades db) = (\<lambda>r. (vo_id r, vo_pending r)) ` {r \<in> set (vd_orders db). vo_status r = ''filled''}"
    using assms by (simp_all add: orders_part_def)
  have "snd ` (\<lambda>x. (vx_order x, vx_pending x)) ` set (vd_trades db) = snd ` (\<lambda>r. (vo_id r, vo_pending r)) ` {r \<in> set (vd_orders db). vo_status r = ''filled''}"
    by (simp only: i)
  then have "vx_pending ` set (vd_trades db) = vo_pending ` {r \<in> set (vd_orders db). vo_status r = ''filled''}"
    by (simp add: image_image)
  then have m: "n \<in> set (map vx_pending (vd_trades db)) \<longleftrightarrow> (\<exists>r \<in> set (vd_orders db). vo_pending r = n \<and> vo_status r = ''filled'')" by auto
  have "length (filter (\<lambda>x. vx_pending x = n) xs) = count_list (map vx_pending xs) n" for xs :: "virtual_trade list"
    by (induction xs) auto
  then show ?thesis using count_list_once [OF d, of n] m by (simp add: count_list_0_iff)
qed

end
