(* ===== verification/SignalDispatch.thy ===== *)
theory SignalDispatch
  imports VirtualProps
begin

text \<open>
  The dispatcher of queued orders as far as signal-only strategies use it: the claim of a pending order
  (\<open>services/pending_orders/claims.py\<close>), cancellation requests
  (\<open>services/strategy_runtime/cancellations.py\<close>), the execution contract
  (\<open>services/pending_orders/execution_contract.py\<close>), the virtual execution with its notification
  (\<open>services/pending_orders/signal_execution.py\<close>) and the status writers and the tick of
  \<open>services/pending_order_worker.py\<close> and \<open>services/pending_order_loops.py\<close>.  Notification channels,
  the clock, the redaction of partner identifiers and the live branch are parameters.  Every database call
  commits on its own, so a dispatcher step answers a result beside the new database.
\<close>

record worker_env =
  we_db :: virtual_env
  we_now :: timestamp
  we_redact :: "string \<Rightarrow> string"
  we_notify :: "int \<Rightarrow> pydict \<Rightarrow> (string, pydict) dict result"
  we_live :: "pydict \<Rightarrow> pydict \<Rightarrow> virtual_db \<Rightarrow> unit result \<times> virtual_db"
  we_error_text :: "pyexc \<Rightarrow> string"

section \<open>Claims and cancellations\<close>

definition fence_current :: "timestamp \<Rightarrow> pending_row \<Rightarrow> virtual_db \<Rightarrow> bool" where
  "fence_current now r db \<longleftrightarrow>
     (\<exists>l \<in> set (db_leases (vd_queue db)). le_strategy l = po_strategy r \<and> le_token l = po_fencing r \<and> now \<le> le_expires l)"

definition claim_pending_order :: "timestamp \<Rightarrow> int \<Rightarrow> virtual_db \<Rightarrow> bool \<times> virtual_db" where
  "claim_pending_order now n db =
     (let pending = (\<lambda>r. po_id r = n \<and> po_status r = ''pending'') in
      if \<exists>r \<in> set (db_pending (vd_queue db)). pending r \<and> (po_fencing r = 0 \<or> fence_current now r db)
      then (True, set_columns n (\<lambda>c. c\<lparr>qc_attempts := qc_attempts c + 1\<rparr>)
             (update_pending n (\<lambda>r. po_status r = ''pending'' \<and> (po_fencing r = 0 \<or> fence_current now r db)) ''processing'' db))
      else if \<exists>r \<in> set (db_pending (vd_queue db)). pending r \<and> po_fencing r > 0 \<and> \<not> fence_current now r db
      then (False, set_columns n (\<lambda>c. c\<lparr>qc_last_error := ''strategyRuntime.staleFencingToken'', qc_dispatch_note := ''runtime_fence_rejected''\<rparr>)
             (update_pending n (\<lambda>r. po_status r = ''pending'' \<and> po_fencing r > 0 \<and> \<not> fence_current now r db) ''failed'' db))
      else (False, db))"

text \<open>The cancellation requests of a strategy run, by client reference.\<close>

definition cancel_requested :: "int \<Rightarrow> int \<Rightarrow> string set \<Rightarrow> virtual_db \<Rightarrow> pending_row \<Rightarrow> intent_row \<Rightarrow> bool" where
  "cancel_requested sid run refs db r i \<longleftrightarrow>
     po_intent r = it_id i \<and> po_strategy r = it_strategy i \<and> po_run r = it_run i \<and> it_strategy i = sid \<and> it_run i = run
     \<and> it_client i \<in> refs \<and> po_status r \<in> {''pending'', ''processing'', ''sent'', ''syncing''}"

definition cancelled_row :: "virtual_db \<Rightarrow> pending_row \<Rightarrow> pending_row" where
  "cancelled_row db r =
     r\<lparr>po_payload := dset (po_payload r) ''strategy_cancel_requested'' (PBool True),
       po_status := (if po_status r = ''pending'' \<and> qc_attempts (columns_of db (po_id r)) = 0 \<and> qc_exchange_order_id (columns_of db (po_id r)) = []
                     then ''cancelled'' else po_status r)\<rparr>"

definition persist_cancellations :: "(string \<Rightarrow> string) \<Rightarrow> int \<Rightarrow> int \<Rightarrow> string list \<Rightarrow> virtual_db \<Rightarrow> string list \<times> virtual_db" where
  "persist_cancellations status_of sid run refs db =
     (if refs = [] then (refs, db)
      else
        let q = vd_queue db;
            hit = (\<lambda>r. find (cancel_requested sid run (set refs) db r) (db_intents q));
            rows = concat (map (\<lambda>r. case hit r of None \<Rightarrow> [] | Some i \<Rightarrow> [(it_id i, it_client i, po_status (cancelled_row db r))]) (db_pending q));
            db1 = db\<lparr>vd_queue := q\<lparr>db_pending := map (\<lambda>r. if hit r = None then r else cancelled_row db r) (db_pending q)\<rparr>\<rparr>;
            db2 = foldl (\<lambda>d row. update_intent (fst row) (\<lambda>i. it_status i \<notin> set TERMINAL_INTENTS)
                      (if snd (snd row) = ''cancelled'' then ''cancelled'' else ''cancel_pending'') d) db1 rows;
            acknowledged = map (\<lambda>row. fst (snd row)) rows
              @ filter (\<lambda>ref. status_of ref \<in> {''filled'', ''cancelled'', ''canceled'', ''rejected'', ''failed'', ''expired''}) refs
        in (filter (\<lambda>ref. ref \<notin> set acknowledged) refs, db2))"

definition intercept_cancelled_dispatch :: "pydict \<Rightarrow> bool transaction" where
  "intercept_cancelled_dispatch order_row db =
     (if \<not> truthy (pget order_row ''order_intent_id'') then Inr (False, db)
      else bindE (to_int (pget order_row ''id'')) (\<lambda>n.
        case pending_row_of n db of
          None \<Rightarrow> Inr (True, db)
        | Some r \<Rightarrow>
            if \<not> truthy (pget (po_payload r) ''strategy_cancel_requested'') then Inr (False, db)
            else if po_status r = ''processing'' then
              bindE (int_of [pget order_row ''attempts'']) (\<lambda>attempts.
                let order_ref = qc_exchange_order_id (columns_of db n);
                    never_sent = (attempts = 0 \<and> order_ref = []);
                    status = (if never_sent then ''cancelled'' else if order_ref \<noteq> [] then ''sent'' else ''pending'');
                    error = (if status = ''pending'' then ''strategyV2.cancellationNeedsReconciliation'' else [])
                in Inr (True, update_intent (po_intent r) (\<lambda>i. it_status i \<notin> set TERMINAL_INTENTS)
                      (if never_sent then ''cancelled'' else ''cancel_pending'')
                      (set_columns n (\<lambda>c. c\<lparr>qc_last_error := error\<rparr>) (update_pending n (\<lambda>_. True) status db))))
            else Inr (True, db)))"

section \<open>The execution contract\<close>

record execution_contract =
  ec_strategy_id :: int
  ec_strategy_run_id :: int
  ec_order_intent_id :: int
  ec_credential_id :: int
  ec_mode :: string
  ec_signal_type :: string
  ec_symbol :: string
  ec_market_type :: string

definition EXECUTION_MODES :: "string list" where
  "EXECUTION_MODES = [''signal'', ''live'']"

definition is_risk_reducing :: "execution_contract \<Rightarrow> bool" where
  "is_risk_reducing ec \<longleftrightarrow>
     (\<exists>p \<in> set [''reduce_long'', ''reduce_short'', ''close_long'', ''close_short'']. startswith (ec_signal_type ec) p)"

text \<open>A value that is not an integer counts as 0; one too large for a conversion is not caught.\<close>

definition contract_integer :: "pyval \<Rightarrow> int result" where
  "contract_integer v = (case int_of [v] of Inl OverflowError \<Rightarrow> Inl OverflowError | Inl _ \<Rightarrow> Inr 0 | Inr n \<Rightarrow> Inr n)"

definition contract_market_type :: "pyval \<Rightarrow> string" where
  "contract_market_type v =
     (let mt = lower (strip (str_or v [])) in if mt \<in> {''future'', ''futures'', ''perp'', ''perpetual''} then ''swap'' else mt)"

definition matching_integer :: "pydict \<Rightarrow> pydict \<Rightarrow> string \<Rightarrow> int result" where
  "matching_integer order_row payload field =
     bindE (contract_integer (pget order_row field)) (\<lambda>a.
     bindE (contract_integer (pget payload field)) (\<lambda>b.
       if a > 0 \<and> b > 0 \<and> a \<noteq> b then Inl (ContractError (field @ ''_mismatch'')) else Inr (if a \<noteq> 0 then a else b)))"

definition matching_text :: "(pyval \<Rightarrow> string) \<Rightarrow> pydict \<Rightarrow> pydict \<Rightarrow> string \<Rightarrow> string result" where
  "matching_text normalizer order_row payload field =
     (let a = normalizer (pget order_row field); b = normalizer (pget payload field) in
      if a \<noteq> [] \<and> b \<noteq> [] \<and> a \<noteq> b then Inl (ContractError (field @ ''_mismatch'')) else Inr (str_default a b))"

definition resolve_queued_execution_contract :: "pydict \<Rightarrow> pydict \<Rightarrow> execution_contract result" where
  "resolve_queued_execution_contract order_row payload =
     (let mode = word_of [pget order_row ''execution_mode''] ''signal'';
          payload_mode = word_of [pget payload ''execution_mode''] []
      in if mode \<notin> set EXECUTION_MODES then Inl (ContractError (''unsupported_execution_mode:'' @ str_default mode ''missing''))
         else if payload_mode \<noteq> [] \<and> payload_mode \<notin> set EXECUTION_MODES
           then Inl (ContractError (''unsupported_payload_execution_mode:'' @ payload_mode))
         else if payload_mode \<noteq> [] \<and> payload_mode \<noteq> mode
           then Inl (ContractError (''execution_mode_mismatch:order='' @ mode @ '':payload='' @ payload_mode))
         else
         bindE (matching_integer order_row payload ''strategy_id'') (\<lambda>strategy_id.
         bindE (matching_integer order_row payload ''strategy_run_id'') (\<lambda>run.
         bindE (matching_integer order_row payload ''order_intent_id'') (\<lambda>intent.
         bindE (matching_integer order_row payload ''credential_id'') (\<lambda>credential.
         bindE (matching_text (\<lambda>v. lower (strip (str_or v []))) order_row payload ''signal_type'') (\<lambda>signal_type.
         bindE (matching_text (\<lambda>v. upper (strip (str_or v []))) order_row payload ''symbol'') (\<lambda>symbol'.
         bindE (matching_text contract_market_type order_row payload ''market_type'') (\<lambda>market_type.
           if mode = ''live'' \<and> strategy_id \<le> 0 then Inl (ContractError ''live_strategy_id_required'')
           else Inr \<lparr>ec_strategy_id = strategy_id, ec_strategy_run_id = run, ec_order_intent_id = intent, ec_credential_id = credential,
                     ec_mode = mode, ec_signal_type = signal_type, ec_symbol = symbol', ec_market_type = market_type\<rparr>))))))))"

definition validate_current_strategy_mode :: "execution_contract \<Rightarrow> pyval \<Rightarrow> unit result" where
  "validate_current_strategy_mode ec current_mode =
     (let normalized = lower (strip (str_or current_mode ''signal'')) in
      if normalized \<notin> set EXECUTION_MODES
      then Inl (ContractError (''unsupported_strategy_execution_mode:'' @ str_default normalized ''missing''))
      else if normalized \<noteq> ec_mode ec \<and> \<not> is_risk_reducing ec
      then Inl (ContractError (''execution_mode_mismatch:order='' @ ec_mode ec @ '':strategy='' @ normalized))
      else Inr ())"

text \<open>The loader raises when the strategy is gone; of the rest of the configuration only the mode matters.\<close>

definition validate_persisted_strategy_mode :: "execution_contract \<Rightarrow> virtual_db \<Rightarrow> unit result" where
  "validate_persisted_strategy_mode ec db =
     (if ec_strategy_id ec \<le> 0 then Inr ()
      else case find (\<lambda>s. sr_id s = ec_strategy_id ec) (vd_strategies db) of
        None \<Rightarrow> Inl (KeyError ''strategyV2.strategyNotFound'')
      | Some s \<Rightarrow> validate_current_strategy_mode ec (PStr (lower (strip (str_default (sr_execution_mode s) ''signal'')))))"

section \<open>Status writers\<close>

definition map_intent :: "int \<Rightarrow> (string \<Rightarrow> string) \<Rightarrow> virtual_db \<Rightarrow> virtual_db" where
  "map_intent n f db =
     (case pending_row_of n db of
        None \<Rightarrow> db
      | Some r \<Rightarrow> db\<lparr>vd_queue := (vd_queue db)\<lparr>db_intents :=
          map (\<lambda>i. if it_id i = po_intent r then i\<lparr>it_status := f (it_status i)\<rparr> else i) (db_intents (vd_queue db))\<rparr>\<rparr>)"

definition mark_sent ::
  "virtual_env \<Rightarrow> int \<Rightarrow> string \<Rightarrow> string \<Rightarrow> string \<Rightarrow> pyfloat \<Rightarrow> pyfloat \<Rightarrow> bool \<Rightarrow> bool \<Rightarrow> virtual_db \<Rightarrow> virtual_db result" where
  "mark_sent ve n note exchange_id exchange_order_id filled avg_price final_filled preserve db =
     (let c = columns_of db n;
          status = (\<lambda>r. if po_status r = ''filled'' \<or> final_filled then ''filled'' else ''sent'')
      in bindE (ve_column ve 20 8 (greatest (qc_filled c) (ve_param ve (f_or filled (Fin 0))))) (\<lambda>new_filled.
         bindE (ve_column ve 20 8 (if sql_greater (qc_filled c) (ve_param ve (f_or filled (Fin 0))) \<and> sql_greater (qc_avg_price c) (Fin 0)
                  then qc_avg_price c else ve_param ve (f_or avg_price (Fin 0)))) (\<lambda>new_price.
           let db1 = db\<lparr>vd_queue := (vd_queue db)\<lparr>db_pending :=
                 map (\<lambda>r. if po_id r = n then r\<lparr>po_status := status r\<rparr> else r) (db_pending (vd_queue db))\<rparr>\<rparr>;
               db2 = set_columns n (\<lambda>c. c\<lparr>qc_last_error := [], qc_dispatch_note := note, qc_exchange_id := exchange_id,
                       qc_exchange_order_id := exchange_order_id, qc_filled := new_filled, qc_avg_price := new_price\<rparr>) db1
           in Inr (map_intent n (\<lambda>s. if preserve \<and> s \<in> set TERMINAL_INTENTS then s else if final_filled then ''filled''
                     else if flt (Fin 0) (f_or filled (Fin 0)) then ''partially_filled'' else ''submitted'') db2))))"

definition mark_failed :: "(string \<Rightarrow> string) \<Rightarrow> int \<Rightarrow> string \<Rightarrow> virtual_db \<Rightarrow> virtual_db" where
  "mark_failed redact n error db =
     map_intent n (\<lambda>_. ''rejected'')
       (set_columns n (\<lambda>c. c\<lparr>qc_last_error := str_default (redact (str_default error ''failed'')) ''failed''\<rparr>)
         (update_pending n (\<lambda>_. True) ''failed'' db))"

section \<open>Dispatch\<close>

definition channel_ok :: "pydict \<Rightarrow> bool" where
  "channel_ok result' \<longleftrightarrow> truthy (pget result' ''ok'')"

definition dispatch_note :: "string \<Rightarrow> int \<Rightarrow> (string, pydict) dict \<Rightarrow> string" where
  "dispatch_note status order results =
     (let virtual_note = ''virtual_'' @ status @ ''='' @ show_int order;
          ok_channels = map fst (filter (\<lambda>p. channel_ok (snd p)) results);
          fail_channels = map fst (filter (\<lambda>p. \<not> channel_ok (snd p)) results);
          errors = map (\<lambda>p. fst p @ '':'' @ to_str (pget (snd p) ''error'')) (filter (\<lambda>p. truthy (pget (snd p) ''error'')) results)
      in if ok_channels \<noteq> []
         then virtual_note @ '';notified_ok='' @ join '','' ok_channels @ (if fail_channels \<noteq> [] then '';fail='' @ join '','' fail_channels else [])
         else virtual_note @ '';notify_failed='' @ (case errors of [] \<Rightarrow> ''no_channel'' | e # _ \<Rightarrow> e))"

definition dispatch_virtual_signal_order ::
  "worker_env \<Rightarrow> pydict \<Rightarrow> pydict \<Rightarrow> int \<Rightarrow> virtual_db \<Rightarrow> unit result \<times> virtual_db" where
  "dispatch_virtual_signal_order we order_row payload n db =
     (case execute_virtual_signal_order (we_db we) order_row payload db of
        Inl e \<Rightarrow> (Inr (), mark_failed (we_redact we) n (take 500 (''virtual_fill_failed:'' @ we_error_text we e)) db)
      | Inr (fill, db1) \<Rightarrow>
          (case we_notify we n fill of
             Inl e \<Rightarrow> (Inl e, db1)
           | Inr results \<Rightarrow>
               let status = lower (strip (str_or (pget fill ''status'') ''filled'')) in
               case bindE (int_of [pget fill ''virtual_order_id'']) (\<lambda>order.
                    bindE (float_of [pget fill ''fill_quantity'']) (\<lambda>filled.
                    bindE (float_of [pget fill ''fill_price'']) (\<lambda>avg_price.
                      mark_sent (we_db we) n (take 200 (dispatch_note status order results)) [] [] filled avg_price (status = ''filled'') True db1))) of
                 Inl e \<Rightarrow> (Inl e, db1)
               | Inr db2 \<Rightarrow> (Inr (), db2)))"

definition dispatch_one :: "worker_env \<Rightarrow> pydict \<Rightarrow> virtual_db \<Rightarrow> unit result \<times> virtual_db" where
  "dispatch_one we order_row db =
     (case intercept_cancelled_dispatch order_row db of
        Inl e \<Rightarrow> (Inl e, db)
      | Inr (True, db1) \<Rightarrow> (Inr (), db1)
      | Inr (False, _) \<Rightarrow>
          let payload = mapping_of (pget order_row ''payload_json'') in
          case to_int (pget order_row ''id'') of
            Inl e \<Rightarrow> (Inl e, db)
          | Inr n \<Rightarrow>
              (case bindE (resolve_queued_execution_contract order_row payload) (\<lambda>ec.
                    bindE (validate_persisted_strategy_mode ec db) (\<lambda>_. Inr ec)) of
                 Inl (ContractError code) \<Rightarrow> (Inr (), mark_failed (we_redact we) n (''execution_contract:'' @ code) db)
               | Inl _ \<Rightarrow> (Inr (), mark_failed (we_redact we) n ''execution_contract:strategy_unavailable'' db)
               | Inr ec \<Rightarrow>
                   (case bindE (float_of [pget payload ''price'', pget order_row ''price'']) (\<lambda>_.
                         float_of [pget payload ''amount'', pget order_row ''amount'']) of
                      Inl e \<Rightarrow> (Inl e, db)
                    | Inr _ \<Rightarrow>
                        if ec_mode ec = ''signal'' then dispatch_virtual_signal_order we order_row payload n db
                        else if ec_mode ec = ''live'' then we_live we order_row payload db
                        else (Inr (), mark_failed (we_redact we) n (''unsupported_execution_mode:'' @ ec_mode ec) db))))"

text \<open>One order of the worker's tick: claimed, dispatched, and failed when the dispatch raises.\<close>

definition work_order :: "worker_env \<Rightarrow> pydict \<Rightarrow> int \<Rightarrow> virtual_db \<Rightarrow> virtual_db" where
  "work_order we order_row n db =
     (case claim_pending_order (we_now we) n db of
        (False, db1) \<Rightarrow> db1
      | (True, db1) \<Rightarrow>
          (case dispatch_one we order_row db1 of
             (Inr _, db2) \<Rightarrow> db2
           | (Inl e, db2) \<Rightarrow> mark_failed (we_redact we) n (we_error_text we e) db2))"

text \<open>The orders of a tick in turn; a stop request or a lost worker lease cuts the list short.  An identifier
  that is not a number raises outside the guarded part and ends the loop.\<close>

fun tick_orders :: "worker_env \<Rightarrow> pydict list \<Rightarrow> virtual_db \<Rightarrow> virtual_db" where
  "tick_orders we [] db = db"
| "tick_orders we (o' # os) db =
     (if \<not> truthy (pget o' ''id'') then tick_orders we os db
      else case to_int (pget o' ''id'') of
        Inl _ \<Rightarrow> db
      | Inr n \<Rightarrow> tick_orders we os (work_order we o' n db))"

section \<open>Rows the virtual ledger does not touch\<close>

definition pending_rows :: "virtual_db \<Rightarrow> pending_row list" where
  "pending_rows db = db_pending (vd_queue db)"

text \<open>Only the row \<open>n\<close> of the queue may differ, and no row comes or goes.\<close>

definition rows_kept :: "int \<Rightarrow> virtual_db \<Rightarrow> virtual_db \<Rightarrow> bool" where
  "rows_kept n db db' \<longleftrightarrow> map po_id (pending_rows db') = map po_id (pending_rows db)
     \<and> db_next_pending (vd_queue db') = db_next_pending (vd_queue db)
     \<and> (\<forall>r \<in> set (pending_rows db). po_id r \<noteq> n \<longrightarrow> r \<in> set (pending_rows db'))"

lemma rows_kept_same [simp]: "vd_queue db' = vd_queue db \<Longrightarrow> rows_kept n db db'"
  by (simp add: rows_kept_def pending_rows_def)

lemma rows_kept_trans: "rows_kept n a b \<Longrightarrow> rows_kept n b c \<Longrightarrow> rows_kept n a c"
  by (auto simp: rows_kept_def)

lemma rows_kept_frame [simp]:
  "rows_kept n db (update_intent m h s d) \<longleftrightarrow> rows_kept n db d" "rows_kept n db (set_columns m f d) \<longleftrightarrow> rows_kept n db d"
  "rows_kept n db (map_intent m g d) \<longleftrightarrow> rows_kept n db d"
  by (simp_all add: rows_kept_def pending_rows_def update_intent_def set_columns_def map_intent_def split: option.split)

lemma rows_kept_map:
  "(\<And>r. po_id (f r) = po_id r) \<Longrightarrow> (\<And>r. po_id r \<noteq> n \<Longrightarrow> f r = r) \<Longrightarrow>
     rows_kept n db (db\<lparr>vd_queue := (vd_queue db)\<lparr>db_pending := map f (db_pending (vd_queue db))\<rparr>\<rparr>)"
  by (force simp: rows_kept_def pending_rows_def comp_def)

lemma rows_kept_update_pending [simp]: "rows_kept n db (update_pending n g s db)"
  unfolding update_pending_def by (rule rows_kept_map) auto

lemma book_order_queue:
  assumes "book_order ve rq cp existing t price commission slippage reason db = Inr (n, db')"
  shows "vd_queue db' = vd_queue db"
proof (cases existing)
  case None
  with assms obtain fill where "insert_virtual_order ve rq cp fill (ft_status t) reason db = Inr (n, db')"
    by (auto simp: book_order_def bindE_Inr_iff)
  then show ?thesis by (rule insert_virtual_order_effect) 
next
  case (Some o')
  with assms show ?thesis by (auto simp: book_order_def update_virtual_order_def bindE_Inr_iff)
qed

lemma complete_order_row: "complete_order ve rq t price db = Inr db' \<Longrightarrow> rows_kept (vq_order rq) db db'"
  by (auto simp: complete_order_def bindE_Inr_iff Let_def split: if_splits)

lemma record_fill_row:
  assumes "record_fill ve rq cp n t price commission slippage equity matched payload db = Inr db'"
  shows "rows_kept (vq_order rq) db db'"
proof (cases "ft_status t = ''filled''")
  case True
  with assms(1) obtain reason db1 db2 where i: "insert_trade ve rq cp n t price commission slippage equity matched reason db = Inr db1"
    "insert_fill ve rq n t price commission db1 = Inr db2" "complete_order ve rq t price db2 = Inr db'"
    by (auto simp: record_fill_def bindE_Inr_iff)
  have "vd_queue db1 = vd_queue db" using i(1) by (auto simp: insert_trade_def bindE_Inr_iff Let_def split: if_splits)
  moreover have "vd_queue db2 = vd_queue db1" using i(2) by (auto simp: insert_fill_def bindE_Inr_iff Let_def split: if_splits)
  ultimately show ?thesis using complete_order_row [OF i(3)] by (simp add: rows_kept_def pending_rows_def)
next
  case False
  then show ?thesis using assms(1) by (simp add: record_fill_def)
qed

lemma settle_fill_row:
  assumes "settle_fill ve rq cp existing price cash payload db = Inr (answer, db')"
  shows "rows_kept (vq_order rq) db db'"
  using assms(1)
proof (rule settle_fill_cases)
  fix t n db1 db2 db3 realized total' equity
  assume o: "book_order ve rq cp existing t price (commission_for cp (ft_quantity t) price)
      (slippage_quote_for cp (ft_quantity t) (vq_reference rq) price) (reason_of payload []) db = Inr (n, db1)"
    and p: "book_position ve rq t price (cp_market_type cp) db1 = Inr db2"
    and a: "update_account ve (vq_strategy rq) realized total' db2 = Inr db3"
    and f: "record_fill ve rq cp n t price (commission_for cp (ft_quantity t) price)
      (slippage_quote_for cp (ft_quantity t) (vq_reference rq) price) equity (position_float vp_entry_price (position_of rq db)) payload db3 = Inr db'"
  have "vd_queue db3 = vd_queue db"
    using book_order_queue [OF o] book_position_frame(2) [OF p] update_account_frame(3) [OF a] by simp
  then show ?thesis using record_fill_row [OF f] by (simp add: rows_kept_def pending_rows_def)
qed

lemma run_virtual_order_row:
  assumes "run_virtual_order ve rq st cp is_open existing payload db = Inr (answer, db')"
  shows "rows_kept (vq_order rq) db db'"
proof -
  from assms(1) obtain cash db1 where e: "ensure_account ve rq cash db = Inr db1"
    and c: "(\<exists>b. open_order ve rq cp cash b payload db1 = Inr (answer, db')) \<or> (\<exists>price. settle_fill ve rq cp existing price cash payload db1 = Inr (answer, db'))"
    by (auto simp: run_virtual_order_def bindE_Inr_iff Let_def split: if_splits option.splits)
  have "vd_queue db1 = vd_queue db" by (rule ensure_account_frame(3) [OF e])
  moreover have "rows_kept (vq_order rq) db1 db'" using c open_order_effect(4) settle_fill_row by auto
  ultimately show ?thesis by (simp add: rows_kept_def pending_rows_def)
qed

text \<open>Once an order has left the state \<open>open\<close>, no execution touches its queue row again.\<close>

lemma execute_row:
  assumes "execute_virtual_signal_order ve row payload db = Inr (answer, db')" and "ledger_ok (orders_part db)"
    and "o' \<in> set (vd_orders db)" "vo_pending o' = k" "vo_status o' \<noteq> ''open''"
  shows "\<exists>n. n \<noteq> k \<and> rows_kept n db db'"
  using assms(1)
proof (cases rule: execute_cases)
  case (answered rq q)
  then show ?thesis by (intro exI [of _ "k + 1"]) simp
next
  case (fresh rq st cp is_open)
  then have "vq_order rq \<noteq> k" using assms(3,4) by (metis imageI)
  then show ?thesis using run_virtual_order_row [OF fresh(5)] by blast
next
  case (resumed rq st cp q)
  have "vo_status q = ''open''"
    using assms(2) resumed(4,6) status_is_open unfolding orders_part_def by auto
  moreover have "distinct (map vo_pending (vd_orders db))" using assms(2) by (simp add: orders_part_def)
  ultimately have "vq_order rq \<noteq> k"
    using assms(3-5) resumed(4,5) by (metis distinct_map inj_onD)
  then show ?thesis using run_virtual_order_row [OF resumed(8)] by blast
qed

section \<open>A parked order\<close>

text \<open>An order whose queue row says \<open>sent\<close> while its virtual order has left the state \<open>open\<close>.\<close>

definition same_order :: "pending_row \<Rightarrow> pending_row \<Rightarrow> bool" where
  "same_order q r \<longleftrightarrow> po_id q = po_id r \<and> po_strategy q = po_strategy r \<and> po_symbol q = po_symbol r \<and> po_signal_type q = po_signal_type r"

definition queue_ids_ok :: "virtual_db \<Rightarrow> bool" where
  "queue_ids_ok db \<longleftrightarrow> distinct (map po_id (pending_rows db)) \<and> (\<forall>n \<in> set (map po_id (pending_rows db)). n < db_next_pending (vd_queue db))"

definition order_over :: "int \<Rightarrow> virtual_db \<Rightarrow> bool" where
  "order_over n db \<longleftrightarrow> (\<exists>o' \<in> set (vd_orders db). vo_pending o' = n \<and> vo_status o' \<noteq> ''open'')"

definition parked :: "pending_row \<Rightarrow> virtual_db \<Rightarrow> bool" where
  "parked r db \<longleftrightarrow> ledger_ok (orders_part db) \<and> queue_ids_ok db \<and> order_over (po_id r) db
     \<and> (\<exists>q \<in> set (pending_rows db). same_order q r \<and> po_status q = ''sent'')"

lemma order_over_kept:
  assumes "ledger_kept db db'" and "ledger_ok (orders_part db)" and "order_over n db"
  shows "order_over n db'"
  using assms unfolding ledger_kept_def order_over_def orders_part_def ledger_grows.simps row_kept_def by metis

lemma queue_ids_kept: "rows_kept n db db' \<Longrightarrow> queue_ids_ok db \<Longrightarrow> queue_ids_ok db'"
  by (simp add: rows_kept_def queue_ids_ok_def)

lemma parked_kept:
  assumes "parked r db" and "ledger_kept db db'" and "rows_kept n db db'" and "n \<noteq> po_id r"
  shows "parked r db'"
proof -
  obtain q where "q \<in> set (pending_rows db)" "same_order q r" "po_status q = ''sent''" using assms(1) by (auto simp: parked_def)
  moreover have "q \<in> set (pending_rows db')" using calculation(1,2) assms(3,4) by (simp add: rows_kept_def same_order_def)
  ultimately show ?thesis
    using assms(1,2) order_over_kept [OF assms(2)] queue_ids_kept [OF assms(3)] by (auto simp: parked_def ledger_kept_def)
qed

lemma parked_frame:
  assumes "parked r db" and "orders_part db' = orders_part db" and "vd_queue db' = vd_queue db"
  shows "parked r db'"
  by (rule parked_kept [OF assms(1), of _ "po_id r + 1"]) (use assms in simp_all)

lemma parked_execute:
  assumes "parked r db" and "execute_virtual_signal_order ve row payload db = Inr (answer, db')"
  shows "parked r db'"
proof -
  obtain o' where "o' \<in> set (vd_orders db)" "vo_pending o' = po_id r" "vo_status o' \<noteq> ''open''" "ledger_ok (orders_part db)"
    using assms(1) by (auto simp: parked_def order_over_def)
  then obtain n where "n \<noteq> po_id r" "rows_kept n db db'" using execute_row [OF assms(2)] by blast
  then show ?thesis using parked_kept [OF assms(1) execute_kept [OF assms(2)]] by blast
qed

lemma parked_cancel:
  assumes "parked r db" and "pending \<noteq> po_id r"
  shows "parked r (cancel_virtual_order pending order intent db)"
proof -
  let ?db1 = "db\<lparr>vd_orders := map (\<lambda>o'. if vo_id o' = order \<and> vo_status o' = ''open'' then o'\<lparr>vo_status := ''cancelled''\<rparr> else o') (vd_orders db)\<rparr>"
  have "rows_kept pending db (update_pending pending g s ?db1)" for g s
    by (rule rows_kept_trans [of _ _ ?db1]) simp_all
  then have "rows_kept pending db (cancel_virtual_order pending order intent db)"
    by (simp add: cancel_virtual_order_def Let_def)
  then show ?thesis using parked_kept [OF assms(1) cancel_one_kept _ assms(2)] by blast
qed

text \<open>An order that is over stays out of the open orders, so neither the matcher nor a stop cancels it.\<close>

lemma open_orders_not_over:
  assumes "q \<in> set (open_orders sid run db)" and "ledger_ok (orders_part db)" and "order_over n db"
  shows "vo_pending q \<noteq> n"
proof
  assume e: "vo_pending q = n"
  obtain o' where o': "o' \<in> set (vd_orders db)" "vo_pending o' = n" "vo_status o' \<noteq> ''open''" using assms(3) by (auto simp: order_over_def)
  have "q \<in> set (vd_orders db)" "vo_status q = ''open''" using assms(1) by (auto simp: open_orders_def)
  moreover have "inj_on vo_pending (set (vd_orders db))" using assms(2) by (simp add: orders_part_def distinct_map)
  ultimately show False using o' e by (metis inj_onD)
qed

lemma parked_cancel_fold:
  "parked r db \<Longrightarrow> \<forall>q \<in> set rows. vo_pending q \<noteq> po_id r \<Longrightarrow>
     parked r (foldl (\<lambda>d q. cancel_virtual_order (vo_pending q) (vo_id q) (vo_intent q) d) db rows)"
  by (induction rows arbitrary: db) (auto intro: parked_cancel)

lemma parked_cancel_all: "parked r db \<Longrightarrow> parked r (snd (cancel_virtual_limit_orders sid run db))"
  unfolding cancel_virtual_limit_orders_def Let_def
  by (simp, rule parked_cancel_fold) (use open_orders_not_over in \<open>auto simp: parked_def\<close>)

lemma parked_match_one:
  assumes "parked r db" and "match_one ve prices row db = Inr (answers, db')" and "vo_pending (fst row) \<noteq> po_id r"
  shows "parked r db'"
proof -
  from assms(2) have "db' = db \<or> (\<exists>n i. db' = cancel_virtual_order (vo_pending (fst row)) n i db)
      \<or> (\<exists>d payload a. execute_virtual_signal_order ve d payload db = Inr (a, db'))"
    by (cases row) (auto simp: match_one_def Let_def bindE_Inr_iff split: if_splits option.splits)
  then show ?thesis using assms(1,3) parked_execute parked_cancel by auto
qed

lemma parked_match_loop:
  "parked r db \<Longrightarrow> \<forall>row \<in> set rows. vo_pending (fst row) \<noteq> po_id r \<Longrightarrow> parked r (snd (match_loop ve prices rows matched db))"
proof (induction rows arbitrary: db matched)
  case (Cons row rows)
  show ?case
  proof (cases "match_one ve prices row db")
    case (Inr b)
    then obtain answers db1 where b: "match_one ve prices row db = Inr (answers, db1)" by (cases b) simp
    have "parked r db1" by (rule parked_match_one [OF Cons.prems(1) b]) (use Cons.prems(2) in simp)
    then show ?thesis using Cons.IH Cons.prems(2) b by simp
  qed (use Cons.prems in simp)
qed simp

lemma match_rows_open: "row \<in> set (match_rows sid run db) \<Longrightarrow> fst row \<in> set (open_orders sid run db)"
  by (auto simp: match_rows_def split: option.splits)

lemma parked_match:
  assumes "parked r db"
  shows "parked r (snd (match_virtual_limit_orders ve sid prices run db))"
proof -
  have "\<forall>row \<in> set (match_rows sid run db). vo_pending (fst row) \<noteq> po_id r"
    using match_rows_open open_orders_not_over assms unfolding parked_def by blast
  then show ?thesis using parked_match_loop [OF assms] assms by (auto simp: match_virtual_limit_orders_def split: sum.split)
qed

end
