(* ===== verification/VirtualSettle.thy ===== *)
theory VirtualSettle
  imports VirtualProps FloatRepr
begin

text \<open>
  What one execution of a virtual order does: the fill transition on every branch, limit prices that are
  never worse than the limit, no fill while the market is closed, and an order that reaches an open market
  is settled in one call.  The positions of the ledger keep one row per leg with a size that is not negative.
\<close>

section \<open>The fill transition\<close>

lemma fadd_pos:
  assumes "fle (Fin 0) a" and "flt (Fin 0) b" and "is_b64 b"
  shows "flt (Fin 0) (fadd a b)"
proof (cases a)
  case (Fin x)
  then have x: "0 \<le> x" using assms(1) by simp
  show ?thesis
  proof (cases b)
    case (Fin y)
    then have y: "0 < y" "fl y = Fin y" using assms(2,3) by (simp_all add: is_b64_def)
    have "fle (Fin y) (fl (x + y))" using fl_ge_b64 [OF y(2)] x by simp
    then have "flt (Fin 0) (fl (x + y))" using fle_flt_trans flt_fle_trans y(1) by (metis flt.simps(1))
    then show ?thesis using \<open>a = Fin x\<close> Fin by simp
  qed (use assms Fin in simp_all)
next
  case PInf
  then show ?thesis using assms(2) by (cases b) simp_all
qed (use assms(1) in simp_all)

lemma clamped_nonneg [simp]: "fle (Fin 0) (pymax (Fin 0) a)"
  by (rule pymax_ge_left) simp

lemma pymax_zero_pos: "flt (Fin 0) (pymax (Fin 0) a) \<longleftrightarrow> flt (Fin 0) a"
  by (simp add: pymax_def)

lemma f_or_zero_pos [simp]: "flt (Fin 0) (f_or a (Fin 0)) \<longleftrightarrow> flt (Fin 0) a"
  by (cases a) (auto simp: f_or_def ftruthy_def)

lemma pymax_zero_le: "fle (pymax (Fin 0) a) (Fin 0) \<longleftrightarrow> \<not> flt (Fin 0) a"
  by (cases a) (auto simp: pymax_def)

lemma pymax_zero_pos_eq: "flt (Fin 0) a \<Longrightarrow> pymax (Fin 0) (f_or a (Fin 0)) = a"
  by (cases a) (auto simp: pymax_def f_or_def ftruthy_def)

lemma actions_disjoint: "a \<in> set EXIT_ACTIONS \<Longrightarrow> a \<notin> set ENTRY_ACTIONS"
  by (auto simp: EXIT_ACTIONS_def ENTRY_ACTIONS_def)

lemma calculate_virtual_fill_entry:
  assumes "lower (strip action) \<in> set ENTRY_ACTIONS" and "flt (Fin 0) quantity" "is_b64 quantity" and "flt (Fin 0) price"
  shows "\<exists>entry'. calculate_virtual_fill action quantity price sz entry =
    Inr \<lparr>ft_quantity = quantity, ft_size = fadd (pymax (Fin 0) (f_or sz (Fin 0))) quantity, ft_entry = entry', ft_gross = Fin 0,
         ft_status = ''filled''\<rparr>"
proof -
  let ?s = "pymax (Fin 0) (f_or sz (Fin 0))" and ?e = "pymax (Fin 0) (f_or entry (Fin 0))"
  have "flt (Fin 0) (fadd ?s quantity)" using fadd_pos assms(2,3) by simp
  then have "fadd ?s quantity \<noteq> Fin 0" by auto
  then show ?thesis
    using assms(1,2,4) by (simp add: calculate_virtual_fill_def Let_def pymax_zero_pos_eq fdiv_def flt_asym)
qed

lemma calculate_virtual_fill_total:
  assumes "is_b64 quantity"
  shows "\<exists>t. calculate_virtual_fill action quantity price sz entry = Inr t"
proof (cases "lower (strip action) \<in> set ENTRY_ACTIONS \<and> flt (Fin 0) quantity \<and> flt (Fin 0) price")
  case True
  then show ?thesis using calculate_virtual_fill_entry assms by blast
next
  case False
  then show ?thesis by (auto simp: calculate_virtual_fill_def Let_def pymax_zero_le)
qed

lemma fsub_le:
  assumes "fle (Fin 0) b" and "is_b64 a"
  shows "fsub a b = NaN \<or> fle (fsub a b) a"
proof (cases "a")
  case (Fin x)
  then have x: "fl x = Fin x" using assms(2) by (simp add: is_b64_def)
  show ?thesis
  proof (cases b)
    case (Fin y)
    then have "fle (fl (x - y)) (Fin x)" using fl_le_b64 [OF x] assms(1) by simp
    then show ?thesis using \<open>a = Fin x\<close> Fin by (simp add: fsub_def)
  qed (use assms(1) Fin in \<open>simp_all add: fsub_def\<close>)
next
  case PInf
  then show ?thesis by (cases b) (simp_all add: fsub_def)
qed (use assms(1) in \<open>cases b; simp add: fsub_def\<close>)+

lemma fadd_zero_nonneg: "fle (Fin 0) a \<Longrightarrow> fle (Fin 0) b \<Longrightarrow> fle (Fin 0) (fadd a b)"
  by (cases a; cases b) (auto intro: fl_nonneg)

lemma calculate_virtual_fill_size:
  assumes "calculate_virtual_fill action quantity price sz entry = Inr t"
  shows "fle (Fin 0) (ft_size t)"
  using assms fadd_zero_nonneg by (auto simp: calculate_virtual_fill_def Let_def bindE_Inr_iff split: if_splits)

text \<open>
  C33. The fill transition of an exit: without a position (or a price) nothing is
  filled and the position stays; otherwise the filled quantity is positive and at most the position, the
  rest never grows and is never negative, the entry price is kept, and the gross profit is that of the
  position's side.  A request of 0 closes everything.
\<close>

theorem virtual_exit_bounded:
  assumes "lower (strip action) \<in> set EXIT_ACTIONS" and "is_b64 sz"
  shows "\<exists>t. calculate_virtual_fill action quantity price sz entry = Inr t
    \<and> (if flt (Fin 0) sz \<and> flt (Fin 0) price
       then ft_status t = ''filled'' \<and> flt (Fin 0) (ft_quantity t) \<and> fle (ft_quantity t) sz
         \<and> fle (Fin 0) (ft_size t) \<and> fle (ft_size t) sz
         \<and> ft_quantity t = (if flt (Fin 0) quantity \<and> flt quantity sz then quantity else sz)
         \<and> ft_gross t = leg_pnl (action_side (lower (strip action))) (ft_entry t) price (ft_quantity t)
       else ft_status t = ''no_position'' \<and> ft_quantity t = Fin 0 \<and> ft_gross t = Fin 0 \<and> ft_size t = pymax (Fin 0) sz)
    \<and> ft_entry t = pymax (Fin 0) entry"
proof -
  have o: "pymax (Fin 0) (f_or a (Fin 0)) = pymax (Fin 0) a" for a by (cases a) (auto simp: pymax_def f_or_def ftruthy_def)
  have exit: "lower (strip action) \<notin> set ENTRY_ACTIONS" using assms(1) by (rule actions_disjoint)
  show ?thesis
  proof (cases "flt (Fin 0) sz \<and> flt (Fin 0) price")
    case True
    define q where "q = (if flt (Fin 0) quantity \<and> flt quantity sz then quantity else sz)"
    have s: "pymax (Fin 0) sz = sz" "pymax (Fin 0) price = price" using True by (simp_all add: pymax_def)
    have q: "(if fle (pymax (Fin 0) quantity) (Fin 0) then sz else pymin sz (pymax (Fin 0) quantity)) = q"
      using True by (auto simp: q_def pymax_zero_le pymin_def pymax_def dest: flt_asym)
    note q = q [unfolded pymax_zero_le]
    have b: "flt (Fin 0) q" "fle q sz" using True flt_imp_fle by (auto simp: q_def fle_refl_iff)
    have r: "fle (pymax (Fin 0) (fsub sz q)) sz"
      using fsub_le [OF flt_imp_fle [OF b(1)] assms(2)] flt_imp_fle [of "Fin 0" sz] True by (auto simp: pymax_def)
    show ?thesis
      using assms(1) exit True b r
      by (simp add: calculate_virtual_fill_def Let_def o s q pymax_zero_le flt_asym leg_pnl_def action_side_def q_def [symmetric])
  next
    case False
    then show ?thesis using assms(1) exit by (auto simp: calculate_virtual_fill_def Let_def o pymax_zero_le)
  qed
qed

theorem virtual_exit_bounded_witness:
  "\<exists>t. calculate_virtual_fill ''close_short'' (Fin 5) (Fin 90) (Fin 2) (Fin 100) = Inr t \<and> ft_quantity t = Fin 2 \<and> fle (ft_size t) (Fin 2)"
proof -
  have "lower (strip ''close_short'') \<in> set EXIT_ACTIONS" by code_simp
  then show ?thesis using virtual_exit_bounded [of "''close_short''" "Fin 2" "Fin 5" "Fin 90" "Fin 100"] by (auto simp: is_b64_def)
qed

section \<open>Limit prices\<close>

text \<open>
  C32. A virtual limit order is filled exactly when limit and market price are
  positive and the market has reached the limit, and never at a worse price than its limit: a buy at most, a
  sell at least.
\<close>

theorem virtual_limit_never_worse:
  "(calculate_virtual_limit_fill_price action limit_price market_price slippage_rate \<noteq> None \<longleftrightarrow>
      flt (Fin 0) limit_price \<and> flt (Fin 0) market_price \<and> (if buys action then fle market_price limit_price else fle limit_price market_price))
   \<and> pred_option (\<lambda>price. if buys action then fle price limit_price else fle limit_price price)
       (calculate_virtual_limit_fill_price action limit_price market_price slippage_rate)"
proof (cases "flt (Fin 0) limit_price \<and> flt (Fin 0) market_price")
  case True
  then have p: "pymax (Fin 0) (f_or limit_price (Fin 0)) = limit_price" "pymax (Fin 0) (f_or market_price (Fin 0)) = market_price"
    by (simp_all add: pymax_zero_pos_eq)
  have n: "limit_price \<noteq> NaN" "market_price \<noteq> NaN" using True by auto
  have "\<not> fle limit_price (Fin 0)" "\<not> fle market_price (Fin 0)" using True flt_asym by blast+
  then show ?thesis
    using True n pymin_le_left [OF n(1)] pymax_ge_left [OF n(1)]
    by (auto simp: calculate_virtual_limit_fill_price_def Let_def p not_flt_iff dest: flt_asym)
next
  case False
  then show ?thesis by (auto simp: calculate_virtual_limit_fill_price_def Let_def pymax_zero_le)
qed

section \<open>An order that reaches an open market\<close>

text \<open>A database that accepts every number it is given.\<close>

definition accepts :: "virtual_env \<Rightarrow> bool" where
  "accepts ve \<longleftrightarrow> (\<forall>p s x. \<exists>y. ve_column ve p s x = Inr y)"

lemma accepts_column: "accepts ve \<Longrightarrow> \<exists>c. \<forall>p s x. ve_column ve p s x = Inr (c p s x)"
  unfolding accepts_def by metis

lemma statements_accepted:
  assumes "accepts ve"
  shows "\<exists>db'. ensure_account ve rq cash db = Inr db'" and "\<exists>db'. book_position ve rq t price mt db = Inr db'"
    and "\<exists>db'. update_account ve sid realized commission db = Inr db'" and "\<exists>db'. insert_fill ve rq n t price commission db = Inr db'"
    and "\<exists>db'. complete_order ve rq t price db = Inr db'"
    and "vq_order rq \<notin> vo_pending ` set (vd_orders db) \<Longrightarrow> \<exists>n db'. book_order ve rq cp None t price commission slippage reason db = Inr (n, db')"
    and "n \<notin> vx_order ` set (vd_trades db) \<Longrightarrow> vq_order rq \<notin> vx_pending ` set (vd_trades db) \<Longrightarrow>
      \<exists>db'. insert_trade ve rq cp n t price commission slippage equity matched reason db = Inr db'"
proof -
  obtain c where c: "\<And>p s x. ve_column ve p s x = Inr (c p s x)" using accepts_column [OF assms] by auto
  note c = c store_def
  show "\<exists>db'. ensure_account ve rq cash db = Inr db'" by (simp add: ensure_account_def c)
  show "\<exists>db'. book_position ve rq t price mt db = Inr db'" by (simp add: book_position_def save_position_def Let_def c)
  have "\<exists>ys. mapE (\<lambda>a. if va_strategy a \<noteq> sid then Inr a
         else bindE (ve_column ve 24 8 (sql_add (va_initial_cash a) (ve_param ve realized))) (\<lambda>cash.
              bindE (store ve 24 8 realized) (\<lambda>r.
              bindE (store ve 24 8 commission) (\<lambda>c.
                Inr (a\<lparr>va_cash_balance := cash, va_realized_pnl := r, va_total_commission := c\<rparr>))))) (vd_accounts db) = Inr ys"
    by (rule mapE_total) (simp add: c)
  then show "\<exists>db'. update_account ve sid realized commission db = Inr db'" unfolding update_account_def by auto
  show "\<exists>db'. insert_fill ve rq n t price commission db = Inr db'" by (simp add: insert_fill_def Let_def c)
  show "\<exists>db'. complete_order ve rq t price db = Inr db'" by (simp add: complete_order_def Let_def c)
  show "\<exists>n db'. book_order ve rq cp None t price commission slippage reason db = Inr (n, db')" if "vq_order rq \<notin> vo_pending ` set (vd_orders db)"
  proof -
    have "\<not> (\<exists>r \<in> set (vd_orders db). vo_pending r = vq_order rq)" using that by force
    then show ?thesis by (simp add: book_order_def insert_virtual_order_def Let_def c)
  qed
  show "\<exists>db'. insert_trade ve rq cp n t price commission slippage equity matched reason db = Inr db'"
    if "n \<notin> vx_order ` set (vd_trades db)" "vq_order rq \<notin> vx_pending ` set (vd_trades db)"
  proof -
    have "\<not> (\<exists>x \<in> set (vd_trades db). vx_order x = n \<or> vx_pending x = vq_order rq)" using that by force
    then show ?thesis by (simp add: insert_trade_def Let_def c)
  qed
qed

lemma ledger_ok_fresh:
  assumes "ledger_ok (orders_part db)" and "k \<notin> vo_pending ` set (vd_orders db)"
  shows "vd_next_order db \<notin> vx_order ` set (vd_trades db)" and "k \<notin> vx_pending ` set (vd_trades db)"
proof -
  have i: "(\<lambda>x. (vx_order x, vx_pending x)) ` set (vd_trades db) = (\<lambda>r. (vo_id r, vo_pending r)) ` {r \<in> set (vd_orders db). vo_status r = ''filled''}"
    and l: "\<forall>r \<in> set (vd_orders db). vo_id r < vd_next_order db"
    using assms(1) by (simp_all add: orders_part_def)
  have m: "\<exists>r \<in> set (vd_orders db). vo_id r = vx_order x \<and> vo_pending r = vx_pending x" if "x \<in> set (vd_trades db)" for x
  proof -
    have "(vx_order x, vx_pending x) \<in> (\<lambda>r. (vo_id r, vo_pending r)) ` {r \<in> set (vd_orders db). vo_status r = ''filled''}"
      using that unfolding i [symmetric] by (rule imageI)
    then show ?thesis by auto
  qed
  show "vd_next_order db \<notin> vx_order ` set (vd_trades db)" using m l by fastforce
  show "k \<notin> vx_pending ` set (vd_trades db)" using m assms(2) by force
qed

lemma settle_fill_accepted:
  assumes "accepts ve" and "ledger_ok (orders_part db)" and "vq_order rq \<notin> vo_pending ` set (vd_orders db)"
    and "calculate_virtual_fill (vq_action rq) (vq_quantity rq) price (position_float vp_size (position_of rq db))
       (position_float vp_entry_price (position_of rq db)) = Inr t"
  shows "\<exists>answer db'. settle_fill ve rq cp None price cash payload db = Inr (answer, db')"
proof -
  let ?c = "commission_for cp (ft_quantity t) price" and ?s = "slippage_quote_for cp (ft_quantity t) (vq_reference rq) price"
  obtain n db1 where o: "book_order ve rq cp None t price ?c ?s (reason_of payload []) db = Inr (n, db1)"
    using statements_accepted(6) [OF assms(1,3)] by blast
  obtain db2 where p: "book_position ve rq t price (cp_market_type cp) db1 = Inr db2" using statements_accepted(2) [OF assms(1)] by blast
  define realized where "realized = fsub (fadd (account_float va_realized_pnl (account_of (vq_strategy rq) db)) (ft_gross t)) ?c"
  define fees where "fees = fadd (account_float va_total_commission (account_of (vq_strategy rq) db)) ?c"
  obtain db3 where a: "update_account ve (vq_strategy rq) realized fees db2 = Inr db3" using statements_accepted(3) [OF assms(1)] by blast
  obtain fill where "insert_virtual_order ve rq cp fill (ft_status t) (reason_of payload []) db = Inr (n, db1)"
    using o by (auto simp: book_order_def bindE_Inr_iff)
  then have n: "n = vd_next_order db" "vd_trades db1 = vd_trades db"
    by (auto elim!: insert_virtual_order_effect simp: orders_part_def)
  have "vd_trades db3 = vd_trades db"
    using book_position_frame(1) [OF p] update_account_frame(1) [OF a] n(2) by (simp add: orders_part_def)
  then have fresh: "n \<notin> vx_order ` set (vd_trades db3)" "vq_order rq \<notin> vx_pending ` set (vd_trades db3)"
    using ledger_ok_fresh [OF assms(2,3)] n(1) by simp_all
  define equity where "equity = fadd (fadd cash realized) (unrealized_total (vq_strategy rq) db3)"
  have "\<exists>db'. record_fill ve rq cp n t price ?c ?s equity (position_float vp_entry_price (position_of rq db)) payload db3 = Inr db'" (is "\<exists>db'. ?R db'")
  proof (cases "ft_status t = ''filled''")
    case True
    obtain db4 where "insert_trade ve rq cp n t price ?c ?s equity (position_float vp_entry_price (position_of rq db))
        (if vq_action rq \<in> set EXIT_ACTIONS then reason_of payload ''indicator_signal'' else []) db3 = Inr db4"
      using statements_accepted(7) [OF assms(1) fresh] by blast
    moreover obtain db5 where "insert_fill ve rq n t price ?c db4 = Inr db5" using statements_accepted(4) [OF assms(1)] by blast
    ultimately show ?thesis using True statements_accepted(5) [OF assms(1)] by (simp add: record_fill_def)
  qed (simp add: record_fill_def)
  then obtain db' where r: "?R db'" ..
  show ?thesis
    by (simp add: settle_fill_def Let_def assms(4) o p a [unfolded realized_def fees_def] r [unfolded equity_def realized_def])
qed

lemma book_order_status:
  assumes "book_order ve rq cp existing t price commission slippage reason db = Inr (n, db')"
    and "\<And>o'. existing = Some o' \<Longrightarrow> o' \<in> set (vd_orders db) \<and> vo_pending o' = vq_order rq \<and> vo_status o' = ''open''"
  shows "\<exists>o' \<in> set (vd_orders db'). vo_pending o' = vq_order rq \<and> vo_status o' = ft_status t"
proof (cases existing)
  case None
  with assms obtain fill where "insert_virtual_order ve rq cp fill (ft_status t) reason db = Inr (n, db')"
    by (auto simp: book_order_def bindE_Inr_iff)
  then obtain row where "vo_pending row = vq_order rq" "vo_status row = ft_status t"
    "orders_part db' = (vd_orders db @ [row], vd_trades db, vd_fills db, vd_next_order db + 1)"
    by (rule insert_virtual_order_effect)
  then show ?thesis by (simp add: orders_part_def)
next
  case (Some o')
  with assms(1) obtain fill where u: "update_virtual_order ve rq (vo_id o') fill (ft_status t) db = Inr db'"
    by (auto simp: book_order_def bindE_Inr_iff)
  let ?f = "\<lambda>ref r. if vo_id r = vo_id o' \<and> vo_status r = ''open''
      then r\<lparr>vo_fill_qty := fst fill, vo_reference_price := ref, vo_fill_price := fst (snd fill), vo_commission_quote := fst (snd (snd fill)),
             vo_slippage_quote := snd (snd (snd fill)), vo_status := ft_status t\<rparr> else r"
  from u obtain ref where "db' = db\<lparr>vd_orders := map (?f ref) (vd_orders db)\<rparr>"
    unfolding update_virtual_order_def bindE_Inr_iff by blast
  then have "?f ref o' \<in> set (vd_orders db')" using assms(2) [OF Some] by simp
  then show ?thesis using assms(2) [OF Some] by (intro bexI [of _ "?f ref o'"]) simp_all
qed

lemma record_fill_orders:
  assumes "record_fill ve rq cp n t price commission slippage equity matched payload db = Inr db'"
  shows "vd_orders db' = vd_orders db"
proof (cases "ft_status t = ''filled''")
  case True
  with assms obtain reason db1 db2 where i: "insert_trade ve rq cp n t price commission slippage equity matched reason db = Inr db1"
    "insert_fill ve rq n t price commission db1 = Inr db2" "complete_order ve rq t price db2 = Inr db'"
    by (auto simp: record_fill_def bindE_Inr_iff)
  have "vd_orders db1 = vd_orders db" using i(1) by (auto simp: insert_trade_def bindE_Inr_iff Let_def split: if_splits)
  moreover have "vd_orders db2 = vd_orders db1" using i(2) by (auto simp: insert_fill_def bindE_Inr_iff Let_def split: if_splits)
  ultimately show ?thesis using complete_order_frame(1) [OF i(3)] by (simp add: orders_part_def)
qed (use assms in \<open>simp add: record_fill_def\<close>)

lemma queue_rows_frame:
  "db_pending (vd_queue (update_intent n g s db)) = db_pending (vd_queue db)" "db_pending (vd_queue (set_columns n f db)) = db_pending (vd_queue db)"
  "db_pending (vd_queue (update_pending n h s db)) = map (\<lambda>r. if po_id r = n \<and> h r then r\<lparr>po_status := s\<rparr> else r) (db_pending (vd_queue db))"
  by (simp_all add: update_intent_def set_columns_def update_pending_def)

lemma record_fill_released:
  assumes "record_fill ve rq cp n t price commission slippage equity matched payload db = Inr db'" and "ft_status t = ''filled''"
  shows "\<forall>r \<in> set (db_pending (vd_queue db')). po_id r = vq_order rq \<longrightarrow> po_status r = ''filled''"
proof -
  from assms obtain db1 where "complete_order ve rq t price db1 = Inr db'" by (auto simp: record_fill_def bindE_Inr_iff)
  then show ?thesis
    by (auto simp: complete_order_def bindE_Inr_iff Let_def queue_rows_frame split: if_splits)
qed

lemma fresh_order_settles [case_names settled]:
  assumes "accepts ve" and "ledger_ok (orders_part db)"
    and "read_virtual_request row payload = Inr rq" and "load_strategy rq db = Inr st"
    and "resolve_virtual_execution_cost_policy payload row (strategy_dict st) (mapping_of (sr_exchange_config st))
       (mapping_of (sr_trading_config st)) = Inr cp"
    and "is_equity_market_open ve (strip (str_or (sr_market_category st) [])) = Inr True"
    and "float_of [sr_initial_capital st, pget (vq_sizing rq) ''initial_capital''] = Inr cash"
    and "vq_order rq \<notin> vo_pending ` set (vd_orders db)" and "vq_order_type rq \<noteq> ''limit''" and "is_b64 (vq_quantity rq)"
  obtains (settled) t answer db' n commission slippage equity where
    "calculate_virtual_fill (vq_action rq) (vq_quantity rq)
       (f_or (vq_forced rq) (virtual_fill_price (vq_action rq) (vq_reference rq) (cp_slippage_rate cp)))
       (position_float vp_size (position_of rq db)) (position_float vp_entry_price (position_of rq db)) = Inr t"
    "execute_virtual_signal_order ve row payload db = Inr (answer, db')" "dget answer ''status'' = Some (PStr (ft_status t))"
    "ft_status t = ''filled'' \<Longrightarrow> length (filter (\<lambda>x. vx_pending x = vq_order rq) (vd_trades db')) = 1"
    "ft_status t = ''filled'' \<Longrightarrow> \<forall>r \<in> set (db_pending (vd_queue db')). po_id r = vq_order rq \<longrightarrow> po_status r = ''filled''"
    "answer = filled_result cp n t (f_or (vq_forced rq) (virtual_fill_price (vq_action rq) (vq_reference rq) (cp_slippage_rate cp)))
       commission slippage equity"
proof -
  let ?price = "f_or (vq_forced rq) (virtual_fill_price (vq_action rq) (vq_reference rq) (cp_slippage_rate cp))"
  obtain db1 where e: "ensure_account ve rq cash db = Inr db1" using statements_accepted(1) [OF assms(1)] by blast
  have same: "orders_part db1 = orders_part db" by (rule ensure_account_frame(1) [OF e])
  then have fresh: "vq_order rq \<notin> vo_pending ` set (vd_orders db1)" "ledger_ok (orders_part db1)"
    using assms(2,8) by (simp_all add: orders_part_def)
  let ?sz = "position_float vp_size (position_of rq db1)" and ?en = "position_float vp_entry_price (position_of rq db1)"
  obtain t where t: "calculate_virtual_fill (vq_action rq) (vq_quantity rq) ?price ?sz ?en = Inr t"
    using calculate_virtual_fill_total [OF assms(10)] by blast
  obtain answer db' where f: "settle_fill ve rq cp None ?price cash payload db1 = Inr (answer, db')"
    using settle_fill_accepted [OF assms(1) fresh(2,1) t] by blast
  have "find (\<lambda>r. vo_pending r = vq_order rq) (vd_orders db) = None" using assms(8) by (force simp: find_None_iff)
  then have x: "execute_virtual_signal_order ve row payload db = Inr (answer, db')"
    using assms(3-7,9) e f by (simp add: execute_virtual_signal_order_def run_virtual_order_def Let_def)
  obtain t' n db2 db3 db4 realized total' equity where
    t': "calculate_virtual_fill (vq_action rq) (vq_quantity rq) ?price ?sz ?en = Inr t'"
      "book_order ve rq cp None t' ?price (commission_for cp (ft_quantity t') ?price)
        (slippage_quote_for cp (ft_quantity t') (vq_reference rq) ?price) (reason_of payload []) db1 = Inr (n, db2)"
      "book_position ve rq t' ?price (cp_market_type cp) db2 = Inr db3" "update_account ve (vq_strategy rq) realized total' db3 = Inr db4"
      "record_fill ve rq cp n t' ?price (commission_for cp (ft_quantity t') ?price)
        (slippage_quote_for cp (ft_quantity t') (vq_reference rq) ?price) equity ?en payload db4 = Inr db'"
      "dget answer ''status'' = Some (PStr (ft_status t'))"
      "answer = filled_result cp n t' ?price (commission_for cp (ft_quantity t') ?price) (slippage_quote_for cp (ft_quantity t') (vq_reference rq) ?price) equity"
    using f by (rule settle_fill_cases)
  have "t' = t" using t t'(1) by simp
  note t' = t' [unfolded this]
  have filled: "length (filter (\<lambda>x. vx_pending x = vq_order rq) (vd_trades db')) = 1" if "ft_status t = ''filled''"
  proof -
    have "\<exists>r \<in> set (vd_orders db2). vo_pending r = vq_order rq \<and> vo_status r = ft_status t"
      by (rule book_order_status [OF t'(2)]) simp
    moreover have "vd_orders db' = vd_orders db2"
      using record_fill_orders [OF t'(5)] book_position_frame(1) [OF t'(3)] update_account_frame(1) [OF t'(4)] by (simp add: orders_part_def)
    ultimately have "\<exists>r \<in> set (vd_orders db'). vo_pending r = vq_order rq \<and> vo_status r = ''filled''" using that by simp
    moreover have "ledger_ok (orders_part db')" using execute_kept [OF x] assms(2) by (simp add: ledger_kept_def)
    ultimately show ?thesis using trades_per_order by simp
  qed
  have "position_of rq db1 = position_of rq db" using ensure_account_frame(2) [OF e] by (simp add: position_of_def)
  note t = t [unfolded this]
  show ?thesis by (rule settled [OF t x t'(6) filled record_fill_released [OF t'(5)] t'(7)])
qed

text \<open>A concrete environment: columns round half away from zero and refuse what does not fit.\<close>

fun decimal_column :: "nat \<Rightarrow> nat \<Rightarrow> pyfloat \<Rightarrow> pyfloat result" where
  "decimal_column p s (Fin x) =
     (let n = round_half_away (x * 10 ^ s) in
      if \<bar>n\<bar> < 10 ^ p then Inr (Fin (of_int n / 10 ^ s)) else Inl (RuntimeError ''NumericValueOutOfRange''))"
| "decimal_column p s NaN = Inr NaN"
| "decimal_column p s _ = Inl (RuntimeError ''NumericValueOutOfRange'')"

definition demo_env :: "bool \<Rightarrow> virtual_env" where
  "demo_env is_open = \<lparr>ve_param = (\<lambda>x. x), ve_column = decimal_column, ve_session = (\<lambda>_. Inr is_open)\<rparr>"

definition demo_strategy :: strategy_row where
  "demo_strategy =
     \<lparr>sr_id = 7, sr_user = 1, sr_execution_mode = ''signal'', sr_initial_capital = PFloat (Fin 1000), sr_exchange_config = PDict [],
      sr_trading_config = PDict [], sr_market_type = PStr ''swap'', sr_leverage = PInt 1, sr_market_category = PStr ''USStock''\<rparr>"

definition demo_ledger :: virtual_db where
  "demo_ledger =
     \<lparr>vd_queue = empty_db, vd_columns = [], vd_strategies = [demo_strategy], vd_accounts = [], vd_orders = [], vd_positions = [],
      vd_trades = [], vd_fills = [], vd_next_order = 1, vd_next_position = 1, vd_next_trade = 1\<rparr>"

definition demo_row :: pydict where
  "demo_row = [(''id'', PInt 14), (''user_id'', PInt 1), (''strategy_id'', PInt 7), (''strategy_run_id'', PInt 3),
     (''execution_mode'', PStr ''signal'')]"

definition demo_payload :: "string \<Rightarrow> pydict" where
  "demo_payload action = [(''signal_type'', PStr action), (''symbol'', PStr ''USStock:AAPL''), (''amount'', PFloat (Fin 2)), (''ref_price'', PFloat (Fin 128)),
     (''reason'', PStr ''cross'')]"

definition wide_env :: virtual_env where
  "wide_env = \<lparr>ve_param = (\<lambda>x. x), ve_column = (\<lambda>_ _ x. Inr x), ve_session = (\<lambda>_. Inr True)\<rparr>"

lemma wide_env_accepts: "accepts wide_env"
  by (simp add: accepts_def wide_env_def)

definition demo_fill_request :: virtual_request where
  "demo_fill_request = \<lparr>vq_order = 14, vq_strategy = 7, vq_user = 1, vq_action = ''open_long'', vq_side = ''long'', vq_symbol = ''USStock:AAPL'',
     vq_key = ''AAPL'', vq_quantity = Fin 2, vq_reference = Fin 128, vq_order_type = ''market'', vq_limit = Fin 0, vq_forced = Fin 0,
     vq_sizing = [], vq_run = 3, vq_intent = 0\<rparr>"

lemma demo_reads:
  "read_virtual_request demo_row (demo_payload ''open_long'') = Inr demo_fill_request"
  "load_strategy demo_fill_request demo_ledger = Inr demo_strategy"
  "is_equity_market_open wide_env (strip (str_or (sr_market_category demo_strategy) [])) = Inr True"
  "is_equity_market_open (demo_env False) (strip (str_or (sr_market_category demo_strategy) [])) = Inr False"
  "float_of [sr_initial_capital demo_strategy, pget (vq_sizing demo_fill_request) ''initial_capital''] = Inr (Fin 1000)"
  "flt (Fin 0) (virtual_fill_price ''open_long'' (Fin 128) VIRTUAL_SLIPPAGE_RATE)"
  by code_simp+

lemma demo_costs:
  "\<exists>cp. resolve_virtual_execution_cost_policy (demo_payload ''open_long'') demo_row (strategy_dict demo_strategy)
     (mapping_of (sr_exchange_config demo_strategy)) (mapping_of (sr_trading_config demo_strategy)) = Inr cp
   \<and> cp_slippage_rate cp = VIRTUAL_SLIPPAGE_RATE"
proof -
  have "positive_float [pget (demo_payload ''open_long'') ''leverage'', pget (mapping_of (pget (demo_payload ''open_long'') ''sizing'')) ''leverage'',
      pget (strategy_dict demo_strategy) ''leverage'', pget (mapping_of (sr_trading_config demo_strategy)) ''leverage'',
      pget (mapping_of (sr_exchange_config demo_strategy)) ''leverage''] (Fin 1) = Inr (Fin 1)"
    by code_simp
  then show ?thesis by (simp add: resolve_virtual_execution_cost_policy_def Let_def)
qed

lemma demo_fields:
  "vq_order demo_fill_request = 14" "vq_action demo_fill_request = ''open_long''" "vq_quantity demo_fill_request = Fin 2"
  "vq_order_type demo_fill_request = ''market''" "vq_reference demo_fill_request = Fin 128" "f_or (vq_forced demo_fill_request) p = p"
  by (simp_all add: demo_fill_request_def f_or_def ftruthy_def)

lemma demo_ledger_ok: "ledger_ok (orders_part demo_ledger)" "vd_orders demo_ledger = []"
  by (simp_all add: orders_part_def demo_ledger_def)

lemma demo_entry: "lower (strip ''open_long'') \<in> set ENTRY_ACTIONS" "is_b64 (Fin 2)"
  by (code_simp, simp add: is_b64_def)

lemma demo_entry_filled:
  "\<exists>answer db'. execute_virtual_signal_order wide_env demo_row (demo_payload ''open_long'') demo_ledger = Inr (answer, db')
     \<and> length (filter (\<lambda>x. vx_pending x = 14) (vd_trades db')) = 1"
proof -
  obtain cp where cp: "resolve_virtual_execution_cost_policy (demo_payload ''open_long'') demo_row (strategy_dict demo_strategy)
     (mapping_of (sr_exchange_config demo_strategy)) (mapping_of (sr_trading_config demo_strategy)) = Inr cp"
    "cp_slippage_rate cp = VIRTUAL_SLIPPAGE_RATE"
    using demo_costs by blast
  let ?sz = "position_float vp_size (position_of demo_fill_request demo_ledger)" and ?en = "position_float vp_entry_price (position_of demo_fill_request demo_ledger)"
  obtain t answer db' where t: "calculate_virtual_fill ''open_long'' (Fin 2) (virtual_fill_price ''open_long'' (Fin 128) VIRTUAL_SLIPPAGE_RATE) ?sz ?en = Inr t"
    "execute_virtual_signal_order wide_env demo_row (demo_payload ''open_long'') demo_ledger = Inr (answer, db')"
    "ft_status t = ''filled'' \<Longrightarrow> length (filter (\<lambda>x. vx_pending x = 14) (vd_trades db')) = 1"
    by (rule fresh_order_settles [OF wide_env_accepts demo_ledger_ok(1) demo_reads(1,2) cp(1) demo_reads(3,5)])
      (simp_all add: demo_fields cp(2) demo_ledger_ok(2) demo_entry(2))
  have "ft_status t = ''filled''" using calculate_virtual_fill_entry [OF demo_entry(1) _ demo_entry(2) demo_reads(6), of ?sz ?en] t(1) by auto
  then show ?thesis using t(2,3) by blast
qed



text \<open>
  C10. Virtual orders are filled at most once: along any sequence of executions,
  settlements, cancellations, matchings and markings, with anything happening to the queue in between, a
  pending order has at most one virtual order row, one trade exactly when that row is filled (and then one
  fill, under the row's identifier), rows that are no longer open never change, and trades and fills are
  never removed or rewritten.
\<close>

theorem virtual_order_filled_once:
  assumes "(virtual_step E)\<^sup>*\<^sup>* db db'" and "ledger_ok (orders_part db)"
  shows "ledger_ok (orders_part db') \<and> ledger_grows (orders_part db) (orders_part db')
    \<and> length (filter (\<lambda>r. vo_pending r = n) (vd_orders db')) \<le> 1
    \<and> length (filter (\<lambda>x. vx_pending x = n) (vd_trades db')) =
        (if \<exists>r \<in> set (vd_orders db'). vo_pending r = n \<and> vo_status r = ''filled'' then 1 else 0)"
proof -
  have k: "ledger_ok (orders_part db')" "ledger_grows (orders_part db) (orders_part db')"
    using kept.keeps_run [OF assms(1)] assms(2) by (simp_all add: ledger_kept_def)
  have "distinct (map vo_pending (vd_orders db'))" using k(1) by (simp add: orders_part_def)
  moreover have "length (filter (\<lambda>r. vo_pending r = n) xs) = count_list (map vo_pending xs) n" for xs :: "virtual_order list"
    by (induction xs) auto
  ultimately have "length (filter (\<lambda>r. vo_pending r = n) (vd_orders db')) \<le> 1"
    using count_list_once [of "map vo_pending (vd_orders db')" n] by (cases "n \<in> set (map vo_pending (vd_orders db'))") (simp_all add: count_list_0_iff)
  then show ?thesis using k trades_per_order [OF k(1)] by blast
qed

theorem virtual_order_filled_once_witness:
  "\<exists>db. (virtual_step accepts)\<^sup>*\<^sup>* demo_ledger db \<and> length (filter (\<lambda>x. vx_pending x = 14) (vd_trades db)) = 1
     \<and> length (filter (\<lambda>r. vo_pending r = 14) (vd_orders db)) \<le> 1"
proof -
  obtain answer db where e: "execute_virtual_signal_order wide_env demo_row (demo_payload ''open_long'') demo_ledger = Inr (answer, db)"
    and t: "length (filter (\<lambda>x. vx_pending x = 14) (vd_trades db)) = 1"
    using demo_entry_filled by blast
  have run: "(virtual_step accepts)\<^sup>*\<^sup>* demo_ledger db" using virtual_step.executed [where E = accepts, OF wide_env_accepts e] by blast
  show ?thesis using virtual_order_filled_once [OF run demo_ledger_ok(1), of 14] run t by blast
qed

section \<open>A closed market\<close>

text \<open>
  C23. While the market of the strategy is closed an execution fills nothing:
  positions, trades, fills and the queue stay as they are, the order is answered as it stands or becomes an
  open order, and the cash of an account that exists is kept.
\<close>

theorem closed_market_never_fills:
  assumes "execute_virtual_signal_order ve row payload db = Inr (answer, db')"
    and "read_virtual_request row payload = Inr rq" and "load_strategy rq db = Inr st"
    and "is_equity_market_open ve (strip (str_or (sr_market_category st) [])) = Inr False"
  shows "vd_positions db' = vd_positions db \<and> vd_trades db' = vd_trades db \<and> vd_fills db' = vd_fills db \<and> vd_queue db' = vd_queue db
    \<and> set (vd_accounts db) \<subseteq> set (vd_accounts db')
    \<and> (dget answer ''status'' = Some (PStr ''open'') \<and> (\<exists>r \<in> set (vd_orders db'). vo_pending r = vq_order rq \<and> vo_status r = ''open'')
       \<or> (\<exists>r \<in> set (vd_orders db). vo_pending r = vq_order rq \<and> answer = existing_result r \<and> db' = db))"
  using assms(1)
proof (cases rule: execute_cases)
  case (answered rq' r)
  then show ?thesis using assms(2) by auto
next
  case (fresh rq' st' cp is_open)
  have same: "rq' = rq" "st' = st" "is_open = False" using fresh(1-3) assms(2-4) by simp_all
  from fresh(5) obtain cash db1 where e: "ensure_account ve rq cash db = Inr db1"
    and o: "open_order ve rq cp cash False payload db1 = Inr (answer, db')"
    by (auto simp: same run_virtual_order_def bindE_Inr_iff Let_def)
  from o obtain n where "insert_virtual_order ve rq cp (Fin 0, Fin 0, Fin 0, Fin 0) ''open'' (reason_of payload []) db1 = Inr (n, db')"
    by (auto simp: open_order_def bindE_Inr_iff case_prod_beta)
  then obtain row where "vo_pending row = vq_order rq" "vo_status row = ''open''"
    "orders_part db' = (vd_orders db1 @ [row], vd_trades db1, vd_fills db1, vd_next_order db1 + 1)"
    by (rule insert_virtual_order_effect)
  moreover have "set (vd_accounts db) \<subseteq> set (vd_accounts db1)" using e by (auto simp: ensure_account_def bindE_Inr_iff split: if_splits)
  ultimately show ?thesis
    using open_order_effect [OF o] ensure_account_frame [OF e] by (simp add: orders_part_def)
next
  case (resumed rq' st' cp r)
  then show ?thesis using assms(2-4) by simp
qed

theorem closed_market_never_fills_witness:
  "\<exists>answer db'. execute_virtual_signal_order (wide_env\<lparr>ve_session := \<lambda>_. Inr False\<rparr>) demo_row (demo_payload ''open_long'') demo_ledger = Inr (answer, db')
     \<and> vd_trades db' = [] \<and> vd_positions db' = []"
proof -
  let ?ve = "wide_env\<lparr>ve_session := \<lambda>_. Inr False\<rparr>"
  obtain cp where cp: "resolve_virtual_execution_cost_policy (demo_payload ''open_long'') demo_row (strategy_dict demo_strategy)
     (mapping_of (sr_exchange_config demo_strategy)) (mapping_of (sr_trading_config demo_strategy)) = Inr cp"
    using demo_costs by blast
  have c: "is_equity_market_open ?ve (strip (str_or (sr_market_category demo_strategy) [])) = Inr False" by code_simp
  have s: "store ?ve p k x = Inr x" for p k x by (simp add: store_def wide_env_def)
  obtain answer db' where e: "execute_virtual_signal_order ?ve demo_row (demo_payload ''open_long'') demo_ledger = Inr (answer, db')"
  proof -
    obtain db1 where a: "ensure_account ?ve demo_fill_request (Fin 1000) demo_ledger = Inr db1" by (simp add: ensure_account_def s)
    then have "vd_orders db1 = []" using ensure_account_frame(1) demo_ledger_ok(2) by (metis orders_part_def prod.inject)
    then have "\<exists>answer db'. open_order ?ve demo_fill_request cp (Fin 1000) False (demo_payload ''open_long'') db1 = Inr (answer, db')"
      by (simp add: open_order_def insert_virtual_order_def Let_def s)
    then show ?thesis
      using that demo_reads(1,2,5) cp c a by (auto simp: execute_virtual_signal_order_def run_virtual_order_def demo_ledger_ok(2))
  qed
  have "vd_trades demo_ledger = []" "vd_positions demo_ledger = []" by (simp_all add: demo_ledger_def)
  then show ?thesis using closed_market_never_fills [OF e demo_reads(1,2) c] e by auto
qed

section \<open>Positions\<close>

text \<open>A database whose columns keep the sign: what is not negative is stored as a value that is not negative.\<close>

definition keeps_sign :: "virtual_env \<Rightarrow> bool" where
  "keeps_sign ve \<longleftrightarrow> (\<forall>p s x y. fle (Fin 0) x \<longrightarrow> store ve p s x = Inr y \<longrightarrow> fle (Fin 0) y)"

text \<open>One row per strategy, symbol and side, with a size that is not negative.\<close>

definition leg_of :: "virtual_position \<Rightarrow> int \<times> string \<times> string" where
  "leg_of p = (vp_strategy p, vp_key p, vp_side p)"

definition positions_ok :: "virtual_position list \<Rightarrow> bool" where
  "positions_ok ps \<longleftrightarrow> distinct (map leg_of ps) \<and> (\<forall>p \<in> set ps. fle (Fin 0) (vp_size p))"

lemma at_leg_iff: "at_leg rq p \<longleftrightarrow> leg_of p = (vq_strategy rq, vq_key rq, vq_side rq)"
  by (simp add: at_leg_def leg_of_def)

lemma positions_ok_map:
  assumes "positions_ok ps" and "\<And>p. leg_of (f p) = leg_of p" and "\<And>p. fle (Fin 0) (vp_size p) \<Longrightarrow> fle (Fin 0) (vp_size (f p))"
  shows "positions_ok (map f ps)"
  using assms by (auto simp: positions_ok_def comp_def)

lemma save_position_ok:
  assumes "save_position ve rq t price mt db = Inr db'" and "positions_ok (vd_positions db)" and "keeps_sign ve" and "fle (Fin 0) (ft_size t)"
  shows "positions_ok (vd_positions db')"
proof -
  from assms(1) obtain sz entry price' u where c: "store ve 24 10 (ft_size t) = Inr sz" "store ve 24 10 (ft_entry t) = Inr entry"
    "store ve 24 10 price = Inr price'" "store ve 24 8 (leg_pnl (vq_side rq) (ft_entry t) price (ft_size t)) = Inr u"
    by (auto simp: save_position_def bindE_Inr_iff)
  then have pos: "fle (Fin 0) sz" using assms(3,4) unfolding keeps_sign_def by blast
  show ?thesis
  proof (cases "\<exists>p \<in> set (vd_positions db). at_leg rq p")
    case True
    then have "vd_positions db' = map (\<lambda>p. if at_leg rq p
        then p\<lparr>vp_run := vq_run rq, vp_symbol := vq_symbol rq, vp_size := sz, vp_entry_price := entry, vp_current_price := price',
               vp_highest_price := greatest (vp_highest_price p) price', vp_lowest_price := lowered (vp_lowest_price p) price',
               vp_unrealized_pnl := u, vp_market_type := mt\<rparr> else p) (vd_positions db)"
      using assms(1) c by (auto simp: save_position_def Let_def)
    then show ?thesis using positions_ok_map [OF assms(2)] pos by (simp add: leg_of_def)
  next
    case False
    then have "vd_positions db' = vd_positions db @ [last (vd_positions db')] \<and> at_leg rq (last (vd_positions db'))
        \<and> vp_size (last (vd_positions db')) = sz"
      using assms(1) c by (auto simp: save_position_def Let_def at_leg_def)
    then obtain row where "vd_positions db' = vd_positions db @ [row]" "at_leg rq row" "vp_size row = sz" by metis
    then show ?thesis using assms(2) False pos by (auto simp: positions_ok_def at_leg_iff)
  qed
qed

lemma book_position_ok:
  assumes "book_position ve rq t price mt db = Inr db'" and "positions_ok (vd_positions db)" and "keeps_sign ve" and "fle (Fin 0) (ft_size t)"
  shows "positions_ok (vd_positions db')"
proof (cases "ft_status t = ''filled''")
  case True
  show ?thesis
  proof (cases "flt (fl (1 / 10 ^ 12)) (ft_size t)")
    case big: True
    then have "save_position ve rq t price mt db = Inr db'" using assms(1) True by (simp only: book_position_def simp_thms if_True)
    then show ?thesis by (rule save_position_ok [OF _ assms(2-4)])
  next
    case False
    then have "db' = db\<lparr>vd_positions := filter (\<lambda>p. \<not> at_leg rq p) (vd_positions db)\<rparr>"
      using assms(1) True by (simp add: book_position_def)
    then show ?thesis using assms(2) by (simp add: positions_ok_def distinct_map_filter)
  qed
next
  case False
  then show ?thesis using assms(1,2) by (simp add: book_position_def)
qed

lemma record_fill_positions:
  assumes "record_fill ve rq cp n t price commission slippage equity matched payload db = Inr db'"
  shows "vd_positions db' = vd_positions db"
proof (cases "ft_status t = ''filled''")
  case True
  with assms obtain reason db1 db2 where i: "insert_trade ve rq cp n t price commission slippage equity matched reason db = Inr db1"
    "insert_fill ve rq n t price commission db1 = Inr db2" "complete_order ve rq t price db2 = Inr db'"
    by (auto simp: record_fill_def bindE_Inr_iff)
  have "vd_positions db1 = vd_positions db" using i(1) by (rule insert_trade_effect)
  moreover have "vd_positions db2 = vd_positions db1" using i(2) by (rule insert_fill_effect)
  ultimately show ?thesis using complete_order_frame(2) [OF i(3)] by simp
qed (use assms in \<open>simp add: record_fill_def\<close>)

lemma book_order_positions:
  assumes "book_order ve rq cp existing t price commission slippage reason db = Inr (n, db')"
  shows "vd_positions db' = vd_positions db"
proof (cases existing)
  case None
  with assms obtain fill where "insert_virtual_order ve rq cp fill (ft_status t) reason db = Inr (n, db')"
    by (auto simp: book_order_def bindE_Inr_iff)
  then show ?thesis by (rule insert_virtual_order_effect)
qed (use assms in \<open>auto simp: book_order_def update_virtual_order_def bindE_Inr_iff\<close>)

lemma settle_fill_positions:
  assumes "settle_fill ve rq cp existing price cash payload db = Inr (answer, db')" and "positions_ok (vd_positions db)" and "keeps_sign ve"
  shows "positions_ok (vd_positions db')"
proof -
  obtain t n db1 db2 db3 realized total' equity where
    t: "calculate_virtual_fill (vq_action rq) (vq_quantity rq) price (position_float vp_size (position_of rq db))
       (position_float vp_entry_price (position_of rq db)) = Inr t"
    "book_order ve rq cp existing t price (commission_for cp (ft_quantity t) price)
       (slippage_quote_for cp (ft_quantity t) (vq_reference rq) price) (reason_of payload []) db = Inr (n, db1)"
    "book_position ve rq t price (cp_market_type cp) db1 = Inr db2"
    "update_account ve (vq_strategy rq) realized total' db2 = Inr db3"
    "record_fill ve rq cp n t price (commission_for cp (ft_quantity t) price)
       (slippage_quote_for cp (ft_quantity t) (vq_reference rq) price) equity (position_float vp_entry_price (position_of rq db)) payload db3 = Inr db'"
    using assms(1) by (rule settle_fill_cases)
  have "positions_ok (vd_positions db2)"
    by (rule book_position_ok [OF t(3) _ assms(3) calculate_virtual_fill_size [OF t(1)]]) (use book_order_positions [OF t(2)] assms(2) in simp)
  then show ?thesis using record_fill_positions [OF t(5)] update_account_frame(2) [OF t(4)] by simp
qed

definition positions_kept :: "virtual_db \<Rightarrow> virtual_db \<Rightarrow> bool" where
  "positions_kept db db' \<longleftrightarrow> (positions_ok (vd_positions db) \<longrightarrow> positions_ok (vd_positions db'))"

lemma positions_kept_same: "vd_positions db' = vd_positions db \<Longrightarrow> positions_kept db db'"
  by (simp add: positions_kept_def)

lemma positions_kept_trans: "positions_kept a b \<Longrightarrow> positions_kept b c \<Longrightarrow> positions_kept a c"
  by (simp add: positions_kept_def)

lemma run_positions:
  assumes "run_virtual_order ve rq st cp is_open existing payload db = Inr (answer, db')" and "keeps_sign ve"
  shows "positions_kept db db'"
proof -
  from assms(1) obtain cash db1 where e: "ensure_account ve rq cash db = Inr db1"
    and r: "(\<exists>b. open_order ve rq cp cash b payload db1 = Inr (answer, db')) \<or> (\<exists>price. settle_fill ve rq cp existing price cash payload db1 = Inr (answer, db'))"
    by (auto simp: run_virtual_order_def bindE_Inr_iff Let_def split: if_splits option.splits)
  then show ?thesis
    using ensure_account_frame(2) [OF e] open_order_effect(2) settle_fill_positions [OF _ _ assms(2)] unfolding positions_kept_def by metis
qed

lemma execute_positions:
  assumes "execute_virtual_signal_order ve row payload db = Inr (answer, db')" and "keeps_sign ve"
  shows "positions_kept db db'"
  using assms(1) by (cases rule: execute_cases) (auto intro: run_positions [OF _ assms(2)] simp: positions_kept_same)

lemma cancel_positions: "vd_positions (cancel_virtual_order pending order intent db) = vd_positions db"
  by (simp add: cancel_virtual_order_def Let_def ledger_frame)

lemma mark_one_leg: "mark_one ve prices p = Inr (p', k) \<Longrightarrow> leg_of p' = leg_of p \<and> vp_size p' = vp_size p"
  by (auto simp: mark_one_def Let_def bindE_Inr_iff leg_of_def split: option.splits if_splits)

lemma mark_positions:
  assumes "mark_virtual_positions ve sid prices run db = Inr (k, db')"
  shows "positions_kept db db'"
proof (cases "db' = db")
  case False
  with assms obtain normalized rows where m: "mapE (\<lambda>p. if vp_strategy p = sid \<and> (run = 0 \<or> vp_run p = run) then mark_one ve normalized p else Inr (p, 0))
      (vd_positions db) = Inr rows" and d: "vd_positions db' = map fst rows"
    by (auto simp: mark_virtual_positions_def bindE_Inr_iff Let_def case_prod_beta split: if_splits)
  have "list_all2 (\<lambda>p r. leg_of (fst r) = leg_of p \<and> vp_size (fst r) = vp_size p) (vd_positions db) rows"
    using m unfolding mapE_Inr_iff by (rule list_all2_mono) (auto split: if_splits dest: mark_one_leg)
  then have "map leg_of (map fst rows) = map leg_of (vd_positions db)" "map vp_size (map fst rows) = map vp_size (vd_positions db)"
    by (induction rule: list_all2_induct) simp_all
  then have "positions_ok (map fst rows) = positions_ok (vd_positions db)"
    unfolding positions_ok_def by (metis (mono_tags, lifting) image_iff image_set)
  then show ?thesis by (simp add: positions_kept_def d)
qed (simp add: positions_kept_same)

interpretation legs: ledger_relation positions_kept keeps_sign
  by unfold_locales (auto intro: positions_kept_trans execute_positions mark_positions simp: positions_kept_same cancel_positions)

text \<open>
  C22. The virtual ledger keeps one position row per strategy, symbol and side, and no
  position ever has a negative size: along any sequence of executions, settlements, matchings, cancellations
  and markings over columns that keep the sign, with anything happening to the queue in between.
\<close>

theorem virtual_positions_ok:
  assumes "(virtual_step keeps_sign)\<^sup>*\<^sup>* db db'" and "positions_ok (vd_positions db)"
  shows "positions_ok (vd_positions db')"
  using legs.keeps_run [OF assms(1)] assms(2) by (simp add: positions_kept_def)

text \<open>Rounding columns keep the sign.\<close>

lemma decimal_column_keeps_sign: "keeps_sign (demo_env b)"
proof -
  have "0 \<le> round_half_away x" if "0 \<le> x" for x using that by (simp add: round_half_away_def)
  then have "fle (Fin 0) y" if "fle (Fin 0) x" "decimal_column p s x = Inr y" for p s x y
    using that by (cases x) (auto simp: Let_def split: if_splits)
  then show ?thesis unfolding keeps_sign_def store_def demo_env_def by simp
qed

theorem virtual_positions_ok_witness:
  "\<exists>db. (virtual_step keeps_sign)\<^sup>*\<^sup>* demo_ledger db \<and> length (filter (\<lambda>x. vx_pending x = 14) (vd_trades db)) = 1 \<and> positions_ok (vd_positions db)"
proof -
  obtain answer db where e: "execute_virtual_signal_order wide_env demo_row (demo_payload ''open_long'') demo_ledger = Inr (answer, db)"
    and t: "length (filter (\<lambda>x. vx_pending x = 14) (vd_trades db)) = 1"
    using demo_entry_filled by blast
  have "keeps_sign wide_env" by (simp add: keeps_sign_def store_def wide_env_def)
  then have run: "(virtual_step keeps_sign)\<^sup>*\<^sup>* demo_ledger db" using virtual_step.executed [where E = keeps_sign, OF _ e] by blast
  have "positions_ok (vd_positions demo_ledger)" by (simp add: positions_ok_def demo_ledger_def)
  then show ?thesis using virtual_positions_ok [OF run] run t by blast
qed

end
