(* ===== verification/SignalProps.thy ===== *)
theory SignalProps
  imports SignalDispatch VirtualSettle
begin

text \<open>
  What the dispatcher and the virtual ledger do to a signal order together: an exit without a position stays
  \<open>sent\<close> for good and blocks its lane, and an accepted entry order is filled and releases it.
\<close>

section \<open>Nothing unparks an order\<close>

lemma parked_touch:
  "parked r db \<Longrightarrow> orders_part db' = orders_part db \<Longrightarrow> rows_kept m db db' \<Longrightarrow> m \<noteq> po_id r \<Longrightarrow> parked r db'"
  using parked_kept by simp

lemma parked_queue:
  assumes "parked r db" and "queue_grows key (vd_queue db) q"
  shows "parked r (db\<lparr>vd_queue := q\<rparr>)"
proof -
  obtain p where "p \<in> set (pending_rows db)" "same_order p r" "po_status p = ''sent''" using assms(1) by (auto simp: parked_def)
  moreover have "set (pending_rows db) \<subseteq> set (db_pending q)" using assms(2) by (auto simp: queue_grows_def pending_rows_def)
  moreover have "queue_ids_ok (db\<lparr>vd_queue := q\<rparr>)"
    using assms by (fastforce simp: parked_def queue_ids_ok_def queue_grows_def pending_rows_def)
  ultimately show ?thesis using assms(1) by (auto simp: parked_def order_over_def orders_part_def pending_rows_def)
qed

lemma parked_row_only:
  assumes "parked r db" and "q \<in> set (pending_rows db)" and "po_id q = po_id r"
  shows "po_status q = ''sent''"
proof -
  obtain p where p: "p \<in> set (pending_rows db)" "same_order p r" "po_status p = ''sent''" using assms(1) by (auto simp: parked_def)
  have "inj_on po_id (set (pending_rows db))" using assms(1) by (simp add: parked_def queue_ids_ok_def distinct_map)
  then have "q = p" using assms(2,3) p(1,2) by (metis inj_onD same_order_def)
  then show ?thesis using p(3) by simp
qed

lemma claim_not_parked:
  assumes "parked r db" and "claim_pending_order now m db = (b, db1)"
  shows "parked r db1" and "b \<Longrightarrow> m \<noteq> po_id r"
proof -
  have p: "m \<noteq> po_id r" if "q \<in> set (db_pending (vd_queue db))" "po_id q = m" "po_status q = ''pending''" for q
    using parked_row_only [OF assms(1), of q] that by (auto simp: pending_rows_def)
  show "b \<Longrightarrow> m \<noteq> po_id r" using assms(2) p by (auto simp: claim_pending_order_def Let_def split: if_splits)
  show "parked r db1"
  proof (cases "db1 = db")
    case False
    then have "m \<noteq> po_id r" "orders_part db1 = orders_part db" "rows_kept m db db1"
      using assms(2) p by (auto simp: claim_pending_order_def Let_def ledger_frame split: if_splits)
    then show ?thesis using parked_touch [OF assms(1)] by blast
  qed (use assms(1) in simp)
qed

lemma pending_rows_frame [simp]:
  "pending_rows (map_intent n g db) = pending_rows db" "pending_rows (set_columns n f db) = pending_rows db"
  by (simp_all add: pending_rows_def map_intent_def set_columns_def split: option.split)

lemma map_intent_orders: "orders_part (map_intent n f db) = orders_part db"
  by (simp add: map_intent_def orders_part_def split: option.split)

lemma parked_mark_failed: "parked r db \<Longrightarrow> m \<noteq> po_id r \<Longrightarrow> parked r (mark_failed redact m error db)"
  by (rule parked_touch [of r db _ m]) (simp_all add: mark_failed_def map_intent_orders ledger_frame)

definition sent_row :: "int \<Rightarrow> bool \<Rightarrow> pending_row \<Rightarrow> pending_row" where
  "sent_row m final q = (if po_id q = m then q\<lparr>po_status := if po_status q = ''filled'' \<or> final then ''filled'' else ''sent''\<rparr> else q)"

lemma mark_sent_effect:
  assumes "mark_sent ve m memo ex exo filled price final preserve db = Inr db'"
  shows "orders_part db' = orders_part db" and "rows_kept m db db'" and "pending_rows db' = map (sent_row m final) (pending_rows db)"
proof -
  let ?db1 = "db\<lparr>vd_queue := (vd_queue db)\<lparr>db_pending := map (sent_row m final) (db_pending (vd_queue db))\<rparr>\<rparr>"
  from assms obtain c g where d: "db' = map_intent m g (set_columns m c ?db1)"
    by (auto simp: mark_sent_def Let_def bindE_Inr_iff sent_row_def [abs_def])
  show "orders_part db' = orders_part db" by (simp add: d map_intent_orders ledger_frame) (simp add: orders_part_def)
  have "rows_kept m db ?db1" by (rule rows_kept_map) (auto simp: sent_row_def)
  then show "rows_kept m db db'" by (simp add: d)
  show "pending_rows db' = map (sent_row m final) (pending_rows db)" by (simp add: d) (simp add: pending_rows_def)
qed

lemma parked_mark_sent:
  assumes "parked r db" and "m \<noteq> po_id r" and "mark_sent ve m memo ex exo filled price final preserve db = Inr db'"
  shows "parked r db'"
  using parked_touch [OF assms(1)] mark_sent_effect [OF assms(3)] assms(2) by blast

lemma parked_dispatch_virtual:
  assumes "parked r db" and "m \<noteq> po_id r" and "dispatch_virtual_signal_order we row payload m db = (res, db')"
  shows "parked r db'"
proof (cases "execute_virtual_signal_order (we_db we) row payload db")
  case (Inl e)
  then show ?thesis using assms by (auto simp: dispatch_virtual_signal_order_def intro: parked_mark_failed)
next
  case (Inr b)
  then obtain fill db1 where e: "execute_virtual_signal_order (we_db we) row payload db = Inr (fill, db1)" by (cases b) simp
  have "parked r db1" by (rule parked_execute [OF assms(1) e])
  then show ?thesis using assms(2,3) e
    by (auto simp: dispatch_virtual_signal_order_def Let_def bindE_Inr_iff split: sum.splits dest: parked_mark_sent)
qed

lemma parked_intercept:
  assumes "parked r db" and "intercept_cancelled_dispatch row db = Inr (b, db')" and "to_int (pget row ''id'') = Inr m" and "m \<noteq> po_id r"
  shows "parked r db'"
proof (cases "db' = db")
  case False
  then have "orders_part db' = orders_part db \<and> rows_kept m db db'"
    using assms(2,3) by (auto simp: intercept_cancelled_dispatch_def Let_def bindE_Inr_iff ledger_frame split: if_splits option.splits)
  then show ?thesis using parked_touch [OF assms(1)] assms(4) by blast
qed (use assms(1) in simp)

definition no_live_branch :: "worker_env \<Rightarrow> bool" where
  "no_live_branch we \<longleftrightarrow> (\<forall>row payload db. we_live we row payload db = (Inr (), db))"

lemma parked_dispatch_one:
  assumes "parked r db" and "to_int (pget row ''id'') = Inr m" and "m \<noteq> po_id r" and "no_live_branch we"
    and "dispatch_one we row db = (res, db')"
  shows "parked r db'"
proof (cases "intercept_cancelled_dispatch row db")
  case (Inl e)
  then show ?thesis using assms(1,5) by (simp add: dispatch_one_def)
next
  case (Inr b)
  then obtain i db1 where i: "intercept_cancelled_dispatch row db = Inr (i, db1)" by (cases b) simp
  show ?thesis
  proof (cases i)
    case True
    then show ?thesis using assms(5) i parked_intercept [OF assms(1) i assms(2,3)] by (simp add: dispatch_one_def)
  next
    case False
    then have "db' = db \<or> (\<exists>error. db' = mark_failed (we_redact we) m error db)
        \<or> (\<exists>payload. dispatch_virtual_signal_order we row payload m db = (res, db'))"
      using assms(2,4,5) i by (auto simp: dispatch_one_def Let_def no_live_branch_def split: sum.splits pyexc.splits if_splits)
    then show ?thesis using assms(1,3) parked_mark_failed parked_dispatch_virtual by blast
  qed
qed

lemma parked_work:
  assumes "parked r db" and "to_int (pget row ''id'') = Inr m" and "no_live_branch we"
  shows "parked r (work_order we row m db)"
proof -
  obtain b db1 where c: "claim_pending_order (we_now we) m db = (b, db1)" by (cases "claim_pending_order (we_now we) m db")
  note p = claim_not_parked [OF assms(1) c]
  show ?thesis
  proof (cases b)
    case True
    obtain res db2 where d: "dispatch_one we row db1 = (res, db2)" by (cases "dispatch_one we row db1")
    have "parked r db2" by (rule parked_dispatch_one [OF p(1) assms(2) p(2) [OF True] assms(3) d])
    then show ?thesis using c d True p(2) parked_mark_failed by (cases res) (auto simp: work_order_def)
  next
    case False
    then show ?thesis using c p(1) by (simp add: work_order_def)
  qed
qed

lemma update_intent_rows:
  "pending_rows (update_intent n h s db) = pending_rows db" "db_next_pending (vd_queue (update_intent n h s db)) = db_next_pending (vd_queue db)"
  by (simp_all add: update_intent_def pending_rows_def)

lemma update_intents_frame:
  "orders_part (foldl (\<lambda>d row. update_intent (f row) g (h row) d) db rows) = orders_part db
   \<and> pending_rows (foldl (\<lambda>d row. update_intent (f row) g (h row) d) db rows) = pending_rows db
   \<and> db_next_pending (vd_queue (foldl (\<lambda>d row. update_intent (f row) g (h row) d) db rows)) = db_next_pending (vd_queue db)"
  by (induction rows arbitrary: db) (simp_all add: ledger_frame update_intent_rows)

lemma parked_persist:
  assumes "parked r db"
  shows "parked r (snd (persist_cancellations status_of sid run refs db))"
proof (cases "refs = []")
  case False
  define hit where "hit = (\<lambda>q. find (cancel_requested sid run (set refs) db q) (db_intents (vd_queue db)))"
  define f where "f = (\<lambda>q. if hit q = None then q else cancelled_row db q)"
  define db1 where "db1 = db\<lparr>vd_queue := (vd_queue db)\<lparr>db_pending := map f (db_pending (vd_queue db))\<rparr>\<rparr>"
  let ?g = "\<lambda>i. it_status i \<notin> set TERMINAL_INTENTS" and ?h = "\<lambda>row. if snd (snd row) = ''cancelled'' then ''cancelled'' else ''cancel_pending''"
  define rows where "rows = concat (map (\<lambda>q. case hit q of None \<Rightarrow> []
      | Some i \<Rightarrow> [(it_id i, it_client i, po_status (cancelled_row db q))]) (db_pending (vd_queue db)))"
  have d: "snd (persist_cancellations status_of sid run refs db) = foldl (\<lambda>d row. update_intent (fst row) ?g (?h row) d) db1 rows"
    using False by (simp add: persist_cancellations_def Let_def db1_def f_def hit_def rows_def)
  have id: "po_id (f q) = po_id q" for q by (simp add: f_def cancelled_row_def)
  obtain q where q: "q \<in> set (pending_rows db)" "same_order q r" "po_status q = ''sent''" using assms by (auto simp: parked_def)
  then have "f q \<in> set (pending_rows db1)" by (simp add: db1_def pending_rows_def)
  moreover have "same_order (f q) r" "po_status (f q) = ''sent''" using q by (auto simp: f_def cancelled_row_def same_order_def)
  moreover have "queue_ids_ok db1"
    using assms id by (simp add: parked_def queue_ids_ok_def db1_def pending_rows_def comp_def)
  moreover have "orders_part db1 = orders_part db" "order_over (po_id r) db1 \<longleftrightarrow> order_over (po_id r) db"
    by (simp_all add: db1_def orders_part_def order_over_def)
  ultimately have "parked r db1" using assms unfolding parked_def by auto
  then show ?thesis
    using update_intents_frame [of fst ?g ?h db1 rows]
    unfolding d parked_def queue_ids_ok_def order_over_def orders_part_def by simp
qed (use assms in \<open>simp add: persist_cancellations_def\<close>)

text \<open>Everything the modelled system does around a signal strategy: new submissions, cancellation requests,
  the worker, immediate settlements, the matcher, the marks and the cancellation at a stop.\<close>

inductive signal_step ::
  "((string, pyval) dict \<Rightarrow> string) \<Rightarrow> (live_order_request \<Rightarrow> int \<Rightarrow> bool result) \<Rightarrow> virtual_db \<Rightarrow> virtual_db \<Rightarrow> bool" for digest decide where
  submitted: "submit digest decide ft now rq (gw, vd_queue db) = (answer, (gw', q)) \<Longrightarrow> signal_step digest decide db (db\<lparr>vd_queue := q\<rparr>)"
| requested: "signal_step digest decide db (snd (persist_cancellations status_of sid run refs db))"
| worked: "to_int (pget row ''id'') = Inr m \<Longrightarrow> no_live_branch we \<Longrightarrow> signal_step digest decide db (work_order we row m db)"
| settled: "settle_virtual_pending_order ve n db = Inr (fill, db') \<Longrightarrow> signal_step digest decide db db'"
| matched: "signal_step digest decide db (snd (match_virtual_limit_orders ve sid prices run db))"
| marked: "mark_virtual_positions ve sid prices run db = Inr (k, db') \<Longrightarrow> signal_step digest decide db db'"
| stopped: "signal_step digest decide db (snd (cancel_virtual_limit_orders sid run db))"

lemma parked_step: "signal_step digest decide db db' \<Longrightarrow> parked r db \<Longrightarrow> parked r db'"
proof (induction rule: signal_step.induct)
  case (submitted ft now rq gw db answer gw' q)
  then show ?case using parked_queue [OF _ submit_grows] by blast
next
  case (settled ve n db fill db')
  then show ?case using parked_execute by (auto simp: settle_virtual_pending_order_def split: if_splits option.splits)
next
  case (marked ve sid prices run db k db')
  have "vd_queue db' = vd_queue db"
    using marked(1) by (auto simp: mark_virtual_positions_def bindE_Inr_iff Let_def case_prod_beta split: if_splits)
  then show ?case using parked_frame marked mark_frame by blast
qed (auto intro: parked_persist parked_work parked_match parked_cancel_all)

lemma parked_run: "(signal_step digest decide)\<^sup>*\<^sup>* db db' \<Longrightarrow> parked r db \<Longrightarrow> parked r db'"
  by (induction rule: rtranclp_induct) (auto intro: parked_step)

lemma parked_inflight:
  assumes "parked r db" and "rq_strategy_id rq = po_strategy r" and "rq_symbol rq = po_symbol r"
    and "position_lane (rq_action rq) \<noteq> []" and "po_signal_type r \<in> set (lane_actions (position_lane (rq_action rq)))"
    and "\<not> grid_level_request rq"
  shows "has_inflight rq (vd_queue db)"
proof -
  obtain q where "q \<in> set (pending_rows db)" "same_order q r" "po_status q = ''sent''" using assms(1) by (auto simp: parked_def)
  then show ?thesis using assms(2-6)
    by (auto simp: has_inflight_def Let_def pending_rows_def same_order_def ACTIVE_PENDING_STATUSES_def intro!: bexI [of _ q])
qed

section \<open>An exit without a position\<close>

lemma run_not_filled:
  assumes "run_virtual_order ve rq st cp is_open existing payload db = Inr (answer, db')"
    and "\<And>o'. existing = Some o' \<Longrightarrow> o' \<in> set (vd_orders db) \<and> vo_pending o' = vq_order rq \<and> vo_status o' = ''open''"
    and "dget answer ''status'' = Some (PStr s)" and "s \<notin> {''filled'', ''open''}"
  shows "vd_queue db' = vd_queue db \<and> (\<exists>o' \<in> set (vd_orders db'). vo_pending o' = vq_order rq \<and> vo_status o' = s)"
proof -
  from assms(1) obtain cash db1 where e: "ensure_account ve rq cash db = Inr db1"
    and c: "(\<exists>b. open_order ve rq cp cash b payload db1 = Inr (answer, db')) \<or> (\<exists>price. settle_fill ve rq cp existing price cash payload db1 = Inr (answer, db'))"
    by (auto simp: run_virtual_order_def bindE_Inr_iff Let_def split: if_splits option.splits)
  have same: "vd_queue db1 = vd_queue db" "vd_orders db1 = vd_orders db"
    using ensure_account_frame(1,3) [OF e] by (simp_all add: orders_part_def)
  from c obtain price where f: "settle_fill ve rq cp existing price cash payload db1 = Inr (answer, db')"
    using open_order_effect(5) assms(3,4) by fastforce
  obtain t n db2 db3 db4 realized total' equity where
    t: "book_order ve rq cp existing t price (commission_for cp (ft_quantity t) price)
       (slippage_quote_for cp (ft_quantity t) (vq_reference rq) price) (reason_of payload []) db1 = Inr (n, db2)"
    "book_position ve rq t price (cp_market_type cp) db2 = Inr db3"
    "update_account ve (vq_strategy rq) realized total' db3 = Inr db4"
    "record_fill ve rq cp n t price (commission_for cp (ft_quantity t) price)
       (slippage_quote_for cp (ft_quantity t) (vq_reference rq) price) equity (position_float vp_entry_price (position_of rq db1)) payload db4 = Inr db'"
    "dget answer ''status'' = Some (PStr (ft_status t))"
    using f by (rule settle_fill_cases)
  have "ft_status t = s" using t(5) assms(3) by simp
  moreover from this have "db' = db4" using t(4) assms(4) by (simp add: record_fill_def)
  moreover have "\<exists>o' \<in> set (vd_orders db2). vo_pending o' = vq_order rq \<and> vo_status o' = ft_status t"
    by (rule book_order_status [OF t(1)]) (use assms(2) same in simp)
  moreover have "vd_queue db4 = vd_queue db1" "vd_orders db4 = vd_orders db2"
    using book_order_queue [OF t(1)] book_position_frame [OF t(2)] update_account_frame [OF t(3)] by (simp_all add: orders_part_def)
  ultimately show ?thesis using same by simp
qed

lemma execute_not_filled:
  assumes "execute_virtual_signal_order ve row payload db = Inr (answer, db')" and "ledger_ok (orders_part db)"
    and "dget answer ''status'' = Some (PStr s)" and "s \<notin> {''filled'', ''open''}" and "to_int (pget row ''id'') = Inr n" "n \<noteq> 0"
    and "truthy (pget row ''id'')"
  shows "vd_queue db' = vd_queue db \<and> order_over n db'"
proof -
  have id: "vq_order rq = n" if rd: "read_virtual_request row payload = Inr rq" for rq
  proof -
    obtain i where "read_identity row payload = Inr i" "vq_order rq = fst i"
      using rd unfolding read_virtual_request_def Let_def bindE_Inr_iff by force
    then show ?thesis using assms(5,7) by (auto simp: read_identity_def bindE_Inr_iff int_of_def p_or_def split: if_splits)
  qed
  show ?thesis
    using assms(1)
  proof (cases rule: execute_cases)
    case (answered rq o')
    have "str_default (vo_status o') ''filled'' = s" using assms(3) answered(4) by (simp add: existing_result_def dget_Cons)
    then have "vo_status o' \<noteq> ''open''" using assms(4) by (auto simp: str_default_def)
    then show ?thesis using answered id by (auto simp: order_over_def)
  next
    case (fresh rq st cp is_open)
    then show ?thesis using run_not_filled [OF fresh(5) _ assms(3,4)] id [OF fresh(1)] assms(4) by (auto simp: order_over_def)
  next
    case (resumed rq st cp o')
    have "vo_status o' = ''open''" using assms(2) resumed(4,6) status_is_open unfolding orders_part_def by auto
    then show ?thesis using run_not_filled [OF resumed(8) _ assms(3,4)] resumed(4,5) id [OF resumed(1)] assms(4) by (auto simp: order_over_def)
  qed
qed


text \<open>A worked case: a \<open>close_long\<close> for a strategy without a position.\<close>

definition demo_worker :: worker_env where
  "demo_worker = \<lparr>we_db = wide_env, we_now = 0, we_redact = (\<lambda>s. s), we_notify = (\<lambda>_ _. Inr []), we_live = (\<lambda>_ _ db. (Inr (), db)),
     we_error_text = (\<lambda>_. [])\<rparr>"

definition demo_exit :: pending_row where
  "demo_exit = \<lparr>po_id = 14, po_user = 1, po_strategy = 7, po_symbol = ''BTC/USDT'', po_signal_type = ''close_long'', po_signal_ts = 0,
     po_market_type = ''swap'', po_order_type = ''market'', po_amount = Fin 2, po_price = Fin 128, po_execution_mode = ''signal'',
     po_status = ''processing'', po_payload = [], po_run = 3, po_intent = 0, po_key = ''k'', po_fencing = 0\<rparr>"

definition demo_exit_db :: virtual_db where
  "demo_exit_db = demo_ledger\<lparr>vd_strategies := [demo_strategy\<lparr>sr_market_category := PStr ''Crypto''\<rparr>],
     vd_queue := empty_db\<lparr>db_pending := [demo_exit], db_next_pending := 15\<rparr>\<rparr>"

definition demo_exit_read :: virtual_request where
  "demo_exit_read = \<lparr>vq_order = 14, vq_strategy = 7, vq_user = 1, vq_action = ''close_long'',
     vq_side = ''long'', vq_symbol = ''BTC/USDT'', vq_key = ''BTC/USDT'', vq_quantity = Fin 2, vq_reference = Fin 128,
     vq_order_type = ''market'', vq_limit = Fin 0, vq_forced = Fin 0, vq_sizing = [], vq_run = 3, vq_intent = 0\<rparr>"

lemma demo_exit_reads:
  "read_virtual_request (pending_dict demo_exit_db demo_exit) [] = Inr demo_exit_read"
  "load_strategy demo_exit_read demo_exit_db = Inr (demo_strategy\<lparr>sr_market_category := PStr ''Crypto''\<rparr>)"
  "is_equity_market_open wide_env (strip (str_or (sr_market_category (demo_strategy\<lparr>sr_market_category := PStr ''Crypto''\<rparr>)) [])) = Inr True"
  "float_of [sr_initial_capital (demo_strategy\<lparr>sr_market_category := PStr ''Crypto''\<rparr>), pget (vq_sizing demo_exit_read) ''initial_capital''] = Inr (Fin 1000)"
  by code_simp+

lemma demo_exit_costs:
  "\<exists>cp. resolve_virtual_execution_cost_policy [] (pending_dict demo_exit_db demo_exit) (strategy_dict (demo_strategy\<lparr>sr_market_category := PStr ''Crypto''\<rparr>))
     (mapping_of (sr_exchange_config (demo_strategy\<lparr>sr_market_category := PStr ''Crypto''\<rparr>)))
     (mapping_of (sr_trading_config (demo_strategy\<lparr>sr_market_category := PStr ''Crypto''\<rparr>))) = Inr cp"
proof -
  have "positive_float [pget [] ''leverage'', pget (mapping_of (pget [] ''sizing'')) ''leverage'',
      pget (strategy_dict (demo_strategy\<lparr>sr_market_category := PStr ''Crypto''\<rparr>)) ''leverage'',
      pget (mapping_of (sr_trading_config (demo_strategy\<lparr>sr_market_category := PStr ''Crypto''\<rparr>))) ''leverage'',
      pget (mapping_of (sr_exchange_config (demo_strategy\<lparr>sr_market_category := PStr ''Crypto''\<rparr>))) ''leverage''] (Fin 1) = Inr (Fin 1)"
    by code_simp
  then show ?thesis by (simp add: resolve_virtual_execution_cost_policy_def Let_def)
qed

lemma exit_without_position:
  assumes "lower (strip action) \<in> set EXIT_ACTIONS" and "calculate_virtual_fill action quantity price (Fin 0) entry = Inr t"
  shows "ft_status t = ''no_position''"
  using assms actions_disjoint by (auto simp: calculate_virtual_fill_def Let_def f_or_def ftruthy_def pymax_def)

lemma demo_exit_answer:
  "\<exists>cp n t price commission slippage equity db'. execute_virtual_signal_order wide_env (pending_dict demo_exit_db demo_exit) [] demo_exit_db =
     Inr (filled_result cp n t price commission slippage equity, db') \<and> ft_status t = ''no_position''"
proof -
  obtain cp where cp: "resolve_virtual_execution_cost_policy [] (pending_dict demo_exit_db demo_exit)
      (strategy_dict (demo_strategy\<lparr>sr_market_category := PStr ''Crypto''\<rparr>))
     (mapping_of (sr_exchange_config (demo_strategy\<lparr>sr_market_category := PStr ''Crypto''\<rparr>)))
     (mapping_of (sr_trading_config (demo_strategy\<lparr>sr_market_category := PStr ''Crypto''\<rparr>))) = Inr cp"
    using demo_exit_costs by blast
  have ok: "ledger_ok (orders_part demo_exit_db)" "vd_orders demo_exit_db = []" "vd_positions demo_exit_db = []"
    by (simp_all add: demo_exit_db_def orders_part_def demo_ledger_def)
  have f: "vq_action demo_exit_read = ''close_long''" "vq_order_type demo_exit_read = ''market''" "vq_quantity demo_exit_read = Fin 2"
    by (simp_all add: demo_exit_read_def)
  have a: "lower (strip ''close_long'') \<in> set EXIT_ACTIONS" by code_simp
  show ?thesis
  proof (cases rule: fresh_order_settles [OF wide_env_accepts ok(1) demo_exit_reads(1,2) cp demo_exit_reads(3,4), case_names fresh kind qty settled])
    case (settled t answer db' n commission slippage equity)
    have "ft_status t = ''no_position''"
      by (rule exit_without_position [OF a]) (use settled(1) in \<open>simp add: f position_of_def position_float_def ok(3)\<close>)
    then show ?thesis using settled(2,6) by blast
  qed (simp_all add: ok(2) f demo_entry(2))
qed

lemma wide_mark_sent: "\<exists>db'. mark_sent wide_env n memo ex exo filled price final preserve db = Inr db'"
  by (simp add: mark_sent_def Let_def wide_env_def)


section \<open>The execution contract\<close>

text \<open>The queue row and its payload hold two copies of what the order is about; they conflict when both have
  a value and the values differ.\<close>

definition contract_conflict :: "pydict \<Rightarrow> pydict \<Rightarrow> bool" where
  "contract_conflict order_row payload \<longleftrightarrow>
     (let mode = word_of [pget order_row ''execution_mode''] ''signal''; payload_mode = word_of [pget payload ''execution_mode''] [] in
      mode \<notin> set EXECUTION_MODES \<or> (payload_mode \<noteq> [] \<and> payload_mode \<noteq> mode))
     \<or> (\<exists>field \<in> set [''strategy_id'', ''strategy_run_id'', ''order_intent_id'', ''credential_id''].
          case (contract_integer (pget order_row field), contract_integer (pget payload field)) of
            (Inr a, Inr b) \<Rightarrow> 0 < a \<and> 0 < b \<and> a \<noteq> b | _ \<Rightarrow> True)
     \<or> (\<exists>(field, reader) \<in> set [(''signal_type'', \<lambda>v. lower (strip (str_or v []))), (''symbol'', \<lambda>v. upper (strip (str_or v []))),
            (''market_type'', contract_market_type)].
          reader (pget order_row field) \<noteq> [] \<and> reader (pget payload field) \<noteq> [] \<and> reader (pget order_row field) \<noteq> reader (pget payload field))"

lemma matching_integer_agrees:
  "matching_integer row payload f = Inr n \<Longrightarrow>
     \<not> (case (contract_integer (pget row f), contract_integer (pget payload f)) of (Inr a, Inr b) \<Rightarrow> 0 < a \<and> 0 < b \<and> a \<noteq> b | _ \<Rightarrow> True)"
  by (auto simp: matching_integer_def bindE_Inr_iff split: if_splits)

lemma matching_text_agrees:
  "matching_text reader row payload f = Inr s \<Longrightarrow>
     \<not> (reader (pget row f) \<noteq> [] \<and> reader (pget payload f) \<noteq> [] \<and> reader (pget row f) \<noteq> reader (pget payload f))"
  by (auto simp: matching_text_def Let_def split: if_splits)

lemma resolved_without_conflict:
  assumes "resolve_queued_execution_contract row payload = Inr ec"
  shows "\<not> contract_conflict row payload"
proof -
  let ?m = "word_of [pget row ''execution_mode''] ''signal''" and ?pm = "word_of [pget payload ''execution_mode''] []"
  have m: "?m \<in> set EXECUTION_MODES" "?pm = [] \<or> ?pm = ?m"
    using assms by (auto simp: resolve_queued_execution_contract_def Let_def split: if_splits)
  have "\<exists>a b c d s y t. matching_integer row payload ''strategy_id'' = Inr a \<and> matching_integer row payload ''strategy_run_id'' = Inr b
    \<and> matching_integer row payload ''order_intent_id'' = Inr c \<and> matching_integer row payload ''credential_id'' = Inr d
    \<and> matching_text (\<lambda>v. lower (strip (str_or v []))) row payload ''signal_type'' = Inr s
    \<and> matching_text (\<lambda>v. upper (strip (str_or v []))) row payload ''symbol'' = Inr y
    \<and> matching_text contract_market_type row payload ''market_type'' = Inr t"
    using assms m by (auto simp: resolve_queued_execution_contract_def Let_def bindE_Inr_iff split: if_splits)
  then show ?thesis
    using m by (auto simp: contract_conflict_def Let_def dest!: matching_integer_agrees matching_text_agrees)
qed

lemma mode_read:
  "m \<in> set EXECUTION_MODES \<Longrightarrow> lower (strip (str_or (PStr (lower (strip (str_default m ''signal'')))) ''signal'')) = m"
proof -
  have "list_all (\<lambda>m. lower (strip (str_or (PStr (lower (strip (str_default m ''signal'')))) ''signal'')) = m) EXECUTION_MODES" by code_simp
  then show "m \<in> set EXECUTION_MODES \<Longrightarrow> ?thesis" by (simp add: list_all_iff)
qed

lemma map_intent_frame:
  "vd_positions (map_intent n f db) = vd_positions db" "vd_accounts (map_intent n f db) = vd_accounts db"
  by (simp_all add: map_intent_def split: option.split)

lemma mark_failed_frame:
  "orders_part (mark_failed redact n error db) = orders_part db" "vd_positions (mark_failed redact n error db) = vd_positions db"
  "vd_accounts (mark_failed redact n error db) = vd_accounts db" "rows_kept n db (mark_failed redact n error db)"
  by (simp_all add: mark_failed_def map_intent_orders map_intent_frame ledger_frame)

lemma mark_failed_row:
  assumes "r \<in> set (pending_rows (mark_failed redact n error db))" and "po_id r = n"
  shows "po_status r = ''failed''"
proof -
  let ?f = "\<lambda>r. if po_id r = n then r\<lparr>po_status := ''failed''\<rparr> else r"
  have "pending_rows (mark_failed redact n error db) = map ?f (pending_rows db)"
    by (simp only: mark_failed_def pending_rows_frame) (simp only: pending_rows_def queue_rows_frame simp_thms)
  then have "r \<in> ?f ` set (pending_rows db)" using assms(1) by (simp only: set_map)
  then obtain q where q: "r = ?f q" by (rule imageE)
  then show ?thesis using assms(2) by (cases "po_id q = n") simp_all
qed


definition demo_conflict :: pydict where
  "demo_conflict = [(''id'', PInt 14), (''execution_mode'', PStr ''signal''), (''payload_json'', PDict [(''execution_mode'', PStr ''live'')])]"


end
