(* ===== verification/Spec2Isabelle.thy ===== *)
theory Spec2Isabelle
  imports Protection DataPortal BrokerBatch LiveProps CurveSampling GridPlan SignalProps
begin

text \<open>
  Verification library of the QuantDinger trading backend (\<open>backend_api_python/app\<close>).

  \<^bold>\<open>The program.\<close>  QuantDinger runs user strategies over market data, first in a backtest and then live.
  Its core is \<open>services/strategy_v2\<close>: a strategy sees the market through a point-in-time data portal
  (\<open>data.py\<close>), queues orders through its runtime context, and a backtest runner executes them bar by bar on
  a simulated broker (\<open>runtime.py\<close>).  The same context drives a live session, which keeps in step with the
  exchange's positions, sends protective exits (\<open>protection.py\<close>) and persists itself; its orders enter the
  database queue through the order gateway (\<open>live_execution.py\<close>, \<open>strategy_runtime/order_intents.py\<close>).
  A worker takes queued orders out again: those of a live strategy to an exchange, those of a signal-only
  strategy to a virtual account in the database (\<open>virtual_trading.py\<close>, \<open>pending_orders\<close>).

  \<^bold>\<open>Theories, in the order of their imports.\<close>
  \<^item> \<open>Prelude\<close>: exceptions as values (\<open>pyexc\<close>, \<open>bindE\<close>, \<open>mapE\<close>, \<open>foldE\<close>), strings, insertion-ordered
    dictionaries with the locale \<open>keyed_store\<close>.  \<open>PyFloat\<close>: binary64 arithmetic with round-to-nearest-even on
    exact rationals, infinities and NaN.  \<open>PyVal\<close>: Python values, their truth, text and number conversions.
  \<^item> \<open>Protection\<close> (\<open>protection.py\<close>): stop-loss, take-profit, trailing and time rules on bars and prices,
    persistence.  A bar that reaches the stop closes the position; exits stay within the bar; an armed trailing
    stop only tightens.
  \<^item> \<open>Instruments\<close> (\<open>frequencies.py\<close>, \<open>instruments.py\<close>, \<open>market_context.py\<close>): bar frequencies, instrument
    identifiers and market contexts; keys parse back.
  \<^item> \<open>DataPortal\<close> (\<open>data.py\<close>): frames, the clock, caches, history, panels.  In every reachable portal a frame shows
    exactly the bars whose period has ended, and the caches answer as an uncached call.  \<open>MarketView\<close> refines
    the cached feed to a fixed view (locale \<open>memo_source\<close>).
  \<^item> \<open>Orders\<close> (\<open>StrategyRuntimeContext\<close>, \<open>OrderLedger\<close>): queueing, validation, statuses, cancellation, merging
    of pending targets, compaction of resting polls and the incremental status synchronisation.
  \<^item> \<open>TradeBook\<close>: closed trades and grid cells.  \<open>SimBroker\<close>: every operation of the simulated broker, from sizing
    and lots through limit matching, liquidity, settlement and liquidation.  \<open>BrokerProps\<close>, \<open>BrokerBatch\<close> and
    \<open>BrokerSafety\<close> hold its theorems (limit orders are never filled worse than their limit, every order of a
    batch is accounted for, protections belong to open positions, an insolvent account is closed for good);
    \<open>BrokerDemo\<close> a worked trade.
  \<^item> \<open>Schedule\<close> (\<open>_schedule_due\<close>): the Gregorian calendar and due callbacks, with one theorem for weeks and months
    from the locale \<open>periods\<close>.  \<open>Backtest\<close> (\<open>StrategyV2BacktestRunner\<close>): the bar loop; a run is a sequence of
    broker operations, records one equity point per bar, and stops trading after bankruptcy.
  \<^item> \<open>LiveSession\<close> and \<open>LiveProps\<close> (\<open>StrategyV2LiveSession\<close>): bar events, synchronisation, protection and equity
    exits, snapshots.  Runs are paths of the entry points; the locale \<open>latch\<close> bounds how often something fires by
    how often it is rearmed, and is interpreted for the protection exits and for the equity stop.
  \<^item> \<open>Signals\<close> and \<open>OrderGateway\<close>: canonical signals, order intents and the idempotent order queue, with the two
    tables as lists under their unique indexes and \<open>gateway_step\<close> for everything that may happen between calls.
  \<^item> \<open>CurveSampling\<close> (\<open>curve_sampling.py\<close>): the thinning of a stored equity curve keeps its endpoints, extremes and
    insolvency boundary; the rounding of the float spacing never leaves the list.
  \<^item> \<open>FloatRepr\<close> (\<open>utils/numeric_precision.py\<close>): the decimal a float prints as; seventeen digits read back, so the
    shortest rendering does, and the cleaning of generated prices is monotone.  \<open>GridPlan\<close> (\<open>services/grid/config.py\<close>,
    \<open>levels.py\<close>, \<open>validator.py\<close>): the configuration, lines and cells of the grid robot and the checks before a start.
    The cells of an arithmetic grid never overlap, and an accepted grid earns its fees in every cell.
  \<^item> \<open>VirtualFill\<close> (\<open>virtual_execution_costs.py\<close> and the pure part of \<open>virtual_trading.py\<close>): the fill transition,
    market and limit fill prices, the cost policy.  \<open>VirtualLedger\<close> (\<open>virtual_trading.py\<close>): the tables of the virtual
    account and every operation on them: execution, settlement, cancellation, matching, marking and the listings.
    \<open>VirtualProps\<close> says what each statement leaves alone and states the ledger invariant; its locale
    \<open>ledger_relation\<close> carries a relation from executions and cancellations to whole runs and is interpreted for the
    orders (\<open>kept\<close>) and for the positions (\<open>legs\<close>).  \<open>VirtualSettle\<close> holds the theorems: an order is filled at
    most once, one position row per leg without a negative size, nothing is filled at a closed market, limit fills
    are never worse than the limit, and an order that reaches an open market is settled by one call.
  \<^item> \<open>SignalDispatch\<close> (\<open>pending_orders/claims.py\<close>, \<open>execution_contract.py\<close>, \<open>signal_execution.py\<close>,
    \<open>strategy_runtime/cancellations.py\<close> and the signal branch of \<open>pending_order_worker.py\<close>): the claim, the contract,
    the dispatch and the status writers.  \<open>SignalProps\<close> composes gateway, dispatcher and ledger in the relation
    \<open>signal_step\<close>: an order answered with \<open>no_position\<close> keeps its lane blocked for good, and an order whose copies
    conflict is failed without touching the ledger.

  \<^bold>\<open>How the code is translated.\<close>  A class is a record and each method a function from a state to a result and a
  new state; a raised exception is the \<open>Inl\<close> of a result and ends the call, so the partial effects of a call that
  raises are not part of its result (the order gateway, which changes tables before it may raise, returns its
  state in both cases).  Timestamps are integers, nanoseconds without a time zone; their text is a
  parameter with the law that it parses back where a round trip needs it.  Strings are the UTF-8 bytes of the
  Python string; the literals of the code and the identifiers it slices are ASCII.  Floats are exact binary64
  values; negative zero is not distinguished from zero, which no modelled comparison does either.  A strategy's
  handlers are parameters: any function of what a handler can read, with any change of the orders, the log, the
  portal caches and its own state, or any exception.  The AI decision, the digest of a signal and the failures of
  the database that the code handles are parameters of the gateway.  For the virtual account the driver's way of
  writing a float, the fitting of a value into a \<open>DECIMAL\<close> column and the session of an exchange calendar are
  parameters (\<open>virtual_env\<close>); what a theorem needs of them is a named predicate: \<open>accepts\<close> (every number is
  stored) and \<open>keeps_sign\<close> (rounding does not make a value negative, which \<open>decimal_column_keeps_sign\<close> shows of
  rounding columns).  An exception inside a transaction rolls it back, so its result carries no new database.

  \<^bold>\<open>Bounds and fuel.\<close>  Loops are structural recursions over the data they walk; the only fuel is the length of
  the text in \<open>replace_fuel\<close>, which every step shortens, and seventeen significant digits in the shortest
  rendering of a float, which suffice for every binary64 value (\<open>decimal_value_reads_back\<close>).  Integers are unbounded as in Python.

  \<^bold>\<open>Not modelled.\<close>  The compilation of strategy source, the report assembled after a backtest, the pandas
  computations of indicators and factors, time-zone conversion, and everything whose content is input and
  output: exchange clients, market-data download, the live branch of the order worker with its reconciliation,
  HTTP routes, notifications, billing, and the language-model services.  Of the dispatcher, strategy logs, the
  selection of a batch and the binding of sent orders to the execution stream are left out; timestamps that no
  condition reads are not columns of the model.  Open ends are the report (\<open>_result\<close>), the grid robot's orders
  and cycle accounting, and the readiness checks of a deployment.
\<close>

end
